(* ===== verification/Prelude.thy ===== *)
theory Prelude
  imports Main "HOL-Library.Word" "HOL-Library.Sublist"
begin

text \<open>
  Shared vocabulary of the development.

  \<^item> Machine types of the Rust sources: \<open>i64\<close>, \<open>u64\<close>, \<open>u32\<close>, \<open>u16\<close>, \<open>u8\<close> are words of that width
    (signed values are read with \<open>sint\<close>); \<open>f64\<close> is the 64-bit pattern of the float, since the
    sources only move floats around; \<open>usize\<close> lengths are \<open>nat\<close>.  A Rust \<open>String\<close> or \<open>Vec<u8>\<close> is
    its list of bytes (\<open>string\<close>, whose characters are bytes).
  \<^item> \<open>Result<T, E>\<close> is \<open>'e + 'a\<close> with \<open>Inl\<close> for \<open>Err\<close>; \<open>bind_res\<close> is the \<open>?\<close> operator and
    \<open>traverse\<close> is \<open>into_iter().map(f).collect::<Result<Vec<_>, _>>()\<close>.
  \<^item> An effectful call takes the state of the world it talks to and returns the new one:
    \<open>('w, 'e, 'a) io\<close>, sequenced by \<open>bind_io\<close>.
  \<^item> The decimal rendering \<open>to_string\<close> and the parser \<open>str::parse\<close> of the Rust standard library for
    \<open>i64\<close>, and the loops over flat field/value sequences that the reply parsers share.
\<close>

section \<open>Machine types\<close>

type_synonym i64 = "64 word"
type_synonym u64 = "64 word"
type_synonym u32 = "32 word"
type_synonym u16 = "16 word"
type_synonym u8 = "8 word"
type_synonym f64 = "64 word"
type_synonym bytes = string

named_theorems res_simps "equations that take apart results of fallible code"
named_theorems arg_simps "equations that compute the arguments of a built command"

section \<open>Results\<close>

type_synonym ('w, 'e, 'a) io = "'w \<Rightarrow> ('e + 'a) \<times> 'w"

fun bind_res :: "'e + 'a \<Rightarrow> ('a \<Rightarrow> 'e + 'b) \<Rightarrow> 'e + 'b" where
  "bind_res (Inl e) f = Inl e"
| "bind_res (Inr x) f = f x"

definition map_err :: "('e \<Rightarrow> 'f) \<Rightarrow> 'e + 'a \<Rightarrow> 'f + 'a" where
  "map_err f r = (case r of Inl e \<Rightarrow> Inl (f e) | Inr x \<Rightarrow> Inr x)"

fun ok_opt :: "'e + 'a \<Rightarrow> 'a option" where
  "ok_opt (Inl e) = None"
| "ok_opt (Inr x) = Some x"

definition bind_io :: "('w, 'e, 'a) io \<Rightarrow> ('a \<Rightarrow> ('w, 'e, 'b) io) \<Rightarrow> ('w, 'e, 'b) io" where
  "bind_io m f w = (case m w of (Inl e, w') \<Rightarrow> (Inl e, w') | (Inr x, w') \<Rightarrow> f x w')"

definition pure_io :: "'e + 'a \<Rightarrow> ('w, 'e, 'a) io" where
  "pure_io r w = (r, w)"

definition map_err_io :: "('e \<Rightarrow> 'f) \<Rightarrow> ('w, 'e, 'a) io \<Rightarrow> ('w, 'f, 'a) io" where
  "map_err_io f m w = (case m w of (r, w') \<Rightarrow> (map_err f r, w'))"

fun traverse :: "('a \<Rightarrow> 'e + 'b) \<Rightarrow> 'a list \<Rightarrow> 'e + 'b list" where
  "traverse f [] = Inr []"
| "traverse f (x # xs) =
     bind_res (f x) (\<lambda>y. bind_res (traverse f xs) (\<lambda>ys. Inr (y # ys)))"

lemma bind_res_assoc [simp]: "bind_res (bind_res r f) g = bind_res r (\<lambda>x. bind_res (f x) g)"
  by (cases r) auto

lemma bind_res_Inr [res_simps]:
  "bind_res r f = Inr y \<longleftrightarrow> (\<exists>x. r = Inr x \<and> f x = Inr y)"
  by (cases r) auto

lemma bind_res_Inl [res_simps]:
  "bind_res r f = Inl e \<longleftrightarrow> r = Inl e \<or> (\<exists>x. r = Inr x \<and> f x = Inl e)"
  by (cases r) auto

lemma bind_res_split:
  "P (bind_res r f) \<longleftrightarrow> (\<forall>e. r = Inl e \<longrightarrow> P (Inl e)) \<and> (\<forall>x. r = Inr x \<longrightarrow> P (f x))"
  by (cases r) auto

lemma map_err_simps [simp]: "map_err f (Inl e) = Inl (f e)" "map_err f (Inr x) = Inr x"
  by (simp_all add: map_err_def)

lemma map_err_Inr [res_simps]: "map_err f r = Inr x \<longleftrightarrow> r = Inr x"
  by (cases r) auto

lemma map_err_Inl [res_simps]: "map_err f r = Inl e \<longleftrightarrow> (\<exists>d. r = Inl d \<and> e = f d)"
  by (cases r) auto

lemma ok_opt_Some [simp]: "ok_opt r = Some x \<longleftrightarrow> r = Inr x"
  by (cases r) auto

lemma ok_opt_None [simp]: "ok_opt r = None \<longleftrightarrow> (\<exists>e. r = Inl e)"
  by (cases r) auto

lemma traverse_append:
  "traverse f (xs @ ys) =
     bind_res (traverse f xs) (\<lambda>us. bind_res (traverse f ys) (\<lambda>vs. Inr (us @ vs)))"
proof (induction xs)
  case Nil
  show ?case by (cases "traverse f ys") auto
next
  case (Cons x xs)
  then show ?case
    by (cases "f x"; cases "traverse f xs"; cases "traverse f ys") auto
qed

lemma traverse_Inr_iff:
  "traverse f xs = Inr ys \<longleftrightarrow> list_all2 (\<lambda>x y. f x = Inr y) xs ys"
  by (induction xs arbitrary: ys) (auto simp: res_simps list_all2_Cons1)

lemma traverse_Inr_length: "traverse f xs = Inr ys \<Longrightarrow> length ys = length xs"
  by (auto simp: traverse_Inr_iff dest: list_all2_lengthD)

lemma traverse_total:
  assumes "\<And>x. x \<in> set xs \<Longrightarrow> f x = Inr (g x)"
  shows "traverse f xs = Inr (map g xs)"
  using assms by (induction xs) auto

lemma traverse_map: "traverse f (map g xs) = traverse (\<lambda>x. f (g x)) xs"
  by (induction xs) auto

lemma traverse_cong:
  assumes "\<And>x. x \<in> set xs \<Longrightarrow> f x = g x"
  shows "traverse f xs = traverse g xs"
  using assms by (induction xs) auto

text \<open>\<open>collect\<close> stops at the first element that fails and returns its error.\<close>

lemma traverse_stops_at_error:
  assumes "\<And>u. u \<in> set us \<Longrightarrow> \<exists>y. f u = Inr y" and "f x = Inl e"
  shows "traverse f (us @ x # vs) = Inl e"
  using assms by (induction us) (auto simp: res_simps)

lemma traverse_error_origin:
  assumes "traverse f xs = Inl e"
  shows "\<exists>us x vs. xs = us @ x # vs \<and> (\<forall>u \<in> set us. \<exists>y. f u = Inr y) \<and> f x = Inl e"
  using assms
proof (induction xs)
  case Nil
  then show ?case by simp
next
  case (Cons a xs)
  show ?case
  proof (cases "f a")
    case (Inl d)
    with Cons.prems show ?thesis
      by (intro exI [of _ "[]"] exI [of _ a] exI [of _ xs]) simp
  next
    case (Inr y)
    with Cons.prems have "traverse f xs = Inl e" by (simp add: res_simps)
    with Cons.IH obtain us x vs
      where "xs = us @ x # vs" "\<forall>u \<in> set us. \<exists>y. f u = Inr y" "f x = Inl e" by blast
    with Inr show ?thesis
      by (intro exI [of _ "a # us"] exI [of _ x] exI [of _ vs]) simp
  qed
qed

lemma bind_io_simps [simp]:
  "m w = (Inl e, w') \<Longrightarrow> bind_io m f w = (Inl e, w')"
  "m w = (Inr x, w') \<Longrightarrow> bind_io m f w = f x w'"
  by (simp_all add: bind_io_def)

lemma pure_io_apply [simp]: "pure_io r w = (r, w)"
  by (simp add: pure_io_def)

lemma bind_io_pure_io [simp]:
  "bind_io m (\<lambda>x. pure_io (f x)) w = (case m w of (r, w') \<Rightarrow> (bind_res r f, w'))"
  by (auto simp: bind_io_def pure_io_def split: prod.splits sum.splits)

lemma bind_io_assoc: "bind_io (bind_io m f) g = bind_io m (\<lambda>x. bind_io (f x) g)"
  by (rule ext) (auto simp: bind_io_def split: prod.splits sum.splits)

section \<open>Pairs and flat sequences\<close>

text \<open>
  Two evaluation orders of a pair of fallible conversions: the reply parsers convert the first
  component first when they read a map or a flat sequence, and the second one first when they
  \<open>pop()\<close> a two-element array from its end.
\<close>

definition pair_res :: "('a \<Rightarrow> 'e + 'c) \<Rightarrow> ('b \<Rightarrow> 'e + 'd) \<Rightarrow> 'a \<times> 'b \<Rightarrow> 'e + 'c \<times> 'd" where
  "pair_res f g p = bind_res (f (fst p)) (\<lambda>a. bind_res (g (snd p)) (\<lambda>b. Inr (a, b)))"

definition pair_res_rev :: "('a \<Rightarrow> 'e + 'c) \<Rightarrow> ('b \<Rightarrow> 'e + 'd) \<Rightarrow> 'a \<times> 'b \<Rightarrow> 'e + 'c \<times> 'd" where
  "pair_res_rev f g p = bind_res (g (snd p)) (\<lambda>b. bind_res (f (fst p)) (\<lambda>a. Inr (a, b)))"

text \<open>The loop \<open>while let (Some(f), Some(v)) = (iter.next(), iter.next())\<close>: an odd last item is dropped.\<close>

fun flat_pairs :: "('v \<Rightarrow> 'e + 'a) \<Rightarrow> ('v \<Rightarrow> 'e + 'b) \<Rightarrow> 'v list \<Rightarrow> 'e + ('a \<times> 'b) list" where
  "flat_pairs f g (x # y # rest) =
     bind_res (f x) (\<lambda>a. bind_res (g y) (\<lambda>b.
       bind_res (flat_pairs f g rest) (\<lambda>ps. Inr ((a, b) # ps))))"
| "flat_pairs f g [x] = Inr []"
| "flat_pairs f g [] = Inr []"

definition flatten :: "('v \<times> 'v) list \<Rightarrow> 'v list" where
  "flatten ps = concat (map (\<lambda>(a, b). [a, b]) ps)"

lemma flatten_simps [simp]: "flatten [] = []" "flatten ((a, b) # ps) = a # b # flatten ps"
  by (simp_all add: flatten_def)

lemma flat_pairs_flatten: "flat_pairs f g (flatten ps) = traverse (pair_res f g) ps"
  by (induction ps) (auto simp: pair_res_def)

lemma flat_pairs_flatten_odd: "flat_pairs f g (flatten ps @ [x]) = traverse (pair_res f g) ps"
  by (induction ps) (auto simp: pair_res_def)

lemma flat_cases:
  obtains (even) ps where "xs = flatten ps" | (odd) ps x where "xs = flatten ps @ [x]"
proof -
  have "(\<exists>ps. xs = flatten ps) \<or> (\<exists>ps x. xs = flatten ps @ [x])"
  proof (induction xs rule: induct_list012)
    case 1
    have "[] = flatten []" by simp
    then show ?case by blast
  next
    case (2 x)
    have "[x] = flatten [] @ [x]" by simp
    then show ?case by blast
  next
    case (3 x y zs)
    from 3(1) consider ps where "zs = flatten ps" | ps z where "zs = flatten ps @ [z]" by blast
    then show ?case
    proof cases
      case 1
      then have "x # y # zs = flatten ((x, y) # ps)" by simp
      then show ?thesis by blast
    next
      case 2
      then have "x # y # zs = flatten ((x, y) # ps) @ [z]" by simp
      then show ?thesis by blast
    qed
  qed
  then show thesis using even odd by blast
qed

lemma pair_res_rev_Inr [res_simps]: "pair_res_rev f g p = Inr q \<longleftrightarrow> pair_res f g p = Inr q"
  by (auto simp: pair_res_def pair_res_rev_def res_simps)

lemma pair_res_Inr: "pair_res f g p = Inr q \<longleftrightarrow> f (fst p) = Inr (fst q) \<and> g (snd p) = Inr (snd q)"
  by (cases q) (auto simp: pair_res_def res_simps)

lemma traverse_rev_Inr: "traverse (pair_res_rev f g) ps = Inr qs \<longleftrightarrow> traverse (pair_res f g) ps = Inr qs"
  by (simp add: traverse_Inr_iff res_simps)

lemma flat_pairs_length: "flat_pairs f g xs = Inr ps \<Longrightarrow> length ps = length xs div 2"
  by (induction f g xs arbitrary: ps rule: flat_pairs.induct) (auto simp: res_simps)

section \<open>Decimal rendering and parsing of integers\<close>

definition digit_char :: "nat \<Rightarrow> char" where
  "digit_char d = char_of (48 + d)"

fun nat_to_string :: "nat \<Rightarrow> string" where
  "nat_to_string n =
     (if n < 10 then [digit_char n] else nat_to_string (n div 10) @ [digit_char (n mod 10)])"

declare nat_to_string.simps [simp del]

definition int_to_string :: "int \<Rightarrow> string" where
  "int_to_string i =
     (if i < 0 then CHR ''-'' # nat_to_string (nat (- i)) else nat_to_string (nat i))"

definition i64_to_string :: "i64 \<Rightarrow> string" where
  "i64_to_string w = int_to_string (sint w)"

definition digit_val :: "char \<Rightarrow> nat option" where
  "digit_val c =
     (let n = (of_char c :: nat) in if 48 \<le> n \<and> n \<le> 57 then Some (n - 48) else None)"

fun parse_digits :: "nat \<Rightarrow> string \<Rightarrow> nat option" where
  "parse_digits acc [] = Some acc"
| "parse_digits acc (c # cs) =
     (case digit_val c of None \<Rightarrow> None | Some d \<Rightarrow> parse_digits (10 * acc + d) cs)"

text \<open>
  \<open>str::parse::<i64>\<close>: an optional sign, at least one digit, digits only, and a value in range.
\<close>

definition parse_i64 :: "string \<Rightarrow> i64 option" where
  "parse_i64 s =
     (case s of
        [] \<Rightarrow> None
      | c # cs \<Rightarrow>
          (let neg = (c = CHR ''-'');
               ds = (if c = CHR ''-'' \<or> c = CHR ''+'' then cs else s)
           in if ds = [] then None
              else case parse_digits 0 ds of
                     None \<Rightarrow> None
                   | Some n \<Rightarrow>
                       (let v = (if neg then - int n else int n)
                        in if - (2 ^ 63) \<le> v \<and> v < 2 ^ 63 then Some (word_of_int v) else None)))"

lemma digit_val_digit_char [simp]: "d < 10 \<Longrightarrow> digit_val (digit_char d) = Some d"
  by (simp add: digit_val_def digit_char_def)

lemma parse_digits_append:
  "parse_digits acc (xs @ ys) =
     (case parse_digits acc xs of None \<Rightarrow> None | Some n \<Rightarrow> parse_digits n ys)"
  by (induction acc xs rule: parse_digits.induct) (auto split: option.splits)

lemma parse_digits_nat_to_string: "parse_digits 0 (nat_to_string n) = Some n"
proof (induction n rule: nat_to_string.induct)
  case (1 n)
  show ?case
  proof (cases "n < 10")
    case True
    then show ?thesis by (simp add: nat_to_string.simps [of n])
  next
    case False
    with 1 have "parse_digits 0 (nat_to_string (n div 10)) = Some (n div 10)" by simp
    with False show ?thesis
      by (simp add: nat_to_string.simps [of n] parse_digits_append)
  qed
qed

lemma nat_to_string_inj: "nat_to_string m = nat_to_string n \<longleftrightarrow> m = n"
  by (metis option.inject parse_digits_nat_to_string)

lemma digit_val_nat_to_string: "c \<in> set (nat_to_string n) \<Longrightarrow> digit_val c \<noteq> None"
proof (induction n rule: nat_to_string.induct)
  case (1 n)
  then show ?case by (cases "n < 10") (auto simp: nat_to_string.simps [of n])
qed

lemma nat_to_string_nonempty [simp]: "nat_to_string n \<noteq> []"
  by (subst nat_to_string.simps) simp

lemma digit_char_no_sign: "d < 10 \<Longrightarrow> digit_char d \<noteq> CHR ''-'' \<and> digit_char d \<noteq> CHR ''+''"
  by (auto simp: digit_char_def char_of_eq_iff take_bit_eq_mod)

lemma hd_nat_to_string: "hd (nat_to_string n) \<noteq> CHR ''-'' \<and> hd (nat_to_string n) \<noteq> CHR ''+''"
proof (induction n rule: nat_to_string.induct)
  case (1 n)
  then show ?case
    by (cases "n < 10") (auto simp: nat_to_string.simps [of n] digit_char_no_sign)
qed

lemma parse_i64_to_string: "parse_i64 (i64_to_string w) = Some w"
proof -
  have lo: "- (2 ^ 63) \<le> sint w" and hi: "sint w < 2 ^ 63"
    using sint_greater_eq [of w] sint_less [of w] by simp_all
  show ?thesis
  proof (cases "sint w < 0")
    case True
    then show ?thesis
      using lo hi
      by (auto simp: i64_to_string_def int_to_string_def parse_i64_def parse_digits_nat_to_string Let_def)
  next
    case False
    obtain c cs where s: "nat_to_string (nat (sint w)) = c # cs"
      by (cases "nat_to_string (nat (sint w))") auto
    then have "c \<noteq> CHR ''-''" "c \<noteq> CHR ''+''"
      using hd_nat_to_string [of "nat (sint w)"] by auto
    moreover have "parse_digits 0 (c # cs) = Some (nat (sint w))"
      using parse_digits_nat_to_string [of "nat (sint w)"] s by simp
    ultimately show ?thesis
      using False lo hi s
      by (auto simp: i64_to_string_def int_to_string_def parse_i64_def Let_def simp del: parse_digits.simps)
  qed
qed

lemma i64_to_string_inj: "i64_to_string v = i64_to_string w \<longleftrightarrow> v = w"
  by (metis option.inject parse_i64_to_string)

end
