(* ===== verification/Errors.thy ===== *)
theory Errors
  imports Prelude
begin

text \<open>
  The error type of the client (\<open>src/error.rs\<close>) and its conversions.

  \<open>redis::RedisError\<close> belongs to the vendored fork; the sources observe it through \<open>kind()\<close>,
  \<open>is_timeout()\<close> and \<open>to_string()\<close> only, so a value of \<open>redis_error\<close> is the triple of these
  observations.  \<open>error_kind\<close> has the kinds the sources name and \<open>OtherKind\<close> for the rest.  In the
  same way \<open>connection_error\<close> is \<open>glide_core::client::ConnectionError\<close> as far as it is matched on.
\<close>

datatype error_kind =
    IoError | ClientError | ExecAbortError | CircuitBreakerOpen | InvalidClientConfig
  | NoScriptError | ResponseError | OtherKind nat

record redis_error =
  re_kind :: error_kind
  re_timeout :: bool
  re_display :: string

datatype connection_error = CETimeout | CEConfiguration string | CEOther string

datatype glide_error =
    Closing string
  | Configuration string
  | Connection string
  | ExecAbort string
  | Request string
  | Timeout string
  | CircuitBreaker string

type_synonym 'a result = "glide_error + 'a"

fun class_name :: "glide_error \<Rightarrow> string" where
  "class_name (Closing _) = ''ClosingError''"
| "class_name (Configuration _) = ''ConfigurationError''"
| "class_name (Connection _) = ''ConnectionError''"
| "class_name (ExecAbort _) = ''ExecAbortError''"
| "class_name (Request _) = ''RequestError''"
| "class_name (Timeout _) = ''TimeoutError''"
| "class_name (CircuitBreaker _) = ''CircuitBreakerError''"

fun message :: "glide_error \<Rightarrow> string" where
  "message (Closing m) = m"
| "message (Configuration m) = m"
| "message (Connection m) = m"
| "message (ExecAbort m) = m"
| "message (Request m) = m"
| "message (Timeout m) = m"
| "message (CircuitBreaker m) = m"

text \<open>The \<open>#[error("...: {0}")]\<close> attributes.\<close>

fun display :: "glide_error \<Rightarrow> string" where
  "display (Closing m) = ''ClosingError: '' @ m"
| "display (Configuration m) = ''ConfigurationError: '' @ m"
| "display (Connection m) = ''ConnectionError: '' @ m"
| "display (ExecAbort m) = ''ExecAbortError: '' @ m"
| "display (Request m) = ''RequestError: '' @ m"
| "display (Timeout m) = ''TimeoutError: '' @ m"
| "display (CircuitBreaker m) = ''CircuitBreakerError: '' @ m"

definition from_redis_error :: "redis_error \<Rightarrow> glide_error" where
  "from_redis_error err =
     (let msg = re_display err in
      case re_kind err of
        IoError \<Rightarrow> (if re_timeout err then Timeout msg else Connection msg)
      | ClientError \<Rightarrow> (if re_timeout err then Timeout msg else Connection msg)
      | ExecAbortError \<Rightarrow> ExecAbort msg
      | CircuitBreakerOpen \<Rightarrow> CircuitBreaker msg
      | InvalidClientConfig \<Rightarrow> Configuration msg
      | _ \<Rightarrow> (if re_timeout err then Timeout msg else Request msg))"

fun from_connection_error :: "connection_error \<Rightarrow> glide_error" where
  "from_connection_error CETimeout = Timeout ''connection attempt timed out''"
| "from_connection_error (CEConfiguration msg) = Configuration msg"
| "from_connection_error (CEOther other) = Connection other"

section \<open>Rendering\<close>

lemma display_class_message: "display e = class_name e @ '': '' @ message e"
  by (cases e) auto

lemma display_inj: "display e = display e' \<Longrightarrow> e = e'"
  by (cases e; cases e') auto

lemma glide_error_eq_iff: "e = e' \<longleftrightarrow> class_name e = class_name e' \<and> message e = message e'"
  by (cases e; cases e') auto

text \<open>
  The text of an error is its class name and its message, and it identifies the error: two
  errors print the same text exactly when they are the same error.
\<close>

lemma display_identifies_error:
  "display e = class_name e @ '': '' @ message e \<and> (display e = display e' \<longleftrightarrow> e = e')"
  using display_class_message display_inj by blast

section \<open>Classification\<close>

lemma from_redis_error_message [simp]: "message (from_redis_error err) = re_display err"
  by (simp add: from_redis_error_def Let_def split: error_kind.split)

lemma from_redis_error_not_closing: "from_redis_error err \<noteq> Closing m"
  by (simp add: from_redis_error_def Let_def split: error_kind.split)

text \<open>
  C12: the classification of errors, exactly.  Every error of the driver keeps its text, and its class is determined by its kind and by
  whether it is a timeout: an aborted transaction, an open circuit breaker and an invalid configuration have classes of their
  own, timeouts or not; of the other errors timeouts are \<open>TimeoutError\<close>, I/O and client errors that are no
  timeouts \<open>ConnectionError\<close>, and all the rest \<open>RequestError\<close>.  No driver error is reported as \<open>ClosingError\<close>.  A failed
  connection attempt is a timeout with a fixed text, or an invalid configuration or a connection error with the text of the core.
\<close>

theorem from_redis_error_classifies:
  "message (from_redis_error err) = re_display err
   \<and> (class_name (from_redis_error err) = ''ExecAbortError'' \<longleftrightarrow> re_kind err = ExecAbortError)
   \<and> (class_name (from_redis_error err) = ''CircuitBreakerError'' \<longleftrightarrow> re_kind err = CircuitBreakerOpen)
   \<and> (class_name (from_redis_error err) = ''ConfigurationError'' \<longleftrightarrow> re_kind err = InvalidClientConfig)
   \<and> (class_name (from_redis_error err) = ''TimeoutError'' \<longleftrightarrow>
        re_timeout err \<and> re_kind err \<notin> {ExecAbortError, CircuitBreakerOpen, InvalidClientConfig})
   \<and> (class_name (from_redis_error err) = ''ConnectionError'' \<longleftrightarrow>
        \<not> re_timeout err \<and> re_kind err \<in> {IoError, ClientError})
   \<and> (class_name (from_redis_error err) = ''RequestError'' \<longleftrightarrow>
        \<not> re_timeout err \<and> re_kind err \<notin> {IoError, ClientError, ExecAbortError, CircuitBreakerOpen, InvalidClientConfig})
   \<and> class_name (from_redis_error err) \<noteq> ''ClosingError''
   \<and> (class_name (from_connection_error cerr) = ''TimeoutError'' \<longleftrightarrow> cerr = CETimeout)
   \<and> (class_name (from_connection_error cerr) = ''ConfigurationError'' \<longleftrightarrow> (\<exists>m. cerr = CEConfiguration m))
   \<and> (class_name (from_connection_error cerr) = ''ConnectionError'' \<longleftrightarrow> (\<exists>m. cerr = CEOther m))
   \<and> message (from_connection_error cerr)
       = (case cerr of CETimeout \<Rightarrow> ''connection attempt timed out'' | CEConfiguration m \<Rightarrow> m | CEOther m \<Rightarrow> m)"
proof -
  have "message (from_redis_error err) = re_display err"
    "class_name (from_redis_error err) = ''ExecAbortError'' \<longleftrightarrow> re_kind err = ExecAbortError"
    "class_name (from_redis_error err) = ''CircuitBreakerError'' \<longleftrightarrow> re_kind err = CircuitBreakerOpen"
    "class_name (from_redis_error err) = ''ConfigurationError'' \<longleftrightarrow> re_kind err = InvalidClientConfig"
    "class_name (from_redis_error err) = ''TimeoutError'' \<longleftrightarrow>
        re_timeout err \<and> re_kind err \<notin> {ExecAbortError, CircuitBreakerOpen, InvalidClientConfig}"
    "class_name (from_redis_error err) = ''ConnectionError'' \<longleftrightarrow> \<not> re_timeout err \<and> re_kind err \<in> {IoError, ClientError}"
    "class_name (from_redis_error err) = ''RequestError'' \<longleftrightarrow>
        \<not> re_timeout err \<and> re_kind err \<notin> {IoError, ClientError, ExecAbortError, CircuitBreakerOpen, InvalidClientConfig}"
    "class_name (from_redis_error err) \<noteq> ''ClosingError''"
    by (simp_all add: from_redis_error_def Let_def split: error_kind.split)
  then show ?thesis by (cases cerr) simp_all
qed

end
