(* ===== verification/Values.thy ===== *)
theory Values
  imports Errors
begin

text \<open>
  Replies and their conversions (\<open>src/value.rs\<close>).

  \<open>value\<close> is \<open>redis::Value\<close> with the variants the sources match on; \<open>VOther\<close> stands for the variants
  they never name.  The conversions of the fork (\<open>from_owned_redis_value\<close> at each result type the
  sources use it at), the \<open>Debug\<close> rendering of a reply and the \<open>Display\<close> rendering of a float are the
  fields of \<open>redis_ext\<close>: they are code outside the repository, and every definition that uses them
  takes the record as its first argument.
\<close>

datatype "value" =
    VNil
  | VInt i64
  | VBulkString bytes
  | VSimpleString string
  | VVerbatimString string string
  | VOkay
  | VDouble f64
  | VBoolean bool
  | VArray "value list"
  | VMap "(value \<times> value) list"
  | VSet "value list"
  | VOther nat

lemmas value_split = "value.split"

lemmas value_splits = "value.splits"

record redis_ext =
  x_i64 :: "value \<Rightarrow> redis_error + i64"
  x_f64 :: "value \<Rightarrow> redis_error + f64"
  x_string :: "value \<Rightarrow> redis_error + string"
  x_bytes :: "value \<Rightarrow> redis_error + bytes"
  x_string_map :: "value \<Rightarrow> redis_error + (string \<times> bytes) list"
  x_debug :: "value \<Rightarrow> string"
  x_debug_list :: "value list \<Rightarrow> string"
  x_f64_display :: "f64 \<Rightarrow> string"

definition from_value :: "(value \<Rightarrow> redis_error + 'a) \<Rightarrow> value \<Rightarrow> 'a result" where
  "from_value conv v = map_err from_redis_error (conv v)"

definition bytes_from_value :: "redis_ext \<Rightarrow> value \<Rightarrow> bytes result" where
  "bytes_from_value X v =
     (case v of
        VBulkString b \<Rightarrow> Inr b
      | VSimpleString s \<Rightarrow> Inr s
      | VVerbatimString _ txt \<Rightarrow> Inr txt
      | VOkay \<Rightarrow> Inr ''OK''
      | VInt i \<Rightarrow> Inr (i64_to_string i)
      | VDouble f \<Rightarrow> Inr (x_f64_display X f)
      | VBoolean b \<Rightarrow> Inr (if b then ''1'' else ''0'')
      | other \<Rightarrow> from_value (x_bytes X) other)"

definition to_opt_bytes :: "redis_ext \<Rightarrow> value \<Rightarrow> bytes option result" where
  "to_opt_bytes X v =
     (case v of
        VNil \<Rightarrow> Inr None
      | other \<Rightarrow> bind_res (bytes_from_value X other) (\<lambda>b. Inr (Some b)))"

definition to_bytes :: "redis_ext \<Rightarrow> value \<Rightarrow> bytes result" where
  "to_bytes X v = bytes_from_value X v"

definition to_string :: "redis_ext \<Rightarrow> value \<Rightarrow> string result" where
  "to_string X v =
     (case v of
        VSimpleString s \<Rightarrow> Inr s
      | VVerbatimString _ txt \<Rightarrow> Inr txt
      | VOkay \<Rightarrow> Inr ''OK''
      | VInt i \<Rightarrow> Inr (i64_to_string i)
      | VDouble f \<Rightarrow> Inr (x_f64_display X f)
      | other \<Rightarrow> from_value (x_string X) other)"

definition to_opt_string :: "redis_ext \<Rightarrow> value \<Rightarrow> string option result" where
  "to_opt_string X v =
     (case v of
        VNil \<Rightarrow> Inr None
      | other \<Rightarrow> bind_res (to_string X other) (\<lambda>s. Inr (Some s)))"

definition to_i64 :: "redis_ext \<Rightarrow> value \<Rightarrow> i64 result" where
  "to_i64 X v = from_value (x_i64 X) v"

definition to_f64 :: "redis_ext \<Rightarrow> value \<Rightarrow> f64 result" where
  "to_f64 X v = from_value (x_f64 X) v"

definition to_opt_f64 :: "redis_ext \<Rightarrow> value \<Rightarrow> f64 option result" where
  "to_opt_f64 X v =
     (case v of
        VNil \<Rightarrow> Inr None
      | other \<Rightarrow> bind_res (from_value (x_f64 X) other) (\<lambda>f. Inr (Some f)))"

definition to_bool :: "redis_ext \<Rightarrow> value \<Rightarrow> bool result" where
  "to_bool X v =
     (case v of
        VBoolean b \<Rightarrow> Inr b
      | VInt i \<Rightarrow> Inr (i \<noteq> 0)
      | other \<Rightarrow> bind_res (from_value (x_i64 X) other) (\<lambda>i. Inr (i \<noteq> 0)))"

definition to_unit :: "value \<Rightarrow> unit result" where
  "to_unit v = Inr ()"

section \<open>A concrete instance of the external conversions\<close>

text \<open>
  An instance used to evaluate the model on concrete replies: it converts the shapes whose
  conversion the sources' own tests exercise and rejects the others.
\<close>

definition type_error :: redis_error where
  "type_error = \<lparr>re_kind = OtherKind 0, re_timeout = False, re_display = ''type error''\<rparr>"

definition sample_ext :: redis_ext where
  "sample_ext = \<lparr>
     x_i64 = (\<lambda>v. case v of VInt i \<Rightarrow> Inr i
                | VBulkString b \<Rightarrow> (case parse_i64 b of Some i \<Rightarrow> Inr i | None \<Rightarrow> Inl type_error)
                | _ \<Rightarrow> Inl type_error),
     x_f64 = (\<lambda>v. case v of VDouble f \<Rightarrow> Inr f | _ \<Rightarrow> Inl type_error),
     x_string = (\<lambda>v. case v of VBulkString b \<Rightarrow> Inr b | _ \<Rightarrow> Inl type_error),
     x_bytes = (\<lambda>v. Inl type_error),
     x_string_map = (\<lambda>v. Inl type_error),
     x_debug = (\<lambda>v. ''value''),
     x_debug_list = (\<lambda>vs. ''values''),
     x_f64_display = (\<lambda>f. ''0'')\<rparr>"

section \<open>Laws of the conversions\<close>

lemma from_value_Inr [res_simps]: "from_value conv v = Inr x \<longleftrightarrow> conv v = Inr x"
  by (simp add: from_value_def res_simps)

lemma to_bytes_simps [simp]:
  "to_bytes X (VBulkString b) = Inr b"
  "to_bytes X (VSimpleString s) = Inr s"
  "to_bytes X (VVerbatimString fmt s) = Inr s"
  "to_bytes X VOkay = Inr ''OK''"
  "to_bytes X (VInt i) = Inr (i64_to_string i)"
  "to_bytes X (VDouble f) = Inr (x_f64_display X f)"
  "to_bytes X (VBoolean t) = Inr (if t then ''1'' else ''0'')"
  by (simp_all add: to_bytes_def bytes_from_value_def)

lemma to_opt_bytes_Nil [simp]: "to_opt_bytes X VNil = Inr None"
  by (simp add: to_opt_bytes_def)

lemma to_opt_bytes_not_Nil:
  "v \<noteq> VNil \<Longrightarrow> to_opt_bytes X v = bind_res (to_bytes X v) (\<lambda>b. Inr (Some b))"
  by (cases v) (simp_all add: to_opt_bytes_def to_bytes_def)

lemma to_opt_string_not_Nil:
  "v \<noteq> VNil \<Longrightarrow> to_opt_string X v = bind_res (to_string X v) (\<lambda>s. Inr (Some s))"
  by (cases v) (simp_all add: to_opt_string_def)

lemma to_string_simps [simp]:
  "to_string X (VSimpleString s) = Inr s"
  "to_string X (VVerbatimString fmt s) = Inr s"
  "to_string X VOkay = Inr ''OK''"
  "to_string X (VInt i) = Inr (i64_to_string i)"
  "to_string X (VDouble f) = Inr (x_f64_display X f)"
  "to_string X (VBulkString b) = from_value (x_string X) (VBulkString b)"
  by (simp_all add: to_string_def)

lemma to_unit_ok [simp]: "to_unit v = Inr ()"
  by (simp add: to_unit_def)

text \<open>
  The optional conversions return \<open>None\<close> exactly for the nil reply: a nil reply is never an error
  and no other reply is ever read as an absent value.
\<close>

lemma optional_conversions_nil:
  "(to_opt_bytes X v = Inr None \<longleftrightarrow> v = VNil)
   \<and> (to_opt_string X v = Inr None \<longleftrightarrow> v = VNil)
   \<and> (to_opt_f64 X v = Inr None \<longleftrightarrow> v = VNil)"
  by (cases v)
     (auto simp: to_opt_bytes_def to_opt_string_def to_opt_f64_def bind_res_Inr)

text \<open>
  An integer reply survives its conversion to text: the text that \<open>to_string\<close> and \<open>to_bytes\<close> give
  for an integer is the same and parses back to that integer, for every 64-bit value.
\<close>

lemma int_reply_text_roundtrip:
  "\<exists>s. to_string X (VInt i) = Inr s \<and> to_bytes X (VInt i) = Inr s \<and> parse_i64 s = Some i"
  by (simp add: parse_i64_to_string)

end
