(* ===== verification/Command.thy ===== *)
theory Command
  imports Values
begin

text \<open>
  Commands under construction and the two contracts of the code that extends them.

  A \<open>redis::Cmd\<close> is the list of the arguments handed to \<open>Cmd::arg\<close>, each at the type it is passed at:
  strings and byte strings, integers of the width the call has, floats, and arguments of a generic
  type \<open>T: ToRedisArgs\<close>, which are represented by the wire arguments their implementation writes (an
  implementation may write none or several).  How the fork turns an argument into bytes is code
  outside the repository: \<open>wire\<close> takes it as a parameter, and \<open>enc_documented\<close> states what the fork
  documents about it.

  The locale \<open>appender\<close> is the contract of every \<open>add_to(&self, cmd: &mut Cmd)\<close>: it only appends, and
  what it appends depends on the options alone.  \<open>lossless_appender\<close> adds that different options give
  different arguments.  \<open>keyword\<close> is the contract of the \<open>as_arg\<close> functions of the option enums.
\<close>

datatype rarg =
    AStr bytes
  | AI64 i64
  | AU64 u64
  | AU32 u32
  | AU8 u8
  | AUsize nat
  | AF64 f64
  | AGen "bytes list"

type_synonym cmd = "rarg list"

definition wire :: "(rarg \<Rightarrow> bytes list) \<Rightarrow> cmd \<Rightarrow> bytes list" where
  "wire enc c = concat (map enc c)"

definition enc_documented :: "(rarg \<Rightarrow> bytes list) \<Rightarrow> bool" where
  "enc_documented enc \<longleftrightarrow>
     (\<forall>s. enc (AStr s) = [s]) \<and> (\<forall>xs. enc (AGen xs) = xs)
     \<and> (\<forall>i. enc (AI64 i) = [i64_to_string i]) \<and> (\<forall>n. enc (AUsize n) = [nat_to_string n])
     \<and> (\<forall>n. enc (AU64 n) = [nat_to_string (unat n)])"

text \<open>An instance of the argument encoding that satisfies what is documented.\<close>

fun sample_enc :: "rarg \<Rightarrow> bytes list" where
  "sample_enc (AStr s) = [s]"
| "sample_enc (AI64 i) = [i64_to_string i]"
| "sample_enc (AU64 n) = [nat_to_string (unat n)]"
| "sample_enc (AU32 n) = [nat_to_string (unat n)]"
| "sample_enc (AU8 n) = [nat_to_string (unat n)]"
| "sample_enc (AUsize n) = [nat_to_string n]"
| "sample_enc (AF64 f) = [''float'']"
| "sample_enc (AGen xs) = xs"

lemma sample_enc_documented: "enc_documented sample_enc"
  by (simp add: enc_documented_def)

lemma wire_simps [simp]: "wire enc [] = []" "wire enc (a # c) = enc a @ wire enc c"
  by (simp_all add: wire_def)

lemma wire_append [simp]: "wire enc (c @ d) = wire enc c @ wire enc d"
  by (simp add: wire_def)

lemma wire_strs: "enc_documented enc \<Longrightarrow> wire enc (map AStr xs) = xs"
  by (induction xs) (auto simp: enc_documented_def)

lemma wire_gens: "enc_documented enc \<Longrightarrow> wire enc (map AGen xs) = concat xs"
  by (induction xs) (auto simp: enc_documented_def)

section \<open>Optional arguments\<close>

text \<open>\<open>if b { cmd.arg("KW"); }\<close>, \<open>if let Some(x) = o { cmd.arg(x); }\<close> and
  \<open>if let Some(x) = o { cmd.arg("KW").arg(x); }\<close>.\<close>

definition flag :: "bool \<Rightarrow> string \<Rightarrow> cmd" where
  "flag b kw = (if b then [AStr kw] else [])"

definition opt_arg :: "('a \<Rightarrow> rarg) \<Rightarrow> 'a option \<Rightarrow> cmd" where
  "opt_arg f x = (case x of None \<Rightarrow> [] | Some v \<Rightarrow> [f v])"

definition opt_clause :: "string \<Rightarrow> ('a \<Rightarrow> rarg) \<Rightarrow> 'a option \<Rightarrow> cmd" where
  "opt_clause kw f x = (case x of None \<Rightarrow> [] | Some v \<Rightarrow> [AStr kw, f v])"

lemma flag_simps [simp, arg_simps]: "flag True kw = [AStr kw]" "flag False kw = []"
  by (simp_all add: flag_def)

lemma opt_arg_simps [simp, arg_simps]: "opt_arg f None = []" "opt_arg f (Some v) = [f v]"
  by (simp_all add: opt_arg_def)

lemma opt_clause_simps [simp, arg_simps]:
  "opt_clause kw f None = []" "opt_clause kw f (Some v) = [AStr kw, f v]"
  by (simp_all add: opt_clause_def)

section \<open>The contracts\<close>

locale appender =
  fixes add_to :: "'o \<Rightarrow> cmd \<Rightarrow> cmd"
  assumes add_to_append: "add_to opts (c @ d) = c @ add_to opts d"
begin

lemma add_to_eq: "add_to opts c = c @ add_to opts []"
  using add_to_append [of opts c "[]"] by simp

lemma add_to_prefix: "prefix c (add_to opts c)"
  by (subst add_to_eq) simp

lemma add_to_length: "length c \<le> length (add_to opts c)"
  by (subst add_to_eq) simp

lemma add_to_cmd_inj: "add_to opts c = add_to opts d \<longleftrightarrow> c = d"
  by (metis add_to_eq append_same_eq)

lemma wire_add_to: "wire enc (add_to opts c) = wire enc c @ wire enc (add_to opts [])"
  by (subst add_to_eq) simp

end

locale lossless_appender = appender +
  assumes add_to_inj: "add_to o1 [] = add_to o2 [] \<Longrightarrow> o1 = o2"
begin

lemma add_to_options_inj: "add_to o1 c = add_to o2 c \<longleftrightarrow> o1 = o2"
  by (metis add_to_eq add_to_inj same_append_eq)

end

locale keyword =
  fixes as_arg :: "'k \<Rightarrow> string"
  assumes as_arg_inj: "as_arg k1 = as_arg k2 \<Longrightarrow> k1 = k2"
begin

lemma opt_keyword_inj:
  "opt_arg (\<lambda>k. AStr (as_arg k)) x = opt_arg (\<lambda>k. AStr (as_arg k)) y \<longleftrightarrow> x = y"
  by (cases x; cases y) (auto dest: as_arg_inj)

end

sublocale keyword \<subseteq> kw: lossless_appender "\<lambda>k c. c @ [AStr (as_arg k)]"
  by unfold_locales (auto dest: as_arg_inj)

end
