(* ===== verification/Scan.thy ===== *)
theory Scan
  imports Command
begin

text \<open>
  The cursor-driven scan iterators (\<open>src/commands/scan.rs\<close>) and the \<open>scan*\<close> methods of the command
  traits (\<open>src/commands/core.rs\<close>).

  \<open>send\<close> is \<open>glide_send_owned\<close> of the connection (its blocking counterpart for the synchronous iterator)
  and \<open>dec\<close> the fork's conversion of a reply into a cursor and a batch.  The loop of \<open>next_item\<close> fetches
  pages until one has an element or the cursor is 0; a server that never stops sending empty pages
  keeps it running, so it is a partial function: \<open>None\<close> is a loop that does not return.
\<close>

record page_spec =
  ps_prefix :: "bytes list"
  ps_suffix :: "bytes list"

definition to_cmd :: "page_spec \<Rightarrow> u64 \<Rightarrow> cmd" where
  "to_cmd spec cursor = map AStr (ps_prefix spec) @ [AU64 cursor] @ map AStr (ps_suffix spec)"

record 'rv scan_iter =
  si_spec :: page_spec
  si_cursor :: u64
  si_batch :: "'rv list"

type_synonym 'w send_fn = "cmd \<Rightarrow> ('w, redis_error, value) io"

type_synonym 'rv page_decoder = "value \<Rightarrow> redis_error + u64 \<times> 'rv list"

definition scan_iter_new ::
  "'w send_fn \<Rightarrow> 'rv page_decoder \<Rightarrow> bytes list \<Rightarrow> bytes list \<Rightarrow> ('w, redis_error, 'rv scan_iter) io" where
  "scan_iter_new send dec pfx sfx =
     (let spec = \<lparr>ps_prefix = pfx, ps_suffix = sfx\<rparr> in
      bind_io (send (to_cmd spec 0)) (\<lambda>reply.
        pure_io (bind_res (dec reply) (\<lambda>(cursor, batch).
          Inr \<lparr>si_spec = spec, si_cursor = cursor, si_batch = batch\<rparr>))))"

partial_function (option) next_item ::
  "'w send_fn \<Rightarrow> 'rv page_decoder \<Rightarrow> 'rv scan_iter \<Rightarrow> 'w \<Rightarrow> ('rv option \<times> 'rv scan_iter \<times> 'w) option" where
  "next_item send dec it w =
     (case si_batch it of
        v # vs \<Rightarrow> Some (Some v, it\<lparr>si_batch := vs\<rparr>, w)
      | [] \<Rightarrow>
          (if si_cursor it = 0 then Some (None, it, w)
           else (case send (to_cmd (si_spec it) (si_cursor it)) w of
                   (Inl e, w') \<Rightarrow> Some (None, it, w')
                 | (Inr reply, w') \<Rightarrow>
                     (case dec reply of
                        Inl e \<Rightarrow> Some (None, it, w')
                      | Inr (cursor, batch) \<Rightarrow>
                          next_item send dec (it\<lparr>si_cursor := cursor, si_batch := batch\<rparr>) w'))))"

definition sync_scan_iter_new ::
  "'w send_fn \<Rightarrow> 'rv page_decoder \<Rightarrow> bytes list \<Rightarrow> bytes list \<Rightarrow> ('w, redis_error, 'rv scan_iter) io" where
  "sync_scan_iter_new send_sync dec pfx sfx =
     (let spec = \<lparr>ps_prefix = pfx, ps_suffix = sfx\<rparr> in
      bind_io (send_sync (to_cmd spec 0)) (\<lambda>reply.
        pure_io (bind_res (dec reply) (\<lambda>(cursor, batch).
          Inr \<lparr>si_spec = spec, si_cursor = cursor, si_batch = batch\<rparr>))))"

partial_function (option) sync_next ::
  "'w send_fn \<Rightarrow> 'rv page_decoder \<Rightarrow> 'rv scan_iter \<Rightarrow> 'w \<Rightarrow> ('rv option \<times> 'rv scan_iter \<times> 'w) option" where
  "sync_next send_sync dec it w =
     (case si_batch it of
        v # vs \<Rightarrow> Some (Some v, it\<lparr>si_batch := vs\<rparr>, w)
      | [] \<Rightarrow>
          (if si_cursor it = 0 then Some (None, it, w)
           else (case send_sync (to_cmd (si_spec it) (si_cursor it)) w of
                   (Inl e, w') \<Rightarrow> Some (None, it, w')
                 | (Inr reply, w') \<Rightarrow>
                     (case dec reply of
                        Inl e \<Rightarrow> Some (None, it, w')
                      | Inr (cursor, batch) \<Rightarrow>
                          sync_next send_sync dec (it\<lparr>si_cursor := cursor, si_batch := batch\<rparr>) w'))))"

text \<open>The caller's loop \<open>while let Some(v) = iter.next_item().await\<close>, collecting the elements.\<close>

partial_function (option) drain ::
  "'w send_fn \<Rightarrow> 'rv page_decoder \<Rightarrow> 'rv scan_iter \<Rightarrow> 'w \<Rightarrow> ('rv list \<times> 'rv scan_iter \<times> 'w) option" where
  "drain send dec it w =
     (case next_item send dec it w of
        None \<Rightarrow> None
      | Some (None, it', w') \<Rightarrow> Some ([], it', w')
      | Some (Some v, it', w') \<Rightarrow>
          Option.bind (drain send dec it' w') (\<lambda>(vs, it'', w''). Some (v # vs, it'', w'')))"

section \<open>The scan methods\<close>

text \<open>A key or pattern is given by the arguments its \<open>write_redis_args\<close> appends.\<close>

definition scan :: "'w send_fn \<Rightarrow> 'rv page_decoder \<Rightarrow> ('w, redis_error, 'rv scan_iter) io" where
  "scan send dec = scan_iter_new send dec [''SCAN''] []"

definition scan_match :: "'w send_fn \<Rightarrow> 'rv page_decoder \<Rightarrow> bytes list \<Rightarrow> ('w, redis_error, 'rv scan_iter) io" where
  "scan_match send dec pattern = scan_iter_new send dec [''SCAN''] ([''MATCH''] @ pattern)"

definition hscan :: "'w send_fn \<Rightarrow> 'rv page_decoder \<Rightarrow> bytes list \<Rightarrow> ('w, redis_error, 'rv scan_iter) io" where
  "hscan send dec key = scan_iter_new send dec ([''HSCAN''] @ key) []"

definition hscan_match ::
  "'w send_fn \<Rightarrow> 'rv page_decoder \<Rightarrow> bytes list \<Rightarrow> bytes list \<Rightarrow> ('w, redis_error, 'rv scan_iter) io" where
  "hscan_match send dec key pattern = scan_iter_new send dec ([''HSCAN''] @ key) ([''MATCH''] @ pattern)"

definition sscan :: "'w send_fn \<Rightarrow> 'rv page_decoder \<Rightarrow> bytes list \<Rightarrow> ('w, redis_error, 'rv scan_iter) io" where
  "sscan send dec key = scan_iter_new send dec ([''SSCAN''] @ key) []"

definition sscan_match ::
  "'w send_fn \<Rightarrow> 'rv page_decoder \<Rightarrow> bytes list \<Rightarrow> bytes list \<Rightarrow> ('w, redis_error, 'rv scan_iter) io" where
  "sscan_match send dec key pattern = scan_iter_new send dec ([''SSCAN''] @ key) ([''MATCH''] @ pattern)"

definition zscan :: "'w send_fn \<Rightarrow> 'rv page_decoder \<Rightarrow> bytes list \<Rightarrow> ('w, redis_error, 'rv scan_iter) io" where
  "zscan send dec key = scan_iter_new send dec ([''ZSCAN''] @ key) []"

definition zscan_match ::
  "'w send_fn \<Rightarrow> 'rv page_decoder \<Rightarrow> bytes list \<Rightarrow> bytes list \<Rightarrow> ('w, redis_error, 'rv scan_iter) io" where
  "zscan_match send dec key pattern = scan_iter_new send dec ([''ZSCAN''] @ key) ([''MATCH''] @ pattern)"

definition sync_scan :: "'w send_fn \<Rightarrow> 'rv page_decoder \<Rightarrow> ('w, redis_error, 'rv scan_iter) io" where
  "sync_scan send dec = sync_scan_iter_new send dec [''SCAN''] []"

definition sync_scan_match :: "'w send_fn \<Rightarrow> 'rv page_decoder \<Rightarrow> bytes list \<Rightarrow> ('w, redis_error, 'rv scan_iter) io" where
  "sync_scan_match send dec pattern = sync_scan_iter_new send dec [''SCAN''] ([''MATCH''] @ pattern)"

definition sync_hscan :: "'w send_fn \<Rightarrow> 'rv page_decoder \<Rightarrow> bytes list \<Rightarrow> ('w, redis_error, 'rv scan_iter) io" where
  "sync_hscan send dec key = sync_scan_iter_new send dec ([''HSCAN''] @ key) []"

definition sync_hscan_match ::
  "'w send_fn \<Rightarrow> 'rv page_decoder \<Rightarrow> bytes list \<Rightarrow> bytes list \<Rightarrow> ('w, redis_error, 'rv scan_iter) io" where
  "sync_hscan_match send dec key pattern =
     sync_scan_iter_new send dec ([''HSCAN''] @ key) ([''MATCH''] @ pattern)"

definition sync_sscan :: "'w send_fn \<Rightarrow> 'rv page_decoder \<Rightarrow> bytes list \<Rightarrow> ('w, redis_error, 'rv scan_iter) io" where
  "sync_sscan send dec key = sync_scan_iter_new send dec ([''SSCAN''] @ key) []"

definition sync_sscan_match ::
  "'w send_fn \<Rightarrow> 'rv page_decoder \<Rightarrow> bytes list \<Rightarrow> bytes list \<Rightarrow> ('w, redis_error, 'rv scan_iter) io" where
  "sync_sscan_match send dec key pattern =
     sync_scan_iter_new send dec ([''SSCAN''] @ key) ([''MATCH''] @ pattern)"

definition sync_zscan :: "'w send_fn \<Rightarrow> 'rv page_decoder \<Rightarrow> bytes list \<Rightarrow> ('w, redis_error, 'rv scan_iter) io" where
  "sync_zscan send dec key = sync_scan_iter_new send dec ([''ZSCAN''] @ key) []"

definition sync_zscan_match ::
  "'w send_fn \<Rightarrow> 'rv page_decoder \<Rightarrow> bytes list \<Rightarrow> bytes list \<Rightarrow> ('w, redis_error, 'rv scan_iter) io" where
  "sync_zscan_match send dec key pattern =
     sync_scan_iter_new send dec ([''ZSCAN''] @ key) ([''MATCH''] @ pattern)"

section \<open>What the server sends\<close>

text \<open>
  \<open>scan_pages send dec spec c w items w'\<close>: fetching the page of cursor \<open>c\<close> and following the cursors it
  returns until one is 0 succeeds, gives the batches that together are \<open>items\<close>, and leaves the
  deployment in \<open>w'\<close>.
\<close>

inductive scan_pages :: "'w send_fn \<Rightarrow> 'rv page_decoder \<Rightarrow> page_spec \<Rightarrow> u64 \<Rightarrow> 'w \<Rightarrow> 'rv list \<Rightarrow> 'w \<Rightarrow> bool"
  for send dec spec where
  last: "send (to_cmd spec c) w = (Inr reply, w') \<Longrightarrow> dec reply = Inr (0, batch) \<Longrightarrow>
     scan_pages send dec spec c w batch w'"
| more: "send (to_cmd spec c) w = (Inr reply, w') \<Longrightarrow> dec reply = Inr (c', batch) \<Longrightarrow> c' \<noteq> 0 \<Longrightarrow>
     scan_pages send dec spec c' w' rest w'' \<Longrightarrow> scan_pages send dec spec c w (batch @ rest) w''"

lemma next_item_batch [simp]:
  "next_item send dec \<lparr>si_spec = spec, si_cursor = c, si_batch = v # vs\<rparr> w =
     Some (Some v, \<lparr>si_spec = spec, si_cursor = c, si_batch = vs\<rparr>, w)"
  by (subst next_item.simps) simp

lemma next_item_done [simp]:
  "next_item send dec \<lparr>si_spec = spec, si_cursor = 0, si_batch = []\<rparr> w =
     Some (None, \<lparr>si_spec = spec, si_cursor = 0, si_batch = []\<rparr>, w)"
  by (subst next_item.simps) simp

lemma next_item_fetch:
  "c \<noteq> 0 \<Longrightarrow> send (to_cmd spec c) w = (Inr reply, w') \<Longrightarrow> dec reply = Inr (c', batch) \<Longrightarrow>
     next_item send dec \<lparr>si_spec = spec, si_cursor = c, si_batch = []\<rparr> w =
     next_item send dec \<lparr>si_spec = spec, si_cursor = c', si_batch = batch\<rparr> w'"
  by (subst next_item.simps) simp

lemma next_item_fail:
  "c \<noteq> 0 \<Longrightarrow> send (to_cmd spec c) w = (Inl e, w') \<Longrightarrow>
     next_item send dec \<lparr>si_spec = spec, si_cursor = c, si_batch = []\<rparr> w =
     Some (None, \<lparr>si_spec = spec, si_cursor = c, si_batch = []\<rparr>, w')"
  by (subst next_item.simps) simp

lemma drain_cong:
  "next_item send dec it w = next_item send dec it' w' \<Longrightarrow> drain send dec it w = drain send dec it' w'"
  by (subst (1 2) drain.simps) simp

lemma drain_batch:
  assumes "drain send dec \<lparr>si_spec = spec, si_cursor = c, si_batch = []\<rparr> w = Some (vs, r)"
  shows "drain send dec \<lparr>si_spec = spec, si_cursor = c, si_batch = batch\<rparr> w = Some (batch @ vs, r)"
proof (induction batch)
  case Nil
  with assms show ?case by simp
next
  case (Cons v batch)
  then show ?case by (subst drain.simps) (simp split: prod.split)
qed

lemma drain_done:
  "drain send dec \<lparr>si_spec = spec, si_cursor = 0, si_batch = []\<rparr> w =
     Some ([], \<lparr>si_spec = spec, si_cursor = 0, si_batch = []\<rparr>, w)"
  by (subst drain.simps) simp

lemma drain_pages:
  assumes "scan_pages send dec spec c w items w'" and "c \<noteq> 0"
  shows "drain send dec \<lparr>si_spec = spec, si_cursor = c, si_batch = []\<rparr> w =
     Some (items, \<lparr>si_spec = spec, si_cursor = 0, si_batch = []\<rparr>, w')"
  using assms
proof (induction rule: scan_pages.induct)
  case (last c w reply w' batch)
  have "drain send dec \<lparr>si_spec = spec, si_cursor = c, si_batch = []\<rparr> w =
      drain send dec \<lparr>si_spec = spec, si_cursor = 0, si_batch = batch\<rparr> w'"
    by (rule drain_cong, rule next_item_fetch) (use last in auto)
  also have "\<dots> = Some (batch @ [], \<lparr>si_spec = spec, si_cursor = 0, si_batch = []\<rparr>, w')"
    by (rule drain_batch, rule drain_done)
  finally show ?case by simp
next
  case (more c w reply w' c' batch rest w'')
  have "drain send dec \<lparr>si_spec = spec, si_cursor = c, si_batch = []\<rparr> w =
      drain send dec \<lparr>si_spec = spec, si_cursor = c', si_batch = batch\<rparr> w'"
    by (rule drain_cong, rule next_item_fetch) (use more in auto)
  also have "\<dots> = Some (batch @ rest, \<lparr>si_spec = spec, si_cursor = 0, si_batch = []\<rparr>, w'')"
    using more.IH [OF more.hyps(3)] by (rule drain_batch)
  finally show ?case .
qed

text \<open>
  C3: a scan returns everything and stops.  When the server answers the cursor 0 and every cursor it
  returns until the final 0, creating the iterator succeeds, the caller's loop ends, and it has seen
  exactly the elements of all the pages, in order, none twice and none skipped, also when pages in
  between are empty; the iterator is then exhausted and every further call gives nothing and sends
  nothing.
\<close>

theorem scan_returns_everything:
  assumes "scan_pages send dec \<lparr>ps_prefix = pfx, ps_suffix = sfx\<rparr> 0 w items w'"
  shows "\<exists>it w1. scan_iter_new send dec pfx sfx w = (Inr it, w1)
    \<and> (\<exists>it'. drain send dec it w1 = Some (items, it', w') \<and> next_item send dec it' v = Some (None, it', v))"
proof -
  let ?spec = "\<lparr>ps_prefix = pfx, ps_suffix = sfx\<rparr>"
  let ?fin = "\<lparr>si_spec = ?spec, si_cursor = 0, si_batch = []\<rparr>"
  from assms show ?thesis
  proof (cases rule: scan_pages.cases)
    case (last reply)
    have "drain send dec \<lparr>si_spec = ?spec, si_cursor = 0, si_batch = items\<rparr> w' = Some (items, ?fin, w')"
      using drain_batch [OF drain_done, where batch = items] by simp
    then show ?thesis
      using last by (auto simp: scan_iter_new_def Let_def)
  next
    case (more reply w1 c batch rest)
    have "drain send dec \<lparr>si_spec = ?spec, si_cursor = c, si_batch = batch\<rparr> w1 = Some (batch @ rest, ?fin, w')"
      by (rule drain_batch, rule drain_pages) (use more in auto)
    then show ?thesis
      using more by (auto simp: scan_iter_new_def Let_def)
  qed
qed

text \<open>A server for examples: it answers a scan page by page.\<close>

fun sample_scan :: "cmd \<Rightarrow> (unit, redis_error, value) io" where
  "sample_scan [AStr _, AU64 c] w =
     (if c = 0 then Inr (VArray [VInt 7, VArray []])
      else if c = 7 then Inr (VArray [VInt 9, VArray [VInt 1, VInt 2]])
      else Inr (VArray [VInt 0, VArray [VInt 3]]), w)"
| "sample_scan _ w = (Inl type_error, w)"

fun sample_page :: "value \<Rightarrow> redis_error + u64 \<times> value list" where
  "sample_page (VArray [VInt c, VArray vs]) = Inr (c, vs)"
| "sample_page _ = Inl type_error"

lemma sample_scan_pages:
  "scan_pages sample_scan sample_page \<lparr>ps_prefix = [''SCAN''], ps_suffix = []\<rparr> 0 () [VInt 1, VInt 2, VInt 3] ()"
proof -
  let ?spec = "\<lparr>ps_prefix = [''SCAN''], ps_suffix = []\<rparr>"
  have "scan_pages sample_scan sample_page ?spec 9 () [VInt 3] ()"
    by (rule scan_pages.last [where reply = "VArray [VInt 0, VArray [VInt 3]]"]) (simp_all add: to_cmd_def)
  then have "scan_pages sample_scan sample_page ?spec 7 () ([VInt 1, VInt 2] @ [VInt 3]) ()"
    by (rule scan_pages.more [where reply = "VArray [VInt 9, VArray [VInt 1, VInt 2]]" and c' = 9, rotated 3])
       (simp_all add: to_cmd_def)
  then have "scan_pages sample_scan sample_page ?spec 0 () ([] @ [VInt 1, VInt 2] @ [VInt 3]) ()"
    by (rule scan_pages.more [where reply = "VArray [VInt 7, VArray []]" and c' = 7, rotated 3])
       (simp_all add: to_cmd_def)
  then show ?thesis by simp
qed

theorem scan_returns_everything_witness:
  "\<exists>it w1. scan_iter_new sample_scan sample_page [''SCAN''] [] () = (Inr it, w1)
    \<and> (\<exists>it'. drain sample_scan sample_page it w1 = Some ([VInt 1, VInt 2, VInt 3], it', ())
         \<and> next_item sample_scan sample_page it' () = Some (None, it', ()))"
  by (rule scan_returns_everything [OF sample_scan_pages])

text \<open>
  C17: a failed page is not the end.  When fetching the next page fails, \<open>next_item\<close> returns nothing, just
  as at the end of the scan, but it keeps the cursor: the iterator is unchanged, and if the server
  answers from then on, calling it again resumes with the page that failed and returns exactly the
  elements still missing.
\<close>

theorem scan_resumes_after_error:
  assumes "c \<noteq> 0" and "send (to_cmd spec c) w = (Inl e, w1)"
    and "scan_pages send dec spec c w1 items w2"
  shows "next_item send dec \<lparr>si_spec = spec, si_cursor = c, si_batch = []\<rparr> w
           = Some (None, \<lparr>si_spec = spec, si_cursor = c, si_batch = []\<rparr>, w1)
    \<and> drain send dec \<lparr>si_spec = spec, si_cursor = c, si_batch = []\<rparr> w1
           = Some (items, \<lparr>si_spec = spec, si_cursor = 0, si_batch = []\<rparr>, w2)"
  using next_item_fail [of c send spec w e w1 dec] drain_pages [OF assms(3,1)] assms(1,2) by simp

fun sample_flaky :: "cmd \<Rightarrow> (bool, redis_error, value) io" where
  "sample_flaky c up = (if up then Inr (VArray [VInt 0, VArray [VInt 3]]) else Inl type_error, True)"

theorem scan_resumes_after_error_witness:
  "next_item sample_flaky sample_page
       \<lparr>si_spec = \<lparr>ps_prefix = [''SCAN''], ps_suffix = []\<rparr>, si_cursor = 5, si_batch = []\<rparr> False
     = Some (None, \<lparr>si_spec = \<lparr>ps_prefix = [''SCAN''], ps_suffix = []\<rparr>, si_cursor = 5, si_batch = []\<rparr>, True)
   \<and> drain sample_flaky sample_page
       \<lparr>si_spec = \<lparr>ps_prefix = [''SCAN''], ps_suffix = []\<rparr>, si_cursor = 5, si_batch = []\<rparr> True
     = Some ([VInt 3], \<lparr>si_spec = \<lparr>ps_prefix = [''SCAN''], ps_suffix = []\<rparr>, si_cursor = 0, si_batch = []\<rparr>, True)"
  by (rule scan_resumes_after_error [where e = type_error])
     (auto intro: scan_pages.last [where reply = "VArray [VInt 0, VArray [VInt 3]]"])

lemma next_item_sync:
  assumes "next_item send dec it w = Some r"
  shows "sync_next send dec it w = Some r"
  apply (rule next_item.raw_induct [where P = "\<lambda>send dec it w r. sync_next send dec it w = Some r", OF _ assms])
  subgoal premises prems for f send dec it w r
    using prems(2)
    by (subst sync_next.simps) (auto intro: prems(1) split: list.splits if_splits prod.splits sum.splits)
  done

lemma sync_next_item:
  assumes "sync_next send dec it w = Some r"
  shows "next_item send dec it w = Some r"
  apply (rule sync_next.raw_induct [where P = "\<lambda>send dec it w r. next_item send dec it w = Some r", OF _ assms])
  subgoal premises prems for f send dec it w r
    using prems(2)
    by (subst next_item.simps) (auto intro: prems(1) split: list.splits if_splits prod.splits sum.splits)
  done

text \<open>
  The blocking iterator is the asynchronous one: given the same connection it creates the same
  iterators and returns the same elements, and runs for ever exactly when the other does.
\<close>

lemma sync_scan_is_async:
  "sync_scan_iter_new send dec pfx sfx = scan_iter_new send dec pfx sfx
   \<and> sync_next send dec it w = next_item send dec it w"
proof
  show "sync_scan_iter_new send dec pfx sfx = scan_iter_new send dec pfx sfx"
    by (simp add: sync_scan_iter_new_def scan_iter_new_def)
  show "sync_next send dec it w = next_item send dec it w"
    by (cases "next_item send dec it w"; cases "sync_next send dec it w")
       (auto dest: next_item_sync sync_next_item)
qed

text \<open>
  The commands of a scan: every page is requested with the keyword and key first, then the cursor in
  decimal, then the pattern.
\<close>

lemma wire_to_cmd:
  assumes "enc_documented enc"
  shows "wire enc (to_cmd spec c) = ps_prefix spec @ [nat_to_string (unat c)] @ ps_suffix spec"
  using assms wire_strs [OF assms] by (simp add: to_cmd_def enc_documented_def)

section \<open>When \<open>next_item\<close> returns\<close>

text \<open>
  \<open>empty_page\<close>: one turn of the loop that fetches a page, finds no element in it and goes on with the
  cursor it brought.  \<open>page_ends\<close>: the loop leaves at this cursor, because the scan is over, because
  the fetch or its decoding fails, or because the page has an element.
\<close>

inductive empty_page :: "'w send_fn \<Rightarrow> 'rv page_decoder \<Rightarrow> page_spec \<Rightarrow> u64 \<times> 'w \<Rightarrow> u64 \<times> 'w \<Rightarrow> bool"
  for send dec spec where
  "c \<noteq> 0 \<Longrightarrow> send (to_cmd spec c) w = (Inr reply, w') \<Longrightarrow> dec reply = Inr (c', []) \<Longrightarrow>
     empty_page send dec spec (c, w) (c', w')"

definition page_ends :: "'w send_fn \<Rightarrow> 'rv page_decoder \<Rightarrow> page_spec \<Rightarrow> u64 \<Rightarrow> 'w \<Rightarrow> bool" where
  "page_ends send dec spec c w =
     (c = 0 \<or> (case send (to_cmd spec c) w of
                  (Inl e, w') \<Rightarrow> True
                | (Inr reply, w') \<Rightarrow> (case dec reply of Inl e \<Rightarrow> True | Inr (c', batch) \<Rightarrow> batch \<noteq> [])))"

inductive_cases empty_page_cases: "empty_page send dec spec (c, w) (c', w')"

lemma page_ends_returns:
  assumes "page_ends send dec spec c w"
  shows "\<exists>r. next_item send dec \<lparr>si_spec = spec, si_cursor = c, si_batch = []\<rparr> w = Some r"
proof (cases "c = 0")
  case False
  then show ?thesis
    using assms
    by (subst next_item.simps)
       (auto simp: page_ends_def neq_Nil_conv split: prod.splits sum.splits)
qed simp

lemma page_ends_or_empty:
  "page_ends send dec spec c w \<or> (\<exists>p. empty_page send dec spec (c, w) p)"
  by (auto simp: page_ends_def empty_page.simps split: prod.splits sum.splits)

lemma empty_page_same:
  assumes "empty_page send dec spec (c, w) (c', w')"
  shows "next_item send dec \<lparr>si_spec = spec, si_cursor = c, si_batch = []\<rparr> w =
    next_item send dec \<lparr>si_spec = spec, si_cursor = c', si_batch = []\<rparr> w'"
  using assms by (auto elim!: empty_page_cases intro: next_item_fetch)

lemma next_item_returns_only:
  assumes "next_item send dec it w = Some r"
  shows "si_batch it = [] \<longrightarrow>
    (\<exists>c' w'. (empty_page send dec (si_spec it))\<^sup>*\<^sup>* (si_cursor it, w) (c', w')
       \<and> page_ends send dec (si_spec it) c' w')"
  apply (rule next_item.raw_induct [where P = "\<lambda>send dec it w r. si_batch it = [] \<longrightarrow>
    (\<exists>c' w'. (empty_page send dec (si_spec it))\<^sup>*\<^sup>* (si_cursor it, w) (c', w')
       \<and> page_ends send dec (si_spec it) c' w')", OF _ assms])
  subgoal premises prems for f send dec it w r
  proof (cases "page_ends send dec (si_spec it) (si_cursor it) w")
    case False
    then obtain reply w' c' where step: "si_cursor it \<noteq> 0"
        "send (to_cmd (si_spec it) (si_cursor it)) w = (Inr reply, w')" "dec reply = Inr (c', [])"
      by (auto simp: page_ends_def split: prod.splits sum.splits)
    show ?thesis
    proof
      assume "si_batch it = []"
      with prems(2) step have "f send dec (it\<lparr>si_cursor := c', si_batch := []\<rparr>) w' = Some r" by simp
      from prems(1) [OF this] step show "\<exists>c' w'. (empty_page send dec (si_spec it))\<^sup>*\<^sup>* (si_cursor it, w) (c', w')
       \<and> page_ends send dec (si_spec it) c' w'"
        by (auto intro: converse_rtranclp_into_rtranclp empty_page.intros)
    qed
  qed blast
  done

text \<open>
  C4: when \<open>next_item\<close> returns.  On an iterator whose batch is used up, the loop returns exactly when
  some finite run of empty pages leads to a cursor at which it leaves (the cursor 0, a failed fetch, an
  undecodable page, or a page with an element).  So it never stops early on an empty page, and the only
  way it can hang is a server that sends empty pages with non-zero cursors for ever.
\<close>

theorem next_item_returns_iff:
  "(\<exists>r. next_item send dec \<lparr>si_spec = spec, si_cursor = c, si_batch = []\<rparr> w = Some r) \<longleftrightarrow>
   (\<exists>c' w'. (empty_page send dec spec)\<^sup>*\<^sup>* (c, w) (c', w') \<and> page_ends send dec spec c' w')"
proof
  assume "\<exists>r. next_item send dec \<lparr>si_spec = spec, si_cursor = c, si_batch = []\<rparr> w = Some r"
  then show "\<exists>c' w'. (empty_page send dec spec)\<^sup>*\<^sup>* (c, w) (c', w') \<and> page_ends send dec spec c' w'"
    using next_item_returns_only by fastforce
next
  assume "\<exists>c' w'. (empty_page send dec spec)\<^sup>*\<^sup>* (c, w) (c', w') \<and> page_ends send dec spec c' w'"
  then obtain c' w' where "(empty_page send dec spec)\<^sup>*\<^sup>* (c, w) (c', w')" "page_ends send dec spec c' w'"
    by blast
  then show "\<exists>r. next_item send dec \<lparr>si_spec = spec, si_cursor = c, si_batch = []\<rparr> w = Some r"
    by (induction rule: converse_rtranclp_induct2) (simp_all only: page_ends_returns empty_page_same)
qed

text \<open>A server that answers every cursor with an empty page and the cursor 7 keeps the loop running.\<close>

lemma endless_empty_pages:
  "next_item (\<lambda>c w. (Inr (VArray [VInt 7, VArray []]), w)) sample_page
     \<lparr>si_spec = spec, si_cursor = 7, si_batch = []\<rparr> w = None"
proof -
  let ?send = "\<lambda>c w. (Inr (VArray [VInt 7, VArray []]), w)"
  have "p = (7, w)" if "(empty_page ?send sample_page spec)\<^sup>*\<^sup>* (7, w) p" for p
    using that by (induction rule: rtranclp_induct) (auto elim: empty_page_cases)
  moreover have "\<not> page_ends ?send sample_page spec 7 w"
    by (simp add: page_ends_def)
  ultimately show ?thesis
    using next_item_returns_only [of ?send sample_page "\<lparr>si_spec = spec, si_cursor = 7, si_batch = []\<rparr>" w]
    by (cases "next_item ?send sample_page \<lparr>si_spec = spec, si_cursor = 7, si_batch = []\<rparr> w") fastforce+
qed

end
