(* ===== verification/Scripts.thy ===== *)
theory Scripts
  imports Scan
begin

text \<open>
  Cached Lua scripts (\<open>src/script.rs\<close>): \<open>EVALSHA\<close> first, and \<open>EVAL\<close> when the server does not know the
  script.  The SHA-1 function is the parameter \<open>sha\<close>; \<open>send\<close> is the owned send of the connection
  (blocking for \<open>invoke\<close> and \<open>load\<close>), \<open>dec\<close> the fork's conversion of the reply.  A key or argument is
  given by the wire arguments its \<open>write_redis_args\<close> appends.
\<close>

record script =
  sc_code :: string
  sc_hash :: string

definition script_new :: "(string \<Rightarrow> string) \<Rightarrow> string \<Rightarrow> script" where
  "script_new sha code = \<lparr>sc_code = code, sc_hash = sha code\<rparr>"

definition get_hash :: "script \<Rightarrow> string" where
  "get_hash s = sc_hash s"

record script_invocation =
  inv_script :: script
  inv_args :: "bytes list"
  inv_keys :: "bytes list"

definition prepare_invoke :: "script \<Rightarrow> script_invocation" where
  "prepare_invoke s = \<lparr>inv_script = s, inv_args = [], inv_keys = []\<rparr>"

definition invocation_arg :: "script_invocation \<Rightarrow> bytes list \<Rightarrow> script_invocation" where
  "invocation_arg i a = i\<lparr>inv_args := inv_args i @ a\<rparr>"

definition invocation_key :: "script_invocation \<Rightarrow> bytes list \<Rightarrow> script_invocation" where
  "invocation_key i k = i\<lparr>inv_keys := inv_keys i @ k\<rparr>"

definition script_arg :: "script \<Rightarrow> bytes list \<Rightarrow> script_invocation" where
  "script_arg s a = invocation_arg (prepare_invoke s) a"

definition script_key :: "script \<Rightarrow> bytes list \<Rightarrow> script_invocation" where
  "script_key s k = invocation_key (prepare_invoke s) k"

definition evalsha_cmd :: "script_invocation \<Rightarrow> cmd" where
  "evalsha_cmd i =
     [AStr ''EVALSHA'', AStr (sc_hash (inv_script i)), AUsize (length (inv_keys i)),
      AGen (inv_keys i), AGen (inv_args i)]"

definition eval_cmd :: "script_invocation \<Rightarrow> cmd" where
  "eval_cmd i =
     [AStr ''EVAL'', AStr (sc_code (inv_script i)), AUsize (length (inv_keys i)),
      AGen (inv_keys i), AGen (inv_args i)]"

definition invoke_async ::
  "'w send_fn \<Rightarrow> (value \<Rightarrow> redis_error + 't) \<Rightarrow> script_invocation \<Rightarrow> ('w, redis_error, 't) io" where
  "invoke_async send dec i w =
     (case send (evalsha_cmd i) w of
        (Inl err, w') \<Rightarrow>
          (if re_kind err = NoScriptError
           then bind_io (send (eval_cmd i)) (\<lambda>v. pure_io (dec v)) w'
           else (Inl err, w'))
      | (Inr v, w') \<Rightarrow> (dec v, w'))"

definition invoke ::
  "'w send_fn \<Rightarrow> (value \<Rightarrow> redis_error + 't) \<Rightarrow> script_invocation \<Rightarrow> ('w, redis_error, 't) io" where
  "invoke send_sync dec i w =
     (case send_sync (evalsha_cmd i) w of
        (Inl err, w') \<Rightarrow>
          (if re_kind err = NoScriptError
           then bind_io (send_sync (eval_cmd i)) (\<lambda>v. pure_io (dec v)) w'
           else (Inl err, w'))
      | (Inr v, w') \<Rightarrow> (dec v, w'))"

definition script_invoke_async ::
  "'w send_fn \<Rightarrow> (value \<Rightarrow> redis_error + 't) \<Rightarrow> script \<Rightarrow> ('w, redis_error, 't) io" where
  "script_invoke_async send dec s = invoke_async send dec (prepare_invoke s)"

definition script_invoke ::
  "'w send_fn \<Rightarrow> (value \<Rightarrow> redis_error + 't) \<Rightarrow> script \<Rightarrow> ('w, redis_error, 't) io" where
  "script_invoke send_sync dec s = invoke send_sync dec (prepare_invoke s)"

definition load_async ::
  "'w send_fn \<Rightarrow> (value \<Rightarrow> redis_error + string) \<Rightarrow> script \<Rightarrow> ('w, redis_error, string) io" where
  "load_async send dec s =
     bind_io (send [AStr ''SCRIPT'', AStr ''LOAD'', AStr (sc_code s)]) (\<lambda>v. pure_io (dec v))"

definition load ::
  "'w send_fn \<Rightarrow> (value \<Rightarrow> redis_error + string) \<Rightarrow> script \<Rightarrow> ('w, redis_error, string) io" where
  "load send_sync dec s =
     bind_io (send_sync [AStr ''SCRIPT'', AStr ''LOAD'', AStr (sc_code s)]) (\<lambda>v. pure_io (dec v))"

section \<open>A server that runs scripts\<close>

text \<open>
  What the documentation of the server says about the two commands: \<open>EVALSHA\<close> runs the cached script of
  that hash, and fails with \<open>NOSCRIPT\<close> and no effect when there is none; \<open>EVAL\<close> caches the script under its
  hash and runs it; both take the number of keys, then the keys, then the arguments.  \<open>cache\<close> reads the
  cache of a server state, \<open>store\<close> adds to it, and \<open>exec\<close> is the effect of a script, which does not change
  the cache.
\<close>

definition script_server ::
  "(bytes list \<Rightarrow> ('w, redis_error, value) io) \<Rightarrow> (string \<Rightarrow> string) \<Rightarrow> ('w \<Rightarrow> string \<rightharpoonup> string)
     \<Rightarrow> (string \<Rightarrow> 'w \<Rightarrow> 'w) \<Rightarrow> (string \<Rightarrow> bytes list \<Rightarrow> bytes list \<Rightarrow> ('w, redis_error, value) io) \<Rightarrow> bool" where
  "script_server server sha cache store exec \<longleftrightarrow>
     (\<forall>h keys args w. cache w h = None \<longrightarrow>
        (\<exists>e. re_kind e = NoScriptError
          \<and> server ([''EVALSHA'', h, nat_to_string (length keys)] @ keys @ args) w = (Inl e, w)))
     \<and> (\<forall>h code keys args w. cache w h = Some code \<longrightarrow>
          server ([''EVALSHA'', h, nat_to_string (length keys)] @ keys @ args) w = exec code keys args w)
     \<and> (\<forall>code keys args w.
          server ([''EVAL'', code, nat_to_string (length keys)] @ keys @ args) w
            = exec code keys args (store code w))
     \<and> (\<forall>code w. cache (store code w) = (cache w)(sha code \<mapsto> code))
     \<and> (\<forall>code keys args w. cache (snd (exec code keys args w)) = cache w)"

lemma wire_evalsha:
  assumes "enc_documented enc"
  shows "wire enc (evalsha_cmd i) =
     [''EVALSHA'', sc_hash (inv_script i), nat_to_string (length (inv_keys i))] @ inv_keys i @ inv_args i"
  using assms by (simp add: evalsha_cmd_def enc_documented_def)

lemma wire_eval:
  assumes "enc_documented enc"
  shows "wire enc (eval_cmd i) =
     [''EVAL'', sc_code (inv_script i), nat_to_string (length (inv_keys i))] @ inv_keys i @ inv_args i"
  using assms by (simp add: eval_cmd_def enc_documented_def)

lemma invoke_async_cached:
  assumes "enc_documented enc" and "script_server server sha cache store exec"
    and "cache w (sc_hash (inv_script i)) = Some code"
    and "exec code (inv_keys i) (inv_args i) w = (r, w')"
    and "\<And>e. r = Inl e \<Longrightarrow> re_kind e \<noteq> NoScriptError"
  shows "invoke_async (\<lambda>c. server (wire enc c)) dec i w = (bind_res r dec, w')"
proof -
  have "server (wire enc (evalsha_cmd i)) w = (r, w')"
    using assms(2-4) unfolding wire_evalsha [OF assms(1)] script_server_def by simp
  with assms(5) show ?thesis
    by (cases r) (auto simp: invoke_async_def)
qed

lemma invoke_async_not_cached:
  assumes "enc_documented enc" and "script_server server sha cache store exec"
    and "cache w (sc_hash (inv_script i)) = None"
    and "exec (sc_code (inv_script i)) (inv_keys i) (inv_args i) (store (sc_code (inv_script i)) w) = (r, w')"
  shows "invoke_async (\<lambda>c. server (wire enc c)) dec i w = (bind_res r dec, w')"
proof -
  obtain e where "re_kind e = NoScriptError" "server (wire enc (evalsha_cmd i)) w = (Inl e, w)"
    using assms(2,3) unfolding wire_evalsha [OF assms(1)] script_server_def by blast
  moreover have "server (wire enc (eval_cmd i)) w = (r, w')"
    using assms(2,4) unfolding wire_eval [OF assms(1)] script_server_def by simp
  ultimately show ?thesis
    by (simp add: invoke_async_def bind_io_def split: sum.split)
qed

text \<open>
  C7: invoking a script runs it exactly once.  Against a server with the documented behaviour, whose
  cache does not hold another script under the hash, and for a script that does not itself fail with
  \<open>NOSCRIPT\<close>, an invocation has the result and the effect of executing that script once on the keys and
  arguments of the invocation, whether it was cached or not, and it is cached afterwards.
\<close>

theorem script_runs_once:
  assumes "enc_documented enc" and "script_server server sha cache store exec"
    and "inv_script i = script_new sha code"
    and "cache w (sha code) = None \<or> cache w (sha code) = Some code"
    and "exec code (inv_keys i) (inv_args i) (if cache w (sha code) = None then store code w else w) = (r, w')"
    and "\<And>e. r = Inl e \<Longrightarrow> re_kind e \<noteq> NoScriptError"
  shows "invoke_async (\<lambda>c. server (wire enc c)) dec i w = (bind_res r dec, w')
    \<and> cache w' (sha code) = Some code"
proof (cases "cache w (sha code) = None")
  case True
  with assms(5) have x: "exec code (inv_keys i) (inv_args i) (store code w) = (r, w')" by simp
  have laws: "cache (snd (exec code (inv_keys i) (inv_args i) (store code w))) = cache (store code w)"
    "cache (store code w) = (cache w)(sha code \<mapsto> code)"
    using assms(2) unfolding script_server_def by blast+
  have "invoke_async (\<lambda>c. server (wire enc c)) dec i w = (bind_res r dec, w')"
    using True x by (intro invoke_async_not_cached [OF assms(1,2)]) (simp_all add: assms(3) script_new_def)
  with laws x show ?thesis by simp
next
  case False
  with assms(4) have c: "cache w (sha code) = Some code" by simp
  with assms(5) have x: "exec code (inv_keys i) (inv_args i) w = (r, w')" by simp
  have law: "cache (snd (exec code (inv_keys i) (inv_args i) w)) = cache w"
    using assms(2) unfolding script_server_def by blast
  have "invoke_async (\<lambda>c. server (wire enc c)) dec i w = (bind_res r dec, w')"
    using c x assms(6)
    by (intro invoke_async_cached [OF assms(1,2), where code = code]) (simp_all add: assms(3) script_new_def)
  with law x c show ?thesis by simp
qed

text \<open>A server for examples: the state is the cache and the number of executions.\<close>

definition sample_exec :: "string \<Rightarrow> bytes list \<Rightarrow> bytes list \<Rightarrow> ((string \<rightharpoonup> string) \<times> nat, redis_error, value) io" where
  "sample_exec code keys args = (\<lambda>(m, n). (Inr (VArray [VInt (of_nat (length keys)), VInt (of_nat (length args))]), m, Suc n))"

definition sample_store :: "string \<Rightarrow> (string \<rightharpoonup> string) \<times> nat \<Rightarrow> (string \<rightharpoonup> string) \<times> nat" where
  "sample_store code = (\<lambda>(m, n). (m(''#'' @ code \<mapsto> code), n))"

definition noscript :: redis_error where
  "noscript = \<lparr>re_kind = NoScriptError, re_timeout = False, re_display = ''NOSCRIPT''\<rparr>"

definition sample_script_server :: "bytes list \<Rightarrow> ((string \<rightharpoonup> string) \<times> nat, redis_error, value) io" where
  "sample_script_server req w =
     (case req of
        cmd # h # n # rest \<Rightarrow>
          (let k = (case parse_digits 0 n of None \<Rightarrow> 0 | Some k \<Rightarrow> k);
               keys = take k rest; args = drop k rest
           in if cmd = ''EVALSHA''
              then (case fst w h of None \<Rightarrow> (Inl noscript, w) | Some code \<Rightarrow> sample_exec code keys args w)
              else sample_exec h keys args (sample_store h w))
      | _ \<Rightarrow> (Inl type_error, w))"

lemma sample_script_server: "script_server sample_script_server (\<lambda>code. ''#'' @ code) fst sample_store sample_exec"
  by (auto simp: script_server_def sample_script_server_def noscript_def sample_exec_def sample_store_def
      parse_digits_nat_to_string split: prod.splits)

theorem script_runs_once_witness:
  "fst (invoke_async (\<lambda>c. sample_script_server (wire sample_enc c)) Inr
       (invocation_arg (script_key (script_new (\<lambda>code. ''#'' @ code) ''return 1'') [''k'']) [''a'', ''b'']) (Map.empty, 0))
     = Inr (VArray [VInt 1, VInt 2])"
proof -
  let ?i = "invocation_arg (script_key (script_new (\<lambda>code. ''#'' @ code) ''return 1'') [''k'']) [''a'', ''b'']"
  let ?w = "(Map.empty, 0) :: (string \<rightharpoonup> string) \<times> nat"
  let ?r = "Inr (VArray [VInt 1, VInt 2]) :: redis_error + value"
  have "invoke_async (\<lambda>c. sample_script_server (wire sample_enc c)) Inr ?i ?w
        = (bind_res ?r Inr, snd (sample_exec ''return 1'' [''k''] [''a'', ''b''] (sample_store ''return 1'' ?w)))
      \<and> fst (snd (sample_exec ''return 1'' [''k''] [''a'', ''b''] (sample_store ''return 1'' ?w))) (''#'' @ ''return 1'')
        = Some ''return 1''"
    by (rule script_runs_once [OF sample_enc_documented sample_script_server])
       (simp_all add: invocation_arg_def script_key_def invocation_key_def prepare_invoke_def script_new_def
          sample_exec_def sample_store_def)
  then show ?thesis by simp
qed

lemma invoke_is_async: "invoke send dec i = invoke_async send dec i"
  by (rule ext) (simp add: invoke_def invoke_async_def)

lemma load_is_async: "load send dec s = load_async send dec s"
  by (simp add: load_def load_async_def)

end
