(* ===== verification/Script_Sessions.thy ===== *)
theory Script_Sessions
  imports Scripts
begin

text \<open>
  Sequences of script invocations (\<open>src/script.rs\<close>) against one server, with the script cache of the
  server flushed at arbitrary moments in between.

  The abstract machine has no cache: it executes the source of each script on the data of the server.
  The detailed one is \<open>invoke_async\<close>, which tries the hash, and sends the source when the server does
  not know it.  The refinement says that the difference cannot be seen in any reply and not in the data.
\<close>

datatype session_step = Invoke script_invocation | Script_Flush

fun run_session ::
  "'w send_fn \<Rightarrow> (value \<Rightarrow> redis_error + 't) \<Rightarrow> ('w \<Rightarrow> 'w) \<Rightarrow> session_step list \<Rightarrow> 'w
     \<Rightarrow> (redis_error + 't) list \<times> 'w" where
  "run_session send dec flush [] w = ([], w)"
| "run_session send dec flush (Invoke i # steps) w =
     (let (r, w1) = invoke_async send dec i w;
          (rs, w2) = run_session send dec flush steps w1
      in (r # rs, w2))"
| "run_session send dec flush (Script_Flush # steps) w = run_session send dec flush steps (flush w)"

fun run_directly ::
  "(string \<Rightarrow> bytes list \<Rightarrow> bytes list \<Rightarrow> ('d, redis_error, value) io) \<Rightarrow> (value \<Rightarrow> redis_error + 't)
     \<Rightarrow> session_step list \<Rightarrow> 'd \<Rightarrow> (redis_error + 't) list \<times> 'd" where
  "run_directly run dec [] d = ([], d)"
| "run_directly run dec (Invoke i # steps) d =
     (let (r, d1) = run (sc_code (inv_script i)) (inv_keys i) (inv_args i) d;
          (rs, d2) = run_directly run dec steps d1
      in (bind_res r dec # rs, d2))"
| "run_directly run dec (Script_Flush # steps) d = run_directly run dec steps d"

text \<open>
  The documented behaviour of the server beyond \<open>script_server\<close>: \<open>data\<close> is what scripts work on and \<open>run\<close>
  the effect of a script on it; caching and flushing scripts leave the data alone, a script cannot see
  the cache, and no script fails with \<open>NOSCRIPT\<close> by itself.
\<close>

definition script_effects ::
  "('w \<Rightarrow> string \<rightharpoonup> string) \<Rightarrow> (string \<Rightarrow> 'w \<Rightarrow> 'w) \<Rightarrow> ('w \<Rightarrow> 'w)
     \<Rightarrow> (string \<Rightarrow> bytes list \<Rightarrow> bytes list \<Rightarrow> ('w, redis_error, value) io) \<Rightarrow> ('w \<Rightarrow> 'd)
     \<Rightarrow> (string \<Rightarrow> bytes list \<Rightarrow> bytes list \<Rightarrow> ('d, redis_error, value) io) \<Rightarrow> bool" where
  "script_effects cache store flush exec data run \<longleftrightarrow>
     (\<forall>code w. data (store code w) = data w)
     \<and> (\<forall>w. data (flush w) = data w \<and> cache (flush w) = Map.empty)
     \<and> (\<forall>code keys args w. run code keys args (data w)
          = (fst (exec code keys args w), data (snd (exec code keys args w))))
     \<and> (\<forall>code keys args d e d'. run code keys args d = (Inl e, d') \<longrightarrow> re_kind e \<noteq> NoScriptError)"

text \<open>The cache holds only scripts of \<open>S\<close>, each under its own hash.\<close>

definition cache_sound :: "(string \<Rightarrow> string) \<Rightarrow> string set \<Rightarrow> (string \<rightharpoonup> string) \<Rightarrow> bool" where
  "cache_sound sha S m \<longleftrightarrow> (\<forall>h code. m h = Some code \<longrightarrow> code \<in> S \<and> h = sha code)"

lemma cache_sound_lookup:
  "cache_sound sha S m \<Longrightarrow> inj_on sha S \<Longrightarrow> code \<in> S \<Longrightarrow> m (sha code) = None \<or> m (sha code) = Some code"
  by (cases "m (sha code)") (auto simp: cache_sound_def dest: inj_onD)

lemma cache_sound_empty [simp]: "cache_sound sha S Map.empty"
  by (simp add: cache_sound_def)

lemma cache_sound_store: "cache_sound sha S m \<Longrightarrow> code \<in> S \<Longrightarrow> cache_sound sha S (m(sha code \<mapsto> code))"
  by (auto simp: cache_sound_def)

text \<open>One invocation simulates one direct execution, and keeps the cache sound.\<close>

lemma invoke_simulates:
  assumes enc: "enc_documented enc" and server: "script_server server sha cache store exec"
    and effects: "script_effects cache store flush exec data run"
    and inj: "inj_on sha S" and code: "code \<in> S" "inv_script i = script_new sha code"
    and sound: "cache_sound sha S (cache w)"
    and inv: "invoke_async (\<lambda>c. server (wire enc c)) dec i w = (r, w1)"
  shows "map_prod (\<lambda>q. bind_res q dec) (\<lambda>d. d) (run code (inv_keys i) (inv_args i) (data w)) = (r, data w1)
    \<and> cache_sound sha S (cache w1)"
proof -
  define w0 where "w0 = (if cache w (sha code) = None then store code w else w)"
  obtain q w2 where x: "exec code (inv_keys i) (inv_args i) w0 = (q, w2)" by fastforce
  have data0: "data w0 = data w"
    using effects by (simp add: w0_def script_effects_def)
  have run: "run code (inv_keys i) (inv_args i) (data w) = (q, data w2)"
    using effects x data0 [symmetric] by (simp add: script_effects_def)
  have no: "re_kind e \<noteq> NoScriptError" if "q = Inl e" for e
    using effects run that unfolding script_effects_def by blast
  have look: "cache w (sha code) = None \<or> cache w (sha code) = Some code"
    using cache_sound_lookup [OF sound inj code(1)] .
  have res: "invoke_async (\<lambda>c. server (wire enc c)) dec i w = (bind_res q dec, w2)"
    using invoke_async_cached [OF enc server, of w i code q w2 dec]
      invoke_async_not_cached [OF enc server, of w i q w2 dec] look x no code(2)
    by (auto simp: w0_def script_new_def)
  have "cache (snd (exec code (inv_keys i) (inv_args i) w0)) = cache w0" "cache (store code w) = (cache w)(sha code \<mapsto> code)"
    using server unfolding script_server_def by blast+
  then have "cache_sound sha S (cache w2)"
    using sound cache_sound_store [OF sound code(1)] x by (simp add: w0_def split: if_splits)
  with res run inv show ?thesis by simp
qed

text \<open>
  C8: the script cache is invisible.  Take any sequence of invocations of scripts built with
  \<open>Script::new\<close>, interleaved in any way with flushes of the server's script cache, against a server with
  the documented behaviour and with hashes that tell these scripts apart.  All replies, errors included,
  and the data at the end are those of executing the source of every script directly, once each and in
  order, and the cache never holds a script under a wrong hash.
\<close>

theorem script_cache_invisible:
  assumes "enc_documented enc" and "script_server server sha cache store exec"
    and "script_effects cache store flush exec data run" and "inj_on sha S"
    and "\<And>i. Invoke i \<in> set steps \<Longrightarrow> \<exists>code \<in> S. inv_script i = script_new sha code"
    and "cache_sound sha S (cache w)"
    and "run_session (\<lambda>c. server (wire enc c)) dec flush steps w = (rs, w')"
  shows "run_directly run dec steps (data w) = (rs, data w') \<and> cache_sound sha S (cache w')"
  using assms(5-7)
proof (induction steps arbitrary: w rs)
  case (Cons step steps)
  show ?case
  proof (cases step)
    case (Invoke i)
    obtain code where code: "code \<in> S" "inv_script i = script_new sha code"
      using Cons.prems(1) Invoke by auto
    obtain r w1 rs' where step1: "invoke_async (\<lambda>c. server (wire enc c)) dec i w = (r, w1)"
        and rest: "run_session (\<lambda>c. server (wire enc c)) dec flush steps w1 = (rs', w')" and rs: "rs = r # rs'"
      using Cons.prems(3) Invoke by (auto simp: Let_def split: prod.splits)
    note sim = invoke_simulates [OF assms(1-4) code Cons.prems(2) step1]
    have "run_directly run dec steps (data w1) = (rs', data w') \<and> cache_sound sha S (cache w')"
      using Cons.IH [OF _ _ rest] Cons.prems(1) sim by auto
    then show ?thesis
      using sim Invoke rs code(2) by (cases "run code (inv_keys i) (inv_args i) (data w)") (auto simp: script_new_def)
  next
    case Script_Flush
    have "data (flush w) = data w" "cache_sound sha S (cache (flush w))"
      using assms(3) by (simp_all add: script_effects_def)
    then show ?thesis
      using Cons.IH [of "flush w"] Cons.prems Script_Flush by simp
  qed
qed simp

definition sample_run :: "string \<Rightarrow> bytes list \<Rightarrow> bytes list \<Rightarrow> (nat, redis_error, value) io" where
  "sample_run code keys args n = (Inr (VArray [VInt (of_nat (length keys)), VInt (of_nat (length args))]), Suc n)"

definition sample_flush :: "(string \<rightharpoonup> string) \<times> nat \<Rightarrow> (string \<rightharpoonup> string) \<times> nat" where
  "sample_flush w = (Map.empty, snd w)"

lemma sample_effects: "script_effects fst sample_store sample_flush sample_exec snd sample_run"
  by (auto simp: script_effects_def sample_store_def sample_flush_def sample_exec_def sample_run_def
      split: prod.splits)

text \<open>Two invocations of one script with a flush in between: both replies and the count of executions.\<close>

theorem script_cache_invisible_witness:
  "\<exists>w'. run_session (\<lambda>c. sample_script_server (wire sample_enc c)) Inr sample_flush
      [Invoke (prepare_invoke (script_new (\<lambda>code. ''#'' @ code) ''return 1'')), Script_Flush,
       Invoke (script_key (script_new (\<lambda>code. ''#'' @ code) ''return 1'') [''k''])] (Map.empty, 0)
    = ([Inr (VArray [VInt 0, VInt 0]), Inr (VArray [VInt 1, VInt 0])], w') \<and> snd w' = 2"
proof -
  let ?s = "script_new (\<lambda>code. ''#'' @ code) ''return 1''"
  let ?steps = "[Invoke (prepare_invoke ?s), Script_Flush, Invoke (script_key ?s [''k''])]"
  obtain rs w' where session: "run_session (\<lambda>c. sample_script_server (wire sample_enc c)) Inr sample_flush
      ?steps (Map.empty, 0) = (rs, w')"
    using prod.exhaust by blast
  have "run_directly sample_run Inr ?steps (snd (Map.empty :: string \<rightharpoonup> string, 0)) = (rs, snd w')
      \<and> cache_sound (\<lambda>code. ''#'' @ code) {''return 1''} (fst w')"
    by (rule script_cache_invisible [OF sample_enc_documented sample_script_server sample_effects _ _ _ session])
       (auto simp: prepare_invoke_def script_key_def invocation_key_def)
  with session show ?thesis
    by (simp add: sample_run_def prepare_invoke_def script_key_def invocation_key_def Let_def)
qed

end
