(* ===== verification/Config_Types.thy ===== *)
theory Config_Types
  imports Errors
begin

text \<open>
  The types of \<open>src/config/common.rs\<close>: subscriptions, protocol, read strategy, addresses, credentials,
  client identity, backoff, periodic checks and TLS mode, each with its conversion to the type of the
  core (\<open>core_...\<close>, \<open>redis_...\<close>), and the \<open>Debug\<close> renderings that redact secrets.  The lowering of a whole
  configuration is in \<open>Config\<close>.
\<close>

section \<open>Configuration types\<close>

datatype pubsub_channel_mode = Exact | Pattern | Sharded

datatype redis_subscription_kind = RedisExact | RedisPattern | RedisSharded

fun mode_to_core :: "pubsub_channel_mode \<Rightarrow> redis_subscription_kind" where
  "mode_to_core Exact = RedisExact"
| "mode_to_core Pattern = RedisPattern"
| "mode_to_core Sharded = RedisSharded"

record pubsub_subscriptions =
  channels :: "pubsub_channel_mode \<rightharpoonup> bytes set"

definition subscriptions_new :: pubsub_subscriptions where
  "subscriptions_new = \<lparr>channels = Map.empty\<rparr>"

definition subscribe :: "pubsub_subscriptions \<Rightarrow> pubsub_channel_mode \<Rightarrow> bytes \<Rightarrow> pubsub_subscriptions" where
  "subscribe s mode channel =
     s\<lparr>channels := (channels s)(mode \<mapsto>
        insert channel (case channels s mode of None \<Rightarrow> {} | Some cs \<Rightarrow> cs))\<rparr>"

definition all_modes :: "pubsub_channel_mode list" where
  "all_modes = [Exact, Pattern, Sharded]"

definition subscriptions_is_empty :: "pubsub_subscriptions \<Rightarrow> bool" where
  "subscriptions_is_empty s =
     list_all (\<lambda>m. case channels s m of None \<Rightarrow> True | Some cs \<Rightarrow> cs = {}) all_modes"

definition subscriptions_to_core :: "pubsub_subscriptions \<Rightarrow> (redis_subscription_kind \<rightharpoonup> bytes set)" where
  "subscriptions_to_core s =
     foldl (\<lambda>info m. case channels s m of None \<Rightarrow> info | Some cs \<Rightarrow> info(mode_to_core m \<mapsto> cs))
       Map.empty all_modes"

datatype protocol_version = RESP2 | RESP3

datatype redis_protocol_version = RedisRESP2 | RedisRESP3

fun protocol_to_redis :: "protocol_version \<Rightarrow> redis_protocol_version" where
  "protocol_to_redis RESP2 = RedisRESP2"
| "protocol_to_redis RESP3 = RedisRESP3"

datatype read_from =
    ReadPrimary | PreferReplica | AZAffinity string | AZAffinityReplicasAndPrimary string | ReadAllNodes

datatype core_read_from =
    CorePrimary | CorePreferReplica | CoreAZAffinity string | CoreAZAffinityReplicasAndPrimary string
  | CoreAllNodes

fun read_from_to_core :: "read_from \<Rightarrow> core_read_from" where
  "read_from_to_core ReadPrimary = CorePrimary"
| "read_from_to_core PreferReplica = CorePreferReplica"
| "read_from_to_core (AZAffinity az) = CoreAZAffinity az"
| "read_from_to_core (AZAffinityReplicasAndPrimary az) = CoreAZAffinityReplicasAndPrimary az"
| "read_from_to_core ReadAllNodes = CoreAllNodes"

record node_address =
  na_host :: string
  na_port :: u16

record core_node_address =
  cna_host :: string
  cna_port :: u16

definition node_address_new :: "string \<Rightarrow> u16 \<Rightarrow> node_address" where
  "node_address_new host port = \<lparr>na_host = host, na_port = port\<rparr>"

definition node_address_default :: node_address where
  "node_address_default = node_address_new ''localhost'' 6379"

definition node_address_to_core :: "node_address \<Rightarrow> core_node_address" where
  "node_address_to_core a = \<lparr>cna_host = na_host a, cna_port = na_port a\<rparr>"

datatype service_type = ElastiCache | MemoryDB

datatype core_service_type = CoreElastiCache | CoreMemoryDB

fun service_type_to_core :: "service_type \<Rightarrow> core_service_type" where
  "service_type_to_core ElastiCache = CoreElastiCache"
| "service_type_to_core MemoryDB = CoreMemoryDB"

record iam_auth_config =
  iam_cluster_name :: string
  iam_region :: string
  iam_service_type :: service_type
  iam_refresh_interval_seconds :: "u32 option"

record core_iam_config =
  ciam_cluster_name :: string
  ciam_region :: string
  ciam_service_type :: core_service_type
  ciam_refresh_interval_seconds :: "u32 option"

definition iam_new :: "string \<Rightarrow> string \<Rightarrow> service_type \<Rightarrow> iam_auth_config" where
  "iam_new cluster region service =
     \<lparr>iam_cluster_name = cluster, iam_region = region, iam_service_type = service,
      iam_refresh_interval_seconds = None\<rparr>"

definition iam_with_refresh_interval_seconds :: "iam_auth_config \<Rightarrow> u32 \<Rightarrow> iam_auth_config" where
  "iam_with_refresh_interval_seconds c seconds = c\<lparr>iam_refresh_interval_seconds := Some seconds\<rparr>"

definition iam_to_core :: "iam_auth_config \<Rightarrow> core_iam_config" where
  "iam_to_core c =
     \<lparr>ciam_cluster_name = iam_cluster_name c, ciam_region = iam_region c,
      ciam_service_type = service_type_to_core (iam_service_type c),
      ciam_refresh_interval_seconds = iam_refresh_interval_seconds c\<rparr>"

record server_credentials =
  sc_username :: "string option"
  sc_password :: "string option"
  sc_iam_config :: "iam_auth_config option"

record authentication_info =
  ai_username :: "string option"
  ai_password :: "string option"
  ai_iam_config :: "core_iam_config option"

definition credentials_password :: "string \<Rightarrow> server_credentials" where
  "credentials_password p = \<lparr>sc_username = None, sc_password = Some p, sc_iam_config = None\<rparr>"

definition credentials_new :: "string \<Rightarrow> string \<Rightarrow> server_credentials" where
  "credentials_new u p = \<lparr>sc_username = Some u, sc_password = Some p, sc_iam_config = None\<rparr>"

definition credentials_iam :: "string \<Rightarrow> iam_auth_config \<Rightarrow> server_credentials" where
  "credentials_iam u iam = \<lparr>sc_username = Some u, sc_password = None, sc_iam_config = Some iam\<rparr>"

definition credentials_with_password :: "server_credentials \<Rightarrow> string \<Rightarrow> server_credentials" where
  "credentials_with_password c p = c\<lparr>sc_password := Some p\<rparr>"

definition credentials_to_core :: "server_credentials \<Rightarrow> authentication_info" where
  "credentials_to_core c =
     \<lparr>ai_username = sc_username c, ai_password = sc_password c,
      ai_iam_config = map_option iam_to_core (sc_iam_config c)\<rparr>"

record client_identity =
  id_cert_pem :: bytes
  id_key_pem :: bytes

definition client_identity_new :: "bytes \<Rightarrow> bytes \<Rightarrow> client_identity" where
  "client_identity_new cert key = \<lparr>id_cert_pem = cert, id_key_pem = key\<rparr>"

definition cert_pem :: "client_identity \<Rightarrow> bytes" where
  "cert_pem self = id_cert_pem self"

definition key_pem :: "client_identity \<Rightarrow> bytes" where
  "key_pem self = id_key_pem self"

lemma identity_accessors [simp]: "cert_pem = id_cert_pem" "key_pem = id_key_pem"
  by (simp_all add: fun_eq_iff cert_pem_def key_pem_def)

record backoff_strategy =
  bo_num_of_retries :: u32
  bo_factor :: u32
  bo_exponent_base :: u32
  bo_jitter_percent :: "u32 option"

record connection_retry_strategy =
  crs_exponent_base :: u32
  crs_factor :: u32
  crs_number_of_retries :: u32
  crs_jitter_percent :: "u32 option"

definition backoff_to_core :: "backoff_strategy \<Rightarrow> connection_retry_strategy" where
  "backoff_to_core b =
     \<lparr>crs_exponent_base = bo_exponent_base b, crs_factor = bo_factor b,
      crs_number_of_retries = bo_num_of_retries b, crs_jitter_percent = bo_jitter_percent b\<rparr>"

text \<open>A \<open>std::time::Duration\<close>: whole seconds and nanoseconds below one second.\<close>

record duration =
  dur_secs :: u64
  dur_nanos :: u32

definition duration_from_secs :: "u64 \<Rightarrow> duration" where
  "duration_from_secs s = \<lparr>dur_secs = s, dur_nanos = 0\<rparr>"

definition as_millis :: "duration \<Rightarrow> nat" where
  "as_millis d = unat (dur_secs d) * 1000 + unat (dur_nanos d) div 1000000"

datatype periodic_checks = ChecksEnabled | ChecksDisabled | ManualInterval u64

datatype periodic_check = CoreChecksEnabled | CoreChecksDisabled | CoreManualInterval duration

fun periodic_checks_to_core :: "periodic_checks \<Rightarrow> periodic_check" where
  "periodic_checks_to_core ChecksEnabled = CoreChecksEnabled"
| "periodic_checks_to_core ChecksDisabled = CoreChecksDisabled"
| "periodic_checks_to_core (ManualInterval secs) = CoreManualInterval (duration_from_secs secs)"

datatype tls_config = NoTls | SecureTls | InsecureTls

datatype tls_mode = CoreNoTls | CoreSecureTls | CoreInsecureTls

fun tls_to_core :: "tls_config \<Rightarrow> tls_mode" where
  "tls_to_core NoTls = CoreNoTls"
| "tls_to_core SecureTls = CoreSecureTls"
| "tls_to_core InsecureTls = CoreInsecureTls"

section \<open>Debug rendering of secrets\<close>

text \<open>
  \<open>f.debug_struct(name).field(...)...finish()\<close> in the plain format.  \<open>esc\<close> is the rendering of a string
  literal (quotes and escapes) by the standard library.
\<close>

definition debug_struct :: "string \<Rightarrow> (string \<times> string) list \<Rightarrow> string" where
  "debug_struct name flds =
     name @ (case flds of
        [] \<Rightarrow> ''''
      | f # fs \<Rightarrow> '' { '' @ fst f @ '': '' @ snd f
                  @ concat (map (\<lambda>g. '', '' @ fst g @ '': '' @ snd g) fs) @ '' }'')"

definition debug_option :: "('a \<Rightarrow> string) \<Rightarrow> 'a option \<Rightarrow> string" where
  "debug_option f x = (case x of None \<Rightarrow> ''None'' | Some v \<Rightarrow> ''Some('' @ f v @ '')'')"

definition iam_debug :: "(string \<Rightarrow> string) \<Rightarrow> iam_auth_config \<Rightarrow> string" where
  "iam_debug esc c =
     debug_struct ''IamAuthConfig''
       [(''cluster_name'', esc (iam_cluster_name c)), (''region'', esc (iam_region c)),
        (''service_type'', case iam_service_type c of ElastiCache \<Rightarrow> ''ElastiCache'' | MemoryDB \<Rightarrow> ''MemoryDB''),
        (''refresh_interval_seconds'',
           debug_option (\<lambda>n. nat_to_string (unat n)) (iam_refresh_interval_seconds c))]"

definition credentials_debug :: "(string \<Rightarrow> string) \<Rightarrow> server_credentials \<Rightarrow> string" where
  "credentials_debug esc c =
     debug_struct ''ServerCredentials''
       [(''username'', debug_option esc (sc_username c)),
        (''password'', debug_option esc (map_option (\<lambda>_. ''<redacted>'') (sc_password c))),
        (''iam_config'', debug_option (iam_debug esc) (sc_iam_config c))]"

definition client_identity_debug :: "(string \<Rightarrow> string) \<Rightarrow> client_identity \<Rightarrow> string" where
  "client_identity_debug esc i =
     debug_struct ''ClientIdentity''
       [(''cert_pem'', ''['' @ nat_to_string (length (id_cert_pem i)) @ '' bytes]''),
        (''key_pem'', esc ''<redacted>'')]"

section \<open>Subscriptions\<close>

lemma mode_to_core_inj [simp]: "mode_to_core m = mode_to_core n \<longleftrightarrow> m = n"
  by (cases m; cases n) auto

lemma all_modes_complete: "m \<in> set all_modes"
  by (cases m) (simp_all add: all_modes_def)

lemma subscriptions_is_empty_iff: "subscriptions_is_empty s \<longleftrightarrow> (\<forall>cs \<in> ran (channels s). cs = {})"
proof -
  have "subscriptions_is_empty s \<longleftrightarrow>
      (\<forall>m. case channels s m of None \<Rightarrow> True | Some cs \<Rightarrow> cs = {})"
    using all_modes_complete by (auto simp: subscriptions_is_empty_def list_all_iff)
  also have "\<dots> \<longleftrightarrow> (\<forall>cs \<in> ran (channels s). cs = {})"
    by (force simp: ran_def split: option.splits)
  finally show ?thesis .
qed

lemma subscribe_channels:
  "channels (subscribe s mode c) m =
     (if m = mode then Some (insert c (case channels s mode of None \<Rightarrow> {} | Some cs \<Rightarrow> cs))
      else channels s m)"
  by (simp add: subscribe_def)

lemma subscribe_not_empty: "\<not> subscriptions_is_empty (subscribe s mode c)"
proof -
  have "insert c (case channels s mode of None \<Rightarrow> {} | Some cs \<Rightarrow> cs)
      \<in> ran (channels (subscribe s mode c))"
    unfolding ran_def using subscribe_channels [of s mode c mode] by auto
  then show ?thesis unfolding subscriptions_is_empty_iff by blast
qed

lemma subscriptions_to_core_at: "subscriptions_to_core s (mode_to_core m) = channels s m"
  by (cases m; cases "channels s Exact"; cases "channels s Pattern"; cases "channels s Sharded")
     (simp_all add: subscriptions_to_core_def all_modes_def)

text \<open>The channels requested by a list of \<open>subscribe\<close> calls, in any order.\<close>

definition subscribe_all :: "pubsub_subscriptions \<Rightarrow> (pubsub_channel_mode \<times> bytes) list \<Rightarrow> pubsub_subscriptions" where
  "subscribe_all s reqs = foldl (\<lambda>t (mode, c). subscribe t mode c) s reqs"

lemma subscribe_all_core:
  "(c \<in> (case subscriptions_to_core (subscribe_all s reqs) (mode_to_core m) of None \<Rightarrow> {} | Some cs \<Rightarrow> cs))
   \<longleftrightarrow> (m, c) \<in> set reqs
     \<or> c \<in> (case subscriptions_to_core s (mode_to_core m) of None \<Rightarrow> {} | Some cs \<Rightarrow> cs)"
proof (induction reqs arbitrary: s)
  case Nil
  show ?case by (simp add: subscribe_all_def)
next
  case (Cons r reqs)
  obtain mode d where r: "r = (mode, d)" by (cases r)
  have "subscribe_all s (r # reqs) = subscribe_all (subscribe s mode d) reqs"
    by (simp add: subscribe_all_def r)
  moreover have "(c \<in> (case subscriptions_to_core (subscribe s mode d) (mode_to_core m) of None \<Rightarrow> {} | Some cs \<Rightarrow> cs))
      \<longleftrightarrow> (m, c) = r
        \<or> c \<in> (case subscriptions_to_core s (mode_to_core m) of None \<Rightarrow> {} | Some cs \<Rightarrow> cs)"
    by (auto simp: r subscriptions_to_core_at subscribe_channels)
  ultimately show ?case
    using Cons.IH [of "subscribe s mode d"] by auto
qed

lemma subscribe_all_is_empty: "subscriptions_is_empty (subscribe_all subscriptions_new reqs) \<longleftrightarrow> reqs = []"
proof (cases reqs rule: rev_cases)
  case Nil
  then show ?thesis
    by (simp add: subscribe_all_def subscriptions_is_empty_iff subscriptions_new_def)
next
  case (snoc rs r)
  then show ?thesis
    by (cases r) (simp add: subscribe_all_def subscribe_not_empty)
qed


section \<open>Secrets\<close>

text \<open>
  No secret reaches the \<open>Debug\<close> output.  Whatever the password, the rendered credentials are the
  same, and whatever the private key, the rendered client identity is the same; only the presence of a
  password and the length of the certificate show.
\<close>

lemma debug_redacts_secrets:
  "credentials_debug esc (c\<lparr>sc_password := Some p\<rparr>) = credentials_debug esc (c\<lparr>sc_password := Some q\<rparr>)
   \<and> (client_identity_debug esc (client_identity_new cert key1)
         = client_identity_debug esc (client_identity_new cert' key2) \<longleftrightarrow> length cert = length cert')"
proof -
  have "nat_to_string m = nat_to_string n \<longleftrightarrow> m = n" for m n
    by (metis option.inject parse_digits_nat_to_string)
  then show ?thesis
    by (auto simp: credentials_debug_def client_identity_debug_def client_identity_new_def
        debug_struct_def append_eq_append_conv2)
qed

end
