(* ===== verification/Config.thy ===== *)
theory Config
  imports Config_Types
begin

text \<open>
  The two client configurations (\<open>src/config/standalone.rs\<close>, \<open>src/config/cluster.rs\<close>) and the builder
  setters and request lowering that the macro \<open>impl_common_config_builders\<close> of
  \<open>src/config/common.rs\<close> generates for both.

  Both configurations extend the record \<open>common_config\<close>, so that a setter of the macro is one function
  on every extension of it.  \<open>ConnectionRequest\<close> and its \<open>Default\<close> belong to the core: the record
  \<open>connection_request\<close> holds the fields the sources name, and the default value is the parameter \<open>D\<close> of
  the lowering; \<open>default_documented\<close> states the part of it that the tests rely on.  URL parsing
  (\<open>IntoConnectionInfo\<close>) belongs to the fork and is the parameter \<open>into\<close>.
\<close>

record common_config =
  cfg_addresses :: "node_address list"
  cfg_tls :: tls_config
  cfg_credentials :: "server_credentials option"
  cfg_read_from :: read_from
  cfg_request_timeout :: "duration option"
  cfg_connection_timeout :: "duration option"
  cfg_reconnect_strategy :: "backoff_strategy option"
  cfg_client_name :: "string option"
  cfg_protocol :: protocol_version
  cfg_inflight_requests_limit :: "u32 option"
  cfg_lazy_connect :: bool
  cfg_pubsub_subscriptions :: "pubsub_subscriptions option"
  cfg_force_pubsub_channel :: bool
  cfg_root_certs :: "bytes list"
  cfg_client_identity :: "client_identity option"

record client_config = common_config +
  cfg_database_id :: i64

record cluster_config = common_config +
  cfg_periodic_checks :: periodic_checks

definition client_config_new :: "node_address list \<Rightarrow> client_config" where
  "client_config_new addresses =
     \<lparr>cfg_addresses = addresses, cfg_tls = NoTls, cfg_credentials = None, cfg_read_from = ReadPrimary,
      cfg_request_timeout = None, cfg_connection_timeout = None, cfg_reconnect_strategy = None,
      cfg_client_name = None, cfg_protocol = RESP3, cfg_inflight_requests_limit = None,
      cfg_lazy_connect = False, cfg_pubsub_subscriptions = None, cfg_force_pubsub_channel = False,
      cfg_root_certs = [], cfg_client_identity = None, cfg_database_id = 0\<rparr>"

definition cluster_config_new :: "node_address list \<Rightarrow> cluster_config" where
  "cluster_config_new addresses =
     \<lparr>cfg_addresses = addresses, cfg_tls = NoTls, cfg_credentials = None, cfg_read_from = ReadPrimary,
      cfg_request_timeout = None, cfg_connection_timeout = None, cfg_reconnect_strategy = None,
      cfg_client_name = None, cfg_protocol = RESP3, cfg_inflight_requests_limit = None,
      cfg_lazy_connect = False, cfg_pubsub_subscriptions = None, cfg_force_pubsub_channel = False,
      cfg_root_certs = [], cfg_client_identity = None, cfg_periodic_checks = ChecksEnabled\<rparr>"

section \<open>Builder setters\<close>

definition client_with_address :: "string \<Rightarrow> u16 \<Rightarrow> client_config" where
  "client_with_address host port = client_config_new [node_address_new host port]"

definition cluster_with_address :: "string \<Rightarrow> u16 \<Rightarrow> cluster_config" where
  "cluster_with_address host port = cluster_config_new [node_address_new host port]"

definition with_tls :: "tls_config \<Rightarrow> 'z common_config_scheme \<Rightarrow> 'z common_config_scheme" where
  "with_tls tls c = c\<lparr>cfg_tls := tls\<rparr>"

definition tls_ca_cert :: "bytes \<Rightarrow> 'z common_config_scheme \<Rightarrow> 'z common_config_scheme" where
  "tls_ca_cert pem c = c\<lparr>cfg_root_certs := cfg_root_certs c @ [pem]\<rparr>"

definition with_client_identity :: "bytes \<Rightarrow> bytes \<Rightarrow> 'z common_config_scheme \<Rightarrow> 'z common_config_scheme" where
  "with_client_identity cert key c = c\<lparr>cfg_client_identity := Some (client_identity_new cert key)\<rparr>"

definition with_credentials :: "server_credentials \<Rightarrow> 'z common_config_scheme \<Rightarrow> 'z common_config_scheme" where
  "with_credentials creds c = c\<lparr>cfg_credentials := Some creds\<rparr>"

definition with_read_from :: "read_from \<Rightarrow> 'z common_config_scheme \<Rightarrow> 'z common_config_scheme" where
  "with_read_from rf c = c\<lparr>cfg_read_from := rf\<rparr>"

definition with_request_timeout :: "duration \<Rightarrow> 'z common_config_scheme \<Rightarrow> 'z common_config_scheme" where
  "with_request_timeout t c = c\<lparr>cfg_request_timeout := Some t\<rparr>"

definition with_connection_timeout :: "duration \<Rightarrow> 'z common_config_scheme \<Rightarrow> 'z common_config_scheme" where
  "with_connection_timeout t c = c\<lparr>cfg_connection_timeout := Some t\<rparr>"

definition with_inflight_requests_limit :: "u32 \<Rightarrow> 'z common_config_scheme \<Rightarrow> 'z common_config_scheme" where
  "with_inflight_requests_limit n c = c\<lparr>cfg_inflight_requests_limit := Some n\<rparr>"

definition with_client_name :: "string \<Rightarrow> 'z common_config_scheme \<Rightarrow> 'z common_config_scheme" where
  "with_client_name name c = c\<lparr>cfg_client_name := Some name\<rparr>"

definition with_protocol :: "protocol_version \<Rightarrow> 'z common_config_scheme \<Rightarrow> 'z common_config_scheme" where
  "with_protocol p c = c\<lparr>cfg_protocol := p\<rparr>"

definition with_lazy_connect :: "bool \<Rightarrow> 'z common_config_scheme \<Rightarrow> 'z common_config_scheme" where
  "with_lazy_connect b c = c\<lparr>cfg_lazy_connect := b\<rparr>"

definition with_reconnect_strategy :: "backoff_strategy \<Rightarrow> 'z common_config_scheme \<Rightarrow> 'z common_config_scheme" where
  "with_reconnect_strategy s c = c\<lparr>cfg_reconnect_strategy := Some s\<rparr>"

definition with_subscriptions :: "pubsub_subscriptions \<Rightarrow> 'z common_config_scheme \<Rightarrow> 'z common_config_scheme" where
  "with_subscriptions s c = c\<lparr>cfg_pubsub_subscriptions := Some s\<rparr>"

definition enable_pubsub :: "'z common_config_scheme \<Rightarrow> 'z common_config_scheme" where
  "enable_pubsub c = c\<lparr>cfg_force_pubsub_channel := True\<rparr>"

definition with_database_id :: "i64 \<Rightarrow> client_config \<Rightarrow> client_config" where
  "with_database_id db c = c\<lparr>cfg_database_id := db\<rparr>"

definition with_periodic_checks :: "periodic_checks \<Rightarrow> cluster_config \<Rightarrow> cluster_config" where
  "with_periodic_checks p c = c\<lparr>cfg_periodic_checks := p\<rparr>"

lemmas setter_defs = with_tls_def tls_ca_cert_def with_client_identity_def with_credentials_def
  with_read_from_def with_request_timeout_def with_connection_timeout_def
  with_inflight_requests_limit_def with_client_name_def with_protocol_def with_lazy_connect_def
  with_reconnect_strategy_def with_subscriptions_def enable_pubsub_def with_database_id_def
  with_periodic_checks_def

section \<open>Lowering into a connection request\<close>

record connection_request =
  cr_addresses :: "core_node_address list"
  cr_tls_mode :: "tls_mode option"
  cr_read_from :: "core_read_from option"
  cr_protocol :: "redis_protocol_version option"
  cr_client_name :: "string option"
  cr_lib_name :: "string option"
  cr_lazy_connect :: bool
  cr_inflight_requests_limit :: "u32 option"
  cr_tcp_nodelay :: bool
  cr_root_certs :: "bytes list"
  cr_client_cert :: bytes
  cr_client_key :: bytes
  cr_pubsub_subscriptions :: "(redis_subscription_kind \<rightharpoonup> bytes set) option"
  cr_authentication_info :: "authentication_info option"
  cr_request_timeout :: "u32 option"
  cr_connection_timeout :: "u32 option"
  cr_connection_retry_strategy :: "connection_retry_strategy option"
  cr_cluster_mode_enabled :: bool
  cr_database_id :: i64
  cr_periodic_checks :: "periodic_check option"

definition duration_as_millis_u32 :: "duration \<Rightarrow> u32" where
  "duration_as_millis_u32 d = (if as_millis d < 2 ^ 32 then of_nat (as_millis d) else - 1)"

text \<open>\<open>if let Some(x) = o { req.field = ...; }\<close>\<close>

definition apply_opt :: "('a \<Rightarrow> 'r \<Rightarrow> 'r) \<Rightarrow> 'a option \<Rightarrow> 'r \<Rightarrow> 'r" where
  "apply_opt f x r = (case x of None \<Rightarrow> r | Some v \<Rightarrow> f v r)"

definition common_request ::
  "'z connection_request_scheme \<Rightarrow> 'y common_config_scheme \<Rightarrow> 'z connection_request_scheme" where
  "common_request D c =
     (let req = D\<lparr>cr_addresses := map node_address_to_core (cfg_addresses c),
                  cr_tls_mode := Some (tls_to_core (cfg_tls c)),
                  cr_read_from := Some (read_from_to_core (cfg_read_from c)),
                  cr_protocol := Some (protocol_to_redis (cfg_protocol c)),
                  cr_client_name := cfg_client_name c,
                  cr_lib_name := Some ''GlideRust'',
                  cr_lazy_connect := cfg_lazy_connect c,
                  cr_inflight_requests_limit := cfg_inflight_requests_limit c,
                  cr_tcp_nodelay := True\<rparr>;
          req = (if cfg_root_certs c \<noteq> [] then req\<lparr>cr_root_certs := cfg_root_certs c\<rparr> else req);
          req = apply_opt (\<lambda>i r. r\<lparr>cr_client_cert := cert_pem i, cr_client_key := key_pem i\<rparr>)
                  (cfg_client_identity c) req;
          req = apply_opt (\<lambda>s r. r\<lparr>cr_pubsub_subscriptions := Some (subscriptions_to_core s)\<rparr>)
                  (cfg_pubsub_subscriptions c) req;
          req = apply_opt (\<lambda>a r. r\<lparr>cr_authentication_info := Some (credentials_to_core a)\<rparr>)
                  (cfg_credentials c) req;
          req = apply_opt (\<lambda>t r. r\<lparr>cr_request_timeout := Some (duration_as_millis_u32 t)\<rparr>)
                  (cfg_request_timeout c) req;
          req = apply_opt (\<lambda>t r. r\<lparr>cr_connection_timeout := Some (duration_as_millis_u32 t)\<rparr>)
                  (cfg_connection_timeout c) req;
          req = apply_opt (\<lambda>s r. r\<lparr>cr_connection_retry_strategy := Some (backoff_to_core s)\<rparr>)
                  (cfg_reconnect_strategy c) req
      in req)"

definition client_to_request ::
  "'z connection_request_scheme \<Rightarrow> client_config \<Rightarrow> 'z connection_request_scheme" where
  "client_to_request D c =
     (common_request D c)\<lparr>cr_cluster_mode_enabled := False, cr_database_id := cfg_database_id c\<rparr>"

definition cluster_to_request ::
  "'z connection_request_scheme \<Rightarrow> cluster_config \<Rightarrow> 'z connection_request_scheme" where
  "cluster_to_request D c =
     (common_request D c)\<lparr>cr_cluster_mode_enabled := True,
        cr_periodic_checks := Some (periodic_checks_to_core (cfg_periodic_checks c))\<rparr>"

section \<open>Building a configuration from connection URLs\<close>

datatype connection_addr =
    Tcp string u16
  | TcpTls (tls_host: string) (tls_port: u16) (tls_insecure: bool) (tls_params: "unit option")
  | Unix string

record redis_connection_info =
  rci_db :: i64
  rci_username :: "string option"
  rci_password :: "string option"
  rci_protocol :: redis_protocol_version
  rci_client_name :: "string option"

record connection_info =
  ci_addr :: connection_addr
  ci_redis :: redis_connection_info

fun split_connection_addr :: "connection_addr \<Rightarrow> (node_address \<times> tls_config) result" where
  "split_connection_addr (Tcp host port) = Inr (node_address_new host port, NoTls)"
| "split_connection_addr (TcpTls host port insecure params) =
     (if params \<noteq> None
      then Inl (Configuration (''ConnectionInfo carries TLS certificate parameters (TlsCertificates) that ''
             @ ''cannot be mapped; configure them via the config's `root_certs` field and ''
             @ ''`client_identity(cert, key)` instead''))
      else Inr (node_address_new host port, if insecure then InsecureTls else SecureTls))"
| "split_connection_addr (Unix path) =
     Inl (Configuration ''unix-socket connections are not supported by glide-core'')"

fun from_redis_protocol :: "redis_protocol_version \<Rightarrow> protocol_version" where
  "from_redis_protocol RedisRESP2 = RESP2"
| "from_redis_protocol RedisRESP3 = RESP3"

fun credentials_from_info :: "string option \<Rightarrow> string option \<Rightarrow> server_credentials option" where
  "credentials_from_info None None = None"
| "credentials_from_info u p = Some \<lparr>sc_username = u, sc_password = p, sc_iam_config = None\<rparr>"

definition config_error :: "redis_error \<Rightarrow> glide_error" where
  "config_error e = Configuration (re_display e)"

definition from_connection_info :: "('u \<Rightarrow> redis_error + connection_info) \<Rightarrow> 'u \<Rightarrow> client_config result" where
  "from_connection_info into url =
     bind_res (map_err config_error (into url)) (\<lambda>info.
     bind_res (split_connection_addr (ci_addr info)) (\<lambda>(address, tls).
       let cfg = with_tls tls (client_config_new [address]) in
       Inr (cfg\<lparr>cfg_database_id := rci_db (ci_redis info),
                cfg_protocol := from_redis_protocol (rci_protocol (ci_redis info)),
                cfg_client_name := rci_client_name (ci_redis info),
                cfg_credentials := credentials_from_info (rci_username (ci_redis info))
                                     (rci_password (ci_redis info))\<rparr>)))"

definition from_url :: "(string \<Rightarrow> redis_error + connection_info) \<Rightarrow> string \<Rightarrow> client_config result" where
  "from_url into url = from_connection_info into url"

text \<open>The body of the loop of \<open>from_urls\<close> after the first URL: the settings have to agree.\<close>

definition check_same_settings ::
  "tls_config \<times> redis_connection_info \<Rightarrow> tls_config \<times> redis_connection_info \<Rightarrow> unit result" where
  "check_same_settings first this =
     (case (first, this) of ((first_tls, first_redis), (tls, redis)) \<Rightarrow>
      if rci_password redis \<noteq> rci_password first_redis
        then Inl (Configuration ''Cannot use different password among initial nodes.'')
      else if rci_username redis \<noteq> rci_username first_redis
        then Inl (Configuration ''Cannot use different username among initial nodes.'')
      else if rci_client_name redis \<noteq> rci_client_name first_redis
        then Inl (Configuration ''Cannot use different client_name among initial nodes.'')
      else if rci_db redis \<noteq> rci_db first_redis
        then Inl (Configuration ''Cannot use different database among initial nodes.'')
      else if tls \<noteq> first_tls
        then Inl (Configuration ''Cannot use different TLS modes among initial nodes.'')
      else Inr ())"

fun from_urls_loop ::
  "('u \<Rightarrow> redis_error + connection_info) \<Rightarrow> 'u list \<Rightarrow> node_address list
     \<Rightarrow> (tls_config \<times> redis_connection_info) option
     \<Rightarrow> (node_address list \<times> (tls_config \<times> redis_connection_info) option) result" where
  "from_urls_loop into [] addresses first = Inr (addresses, first)"
| "from_urls_loop into (url # urls) addresses first =
     bind_res (map_err config_error (into url)) (\<lambda>info.
     bind_res (split_connection_addr (ci_addr info)) (\<lambda>(address, tls).
       let addresses = addresses @ [address] in
       case first of
         None \<Rightarrow> from_urls_loop into urls addresses (Some (tls, ci_redis info))
       | Some f \<Rightarrow>
           bind_res (check_same_settings f (tls, ci_redis info)) (\<lambda>_.
             from_urls_loop into urls addresses first)))"

definition from_urls :: "('u \<Rightarrow> redis_error + connection_info) \<Rightarrow> 'u list \<Rightarrow> cluster_config result" where
  "from_urls into urls =
     bind_res (from_urls_loop into urls [] None) (\<lambda>(addresses, first).
       case first of
         None \<Rightarrow> Inl (Configuration ''at least one node URL is required'')
       | Some (tls, redis) \<Rightarrow>
           if rci_db redis \<noteq> 0
           then Inl (Configuration ''cluster deployments only support database 0'')
           else (let cfg = with_tls tls (cluster_config_new addresses) in
             Inr (cfg\<lparr>cfg_protocol := from_redis_protocol (rci_protocol redis),
                      cfg_client_name := rci_client_name redis,
                      cfg_credentials := credentials_from_info (rci_username redis) (rci_password redis)\<rparr>)))"

section \<open>Timeouts\<close>

text \<open>
  C40: a timeout is lowered to whole milliseconds and saturates: the value the core receives is the
  number of milliseconds of the duration, cut at the largest \<open>u32\<close>, so that a longer timeout never
  becomes a shorter one by wrapping.
\<close>

theorem duration_as_millis_u32_saturates:
  "unat (duration_as_millis_u32 d) = min (as_millis d) (2 ^ 32 - 1)"
proof (cases "as_millis d < 2 ^ 32")
  case True
  then show ?thesis by (simp add: duration_as_millis_u32_def unat_of_nat take_bit_eq_mod)
next
  case False
  then show ?thesis by (simp add: duration_as_millis_u32_def unsigned_minus_1_eq_mask mask_eq_exp_minus_1)
qed

section \<open>Requests\<close>

text \<open>What the tests and comments of the repository say about \<open>ConnectionRequest::default()\<close>.\<close>

definition default_documented :: "'z connection_request_scheme \<Rightarrow> bool" where
  "default_documented D \<longleftrightarrow>
     cr_root_certs D = [] \<and> cr_client_cert D = [] \<and> cr_client_key D = []
     \<and> cr_pubsub_subscriptions D = None \<and> cr_authentication_info D = None
     \<and> cr_request_timeout D = None \<and> cr_connection_timeout D = None
     \<and> cr_connection_retry_strategy D = None \<and> cr_periodic_checks D = None
     \<and> cr_database_id D = 0"

definition identity_pems :: "client_identity option \<Rightarrow> bytes \<times> bytes" where
  "identity_pems i = (case i of None \<Rightarrow> ([], []) | Some j \<Rightarrow> (id_cert_pem j, id_key_pem j))"

lemma apply_opt_simps [simp]: "apply_opt f None r = r" "apply_opt f (Some x) r = f x r"
  by (simp_all add: apply_opt_def)

lemma apply_opt_keeps:
  assumes "\<And>v r. F (f v r) = F r"
  shows "F (apply_opt f x r) = F r"
  using assms by (cases x) auto

lemma default_documented_fields:
  assumes "default_documented D"
  shows "cr_root_certs (common_request D c) = cfg_root_certs c"
    and "(cr_client_cert (common_request D c), cr_client_key (common_request D c))
           = identity_pems (cfg_client_identity c)"
    and "cr_pubsub_subscriptions (common_request D c)
           = map_option subscriptions_to_core (cfg_pubsub_subscriptions c)"
    and "cr_authentication_info (common_request D c) = map_option credentials_to_core (cfg_credentials c)"
    and "cr_request_timeout (common_request D c)
           = map_option duration_as_millis_u32 (cfg_request_timeout c)"
    and "cr_connection_timeout (common_request D c)
           = map_option duration_as_millis_u32 (cfg_connection_timeout c)"
    and "cr_connection_retry_strategy (common_request D c)
           = map_option backoff_to_core (cfg_reconnect_strategy c)"
  using assms
  by (simp_all add: common_request_def default_documented_def identity_pems_def Let_def apply_opt_def
      split: option.splits)

lemma common_request_fields [simp]:
  "cr_addresses (common_request D c) = map node_address_to_core (cfg_addresses c)"
  "cr_tls_mode (common_request D c) = Some (tls_to_core (cfg_tls c))"
  "cr_read_from (common_request D c) = Some (read_from_to_core (cfg_read_from c))"
  "cr_protocol (common_request D c) = Some (protocol_to_redis (cfg_protocol c))"
  "cr_client_name (common_request D c) = cfg_client_name c"
  "cr_lib_name (common_request D c) = Some ''GlideRust''"
  "cr_lazy_connect (common_request D c) = cfg_lazy_connect c"
  "cr_inflight_requests_limit (common_request D c) = cfg_inflight_requests_limit c"
  "cr_tcp_nodelay (common_request D c) = True"
  "cr_cluster_mode_enabled (common_request D c) = cr_cluster_mode_enabled D"
  "cr_database_id (common_request D c) = cr_database_id D"
  "cr_periodic_checks (common_request D c) = cr_periodic_checks D"
  "connection_request.more (common_request D c) = connection_request.more D"
  by (simp_all add: common_request_def Let_def apply_opt_keeps [of cr_addresses]
      apply_opt_keeps [of cr_tls_mode] apply_opt_keeps [of cr_read_from] apply_opt_keeps [of cr_protocol]
      apply_opt_keeps [of cr_client_name] apply_opt_keeps [of cr_lib_name]
      apply_opt_keeps [of cr_lazy_connect] apply_opt_keeps [of cr_inflight_requests_limit]
      apply_opt_keeps [of cr_tcp_nodelay] apply_opt_keeps [of cr_cluster_mode_enabled]
      apply_opt_keeps [of cr_database_id] apply_opt_keeps [of cr_periodic_checks]
      apply_opt_keeps [of connection_request.more])

lemma client_to_request_fields [simp]:
  "cr_addresses (client_to_request D c) = map node_address_to_core (cfg_addresses c)"
  "cr_tls_mode (client_to_request D c) = Some (tls_to_core (cfg_tls c))"
  "cr_protocol (client_to_request D c) = Some (protocol_to_redis (cfg_protocol c))"
  "cr_client_name (client_to_request D c) = cfg_client_name c"
  "cr_database_id (client_to_request D c) = cfg_database_id c"
  "cr_authentication_info (client_to_request D c) = cr_authentication_info (common_request D c)"
  by (simp_all add: client_to_request_def)

text \<open>The conversions to the core's types lose nothing.\<close>

lemma tls_to_core_inj [simp]: "tls_to_core a = tls_to_core b \<longleftrightarrow> a = b"
  by (cases a; cases b) auto

lemma protocol_to_redis_inj [simp]: "protocol_to_redis a = protocol_to_redis b \<longleftrightarrow> a = b"
  by (cases a; cases b) auto

lemma read_from_to_core_inj [simp]: "read_from_to_core a = read_from_to_core b \<longleftrightarrow> a = b"
  by (cases a; cases b) auto

lemma node_address_to_core_inj [simp]: "node_address_to_core a = node_address_to_core b \<longleftrightarrow> a = b"
  by (cases a; cases b) (auto simp: node_address_to_core_def)

lemma map_node_address_to_core_inj [simp]:
  "map node_address_to_core xs = map node_address_to_core ys \<longleftrightarrow> xs = ys"
  by (rule inj_map_eq_map) (simp add: inj_def)

lemma service_type_to_core_inj [simp]: "service_type_to_core a = service_type_to_core b \<longleftrightarrow> a = b"
  by (cases a; cases b) auto

lemma iam_to_core_inj [simp]: "iam_to_core a = iam_to_core b \<longleftrightarrow> a = b"
  by (cases a; cases b) (auto simp: iam_to_core_def)

lemma credentials_to_core_inj [simp]: "credentials_to_core a = credentials_to_core b \<longleftrightarrow> a = b"
proof -
  have "map_option iam_to_core x = map_option iam_to_core y \<longleftrightarrow> x = y" for x y
    by (cases x; cases y) auto
  then show ?thesis
    by (cases a; cases b) (auto simp: credentials_to_core_def)
qed

lemma backoff_to_core_inj [simp]: "backoff_to_core a = backoff_to_core b \<longleftrightarrow> a = b"
  by (cases a; cases b) (auto simp: backoff_to_core_def)

lemma subscriptions_to_core_inj [simp]: "subscriptions_to_core a = subscriptions_to_core b \<longleftrightarrow> a = b"
proof
  assume "subscriptions_to_core a = subscriptions_to_core b"
  then have "channels a m = channels b m" for m
    by (metis subscriptions_to_core_at)
  then have "channels a = channels b" by (rule ext)
  then show "a = b" by (cases a; cases b) simp
qed simp

lemma map_option_inj_iff:
  assumes "\<And>a b. f a = f b \<longleftrightarrow> a = b"
  shows "map_option f x = map_option f y \<longleftrightarrow> x = y"
  using assms by (cases x; cases y) auto

lemma periodic_checks_to_core_inj [simp]: "periodic_checks_to_core a = periodic_checks_to_core b \<longleftrightarrow> a = b"
  by (cases a; cases b) (auto simp: duration_from_secs_def)

text \<open>
  The configurations that mean the same to the core: the timeouts count in saturated milliseconds, an
  absent client identity is one with empty certificate and key, and the flag that forces the push
  channel is not part of the request.
\<close>

definition same_for_core :: "'z common_config_scheme \<Rightarrow> 'y common_config_scheme \<Rightarrow> bool" where
  "same_for_core c d \<longleftrightarrow>
     cfg_addresses c = cfg_addresses d \<and> cfg_tls c = cfg_tls d \<and> cfg_credentials c = cfg_credentials d
     \<and> cfg_read_from c = cfg_read_from d
     \<and> map_option duration_as_millis_u32 (cfg_request_timeout c)
         = map_option duration_as_millis_u32 (cfg_request_timeout d)
     \<and> map_option duration_as_millis_u32 (cfg_connection_timeout c)
         = map_option duration_as_millis_u32 (cfg_connection_timeout d)
     \<and> cfg_reconnect_strategy c = cfg_reconnect_strategy d \<and> cfg_client_name c = cfg_client_name d
     \<and> cfg_protocol c = cfg_protocol d
     \<and> cfg_inflight_requests_limit c = cfg_inflight_requests_limit d
     \<and> cfg_lazy_connect c = cfg_lazy_connect d
     \<and> cfg_pubsub_subscriptions c = cfg_pubsub_subscriptions d
     \<and> cfg_root_certs c = cfg_root_certs d
     \<and> identity_pems (cfg_client_identity c) = identity_pems (cfg_client_identity d)"

lemma connection_request_eqI:
  fixes r s :: "'z connection_request_scheme"
  assumes "cr_addresses r = cr_addresses s" "cr_tls_mode r = cr_tls_mode s"
    "cr_read_from r = cr_read_from s" "cr_protocol r = cr_protocol s"
    "cr_client_name r = cr_client_name s" "cr_lib_name r = cr_lib_name s"
    "cr_lazy_connect r = cr_lazy_connect s"
    "cr_inflight_requests_limit r = cr_inflight_requests_limit s"
    "cr_tcp_nodelay r = cr_tcp_nodelay s" "cr_root_certs r = cr_root_certs s"
    "(cr_client_cert r, cr_client_key r) = (cr_client_cert s, cr_client_key s)"
    "cr_pubsub_subscriptions r = cr_pubsub_subscriptions s"
    "cr_authentication_info r = cr_authentication_info s"
    "cr_request_timeout r = cr_request_timeout s" "cr_connection_timeout r = cr_connection_timeout s"
    "cr_connection_retry_strategy r = cr_connection_retry_strategy s"
    "cr_cluster_mode_enabled r = cr_cluster_mode_enabled s" "cr_database_id r = cr_database_id s"
    "cr_periodic_checks r = cr_periodic_checks s"
    "connection_request.more r = connection_request.more s"
  shows "r = s"
  using assms by (cases r; cases s) simp

lemma common_request_eq_iff:
  assumes "default_documented D"
  shows "common_request D c = common_request D d \<longleftrightarrow> same_for_core c d"
    (is "?l = ?r \<longleftrightarrow> _")
proof
  assume eq: "?l = ?r"
  have pems: "(cr_client_cert ?l, cr_client_key ?l) = (cr_client_cert ?r, cr_client_key ?r)"
    by (simp add: eq)
  have "cr_addresses ?l = cr_addresses ?r" "cr_tls_mode ?l = cr_tls_mode ?r"
    "cr_read_from ?l = cr_read_from ?r" "cr_protocol ?l = cr_protocol ?r"
    "cr_client_name ?l = cr_client_name ?r" "cr_lazy_connect ?l = cr_lazy_connect ?r"
    "cr_inflight_requests_limit ?l = cr_inflight_requests_limit ?r"
    "cr_root_certs ?l = cr_root_certs ?r" "cr_pubsub_subscriptions ?l = cr_pubsub_subscriptions ?r"
    "cr_authentication_info ?l = cr_authentication_info ?r"
    "cr_request_timeout ?l = cr_request_timeout ?r" "cr_connection_timeout ?l = cr_connection_timeout ?r"
    "cr_connection_retry_strategy ?l = cr_connection_retry_strategy ?r"
    by (simp_all only: eq)
  with pems show "same_for_core c d"
    unfolding default_documented_fields [OF assms] common_request_fields same_for_core_def
    by (simp add: map_option_inj_iff)
next
  assume "same_for_core c d"
  then show "?l = ?r"
    by (intro connection_request_eqI)
       (simp_all only: default_documented_fields [OF assms] common_request_fields same_for_core_def)
qed

lemma client_to_request_undo:
  "common_request D c = (client_to_request D c)
     \<lparr>cr_cluster_mode_enabled := cr_cluster_mode_enabled D, cr_database_id := cr_database_id D\<rparr>"
  by (rule connection_request_eqI) (simp_all add: client_to_request_def)

lemma cluster_to_request_undo:
  "common_request D c = (cluster_to_request D c)
     \<lparr>cr_cluster_mode_enabled := cr_cluster_mode_enabled D, cr_periodic_checks := cr_periodic_checks D\<rparr>"
  by (rule connection_request_eqI) (simp_all add: cluster_to_request_def)

text \<open>
  C6: the lowering of a configuration is faithful.  With the documented defaults of the core, two
  standalone configurations give the same connection request exactly when they agree on every
  setting up to what \<open>same_for_core\<close> says, and on the database; two cluster configurations exactly when
  they so agree and have the same periodic checks; and a standalone and a cluster configuration never
  give the same request.  No setter is therefore lost or written to a field of another one.
\<close>

theorem to_request_faithful:
  assumes "default_documented D"
  shows "(client_to_request D c = client_to_request D d \<longleftrightarrow>
            same_for_core c d \<and> cfg_database_id c = cfg_database_id d)
    \<and> (cluster_to_request D c' = cluster_to_request D d' \<longleftrightarrow>
            same_for_core c' d' \<and> cfg_periodic_checks c' = cfg_periodic_checks d')
    \<and> client_to_request D c \<noteq> cluster_to_request D c'"
proof (intro conjI iffI)
  assume eq: "client_to_request D c = client_to_request D d"
  then have "common_request D c = common_request D d" by (metis client_to_request_undo)
  then show "same_for_core c d" by (simp add: common_request_eq_iff [OF assms])
  from eq show "cfg_database_id c = cfg_database_id d" by (metis client_to_request_fields(5))
next
  assume "same_for_core c d \<and> cfg_database_id c = cfg_database_id d"
  then show "client_to_request D c = client_to_request D d"
    by (simp add: client_to_request_def common_request_eq_iff [OF assms, symmetric])
next
  assume eq: "cluster_to_request D c' = cluster_to_request D d'"
  then have "common_request D c' = common_request D d'" by (metis cluster_to_request_undo)
  then show "same_for_core c' d'" by (simp add: common_request_eq_iff [OF assms])
  from arg_cong [OF eq, of cr_periodic_checks] show "cfg_periodic_checks c' = cfg_periodic_checks d'"
    by (simp add: cluster_to_request_def)
next
  assume "same_for_core c' d' \<and> cfg_periodic_checks c' = cfg_periodic_checks d'"
  then show "cluster_to_request D c' = cluster_to_request D d'"
    by (simp add: cluster_to_request_def common_request_eq_iff [OF assms, symmetric])
next
  have "cr_cluster_mode_enabled (client_to_request D c) \<noteq> cr_cluster_mode_enabled (cluster_to_request D c')"
    by (simp add: client_to_request_def cluster_to_request_def)
  then show "client_to_request D c \<noteq> cluster_to_request D c'" by metis
qed

text \<open>A request with the documented defaults, for examples.\<close>

definition sample_request :: connection_request where
  "sample_request =
     \<lparr>cr_addresses = [], cr_tls_mode = None, cr_read_from = None, cr_protocol = None,
      cr_client_name = None, cr_lib_name = None, cr_lazy_connect = False,
      cr_inflight_requests_limit = None, cr_tcp_nodelay = False, cr_root_certs = [],
      cr_client_cert = [], cr_client_key = [], cr_pubsub_subscriptions = None,
      cr_authentication_info = None, cr_request_timeout = None, cr_connection_timeout = None,
      cr_connection_retry_strategy = None, cr_cluster_mode_enabled = False, cr_database_id = 0,
      cr_periodic_checks = None\<rparr>"

lemma sample_request_documented: "default_documented sample_request"
  by (simp add: default_documented_def sample_request_def)

theorem to_request_faithful_witness:
  "client_to_request sample_request (with_request_timeout \<lparr>dur_secs = 5, dur_nanos = 7\<rparr> (client_with_address ''h'' 1))
     = client_to_request sample_request (with_request_timeout \<lparr>dur_secs = 5, dur_nanos = 9\<rparr> (client_with_address ''h'' 1))
   \<and> client_to_request sample_request (client_with_address ''h'' 1)
     \<noteq> cluster_to_request sample_request (cluster_with_address ''h'' 1)"
  using to_request_faithful [OF sample_request_documented,
      of "with_request_timeout \<lparr>dur_secs = 5, dur_nanos = 7\<rparr> (client_with_address ''h'' 1)"
         "with_request_timeout \<lparr>dur_secs = 5, dur_nanos = 9\<rparr> (client_with_address ''h'' 1)"]
    to_request_faithful [OF sample_request_documented, of "client_with_address ''h'' 1" _
      "cluster_with_address ''h'' 1"]
  by (simp add: same_for_core_def setter_defs client_with_address_def client_config_new_def
      duration_as_millis_u32_def as_millis_def)

section \<open>URLs\<close>

text \<open>What one URL contributes: its address, its TLS mode and its connection settings.\<close>

definition seed :: "('u \<Rightarrow> redis_error + connection_info) \<Rightarrow> 'u
    \<Rightarrow> (node_address \<times> tls_config \<times> redis_connection_info) result" where
  "seed into url =
     bind_res (map_err config_error (into url)) (\<lambda>info.
     bind_res (split_connection_addr (ci_addr info)) (\<lambda>(address, tls). Inr (address, tls, ci_redis info)))"

definition same_settings :: "tls_config \<times> redis_connection_info \<Rightarrow> tls_config \<times> redis_connection_info \<Rightarrow> bool" where
  "same_settings s t \<longleftrightarrow>
     fst t = fst s \<and> rci_password (snd t) = rci_password (snd s)
     \<and> rci_username (snd t) = rci_username (snd s) \<and> rci_client_name (snd t) = rci_client_name (snd s)
     \<and> rci_db (snd t) = rci_db (snd s)"

lemma check_same_settings_iff: "check_same_settings s t = Inr u \<longleftrightarrow> same_settings s t"
  by (cases s; cases t) (auto simp: check_same_settings_def same_settings_def)

lemma check_same_settings_error: "check_same_settings s t = Inl e \<Longrightarrow> \<exists>m. e = Configuration m"
  by (cases s; cases t) (auto simp: check_same_settings_def split: if_splits)

lemma from_urls_loop_seed:
  "from_urls_loop into (url # urls) addresses first =
     bind_res (seed into url) (\<lambda>(address, tls, redis).
       case first of
         None \<Rightarrow> from_urls_loop into urls (addresses @ [address]) (Some (tls, redis))
       | Some f \<Rightarrow> bind_res (check_same_settings f (tls, redis)) (\<lambda>_.
           from_urls_loop into urls (addresses @ [address]) first))"
  by (auto simp: seed_def Let_def split: bind_res_split)

lemma from_urls_loop_Some:
  "from_urls_loop into urls addresses (Some f) = Inr r \<longleftrightarrow>
     (\<exists>seeds. traverse (seed into) urls = Inr seeds \<and> (\<forall>s \<in> set seeds. same_settings f (snd s))
        \<and> r = (addresses @ map fst seeds, Some f))"
proof (induction urls arbitrary: addresses r)
  case Nil
  show ?case by auto
next
  case (Cons url urls)
  show ?case
    by (cases "seed into url")
       (auto simp: from_urls_loop_seed Cons.IH res_simps check_same_settings_iff simp del: from_urls_loop.simps)
qed

lemma split_connection_addr_error: "split_connection_addr a = Inl e \<Longrightarrow> \<exists>m. e = Configuration m"
  by (cases a) (auto split: if_splits)

lemma seed_error: "seed into url = Inl e \<Longrightarrow> \<exists>m. e = Configuration m"
  by (auto simp: seed_def res_simps config_error_def dest: split_connection_addr_error)

lemma from_urls_loop_error:
  "from_urls_loop into urls addresses first = Inl e \<Longrightarrow> \<exists>m. e = Configuration m"
proof (induction urls arbitrary: addresses first)
  case Nil
  then show ?case by simp
next
  case (Cons url urls)
  from Cons.prems show ?case
    by (auto simp: from_urls_loop_seed res_simps simp del: from_urls_loop.simps
        dest: seed_error check_same_settings_error Cons.IH split: option.splits)
qed

text \<open>The cluster configuration for the addresses and the settings of the first URL.\<close>

definition urls_config :: "node_address list \<Rightarrow> tls_config \<times> redis_connection_info \<Rightarrow> cluster_config" where
  "urls_config addresses settings =
     (cluster_config_new addresses)\<lparr>cfg_tls := fst settings,
        cfg_protocol := from_redis_protocol (rci_protocol (snd settings)),
        cfg_client_name := rci_client_name (snd settings),
        cfg_credentials := credentials_from_info (rci_username (snd settings)) (rci_password (snd settings))\<rparr>"

lemma from_urls_finish:
  "from_urls into urls = Inr cfg \<longleftrightarrow>
     (\<exists>addresses settings. from_urls_loop into urls [] None = Inr (addresses, Some settings)
        \<and> rci_db (snd settings) = 0 \<and> cfg = urls_config addresses settings)"
proof (cases "from_urls_loop into urls [] None")
  case (Inl e)
  then show ?thesis by (simp add: from_urls_def)
next
  case (Inr r)
  obtain addresses first where r: "r = (addresses, first)" by (cases r)
  show ?thesis
  proof (cases first)
    case None
    with Inr r show ?thesis by (simp add: from_urls_def)
  next
    case (Some settings)
    obtain tls redis where s: "settings = (tls, redis)" by (cases settings)
    show ?thesis
      by (simp add: from_urls_def Inr r Some s urls_config_def with_tls_def Let_def) auto
  qed
qed

lemma from_urls_iff:
  "from_urls into urls = Inr cfg \<longleftrightarrow>
     (\<exists>seeds. traverse (seed into) urls = Inr seeds \<and> seeds \<noteq> []
        \<and> list_all (\<lambda>s. same_settings (snd (hd seeds)) (snd s)) (tl seeds)
        \<and> rci_db (snd (snd (hd seeds))) = 0 \<and> cfg = urls_config (map fst seeds) (snd (hd seeds)))"
  (is "?lhs \<longleftrightarrow> ?rhs")
proof (cases urls)
  case Nil
  then show ?thesis by (auto simp: from_urls_def)
next
  case (Cons url rest)
  show ?thesis
  proof (cases "seed into url")
    case (Inl e)
    then show ?thesis
      by (simp add: Cons from_urls_def from_urls_loop_seed del: from_urls_loop.simps)
  next
    case (Inr p)
    obtain address tls redis where p: "p = (address, tls, redis)" by (cases p)
    have loop: "from_urls_loop into urls [] None = from_urls_loop into rest [address] (Some (tls, redis))"
      by (simp add: Cons Inr p from_urls_loop_seed del: from_urls_loop.simps)
    have lhs: "?lhs \<longleftrightarrow> (\<exists>seeds. traverse (seed into) rest = Inr seeds
        \<and> (\<forall>s \<in> set seeds. same_settings (tls, redis) (snd s)) \<and> rci_db redis = 0
        \<and> cfg = urls_config (address # map fst seeds) (tls, redis))"
      unfolding from_urls_finish loop from_urls_loop_Some by auto
    show ?thesis
      unfolding lhs by (cases "traverse (seed into) rest") (auto simp: Cons Inr p list_all_iff)
  qed
qed

text \<open>
  C13: \<open>from_urls\<close> accepts a list of URLs exactly when it is not empty, every URL is accepted by the fork
  and names a supported address, all of them have the password, user name, client name, database and
  TLS mode of the first, and the database is 0; the configuration then has all the addresses, in
  order, and the settings and protocol of the first URL.  Every rejection is a configuration error.
\<close>

theorem from_urls_accepts:
  "from_urls into urls = Inr cfg \<longleftrightarrow>
     (\<exists>seeds. traverse (seed into) urls = Inr seeds \<and> seeds \<noteq> []
        \<and> list_all (\<lambda>s. same_settings (snd (hd seeds)) (snd s)) (tl seeds)
        \<and> rci_db (snd (snd (hd seeds))) = 0 \<and> cfg = urls_config (map fst seeds) (snd (hd seeds)))"
  by (rule from_urls_iff)

text \<open>
  Every failure to build a configuration from URLs, standalone or cluster, is the configuration
  error, and the standalone constructor fails exactly when the fork rejects the URL or the address is
  not supported.
\<close>

lemma from_urls_errors:
  "(case from_urls into urls of Inl e \<Rightarrow> \<exists>m. e = Configuration m | Inr cfg \<Rightarrow> True)
   \<and> (case from_connection_info into url of Inl e \<Rightarrow> \<exists>m. e = Configuration m | Inr cfg \<Rightarrow> True)
   \<and> ((\<exists>e. from_connection_info into url = Inl e) \<longleftrightarrow> (\<exists>e. seed into url = Inl e))"
proof (intro conjI)
  show "case from_urls into urls of Inl e \<Rightarrow> \<exists>m. e = Configuration m | Inr cfg \<Rightarrow> True"
    by (auto simp: from_urls_def res_simps Let_def dest: from_urls_loop_error split: sum.split option.splits if_splits)
  show "case from_connection_info into url of Inl e \<Rightarrow> \<exists>m. e = Configuration m | Inr cfg \<Rightarrow> True"
    by (auto simp: from_connection_info_def res_simps config_error_def Let_def dest: split_connection_addr_error
        split: sum.split)
  show "(\<exists>e. from_connection_info into url = Inl e) \<longleftrightarrow> (\<exists>e. seed into url = Inl e)"
    by (auto simp: from_connection_info_def seed_def res_simps Let_def)
qed



end
