(* ===== verification/Push.thy ===== *)
theory Push
  imports Values
begin

text \<open>
  Pub/Sub push messages of the clients (\<open>src/client/mod.rs\<close>, first part).

  The unbounded channel between the core and a client is its queue and whether the sending side is
  gone; channels live in a store (a list indexed by allocation order), because clones of a client share
  one receiver.  \<open>recv_pubsub_message\<close> is one poll of the asynchronous function while it holds the lock
  of the receiver: it consumes pushes until one is a message, and is \<open>Pending\<close> when the queue is empty
  and the channel open.

  The relation \<open>ps_step\<close> interleaves the core, which sends and closes, with any number of consumers that
  poll, are cancelled, or try to receive, serialised by the lock.
\<close>

datatype push_kind = KMessage | KPMessage | KSMessage | KOtherPush nat

record push_info =
  pu_kind :: push_kind
  pu_data :: "value list"

datatype pubsub_message_kind = Message | PMessage | SMessage

record pubsub_message =
  pm_kind :: pubsub_message_kind
  pm_channel :: bytes
  pm_payload :: bytes
  pm_pattern :: "bytes option"

definition value_to_bytes :: "redis_ext \<Rightarrow> value \<Rightarrow> bytes" where
  "value_to_bytes X v =
     (case v of VBulkString b \<Rightarrow> b | VSimpleString s \<Rightarrow> s | other \<Rightarrow> x_debug X other)"

definition push_to_message :: "redis_ext \<Rightarrow> push_info \<Rightarrow> pubsub_message option" where
  "push_to_message X push =
     (case (case pu_kind push of
              KMessage \<Rightarrow> Some (Message, False)
            | KSMessage \<Rightarrow> Some (SMessage, False)
            | KPMessage \<Rightarrow> Some (PMessage, True)
            | _ \<Rightarrow> None) of
        None \<Rightarrow> None
      | Some (kind, has_pattern) \<Rightarrow>
          (if has_pattern then
             (case pu_data push of
                pattern # channel # payload # _ \<Rightarrow>
                  Some \<lparr>pm_kind = kind, pm_channel = value_to_bytes X channel,
                        pm_payload = value_to_bytes X payload,
                        pm_pattern = Some (value_to_bytes X pattern)\<rparr>
              | _ \<Rightarrow> None)
           else
             (case pu_data push of
                channel # payload # _ \<Rightarrow>
                  Some \<lparr>pm_kind = kind, pm_channel = value_to_bytes X channel,
                        pm_payload = value_to_bytes X payload, pm_pattern = None\<rparr>
              | _ \<Rightarrow> None)))"

record push_channel =
  ch_queue :: "push_info list"
  ch_closed :: bool

type_synonym push_rx = nat

type_synonym push_sender = nat

definition make_push_channel ::
  "bool \<Rightarrow> push_channel list \<Rightarrow> (push_sender option \<times> push_rx option) \<times> push_channel list" where
  "make_push_channel has_subscriptions store =
     (if has_subscriptions
      then ((Some (length store), Some (length store)), store @ [\<lparr>ch_queue = [], ch_closed = False\<rparr>])
      else ((None, None), store))"

definition pubsub_rx :: "push_rx option \<Rightarrow> push_rx result" where
  "pubsub_rx rx =
     (case rx of
        None \<Rightarrow> Inl (Request ''client has no configured pub/sub subscriptions'')
      | Some r \<Rightarrow> Inr r)"

datatype 'a poll = Pending | Ready 'a

fun recv_loop :: "redis_ext \<Rightarrow> bool \<Rightarrow> push_info list \<Rightarrow> pubsub_message result poll \<times> push_info list" where
  "recv_loop X closed [] =
     (if closed then Ready (Inl (Request ''pub/sub channel closed'')) else Pending, [])"
| "recv_loop X closed (push # q) =
     (case push_to_message X push of
        Some msg \<Rightarrow> (Ready (Inr msg), q)
      | None \<Rightarrow> recv_loop X closed q)"

fun try_recv_loop :: "redis_ext \<Rightarrow> bool \<Rightarrow> push_info list \<Rightarrow> pubsub_message option result \<times> push_info list" where
  "try_recv_loop X closed [] =
     (if closed then Inl (Request ''pub/sub channel closed'') else Inr None, [])"
| "try_recv_loop X closed (push # q) =
     (case push_to_message X push of
        Some msg \<Rightarrow> (Inr (Some msg), q)
      | None \<Rightarrow> try_recv_loop X closed q)"

definition recv_pubsub_message ::
  "redis_ext \<Rightarrow> push_rx option \<Rightarrow> push_channel list \<Rightarrow> pubsub_message result poll \<times> push_channel list" where
  "recv_pubsub_message X rx store =
     (case pubsub_rx rx of
        Inl e \<Rightarrow> (Ready (Inl e), store)
      | Inr r \<Rightarrow>
          (case recv_loop X (ch_closed (store ! r)) (ch_queue (store ! r)) of
             (res, q) \<Rightarrow> (res, store[r := (store ! r)\<lparr>ch_queue := q\<rparr>])))"

definition try_recv_pubsub_message ::
  "redis_ext \<Rightarrow> push_rx option \<Rightarrow> push_channel list \<Rightarrow> pubsub_message option result \<times> push_channel list" where
  "try_recv_pubsub_message X rx store =
     (case pubsub_rx rx of
        Inl e \<Rightarrow> (Inl e, store)
      | Inr r \<Rightarrow>
          (case try_recv_loop X (ch_closed (store ! r)) (ch_queue (store ! r)) of
             (res, q) \<Rightarrow> (res, store[r := (store ! r)\<lparr>ch_queue := q\<rparr>])))"

section \<open>Messages in a queue\<close>

definition messages :: "redis_ext \<Rightarrow> push_info list \<Rightarrow> pubsub_message list" where
  "messages X q = List.map_filter (push_to_message X) q"

lemma messages_simps [simp]:
  "messages X [] = []"
  "messages X (p # q) = (case push_to_message X p of None \<Rightarrow> messages X q | Some m \<Rightarrow> m # messages X q)"
  by (simp_all add: messages_def map_filter_simps split: option.split)

lemma messages_append [simp]: "messages X (p @ q) = messages X p @ messages X q"
  by (induction p) (simp_all split: option.split)

text \<open>
  A push becomes a message exactly when its kind is one of the three message kinds and it carries
  the parts the kind needs (pattern, channel and payload for a pattern message, channel and payload
  otherwise); the message then has that kind and those parts, and a pattern only when it is a pattern
  message.  Confirmations, invalidations and truncated pushes are never messages.
\<close>

lemma push_to_message_exact:
  "push_to_message X p = Some m \<longleftrightarrow>
     (\<exists>channel payload rest.
        pm_channel m = value_to_bytes X channel \<and> pm_payload m = value_to_bytes X payload
        \<and> ((pu_kind p = KMessage \<and> pm_kind m = Message \<and> pm_pattern m = None
               \<and> pu_data p = channel # payload # rest)
          \<or> (pu_kind p = KSMessage \<and> pm_kind m = SMessage \<and> pm_pattern m = None
               \<and> pu_data p = channel # payload # rest)
          \<or> (pu_kind p = KPMessage \<and> pm_kind m = PMessage
               \<and> (\<exists>pattern. pm_pattern m = Some (value_to_bytes X pattern)
                    \<and> pu_data p = pattern # channel # payload # rest))))"
proof (cases m)
  case (fields kind channel payload pat)
  then show ?thesis
    by (cases "pu_kind p") (auto simp: push_to_message_def split: list.splits)
qed

section \<open>Receiving\<close>

lemma recv_loop_result:
  "fst (recv_loop X closed q) =
     (case messages X q of
        m # _ \<Rightarrow> Ready (Inr m)
      | [] \<Rightarrow> if closed then Ready (Inl (Request ''pub/sub channel closed'')) else Pending)"
  by (cases closed; induction q) (simp_all split: option.split)

lemma recv_loop_rest: "messages X (snd (recv_loop X closed q)) = tl (messages X q)"
  by (induction q) (simp_all split: option.split)

lemma try_recv_loop_result:
  "fst (try_recv_loop X closed q) =
     (case messages X q of
        m # _ \<Rightarrow> Inr (Some m)
      | [] \<Rightarrow> if closed then Inl (Request ''pub/sub channel closed'') else Inr None)"
  by (cases closed; induction q) (simp_all split: option.split)

lemma try_recv_loop_rest: "snd (try_recv_loop X closed q) = snd (recv_loop X closed q)"
  by (induction q) (simp_all split: option.split)

lemma recv_pubsub_message_Some:
  "recv_pubsub_message X (Some r) store =
     (fst (recv_loop X (ch_closed (store ! r)) (ch_queue (store ! r))),
      store[r := (store ! r)\<lparr>ch_queue := snd (recv_loop X (ch_closed (store ! r)) (ch_queue (store ! r)))\<rparr>])"
  by (simp add: recv_pubsub_message_def pubsub_rx_def case_prod_beta)

lemma try_recv_pubsub_message_Some:
  "try_recv_pubsub_message X (Some r) store =
     (fst (try_recv_loop X (ch_closed (store ! r)) (ch_queue (store ! r))),
      store[r := (store ! r)\<lparr>ch_queue := snd (try_recv_loop X (ch_closed (store ! r)) (ch_queue (store ! r)))\<rparr>])"
  by (simp add: try_recv_pubsub_message_def pubsub_rx_def case_prod_beta)

text \<open>
  C37: the blocking and the non-blocking receive agree.  On the same channel both return the first
  message of the queue when there is one; otherwise both report a closed channel, and an open one
  makes the first wait and the second return \<open>None\<close>; and both leave the channel the same.
\<close>

theorem try_recv_agrees:
  "snd (try_recv_pubsub_message X rx store) = snd (recv_pubsub_message X rx store)
   \<and> (case fst (recv_pubsub_message X rx store) of
        Pending \<Rightarrow> fst (try_recv_pubsub_message X rx store) = Inr None
      | Ready (Inr m) \<Rightarrow> fst (try_recv_pubsub_message X rx store) = Inr (Some m)
      | Ready (Inl e) \<Rightarrow> fst (try_recv_pubsub_message X rx store) = Inl e)"
proof (cases rx)
  case None
  then show ?thesis
    by (simp add: recv_pubsub_message_def try_recv_pubsub_message_def pubsub_rx_def)
next
  case (Some r)
  show ?thesis
    by (simp add: Some recv_pubsub_message_Some try_recv_pubsub_message_Some recv_loop_result
        try_recv_loop_result try_recv_loop_rest split: list.split)
qed

section \<open>Concurrent consumers\<close>

text \<open>
  The state of one channel with its receiver: \<open>ps_holder\<close> is the consumer whose pending
  \<open>get_pubsub_message\<close> holds the lock.  \<open>ps_sent\<close> and \<open>ps_delivered\<close> record the history.
\<close>

record ps_state =
  ps_store :: "push_channel list"
  ps_holder :: "nat option"
  ps_sent :: "push_info list"
  ps_delivered :: "(nat \<times> pubsub_message) list"

definition deliver :: "nat \<Rightarrow> pubsub_message option result \<Rightarrow> ps_state \<Rightarrow> ps_state" where
  "deliver i r s =
     (case r of Inr (Some m) \<Rightarrow> s\<lparr>ps_delivered := ps_delivered s @ [(i, m)]\<rparr> | _ \<Rightarrow> s)"

inductive ps_step :: "redis_ext \<Rightarrow> push_rx \<Rightarrow> ps_state \<Rightarrow> ps_state \<Rightarrow> bool" for X rx where
  send: "\<not> ch_closed (ps_store s ! rx) \<Longrightarrow>
     ps_step X rx s (s\<lparr>ps_store := (ps_store s)[rx := (ps_store s ! rx)
         \<lparr>ch_queue := ch_queue (ps_store s ! rx) @ [p]\<rparr>], ps_sent := ps_sent s @ [p]\<rparr>)"
| close: "ps_step X rx s (s\<lparr>ps_store := (ps_store s)[rx := (ps_store s ! rx)\<lparr>ch_closed := True\<rparr>]\<rparr>)"
| get_pending: "ps_holder s = None \<or> ps_holder s = Some i \<Longrightarrow>
     recv_pubsub_message X (Some rx) (ps_store s) = (Pending, st) \<Longrightarrow>
     ps_step X rx s (s\<lparr>ps_store := st, ps_holder := Some i\<rparr>)"
| get_ready: "ps_holder s = None \<or> ps_holder s = Some i \<Longrightarrow>
     recv_pubsub_message X (Some rx) (ps_store s) = (Ready r, st) \<Longrightarrow>
     ps_step X rx s (deliver i (bind_res r (\<lambda>m. Inr (Some m))) (s\<lparr>ps_store := st, ps_holder := None\<rparr>))"
| cancel: "ps_holder s = Some i \<Longrightarrow> ps_step X rx s (s\<lparr>ps_holder := None\<rparr>)"
| try_get: "ps_holder s = None \<Longrightarrow>
     try_recv_pubsub_message X (Some rx) (ps_store s) = (r, st) \<Longrightarrow>
     ps_step X rx s (deliver i r (s\<lparr>ps_store := st\<rparr>))"

inductive ps_reachable :: "redis_ext \<Rightarrow> push_channel list \<Rightarrow> push_rx \<Rightarrow> ps_state \<Rightarrow> bool" for X store rx where
  init: "make_push_channel True store = ((Some tx, Some rx), store') \<Longrightarrow>
     ps_reachable X store rx \<lparr>ps_store = store', ps_holder = None, ps_sent = [], ps_delivered = []\<rparr>"
| step: "ps_reachable X store rx s \<Longrightarrow> ps_step X rx s s' \<Longrightarrow> ps_reachable X store rx s'"

inductive_cases ps_step_elim: "ps_step X rx s s'"

definition ps_inv :: "redis_ext \<Rightarrow> push_channel list \<Rightarrow> push_rx \<Rightarrow> ps_state \<Rightarrow> bool" where
  "ps_inv X store rx s \<longleftrightarrow>
     rx < length (ps_store s)
     \<and> map snd (ps_delivered s) @ messages X (ch_queue (ps_store s ! rx)) = messages X (ps_sent s)
     \<and> take rx (ps_store s) = store"

lemma deliver_store [simp]: "ps_store (deliver i r s) = ps_store s" "ps_sent (deliver i r s) = ps_sent s"
  by (auto simp: deliver_def split: sum.split option.split)

lemma deliver_delivered:
  "ps_delivered (deliver i r s) = ps_delivered s @ (case r of Inr (Some m) \<Rightarrow> [(i, m)] | _ \<Rightarrow> [])"
  by (auto simp: deliver_def split: sum.split option.split)

lemma ps_inv_init:
  assumes "make_push_channel True store = ((Some tx, Some rx), store')"
  shows "ps_inv X store rx \<lparr>ps_store = store', ps_holder = None, ps_sent = [], ps_delivered = []\<rparr>"
  using assms by (auto simp: make_push_channel_def ps_inv_def nth_append)

lemma ps_inv_receive:
  assumes "ps_inv X store rx s"
    and "map snd d = (case messages X (ch_queue (ps_store s ! rx)) of [] \<Rightarrow> [] | m # _ \<Rightarrow> [m])"
    and "messages X q = tl (messages X (ch_queue (ps_store s ! rx)))"
    and "ps_store s' = (ps_store s)[rx := (ps_store s ! rx)\<lparr>ch_queue := q\<rparr>]"
    and "ps_sent s' = ps_sent s" and "ps_delivered s' = ps_delivered s @ d"
  shows "ps_inv X store rx s'"
  using assms by (cases "messages X (ch_queue (ps_store s ! rx))") (auto simp: ps_inv_def)

lemma ps_inv_step:
  assumes "ps_inv X store rx s" and "ps_step X rx s s'"
  shows "ps_inv X store rx s'"
proof -
  let ?rest = "snd (recv_loop X (ch_closed (ps_store s ! rx)) (ch_queue (ps_store s ! rx)))"
  from assms(2) show ?thesis
  proof (cases rule: ps_step.cases)
    case (send p)
    have "map snd (ps_delivered s) @ messages X (ch_queue (ps_store s ! rx)) @ xs
        = messages X (ps_sent s) @ xs" for xs
      using assms(1) unfolding ps_inv_def by (metis append_assoc)
    with send assms(1) show ?thesis by (simp add: ps_inv_def)
  next
    case close
    with assms(1) show ?thesis by (simp add: ps_inv_def)
  next
    case (get_pending i st)
    have none: "messages X (ch_queue (ps_store s ! rx)) = []"
      using get_pending(3)
      by (auto simp: recv_pubsub_message_Some recv_loop_result split: list.splits if_splits)
    have st: "st = (ps_store s)[rx := (ps_store s ! rx)\<lparr>ch_queue := ?rest\<rparr>]"
      using get_pending(3) by (simp add: recv_pubsub_message_Some)
    show ?thesis
      by (rule ps_inv_receive [OF assms(1), where d = "[]" and q = ?rest])
         (simp_all add: get_pending(1) st recv_loop_rest none)
  next
    case (get_ready i r st)
    have st: "st = (ps_store s)[rx := (ps_store s ! rx)\<lparr>ch_queue := ?rest\<rparr>]"
      and r: "Ready r = fst (recv_loop X (ch_closed (ps_store s ! rx)) (ch_queue (ps_store s ! rx)))"
      using get_ready(3) by (simp_all add: recv_pubsub_message_Some)
    show ?thesis
    proof (rule ps_inv_receive [OF assms(1), where q = ?rest])
      show "map snd (case bind_res r (\<lambda>m. Inr (Some m)) of Inr (Some m) \<Rightarrow> [(i, m)] | _ \<Rightarrow> []) =
          (case messages X (ch_queue (ps_store s ! rx)) of [] \<Rightarrow> [] | m # _ \<Rightarrow> [m])"
        using r by (auto simp: recv_loop_result split: list.splits if_splits)
    qed (simp_all add: get_ready(1) st recv_loop_rest deliver_delivered)
  next
    case (cancel i)
    with assms(1) show ?thesis by (simp add: ps_inv_def)
  next
    case (try_get r st i)
    have st: "st = (ps_store s)[rx := (ps_store s ! rx)\<lparr>ch_queue := ?rest\<rparr>]"
      and r: "r = fst (try_recv_loop X (ch_closed (ps_store s ! rx)) (ch_queue (ps_store s ! rx)))"
      using try_get(3) by (simp_all add: try_recv_pubsub_message_Some try_recv_loop_rest)
    show ?thesis
    proof (rule ps_inv_receive [OF assms(1), where q = ?rest])
      show "map snd (case r of Inr (Some m) \<Rightarrow> [(i, m)] | _ \<Rightarrow> []) =
          (case messages X (ch_queue (ps_store s ! rx)) of [] \<Rightarrow> [] | m # _ \<Rightarrow> [m])"
        using r by (auto simp: try_recv_loop_result split: list.splits if_splits)
    qed (simp_all add: try_get(1) st recv_loop_rest deliver_delivered)
  qed
qed

lemma ps_reachable_inv: "ps_reachable X store rx s \<Longrightarrow> ps_inv X store rx s"
  by (induction rule: ps_reachable.induct) (auto intro: ps_inv_init ps_inv_step)

text \<open>
  C1: no message is lost, duplicated or reordered.  In every state that the core and any number of
  consumers can reach on a client's push channel, with polls, cancelled waits and non-blocking
  receives interleaved in any way, the messages delivered so far, in the order of delivery, followed by
  the messages still in the queue are the messages sent, in the order they were sent; and the channels
  that existed before are untouched.
\<close>

theorem pubsub_fifo:
  assumes "ps_reachable X store rx s"
  shows "map snd (ps_delivered s) @ messages X (ch_queue (ps_store s ! rx)) = messages X (ps_sent s)
    \<and> take rx (ps_store s) = store"
  using ps_reachable_inv [OF assms] by (simp add: ps_inv_def)

theorem pubsub_fifo_witness:
  "\<exists>s :: ps_state. ps_sent s = [\<lparr>pu_kind = KOtherPush 0, pu_data = []\<rparr>,
                    \<lparr>pu_kind = KMessage, pu_data = [VBulkString ''c'', VBulkString ''m'']\<rparr>]
     \<and> map snd (ps_delivered s) @ messages sample_ext (ch_queue (ps_store s ! 0)) = messages sample_ext (ps_sent s)
     \<and> ps_delivered s \<noteq> []"
proof -
  let ?p = "\<lparr>pu_kind = KOtherPush 0, pu_data = []\<rparr>"
  let ?q = "\<lparr>pu_kind = KMessage, pu_data = [VBulkString ''c'', VBulkString ''m'']\<rparr>"
  let ?s0 = "\<lparr>ps_store = [\<lparr>ch_queue = [], ch_closed = False\<rparr>], ps_holder = None, ps_sent = [], ps_delivered = []\<rparr>"
  let ?s1 = "\<lparr>ps_store = [\<lparr>ch_queue = [?p], ch_closed = False\<rparr>], ps_holder = None, ps_sent = [?p], ps_delivered = []\<rparr>"
  let ?s2 = "\<lparr>ps_store = [\<lparr>ch_queue = [?p, ?q], ch_closed = False\<rparr>], ps_holder = None, ps_sent = [?p, ?q], ps_delivered = []\<rparr>"
  let ?m = "\<lparr>pm_kind = Message, pm_channel = ''c'', pm_payload = ''m'', pm_pattern = None\<rparr>"
  let ?s3 = "\<lparr>ps_store = [\<lparr>ch_queue = [], ch_closed = False\<rparr>], ps_holder = None, ps_sent = [?p, ?q], ps_delivered = [(7, ?m)]\<rparr>"
  have r0: "ps_reachable sample_ext [] 0 ?s0"
    by (rule ps_reachable.init [where tx = 0]) (simp add: make_push_channel_def)
  have s1: "ps_step sample_ext 0 ?s0 ?s1" using ps_step.send [of ?s0 0 sample_ext ?p] by simp
  have s2: "ps_step sample_ext 0 ?s1 ?s2" using ps_step.send [of ?s1 0 sample_ext ?q] by simp
  have s3: "ps_step sample_ext 0 ?s2 ?s3"
    using ps_step.get_ready [of ?s2 7 sample_ext 0 "Inr ?m" "[\<lparr>ch_queue = [], ch_closed = False\<rparr>]"]
    by (simp add: recv_pubsub_message_def pubsub_rx_def push_to_message_def value_to_bytes_def deliver_def)
  have r3: "ps_reachable sample_ext [] 0 ?s3"
    by (rule ps_reachable.step [OF ps_reachable.step [OF ps_reachable.step [OF r0 s1] s2] s3])
  show ?thesis
    by (rule exI [of _ ?s3]) (use pubsub_fifo [OF r3] in simp)
qed

end
