(* ===== verification/Routes.thy ===== *)
theory Routes
  imports Command
begin

text \<open>
  Cluster routing (\<open>src/routes.rs\<close>) and the dispatch seam (\<open>src/executor.rs\<close>).

  \<open>routing_info\<close>, \<open>single_node\<close>, \<open>multi_node\<close> and \<open>slot_addr\<close> are the types of
  \<open>redis::cluster_routing\<close> that \<open>to_routing_info\<close> builds.  The hash slot of a key (\<open>get_slot\<close>), the
  keyword of a command (\<open>Routable::command\<close>) and the response policy of a keyword
  (\<open>ResponsePolicy::for_command\<close>) are functions of the fork and the fields of \<open>routing_ext\<close>.

  The locale \<open>executor\<close> is the contract of the trait \<open>CommandExecutor\<close>: an implementation hands the
  command and the routing to \<open>send_command\<close> of the core client it holds, once, and converts the
  error.  Both clients are shown to satisfy it in \<open>Client\<close>.
\<close>

datatype slot_type = Primary | Replica

datatype slot_addr = Master | ReplicaRequired

fun slot_type_slot_addr :: "slot_type \<Rightarrow> slot_addr" where
  "slot_type_slot_addr Primary = Master"
| "slot_type_slot_addr Replica = ReplicaRequired"

datatype route =
    AllNodes
  | AllPrimaries
  | RandomNode
  | SlotKey bytes slot_type
  | SlotId u16 slot_type
  | ByAddress string u16

datatype single_node = Random | SpecificNode u16 slot_addr | NodeByAddress string u16

datatype multi_node = MultiAllNodes | MultiAllMasters

datatype 'p routing_info = SingleNode single_node | MultiNode multi_node "'p option"

record 'p routing_ext =
  r_get_slot :: "bytes \<Rightarrow> u16"
  r_command :: "cmd \<Rightarrow> bytes option"
  r_policy :: "bytes \<Rightarrow> 'p option"

definition route_slot_key :: "bytes \<Rightarrow> slot_type \<Rightarrow> route" where
  "route_slot_key key st = SlotKey key st"

definition response_policy :: "'p routing_ext \<Rightarrow> cmd option \<Rightarrow> 'p option" where
  "response_policy R c = Option.bind (Option.bind c (r_command R)) (r_policy R)"

fun to_routing_info :: "'p routing_ext \<Rightarrow> route \<Rightarrow> cmd option \<Rightarrow> 'p routing_info" where
  "to_routing_info R AllNodes c = MultiNode MultiAllNodes (response_policy R c)"
| "to_routing_info R AllPrimaries c = MultiNode MultiAllMasters (response_policy R c)"
| "to_routing_info R RandomNode c = SingleNode Random"
| "to_routing_info R (SlotKey key st) c =
     SingleNode (SpecificNode (r_get_slot R key) (slot_type_slot_addr st))"
| "to_routing_info R (SlotId slot st) c = SingleNode (SpecificNode slot (slot_type_slot_addr st))"
| "to_routing_info R (ByAddress host port) c = SingleNode (NodeByAddress host port)"

section \<open>The dispatch seam\<close>

type_synonym ('w, 'p) executor_fn = "cmd \<Rightarrow> 'p routing_info option \<Rightarrow> ('w, glide_error, value) io"

text \<open>
  The common shape of the typed commands: build a command, execute it without a routing override
  and decode the reply.
\<close>

definition call :: "('w, 'p) executor_fn \<Rightarrow> cmd \<Rightarrow> (value \<Rightarrow> 'a result) \<Rightarrow> ('w, glide_error, 'a) io" where
  "call ex c decode = bind_io (ex c None) (\<lambda>v. pure_io (decode v))"

definition custom_command ::
  "('w, 'p) executor_fn \<Rightarrow> bytes list list \<Rightarrow> ('w, glide_error, value) io" where
  "custom_command ex args = ex (map AGen args) None"

definition custom_command_with_route ::
  "'p routing_ext \<Rightarrow> ('w, 'p) executor_fn \<Rightarrow> bytes list list \<Rightarrow> route
     \<Rightarrow> ('w, glide_error, value) io" where
  "custom_command_with_route R ex args r =
     (let c = map AGen args; routing = to_routing_info R r (Some c) in ex c (Some routing))"

section \<open>Routing\<close>

text \<open>
  The nodes of a cluster, and what a destination means: the command goes to every node of a set, or to one of them.
  \<open>route_nodes\<close> reads the documentation of \<open>Route\<close>, \<open>routing_nodes\<close> that of the routing of the fork: \<open>Random\<close> is any
  node, \<open>Master\<close> the primary of the slot, \<open>ReplicaRequired\<close> a replica of it.
\<close>

record 'n topology =
  tp_nodes :: "'n set"
  tp_primaries :: "'n set"
  tp_primary :: "u16 \<Rightarrow> 'n set"
  tp_replicas :: "u16 \<Rightarrow> 'n set"
  tp_address :: "string \<Rightarrow> u16 \<Rightarrow> 'n set"

datatype 'n destination = Every "'n set" | OneOf "'n set"

definition slot_nodes :: "'n topology \<Rightarrow> u16 \<Rightarrow> slot_type \<Rightarrow> 'n set" where
  "slot_nodes T slot st = (case st of Primary \<Rightarrow> tp_primary T slot | Replica \<Rightarrow> tp_replicas T slot)"

fun route_nodes :: "'n topology \<Rightarrow> (bytes \<Rightarrow> u16) \<Rightarrow> route \<Rightarrow> 'n destination" where
  "route_nodes T slot AllNodes = Every (tp_nodes T)"
| "route_nodes T slot AllPrimaries = Every (tp_primaries T)"
| "route_nodes T slot RandomNode = OneOf (tp_nodes T)"
| "route_nodes T slot (SlotKey key st) = OneOf (slot_nodes T (slot key) st)"
| "route_nodes T slot (SlotId n st) = OneOf (slot_nodes T n st)"
| "route_nodes T slot (ByAddress host port) = OneOf (tp_address T host port)"

fun routing_nodes :: "'n topology \<Rightarrow> 'p routing_info \<Rightarrow> 'n destination" where
  "routing_nodes T (SingleNode Random) = OneOf (tp_nodes T)"
| "routing_nodes T (SingleNode (SpecificNode slot Master)) = OneOf (tp_primary T slot)"
| "routing_nodes T (SingleNode (SpecificNode slot ReplicaRequired)) = OneOf (tp_replicas T slot)"
| "routing_nodes T (SingleNode (NodeByAddress host port)) = OneOf (tp_address T host port)"
| "routing_nodes T (MultiNode MultiAllNodes p) = Every (tp_nodes T)"
| "routing_nodes T (MultiNode MultiAllMasters p) = Every (tp_primaries T)"

fun routing_policy :: "'p routing_info \<Rightarrow> 'p option" where
  "routing_policy (SingleNode n) = None"
| "routing_policy (MultiNode n p) = p"

text \<open>A routing does what a route and a command ask for: it names the nodes, and joins several replies as the command needs it.\<close>

definition routes_to :: "'n topology \<Rightarrow> 'p routing_ext \<Rightarrow> route \<Rightarrow> cmd option \<Rightarrow> 'p routing_info \<Rightarrow> bool" where
  "routes_to T R r c routing \<longleftrightarrow>
     routing_nodes T routing = route_nodes T (r_get_slot R) r
     \<and> routing_policy routing
         = (case route_nodes T (r_get_slot R) r of Every ns \<Rightarrow> response_policy R c | OneOf ns \<Rightarrow> None)"

lemma response_policy_None [simp]: "response_policy R None = None"
  by (simp add: response_policy_def)

lemma to_routing_info_nodes: "routing_nodes T (to_routing_info R r c) = route_nodes T (r_get_slot R) r"
proof (cases r)
  case (SlotKey key st)
  then show ?thesis by (cases st) (simp_all add: slot_nodes_def)
next
  case (SlotId slot st)
  then show ?thesis by (cases st) (simp_all add: slot_nodes_def)
qed simp_all

lemma to_routing_info_routes: "routes_to T R r c (to_routing_info R r c)"
  unfolding routes_to_def by (intro conjI to_routing_info_nodes) (cases r, simp_all)

text \<open>
  A response policy reaches the core only with a multi-node route, and then it is the policy the
  core has for the keyword of that very command; without a command there is none.
\<close>

lemma to_routing_info_policy:
  "(\<exists>m. to_routing_info R r c = MultiNode m p) \<longleftrightarrow>
     (r = AllNodes \<or> r = AllPrimaries) \<and> p = response_policy R c"
  by (cases r) auto

section \<open>Executors\<close>

lemma call_run:
  "call ex c decode w = (case ex c None w of (r, w') \<Rightarrow> (bind_res r decode, w'))"
  by (simp add: call_def)

lemma call_error: "ex c None w = (Inl e, w') \<Longrightarrow> call ex c decode w = (Inl e, w')"
  by (simp add: call_run)

lemma call_ok: "ex c None w = (Inr v, w') \<Longrightarrow> call ex c decode w = (decode v, w')"
  by (simp add: call_run)

locale executor =
  fixes execute_command :: "'c \<Rightarrow> cmd \<Rightarrow> 'p routing_info option \<Rightarrow> ('w, glide_error, value) io"
    and send_command :: "'c \<Rightarrow> cmd \<Rightarrow> 'p routing_info option \<Rightarrow> ('w, redis_error, value) io"
  assumes execute_command_eq:
    "execute_command client c routing = map_err_io from_redis_error (send_command client c routing)"
begin

lemma execute_ok:
  "send_command client c routing w = (Inr v, w') \<Longrightarrow> execute_command client c routing w = (Inr v, w')"
  by (simp add: execute_command_eq map_err_io_def)

lemma execute_error:
  "send_command client c routing w = (Inl e, w') \<Longrightarrow>
     execute_command client c routing w = (Inl (from_redis_error e), w')"
  by (simp add: execute_command_eq map_err_io_def)

lemma execute_world: "snd (execute_command client c routing w) = snd (send_command client c routing w)"
  by (simp add: execute_command_eq map_err_io_def split: prod.split)

lemma call_single_dispatch:
  "call (execute_command client) c decode w =
     (case send_command client c None w of
        (Inl e, w') \<Rightarrow> (Inl (from_redis_error e), w')
      | (Inr v, w') \<Rightarrow> (decode v, w'))"
  by (auto simp: call_run execute_command_eq map_err_io_def split: prod.splits sum.splits)

lemma custom_command_dispatch:
  "custom_command (execute_command client) args w =
     (case send_command client (map AGen args) None w of (r, w') \<Rightarrow> (map_err from_redis_error r, w'))"
  by (simp add: custom_command_def execute_command_eq map_err_io_def)

lemma custom_command_route_dispatch:
  "custom_command_with_route R (execute_command client) args r w =
     (case send_command client (map AGen args) (Some (to_routing_info R r (Some (map AGen args)))) w of
        (q, w') \<Rightarrow> (map_err from_redis_error q, w'))"
  by (simp add: custom_command_with_route_def execute_command_eq map_err_io_def Let_def)

end

end
