(* ===== verification/Options.thy ===== *)
theory Options
  imports Command
begin

text \<open>
  The option types shared by the command families (\<open>src/commands/options.rs\<close>): the enums and structs,
  the arguments each contributes to a command, and the interpretations of the contracts of
  \<open>Command\<close> on them.  Every option value is recoverable from the arguments it contributes, with one
  exception: \<open>MigrateOptions\<close> ignores a user name that comes without a password.
\<close>

datatype conditional_change = OnlyIfExists | OnlyIfDoesNotExist

fun conditional_change_add_to :: "conditional_change \<Rightarrow> cmd \<Rightarrow> cmd" where
  "conditional_change_add_to OnlyIfExists c = c @ [AStr ''XX'']"
| "conditional_change_add_to OnlyIfDoesNotExist c = c @ [AStr ''NX'']"

datatype expiry_set =
    Seconds u64 | Milliseconds u64 | UnixSeconds u64 | UnixMilliseconds u64 | KeepExisting | Persist

fun expiry_set_add_to :: "expiry_set \<Rightarrow> cmd \<Rightarrow> cmd" where
  "expiry_set_add_to (Seconds v) c = c @ [AStr ''EX'', AU64 v]"
| "expiry_set_add_to (Milliseconds v) c = c @ [AStr ''PX'', AU64 v]"
| "expiry_set_add_to (UnixSeconds v) c = c @ [AStr ''EXAT'', AU64 v]"
| "expiry_set_add_to (UnixMilliseconds v) c = c @ [AStr ''PXAT'', AU64 v]"
| "expiry_set_add_to KeepExisting c = c @ [AStr ''KEEPTTL'']"
| "expiry_set_add_to Persist c = c @ [AStr ''PERSIST'']"

datatype expire_options =
    HasNoExpiry | HasExistingExpiry | NewExpiryGreaterThanCurrent | NewExpiryLessThanCurrent

fun expire_options_add_to :: "expire_options \<Rightarrow> cmd \<Rightarrow> cmd" where
  "expire_options_add_to HasNoExpiry c = c @ [AStr ''NX'']"
| "expire_options_add_to HasExistingExpiry c = c @ [AStr ''XX'']"
| "expire_options_add_to NewExpiryGreaterThanCurrent c = c @ [AStr ''GT'']"
| "expire_options_add_to NewExpiryLessThanCurrent c = c @ [AStr ''LT'']"

datatype function_restore_policy = PolicyAppend | PolicyFlush | PolicyReplace

fun function_restore_policy_as_arg :: "function_restore_policy \<Rightarrow> string" where
  "function_restore_policy_as_arg PolicyAppend = ''APPEND''"
| "function_restore_policy_as_arg PolicyFlush = ''FLUSH''"
| "function_restore_policy_as_arg PolicyReplace = ''REPLACE''"

datatype client_pause_mode = PauseAll | PauseWrite

fun client_pause_mode_as_arg :: "client_pause_mode \<Rightarrow> string" where
  "client_pause_mode_as_arg PauseAll = ''ALL''"
| "client_pause_mode_as_arg PauseWrite = ''WRITE''"

datatype hash_field_conditional_change = OnlyIfAllExist | OnlyIfNoneExist

fun hash_field_conditional_change_as_arg :: "hash_field_conditional_change \<Rightarrow> string" where
  "hash_field_conditional_change_as_arg OnlyIfAllExist = ''FXX''"
| "hash_field_conditional_change_as_arg OnlyIfNoneExist = ''FNX''"

record migrate_options =
  mig_copy :: bool
  mig_replace :: bool
  mig_password :: "string option"
  mig_username :: "string option"

definition migrate_options_add_to :: "migrate_options \<Rightarrow> cmd \<Rightarrow> cmd" where
  "migrate_options_add_to m c =
     c @ flag (mig_copy m) ''COPY'' @ flag (mig_replace m) ''REPLACE''
     @ (case (mig_username m, mig_password m) of
          (Some u, Some p) \<Rightarrow> [AStr ''AUTH2'', AStr u, AStr p]
        | (None, Some p) \<Rightarrow> [AStr ''AUTH'', AStr p]
        | _ \<Rightarrow> [])"

record restore_options =
  res_replace :: bool
  res_absttl :: bool
  res_idletime :: "i64 option"
  res_frequency :: "i64 option"

definition restore_options_add_to :: "restore_options \<Rightarrow> cmd \<Rightarrow> cmd" where
  "restore_options_add_to r c =
     c @ flag (res_replace r) ''REPLACE'' @ flag (res_absttl r) ''ABSTTL''
     @ opt_clause ''IDLETIME'' AI64 (res_idletime r) @ opt_clause ''FREQ'' AI64 (res_frequency r)"

datatype order_by = Asc | Desc

fun order_by_as_arg :: "order_by \<Rightarrow> string" where
  "order_by_as_arg Asc = ''ASC''"
| "order_by_as_arg Desc = ''DESC''"

record limit =
  lim_offset :: i64
  lim_count :: i64

text \<open>\<open>cmd.arg("LIMIT").arg(limit.offset).arg(limit.count)\<close> under \<open>if let Some(limit)\<close>.\<close>

definition limit_args :: "limit option \<Rightarrow> cmd" where
  "limit_args l =
     (case l of None \<Rightarrow> [] | Some x \<Rightarrow> [AStr ''LIMIT'', AI64 (lim_offset x), AI64 (lim_count x)])"

datatype object_type = OtString | OtList | OtSet | OtZSet | OtHash | OtStream

datatype redis_object_type =
    RedisString | RedisList | RedisSet | RedisZSet | RedisHash | RedisStream

fun object_type_to_redis :: "object_type \<Rightarrow> redis_object_type" where
  "object_type_to_redis OtString = RedisString"
| "object_type_to_redis OtList = RedisList"
| "object_type_to_redis OtSet = RedisSet"
| "object_type_to_redis OtZSet = RedisZSet"
| "object_type_to_redis OtHash = RedisHash"
| "object_type_to_redis OtStream = RedisStream"

datatype flush_mode = FlushSync | FlushAsync

fun flush_mode_as_arg :: "flush_mode \<Rightarrow> string" where
  "flush_mode_as_arg FlushSync = ''SYNC''"
| "flush_mode_as_arg FlushAsync = ''ASYNC''"

section \<open>The contracts hold\<close>

lemma conditional_change_append: "conditional_change_add_to x (c @ d) = c @ conditional_change_add_to x d"
  by (cases x) auto

fun_cases conditional_change_add_toE: "conditional_change_add_to x [] = y"

interpretation conditional_change: lossless_appender conditional_change_add_to
  by unfold_locales (auto simp: conditional_change_append elim!: conditional_change_add_toE)

lemma expiry_set_append: "expiry_set_add_to x (c @ d) = c @ expiry_set_add_to x d"
  by (cases x) auto

fun_cases expiry_set_add_toE: "expiry_set_add_to x [] = y"

interpretation expiry_set: lossless_appender expiry_set_add_to
  by unfold_locales (auto simp: expiry_set_append elim!: expiry_set_add_toE)

lemma expire_options_append: "expire_options_add_to x (c @ d) = c @ expire_options_add_to x d"
  by (cases x) auto

fun_cases expire_options_add_toE: "expire_options_add_to x [] = y"

interpretation expire_options: lossless_appender expire_options_add_to
  by unfold_locales (auto simp: expire_options_append elim!: expire_options_add_toE)

interpretation restore_options: lossless_appender restore_options_add_to
proof unfold_locales
  fix opts c d show "restore_options_add_to opts (c @ d) = c @ restore_options_add_to opts d"
    by (simp add: restore_options_add_to_def)
next
  fix o1 o2 :: restore_options
  assume "restore_options_add_to o1 [] = restore_options_add_to o2 []"
  then show "o1 = o2"
    by (cases o1; cases o2)
       (auto simp: restore_options_add_to_def flag_def opt_clause_def split: if_splits option.splits)
qed

interpretation migrate_options: appender migrate_options_add_to
  by unfold_locales (simp add: migrate_options_add_to_def)

interpretation function_restore_policy: keyword function_restore_policy_as_arg
  by unfold_locales (auto elim!: function_restore_policy_as_arg.elims)

interpretation client_pause_mode: keyword client_pause_mode_as_arg
  by unfold_locales (auto elim!: client_pause_mode_as_arg.elims)

interpretation hash_field_conditional_change: keyword hash_field_conditional_change_as_arg
  by unfold_locales (auto elim!: hash_field_conditional_change_as_arg.elims)

interpretation order_by: keyword order_by_as_arg
  by unfold_locales (auto elim!: order_by_as_arg.elims)

interpretation flush_mode: keyword flush_mode_as_arg
  by unfold_locales (auto elim!: flush_mode_as_arg.elims)

lemma migrate_options_auth:
  "migrate_options_add_to m [] = migrate_options_add_to m' [] \<longleftrightarrow>
     mig_copy m = mig_copy m' \<and> mig_replace m = mig_replace m'
     \<and> mig_password m = mig_password m'
     \<and> (mig_password m = None \<or> mig_username m = mig_username m')"
  by (auto simp: migrate_options_add_to_def flag_def split: if_splits option.splits)

lemma object_type_to_redis_inj: "object_type_to_redis s = object_type_to_redis t \<longleftrightarrow> s = t"
  by (cases s; cases t) auto

lemma limit_args_inj: "limit_args l = limit_args m \<longleftrightarrow> l = m"
  by (auto simp: limit_args_def split: option.splits)

text \<open>
  No option is lost between the caller and the wire: two values of \<open>ExpirySet\<close>, \<open>ExpireOptions\<close>,
  \<open>ConditionalChange\<close> or \<open>RestoreOptions\<close> extend a command by the same arguments only if they are the
  same value, and the command built so far stays a prefix of the result.
\<close>

lemma shared_options_lossless:
  "(expiry_set_add_to e1 c = expiry_set_add_to e2 c \<longleftrightarrow> e1 = e2)
   \<and> (expire_options_add_to x1 c = expire_options_add_to x2 c \<longleftrightarrow> x1 = x2)
   \<and> (conditional_change_add_to n1 c = conditional_change_add_to n2 c \<longleftrightarrow> n1 = n2)
   \<and> (restore_options_add_to r1 c = restore_options_add_to r2 c \<longleftrightarrow> r1 = r2)
   \<and> prefix c (expiry_set_add_to e1 c) \<and> prefix c (expire_options_add_to x1 c)
   \<and> prefix c (conditional_change_add_to n1 c) \<and> prefix c (restore_options_add_to r1 c)"
  by (simp only: expiry_set.add_to_options_inj expire_options.add_to_options_inj
        conditional_change.add_to_options_inj restore_options.add_to_options_inj
        expiry_set.add_to_prefix expire_options.add_to_prefix
        conditional_change.add_to_prefix restore_options.add_to_prefix simp_thms)

text \<open>
  \<open>MIGRATE\<close> authenticates with the password that was set, with the user name when both are set;
  a user name without a password contributes no argument at all, so the options are recoverable
  from the command except for such a user name.
\<close>

lemma migrate_options_recoverable:
  "migrate_options_add_to m c = migrate_options_add_to m' c \<longleftrightarrow>
     mig_copy m = mig_copy m' \<and> mig_replace m = mig_replace m'
     \<and> mig_password m = mig_password m'
     \<and> (mig_password m = None \<or> mig_username m = mig_username m')"
  by (metis migrate_options.add_to_eq migrate_options_auth same_append_eq)

end
