(* ===== verification/Client.thy ===== *)
theory Client
  imports Config Push Routes Options
begin

text \<open>
  The two clients (\<open>src/client/mod.rs\<close>), pipelines (\<open>src/pipeline_options.rs\<close>,
  \<open>src/client/connection.rs\<close>) and the interpretation of the dispatch seam on both clients.

  The core client is code outside the repository.  \<open>core_ops\<close> is its interface as the sources use it:
  each operation acts on the state \<open>'w\<close> of the deployment behind it, \<open>'c\<close> is the handle, which is cloned
  but never changed by the sources, and \<open>'p\<close> the response policies.  The operations of the model take
  that record as their first argument.  \<open>connect\<close> also acts on the store of push channels.
\<close>

record pipeline =
  pl_commands :: "cmd list"
  pl_atomic :: bool

record pipeline_retry_strategy =
  rs_server_error :: bool
  rs_connection_error :: bool

definition default_retry_strategy :: pipeline_retry_strategy where
  "default_retry_strategy = \<lparr>rs_server_error = False, rs_connection_error = False\<rparr>"



record cluster_scan_args =
  csa_match_pattern :: "bytes option"
  csa_count :: "u32 option"
  csa_object_type :: "redis_object_type option"

datatype 's scan_state = FreshScan | SavedScan 's

record ('c, 's, 'w, 'p) core_ops =
  core_new :: "connection_request \<Rightarrow> push_sender option \<Rightarrow> ('w, connection_error, 'c) io"
  core_send_command :: "'c \<Rightarrow> cmd \<Rightarrow> 'p routing_info option \<Rightarrow> ('w, redis_error, value) io"
  core_send_transaction ::
    "'c \<Rightarrow> pipeline \<Rightarrow> 'p routing_info option \<Rightarrow> u32 option \<Rightarrow> bool \<Rightarrow> ('w, redis_error, value) io"
  core_send_pipeline ::
    "'c \<Rightarrow> pipeline \<Rightarrow> 'p routing_info option \<Rightarrow> bool \<Rightarrow> u32 option \<Rightarrow> pipeline_retry_strategy
       \<Rightarrow> ('w, redis_error, value) io"
  core_update_connection_password ::
    "'c \<Rightarrow> string option \<Rightarrow> bool \<Rightarrow> ('w, redis_error, value) io"
  core_get_cluster_scan_cursor :: "string \<Rightarrow> ('w, redis_error, 's) io"
  core_cluster_scan :: "'c \<Rightarrow> 's scan_state \<Rightarrow> cluster_scan_args \<Rightarrow> ('w, redis_error, value) io"
  core_redis_error :: "error_kind \<Rightarrow> string \<Rightarrow> string option \<Rightarrow> redis_error"

record 'c glide_client =
  gc_inner :: 'c
  gc_pubsub_rx :: "push_rx option"
  gc_db :: i64

record 'c glide_cluster_client =
  gcc_inner :: 'c
  gcc_pubsub_rx :: "push_rx option"

section \<open>Connecting\<close>

definition has_subs :: "'z common_config_scheme \<Rightarrow> bool" where
  "has_subs config =
     (case cfg_pubsub_subscriptions config of None \<Rightarrow> False | Some s \<Rightarrow> \<not> subscriptions_is_empty s)"

definition client_connect ::
  "connection_request \<Rightarrow> ('c, 's, 'w, 'p) core_ops \<Rightarrow> client_config
     \<Rightarrow> (push_channel list \<times> 'w, glide_error, 'c glide_client) io" where
  "client_connect D K config = (\<lambda>(store, w).
     let db = cfg_database_id config;
         request = client_to_request D config;
         ((sender, rx), store) = make_push_channel (has_subs config \<or> cfg_force_pubsub_channel config) store
     in case core_new K request sender w of
          (Inl e, w) \<Rightarrow> (Inl (from_connection_error e), store, w)
        | (Inr inner, w) \<Rightarrow> (Inr \<lparr>gc_inner = inner, gc_pubsub_rx = rx, gc_db = db\<rparr>, store, w))"

definition cluster_connect ::
  "connection_request \<Rightarrow> ('c, 's, 'w, 'p) core_ops \<Rightarrow> cluster_config
     \<Rightarrow> (push_channel list \<times> 'w, glide_error, 'c glide_cluster_client) io" where
  "cluster_connect D K config = (\<lambda>(store, w).
     let request = cluster_to_request D config;
         ((sender, rx), store) = make_push_channel (has_subs config \<or> cfg_force_pubsub_channel config) store
     in case core_new K request sender w of
          (Inl e, w) \<Rightarrow> (Inl (from_connection_error e), store, w)
        | (Inr inner, w) \<Rightarrow> (Inr \<lparr>gcc_inner = inner, gcc_pubsub_rx = rx\<rparr>, store, w))"

definition get_pubsub_message ::
  "redis_ext \<Rightarrow> 'c glide_client \<Rightarrow> push_channel list \<Rightarrow> pubsub_message result poll \<times> push_channel list" where
  "get_pubsub_message X client = recv_pubsub_message X (gc_pubsub_rx client)"

definition try_get_pubsub_message ::
  "redis_ext \<Rightarrow> 'c glide_client \<Rightarrow> push_channel list \<Rightarrow> pubsub_message option result \<times> push_channel list" where
  "try_get_pubsub_message X client = try_recv_pubsub_message X (gc_pubsub_rx client)"

definition cluster_get_pubsub_message ::
  "redis_ext \<Rightarrow> 'c glide_cluster_client \<Rightarrow> push_channel list \<Rightarrow> pubsub_message result poll \<times> push_channel list" where
  "cluster_get_pubsub_message X client = recv_pubsub_message X (gcc_pubsub_rx client)"

definition cluster_try_get_pubsub_message ::
  "redis_ext \<Rightarrow> 'c glide_cluster_client \<Rightarrow> push_channel list
     \<Rightarrow> pubsub_message option result \<times> push_channel list" where
  "cluster_try_get_pubsub_message X client = try_recv_pubsub_message X (gcc_pubsub_rx client)"

section \<open>Commands\<close>

definition execute_command ::
  "('c, 's, 'w, 'p) core_ops \<Rightarrow> 'c glide_client \<Rightarrow> ('w, 'p) executor_fn" where
  "execute_command K self cmd routing =
     map_err_io from_redis_error (core_send_command K (gc_inner self) cmd routing)"

definition cluster_execute_command ::
  "('c, 's, 'w, 'p) core_ops \<Rightarrow> 'c glide_cluster_client \<Rightarrow> ('w, 'p) executor_fn" where
  "cluster_execute_command K self cmd routing =
     map_err_io from_redis_error (core_send_command K (gcc_inner self) cmd routing)"

definition route_command ::
  "'p routing_ext \<Rightarrow> ('c, 's, 'w, 'p) core_ops \<Rightarrow> 'c glide_cluster_client \<Rightarrow> cmd \<Rightarrow> route
     \<Rightarrow> ('w, glide_error, value) io" where
  "route_command R K self cmd r =
     (let routing = to_routing_info R r (Some cmd) in
      map_err_io from_redis_error (core_send_command K (gcc_inner self) cmd (Some routing)))"

definition glide_send_owned ::
  "('c, 's, 'w, 'p) core_ops \<Rightarrow> 'c glide_client \<Rightarrow> cmd \<Rightarrow> ('w, redis_error, value) io" where
  "glide_send_owned K self cmd = core_send_command K (gc_inner self) cmd None"

definition cluster_glide_send_owned ::
  "('c, 's, 'w, 'p) core_ops \<Rightarrow> 'c glide_cluster_client \<Rightarrow> cmd \<Rightarrow> ('w, redis_error, value) io" where
  "cluster_glide_send_owned K self cmd = core_send_command K (gcc_inner self) cmd None"

definition update_connection_password ::
  "('c, 's, 'w, 'p) core_ops \<Rightarrow> 'c glide_client \<Rightarrow> string option \<Rightarrow> bool \<Rightarrow> ('w, glide_error, unit) io" where
  "update_connection_password K self password immediate_auth =
     bind_io (map_err_io from_redis_error
                (core_update_connection_password K (gc_inner self) password immediate_auth))
       (\<lambda>_. pure_io (Inr ()))"

definition cluster_update_connection_password ::
  "('c, 's, 'w, 'p) core_ops \<Rightarrow> 'c glide_cluster_client \<Rightarrow> string option \<Rightarrow> bool
     \<Rightarrow> ('w, glide_error, unit) io" where
  "cluster_update_connection_password K self password immediate_auth =
     bind_io (map_err_io from_redis_error
                (core_update_connection_password K (gcc_inner self) password immediate_auth))
       (\<lambda>_. pure_io (Inr ()))"

section \<open>Pipelines\<close>

record pipeline_options =
  po_timeout :: "duration option"
  po_retry_server_error :: bool
  po_retry_connection_error :: bool

definition pipeline_options_new :: pipeline_options where
  "pipeline_options_new =
     \<lparr>po_timeout = None, po_retry_server_error = False, po_retry_connection_error = False\<rparr>"

definition with_timeout :: "pipeline_options \<Rightarrow> duration \<Rightarrow> pipeline_options" where
  "with_timeout o' t = o'\<lparr>po_timeout := Some t\<rparr>"

definition with_retry_server_error :: "pipeline_options \<Rightarrow> bool \<Rightarrow> pipeline_options" where
  "with_retry_server_error o' b = o'\<lparr>po_retry_server_error := b\<rparr>"

definition with_retry_connection_error :: "pipeline_options \<Rightarrow> bool \<Rightarrow> pipeline_options" where
  "with_retry_connection_error o' b = o'\<lparr>po_retry_connection_error := b\<rparr>"

definition timeout_millis :: "pipeline_options \<Rightarrow> u32 option" where
  "timeout_millis o' =
     map_option (\<lambda>d. if as_millis d \<le> 4294967295 then of_nat (as_millis d) else 4294967295) (po_timeout o')"

definition run_pipeline ::
  "('c, 's, 'w, 'p) core_ops \<Rightarrow> 'c \<Rightarrow> pipeline \<Rightarrow> 'p routing_info option \<Rightarrow> bool \<Rightarrow> pipeline_options
     \<Rightarrow> ('w, glide_error, value list) io" where
  "run_pipeline K core p routing raise_on_error options =
     (if pl_commands p = [] then pure_io (Inr [])
      else
        (let timeout = timeout_millis options in
         bind_io
           (if pl_atomic p
            then map_err_io from_redis_error (core_send_transaction K core p routing timeout raise_on_error)
            else map_err_io from_redis_error
                   (core_send_pipeline K core p routing raise_on_error timeout
                      \<lparr>rs_server_error = po_retry_server_error options,
                       rs_connection_error = po_retry_connection_error options\<rparr>))
           (\<lambda>v. pure_io (case v of VArray items \<Rightarrow> Inr items | VNil \<Rightarrow> Inr [] | other \<Rightarrow> Inr [other]))))"

definition execute_pipeline ::
  "('c, 's, 'w, 'p) core_ops \<Rightarrow> 'c glide_client \<Rightarrow> pipeline \<Rightarrow> bool \<Rightarrow> pipeline_options
     \<Rightarrow> ('w, glide_error, value list) io" where
  "execute_pipeline K self p raise_on_error options =
     run_pipeline K (gc_inner self) p None raise_on_error options"

definition cluster_execute_pipeline ::
  "'p routing_ext \<Rightarrow> ('c, 's, 'w, 'p) core_ops \<Rightarrow> 'c glide_cluster_client \<Rightarrow> pipeline \<Rightarrow> bool
     \<Rightarrow> route option \<Rightarrow> pipeline_options \<Rightarrow> ('w, glide_error, value list) io" where
  "cluster_execute_pipeline R K self p raise_on_error r options =
     (let routing = map_option (\<lambda>r. to_routing_info R r None) r in
      run_pipeline K (gcc_inner self) p routing raise_on_error options)"

definition dispatch_pipeline ::
  "redis_ext \<Rightarrow> ('c, 's, 'w, 'p) core_ops \<Rightarrow> 'c \<Rightarrow> pipeline \<Rightarrow> pipeline_retry_strategy option
     \<Rightarrow> ('w, redis_error, value list) io" where
  "dispatch_pipeline X K core p retry =
     (if pl_atomic p
      then bind_io (core_send_transaction K core p None None True) (\<lambda>v. pure_io (Inr [v]))
      else bind_io (core_send_pipeline K core p None True None
                      (case retry of None \<Rightarrow> default_retry_strategy | Some r \<Rightarrow> r))
             (\<lambda>v. pure_io (case v of
                VArray items \<Rightarrow> Inr items
              | other \<Rightarrow> Inl (core_redis_error K ResponseError
                  ''unexpected non-array pipeline reply from glide-core'' (Some (x_debug X other))))))"

text \<open>
  The adapter \<open>PipelineConn\<close> is what the typed decoding of the fork (\<open>Pipeline::query_async\<close>, the
  parameter \<open>query_async\<close>) runs against.
\<close>

record 'w pipeline_conn =
  pc_req_packed_command :: "cmd \<Rightarrow> ('w, redis_error, value) io"
  pc_req_packed_commands ::
    "pipeline \<Rightarrow> nat \<Rightarrow> nat \<Rightarrow> pipeline_retry_strategy option \<Rightarrow> ('w, redis_error, value list) io"
  pc_get_db :: i64
  pc_is_closed :: bool

definition pipeline_adapter ::
  "redis_ext \<Rightarrow> ('c, 's, 'w, 'p) core_ops \<Rightarrow> 'c \<Rightarrow> i64 \<Rightarrow> 'w pipeline_conn" where
  "pipeline_adapter X K core db =
     \<lparr>pc_req_packed_command = (\<lambda>_. pure_io (Inl (core_redis_error K ClientError
        (''single-command dispatch is not supported on the pipeline adapter; ''
         @ ''use the unified command API'') None))),
      pc_req_packed_commands = (\<lambda>p _ _ retry. dispatch_pipeline X K core p retry),
      pc_get_db = db,
      pc_is_closed = False\<rparr>"

definition client_core :: "'c glide_client \<Rightarrow> 'c" where
  "client_core self = gc_inner self"

definition client_db :: "'c glide_client \<Rightarrow> i64" where
  "client_db self = gc_db self"

definition cluster_core :: "'c glide_cluster_client \<Rightarrow> 'c" where
  "cluster_core self = gcc_inner self"

definition core_handle :: "'c glide_client \<Rightarrow> 'c" where
  "core_handle self = gc_inner self"

definition db_index :: "'c glide_client \<Rightarrow> i64" where
  "db_index self = client_db self"

definition cluster_core_handle :: "'c glide_cluster_client \<Rightarrow> 'c" where
  "cluster_core_handle self = gcc_inner self"

definition cluster_db_index :: "'c glide_cluster_client \<Rightarrow> i64" where
  "cluster_db_index self = 0"

lemma handle_accessors [simp]:
  "core_handle = gc_inner" "cluster_core_handle = gcc_inner" "client_core = gc_inner" "cluster_core = gcc_inner"
  "db_index = gc_db" "client_db = gc_db" "cluster_db_index c = 0"
  by (simp_all add: fun_eq_iff core_handle_def cluster_core_handle_def client_core_def cluster_core_def
      db_index_def client_db_def cluster_db_index_def)

definition query_glide ::
  "redis_ext \<Rightarrow> ('c, 's, 'w, 'p) core_ops
     \<Rightarrow> (pipeline \<Rightarrow> 'w pipeline_conn \<Rightarrow> ('w, redis_error, 't) io)
     \<Rightarrow> pipeline \<Rightarrow> 'c glide_client \<Rightarrow> ('w, redis_error, 't) io" where
  "query_glide X K query_async p con = query_async p (pipeline_adapter X K (core_handle con) (db_index con))"

definition cluster_query_glide ::
  "redis_ext \<Rightarrow> ('c, 's, 'w, 'p) core_ops
     \<Rightarrow> (pipeline \<Rightarrow> 'w pipeline_conn \<Rightarrow> ('w, redis_error, 't) io)
     \<Rightarrow> pipeline \<Rightarrow> 'c glide_cluster_client \<Rightarrow> ('w, redis_error, 't) io" where
  "cluster_query_glide X K query_async p con = 
     query_async p (pipeline_adapter X K (cluster_core_handle con) (cluster_db_index con))"

section \<open>Cluster scan\<close>

datatype cluster_scan_cursor = ClusterScanCursor string

definition cursor_new :: cluster_scan_cursor where
  "cursor_new = ClusterScanCursor []"

definition cursor_default :: cluster_scan_cursor where
  "cursor_default = cursor_new"

definition cursor_from_id :: "string \<Rightarrow> cluster_scan_cursor" where
  "cursor_from_id s = ClusterScanCursor s"

fun cursor_id :: "cluster_scan_cursor \<Rightarrow> string" where
  "cursor_id (ClusterScanCursor s) = s"

definition cursor_is_finished :: "cluster_scan_cursor \<Rightarrow> bool" where
  "cursor_is_finished c = (cursor_id c = ''finished'')"

definition cluster_scan_args_new ::
  "bytes option \<Rightarrow> u32 option \<Rightarrow> object_type option \<Rightarrow> cluster_scan_args" where
  "cluster_scan_args_new match_pattern count object_type =
     (let builder = \<lparr>csa_match_pattern = None, csa_count = None, csa_object_type = None\<rparr>;
          builder = apply_opt (\<lambda>p b. b\<lparr>csa_match_pattern := Some p\<rparr>) match_pattern builder;
          builder = apply_opt (\<lambda>c b. b\<lparr>csa_count := Some c\<rparr>) count builder;
          builder = apply_opt (\<lambda>t b. b\<lparr>csa_object_type := Some (object_type_to_redis t)\<rparr>) object_type builder
      in builder)"

definition parse_cluster_scan :: "redis_ext \<Rightarrow> value \<Rightarrow> (cluster_scan_cursor \<times> bytes list) result" where
  "parse_cluster_scan X reply =
     bind_res
       (case reply of
          VArray items \<Rightarrow> Inr items
        | other \<Rightarrow> Inl (Request (''unexpected cluster scan reply: '' @ x_debug X other)))
     (\<lambda>items.
     bind_res
       (case items of
          [cursor_val, keys_val] \<Rightarrow> Inr (cursor_val, keys_val)
        | _ \<Rightarrow> Inl (Request (''unexpected cluster scan reply arity: '' @ x_debug_list X items)))
     (\<lambda>(cursor_val, keys_val).
     bind_res (to_string X cursor_val) (\<lambda>next_id.
     bind_res
       (case keys_val of
          VArray elems \<Rightarrow> traverse (to_bytes X) elems
        | VNil \<Rightarrow> Inr []
        | other \<Rightarrow> bind_res (to_bytes X other) (\<lambda>k. Inr [k]))
     (\<lambda>keys. Inr (ClusterScanCursor next_id, keys)))))"

definition cluster_scan ::
  "redis_ext \<Rightarrow> ('c, 's, 'w, 'p) core_ops \<Rightarrow> 'c glide_cluster_client \<Rightarrow> cluster_scan_cursor
     \<Rightarrow> bytes option \<Rightarrow> u32 option \<Rightarrow> object_type option
     \<Rightarrow> ('w, glide_error, cluster_scan_cursor \<times> bytes list) io" where
  "cluster_scan X K self cursor match_pattern count object_type =
     bind_io
       (if cursor_id cursor = [] \<or> cursor_id cursor = ''0'' then pure_io (Inr FreshScan)
        else bind_io (map_err_io from_redis_error (core_get_cluster_scan_cursor K (cursor_id cursor)))
               (\<lambda>s. pure_io (Inr (SavedScan s))))
     (\<lambda>scan_state.
     bind_io
       (map_err_io from_redis_error
          (core_cluster_scan K (gcc_inner self) scan_state
             (cluster_scan_args_new match_pattern count object_type)))
     (\<lambda>reply. pure_io (parse_cluster_scan X reply)))"

section \<open>The dispatch seam on both clients\<close>

interpretation standalone: executor "execute_command K" "\<lambda>self. core_send_command K (gc_inner self)" for K
  by unfold_locales (simp add: execute_command_def)

interpretation cluster: executor "cluster_execute_command K" "\<lambda>self. core_send_command K (gcc_inner self)" for K
  by unfold_locales (simp add: cluster_execute_command_def)

lemma map_err_io_run: "map_err_io f m w = (map_err f (fst (m w)), snd (m w))"
  by (simp add: map_err_io_def case_prod_beta)

text \<open>
  One typed command is one command on the wire, with no routing override: on both clients a command
  method sends exactly the command it built, once; a success is decoded and an error of the core is
  returned as its classification, and the state of the deployment is the one the core left.
\<close>

lemma call_dispatches_once:
  "call (execute_command K client) c decode w =
     (case core_send_command K (gc_inner client) c None w of
        (Inl e, w') \<Rightarrow> (Inl (from_redis_error e), w')
      | (Inr v, w') \<Rightarrow> (decode v, w'))
   \<and> call (cluster_execute_command K ccl) c decode w =
     (case core_send_command K (gcc_inner ccl) c None w of
        (Inl e, w') \<Rightarrow> (Inl (from_redis_error e), w')
      | (Inr v, w') \<Rightarrow> (decode v, w'))"
  by (simp add: standalone.call_single_dispatch cluster.call_single_dispatch)

text \<open>
  The two ways to send a routed command agree: \<open>route_command\<close> of the cluster client and
  \<open>custom_command_with_route\<close> on the same arguments send the same command with the same routing, whose
  response policy is computed from that command.
\<close>

lemma routed_commands_agree:
  "route_command R K ccl (map AGen args) r = custom_command_with_route R (cluster_execute_command K ccl) args r
   \<and> route_command R K ccl c r w =
       (case core_send_command K (gcc_inner ccl) c (Some (to_routing_info R r (Some c))) w of
          (q, w') \<Rightarrow> (map_err from_redis_error q, w'))"
  by (simp add: route_command_def custom_command_with_route_def cluster_execute_command_def Let_def
      map_err_io_def)

text \<open>
  The standalone client does not drop a routing either: it hands it to the core as it is.
\<close>

lemma standalone_forwards_routing:
  "custom_command_with_route R (execute_command K client) args r w =
     (case core_send_command K (gc_inner client) (map AGen args) (Some (to_routing_info R r (Some (map AGen args)))) w of
        (q, w') \<Rightarrow> (map_err from_redis_error q, w'))"
  by (rule standalone.custom_command_route_dispatch)

section \<open>Connecting\<close>

lemma make_push_channel_eq:
  "make_push_channel wanted store =
     ((if wanted then Some (length store) else None, if wanted then Some (length store) else None),
      store @ (if wanted then [\<lparr>ch_queue = [], ch_closed = False\<rparr>] else []))"
  by (simp add: make_push_channel_def)

lemma connect_channel:
  "client_connect D K config (store, w) =
     (let wanted = (has_subs config \<or> cfg_force_pubsub_channel config);
          rx = (if wanted then Some (length store) else None);
          store' = store @ (if wanted then [\<lparr>ch_queue = [], ch_closed = False\<rparr>] else [])
      in case core_new K (client_to_request D config) rx w of
           (Inl e, w') \<Rightarrow> (Inl (from_connection_error e), store', w')
         | (Inr c, w') \<Rightarrow>
             (Inr \<lparr>gc_inner = c, gc_pubsub_rx = rx, gc_db = cfg_database_id config\<rparr>, store', w'))"
  by (simp only: client_connect_def make_push_channel_eq Let_def prod.case)

lemma cluster_connect_channel:
  "cluster_connect D K config (store, w) =
     (let wanted = (has_subs config \<or> cfg_force_pubsub_channel config);
          rx = (if wanted then Some (length store) else None);
          store' = store @ (if wanted then [\<lparr>ch_queue = [], ch_closed = False\<rparr>] else [])
      in case core_new K (cluster_to_request D config) rx w of
           (Inl e, w') \<Rightarrow> (Inl (from_connection_error e), store', w')
         | (Inr c, w') \<Rightarrow> (Inr \<lparr>gcc_inner = c, gcc_pubsub_rx = rx\<rparr>, store', w'))"
  by (simp only: cluster_connect_def make_push_channel_eq Let_def prod.case)

text \<open>
  A core client for examples: the deployment is the list of the replies still to come and the list of
  the commands received; connecting always succeeds.
\<close>

type_synonym sample_world = "(redis_error + value) list \<times> cmd list"

fun sample_reply :: "cmd \<Rightarrow> (sample_world, redis_error, value) io" where
  "sample_reply c ([], received) = (Inr VNil, [], received @ [c])"
| "sample_reply c (r # rs, received) = (r, rs, received @ [c])"

definition sample_core :: "(unit, string, sample_world, unit) core_ops" where
  "sample_core =
     \<lparr>core_new = (\<lambda>req sender w. (Inr (), w)),
      core_send_command = (\<lambda>c cmd routing. sample_reply cmd),
      core_send_transaction = (\<lambda>c p routing timeout raise. sample_reply (concat (pl_commands p))),
      core_send_pipeline = (\<lambda>c p routing raise timeout retry. sample_reply (concat (pl_commands p))),
      core_update_connection_password = (\<lambda>c pw auth w. (Inr VOkay, w)),
      core_get_cluster_scan_cursor = (\<lambda>s w. (Inr s, w)),
      core_cluster_scan = (\<lambda>c s args. sample_reply [AStr ''SCAN'']),
      core_redis_error = (\<lambda>kind desc detail. \<lparr>re_kind = kind, re_timeout = False, re_display = desc\<rparr>)\<rparr>"

lemma has_subs_iff: "has_subs config \<longleftrightarrow> (\<exists>s. cfg_pubsub_subscriptions config = Some s \<and> \<not> subscriptions_is_empty s)"
  by (simp add: has_subs_def split: option.split)



text \<open>
  Connecting sets up the push channel exactly when it is asked for.  A connected standalone
  client whose configuration has the subscriptions of a list of \<open>subscribe\<close> calls has a receiver exactly
  when there was a call or the channel is forced.  It is then a fresh channel, in an initial state of
  the delivery protocol, on which a receive waits; without it the store of channels is unchanged and
  a receive fails at once, and in both cases the channels of other clients are untouched.
\<close>

lemma client_connect_pubsub:
  assumes "cfg_pubsub_subscriptions config = map_option (subscribe_all subscriptions_new) reqs"
    and "client_connect D K config (store, w) = (Inr client, store', w')"
  shows "if cfg_force_pubsub_channel config \<or> (reqs \<noteq> None \<and> reqs \<noteq> Some [])
    then gc_pubsub_rx client = Some (length store)
      \<and> ps_reachable X store (length store)
          \<lparr>ps_store = store', ps_holder = None, ps_sent = [], ps_delivered = []\<rparr>
      \<and> fst (get_pubsub_message X client store') = Pending
    else store' = store \<and> gc_pubsub_rx client = None
      \<and> get_pubsub_message X client store'
          = (Ready (Inl (Request ''client has no configured pub/sub subscriptions'')), store')"
    (is "if _ then ?yes else ?no")
proof -
  define wanted where "wanted \<longleftrightarrow> cfg_force_pubsub_channel config \<or> (reqs \<noteq> None \<and> reqs \<noteq> Some [])"
  have "(has_subs config \<or> cfg_force_pubsub_channel config) = wanted"
    using assms(1) by (cases reqs) (auto simp: has_subs_iff subscribe_all_is_empty wanted_def)
  then have rx: "gc_pubsub_rx client = (if wanted then Some (length store) else None)"
    and store': "store' = store @ (if wanted then [\<lparr>ch_queue = [], ch_closed = False\<rparr>] else [])"
    using assms(2) by (auto simp: connect_channel Let_def split: prod.splits sum.splits)
  show ?thesis
    unfolding wanted_def [symmetric]
  proof (cases wanted)
    case True
    have "ps_reachable X store (length store)
        \<lparr>ps_store = store', ps_holder = None, ps_sent = [], ps_delivered = []\<rparr>"
      by (rule ps_reachable.init [where tx = "length store"]) (simp add: make_push_channel_def store' True)
    moreover have "fst (get_pubsub_message X client store') = Pending"
      by (simp add: get_pubsub_message_def rx True store' recv_pubsub_message_Some nth_append)
    ultimately show "if wanted then ?yes else ?no"
      using True rx by simp
  next
    case False
    then show "if wanted then ?yes else ?no"
      using rx store' by (simp add: get_pubsub_message_def recv_pubsub_message_def pubsub_rx_def)
  qed
qed

theorem client_connect_pubsub_witness:
  "\<exists>client store'. client_connect sample_request sample_core
       (with_subscriptions (subscribe_all subscriptions_new [(Exact, ''news'')]) (client_with_address ''h'' 1))
       ([], [], []) = (Inr client, store', [], [])
     \<and> gc_pubsub_rx client = Some 0 \<and> fst (get_pubsub_message sample_ext client store') = Pending"
proof -
  let ?config = "with_subscriptions (subscribe_all subscriptions_new [(Exact, ''news'')]) (client_with_address ''h'' 1)"
  have sub: "cfg_pubsub_subscriptions ?config
      = map_option (subscribe_all subscriptions_new) (Some [(Exact, ''news'')])"
    by (simp add: with_subscriptions_def)
  obtain client store' where c: "client_connect sample_request sample_core ?config ([], [], [])
      = (Inr client, store', [], [])"
    by (auto simp: connect_channel sample_core_def Let_def)
  from client_connect_pubsub [OF sub c, of sample_ext] c show ?thesis by auto
qed

section \<open>Pipelines\<close>

lemma timeout_millis_eq: "timeout_millis opts = map_option duration_as_millis_u32 (po_timeout opts)"
proof -
  have "(if as_millis d \<le> 4294967295 then of_nat (as_millis d) else 4294967295) = duration_as_millis_u32 d" for d
  proof -
    have "as_millis d \<le> 4294967295 \<longleftrightarrow> as_millis d < 2 ^ 32" by auto
    then show ?thesis unfolding duration_as_millis_u32_def by (simp only:) simp
  qed
  then show ?thesis by (simp add: timeout_millis_def)
qed

text \<open>
  What the core documents of its effect, with \<open>journal\<close> for the commands a deployment has applied: a transaction is applied as a whole or
  not at all, and a pipeline that must not be retried is applied up to some command, each command once and in order.
\<close>

definition core_applies :: "('c, 's, 'w, 'p) core_ops \<Rightarrow> 'c \<Rightarrow> ('w \<Rightarrow> cmd list) \<Rightarrow> bool" where
  "core_applies K core journal \<longleftrightarrow>
     (\<forall>p routing timeout raise w.
        journal (snd (core_send_transaction K core p routing timeout raise w)) \<in> {journal w, journal w @ pl_commands p})
     \<and> (\<forall>p routing raise timeout w. \<exists>n.
        journal (snd (core_send_pipeline K core p routing raise timeout
          \<lparr>rs_server_error = False, rs_connection_error = False\<rparr> w)) = journal w @ take n (pl_commands p))"

lemma run_pipeline_calls:
  "run_pipeline K core p routing raise opts w =
     (if pl_commands p = [] then (Inr [], w)
      else case (if pl_atomic p
                 then core_send_transaction K core p routing (map_option duration_as_millis_u32 (po_timeout opts)) raise w
                 else core_send_pipeline K core p routing raise (map_option duration_as_millis_u32 (po_timeout opts))
                        \<lparr>rs_server_error = po_retry_server_error opts,
                         rs_connection_error = po_retry_connection_error opts\<rparr> w) of
             (Inl e, w') \<Rightarrow> (Inl (from_redis_error e), w')
           | (Inr v, w') \<Rightarrow> (Inr (case v of VArray items \<Rightarrow> items | VNil \<Rightarrow> [] | other \<Rightarrow> [other]), w'))"
  by (auto simp: run_pipeline_def timeout_millis_eq [symmetric] timeout_millis_def map_err_io_def bind_io_def Let_def
      split: prod.splits sum.splits value_splits)

lemma run_pipeline_world:
  "snd (run_pipeline K core p routing raise opts w) =
     (if pl_commands p = [] then w
      else snd (if pl_atomic p
                then core_send_transaction K core p routing (map_option duration_as_millis_u32 (po_timeout opts)) raise w
                else core_send_pipeline K core p routing raise (map_option duration_as_millis_u32 (po_timeout opts))
                       \<lparr>rs_server_error = po_retry_server_error opts,
                        rs_connection_error = po_retry_connection_error opts\<rparr> w))"
  unfolding run_pipeline_calls by (simp split: prod.split sum.split)

lemma run_pipeline_applies:
  assumes "core_applies K core journal"
  shows "pl_atomic p \<Longrightarrow>
      journal (snd (run_pipeline K core p routing raise opts w)) \<in> {journal w, journal w @ pl_commands p}"
    and "\<not> po_retry_server_error opts \<Longrightarrow> \<not> po_retry_connection_error opts \<Longrightarrow>
      \<exists>n. journal (snd (run_pipeline K core p routing raise opts w)) = journal w @ take n (pl_commands p)"
proof -
  have transaction: "journal (snd (core_send_transaction K core p routing timeout raise w))
      \<in> {journal w, journal w @ pl_commands p}" for timeout
    using assms by (simp add: core_applies_def)
  have plain: "\<exists>n. journal (snd (core_send_pipeline K core p routing raise timeout
      \<lparr>rs_server_error = False, rs_connection_error = False\<rparr> w)) = journal w @ take n (pl_commands p)" for timeout
    using assms by (simp add: core_applies_def)
  show "pl_atomic p \<Longrightarrow>
      journal (snd (run_pipeline K core p routing raise opts w)) \<in> {journal w, journal w @ pl_commands p}"
    using transaction by (simp add: run_pipeline_world)
  assume "\<not> po_retry_server_error opts" "\<not> po_retry_connection_error opts"
  moreover have "\<exists>n. xs @ take n ys = z" if "z \<in> {xs, xs @ ys}" for xs ys z :: "cmd list"
    using that by (auto intro: exI [of _ 0] exI [of _ "length ys"])
  from this [OF transaction] have "\<exists>n. journal (snd (core_send_transaction K core p routing timeout raise w))
      = journal w @ take n (pl_commands p)" for timeout by metis
  ultimately show "\<exists>n. journal (snd (run_pipeline K core p routing raise opts w)) = journal w @ take n (pl_commands p)"
    using plain by (auto simp: run_pipeline_world intro: exI [of _ 0])
qed


text \<open>An instance: a deployment that is the list of the commands it has applied, and that breaks off pipelines behind three commands.\<close>

definition journal_core :: "(unit, string, cmd list, unit) core_ops" where
  "journal_core =
     \<lparr>core_new = (\<lambda>req sender w. (Inr (), w)),
      core_send_command = (\<lambda>c cmd routing w. (Inr VOkay, w @ [cmd])),
      core_send_transaction = (\<lambda>c p routing timeout raise w.
        (Inr (VArray (map (\<lambda>_. VOkay) (pl_commands p))), w @ pl_commands p)),
      core_send_pipeline = (\<lambda>c p routing raise timeout retry w.
        (Inr (VArray (map (\<lambda>_. VOkay) (take 3 (pl_commands p)))),
         w @ concat (replicate (if rs_server_error retry \<or> rs_connection_error retry then 2 else 1) (take 3 (pl_commands p))))),
      core_update_connection_password = (\<lambda>c pw auth w. (Inr VOkay, w)),
      core_get_cluster_scan_cursor = (\<lambda>s w. (Inr s, w)),
      core_cluster_scan = (\<lambda>c s args w. (Inr VNil, w)),
      core_redis_error = (\<lambda>kind desc detail. \<lparr>re_kind = kind, re_timeout = False, re_display = desc\<rparr>)\<rparr>"

lemma journal_core_applies: "core_applies journal_core () (\<lambda>w. w)"
  by (auto simp: core_applies_def journal_core_def)


text \<open>
  C26: routed requests reach the nodes their route names.  The routing that \<open>route_command\<close>, \<open>custom_command_with_route\<close> and the
  pipelines of the cluster client hand to the core denotes, in every cluster, exactly the nodes the documentation of the route names: all of
  them, all primaries, any one node, the primary or a replica of the slot with that number or of that key, or the node at
  that address.  A command sent to many nodes carries the response policy of that very command, one sent to a single node and a
  pipeline carry none.
\<close>

theorem routes_reach_nodes:
  "(\<exists>routing. routes_to T R r (Some c) routing
      \<and> route_command R K client c r w
          = map_err_io from_redis_error (core_send_command K (gcc_inner client) c (Some routing)) w)
   \<and> (\<exists>routing. routes_to T R r (Some (map AGen args)) routing
      \<and> custom_command_with_route R (cluster_execute_command K client) args r w
          = map_err_io from_redis_error (core_send_command K (gcc_inner client) (map AGen args) (Some routing)) w)
   \<and> (\<exists>routing. routes_to T R r None routing
      \<and> cluster_execute_pipeline R K client p raise (Some r) opts w
          = run_pipeline K (gcc_inner client) p (Some routing) raise opts w)"
  using to_routing_info_routes [of T R r]
  by (simp add: route_command_def custom_command_with_route_def cluster_execute_command_def cluster_execute_pipeline_def
      Let_def) blast

text \<open>
  C29: the typed and the raw execution of a pipeline agree.  For a pipeline that is not empty, raw execution
  with the default options and raising on errors makes the same request as the typed decoding of \<open>query_glide\<close>, and its
  result is determined by what the typed decoding is handed: the same errors, classified; for a pipeline that is not atomic the same
  replies, where the core is relied on to answer with an array, as it documents; for a transaction the typed side is
  handed the one reply of \<open>EXEC\<close> and raw execution returns the elements of that reply, and no elements for the nil reply of
  a transaction that was not executed, which the typed side sees as nil.
\<close>

theorem execute_pipeline_agrees:
  assumes "pl_commands p \<noteq> []"
    and "\<And>v w'. \<not> pl_atomic p \<Longrightarrow>
        core_send_pipeline K (gc_inner client) p None True None default_retry_strategy w = (Inr v, w') \<Longrightarrow> \<exists>items. v = VArray items"
  shows "execute_pipeline K client p True pipeline_options_new w
    = (case pc_req_packed_commands (pipeline_adapter X K (gc_inner client) (gc_db client)) p i n None w of
         (Inl e, w') \<Rightarrow> (Inl (from_redis_error e), w')
       | (Inr replies, w') \<Rightarrow>
           (Inr (if pl_atomic p
                 then (case replies of [VArray items] \<Rightarrow> items | [VNil] \<Rightarrow> [] | _ \<Rightarrow> replies)
                 else replies), w'))"
proof (cases "pl_atomic p")
  case True
  obtain r w' where "core_send_transaction K (gc_inner client) p None None True w = (r, w')" by force
  with assms(1) True show ?thesis
    by (cases r) (auto simp: execute_pipeline_def run_pipeline_def pipeline_adapter_def dispatch_pipeline_def
        pipeline_options_new_def timeout_millis_def map_err_io_def bind_io_def split: value_split)
next
  case False
  obtain r w' where r: "core_send_pipeline K (gc_inner client) p None True None default_retry_strategy w = (r, w')" by force
  with assms(2) [OF False] have "(\<exists>e. r = Inl e) \<or> (\<exists>items. r = Inr (VArray items))" by (cases r) auto
  with assms(1) False r show ?thesis
    by (auto simp: execute_pipeline_def run_pipeline_def pipeline_adapter_def dispatch_pipeline_def
        pipeline_options_new_def timeout_millis_def default_retry_strategy_def map_err_io_def bind_io_def)
qed

theorem execute_pipeline_agrees_witness:
  "execute_pipeline sample_core \<lparr>gc_inner = (), gc_pubsub_rx = None, gc_db = 0\<rparr>
     \<lparr>pl_commands = [[AStr ''PING'']], pl_atomic = False\<rparr> True pipeline_options_new ([Inr (VArray [VOkay])], [])
   = (Inr [VOkay], [], [[AStr ''PING'']])"
proof -
  let ?p = "\<lparr>pl_commands = [[AStr ''PING'']], pl_atomic = False\<rparr>"
  have core: "core_send_pipeline sample_core () ?p None True None default_retry_strategy ([Inr (VArray [VOkay])], [])
      = (Inr (VArray [VOkay]), [], [[AStr ''PING'']])"
    by (simp add: sample_core_def)
  have "execute_pipeline sample_core \<lparr>gc_inner = (), gc_pubsub_rx = None, gc_db = 0\<rparr> ?p True pipeline_options_new
        ([Inr (VArray [VOkay])], [])
      = (case pc_req_packed_commands (pipeline_adapter sample_ext sample_core () 0) ?p 0 1 None ([Inr (VArray [VOkay])], []) of
         (Inl e, w') \<Rightarrow> (Inl (from_redis_error e), w')
       | (Inr replies, w') \<Rightarrow>
           (Inr (if pl_atomic ?p then (case replies of [VArray items] \<Rightarrow> items | [VNil] \<Rightarrow> [] | _ \<Rightarrow> replies) else replies), w'))"
    using execute_pipeline_agrees [of ?p sample_core "\<lparr>gc_inner = (), gc_pubsub_rx = None, gc_db = 0\<rparr>"
        "([Inr (VArray [VOkay])], [])" sample_ext 0 1] core
    by auto
  then show ?thesis using core by (simp add: pipeline_adapter_def dispatch_pipeline_def bind_io_def)
qed

section \<open>Cluster scan\<close>

lemma scan_keys_Inr:
  "(case kv of
      VArray elems \<Rightarrow> traverse (to_bytes X) elems
    | VNil \<Rightarrow> Inr []
    | other \<Rightarrow> bind_res (to_bytes X other) (\<lambda>k. Inr [k])) = Inr keys \<longleftrightarrow>
     (\<exists>elems. kv = VArray elems \<and> traverse (to_bytes X) elems = Inr keys)
     \<or> (kv = VNil \<and> keys = [])
     \<or> ((\<nexists>elems. kv = VArray elems) \<and> kv \<noteq> VNil \<and> (\<exists>k. to_bytes X kv = Inr k \<and> keys = [k]))"
  by (cases kv) (auto simp: bind_res_Inr simp del: to_bytes_simps)

lemma two_elements_Inr:
  "(case items of [a, b] \<Rightarrow> Inr (a, b) | _ \<Rightarrow> Inl e) = Inr p \<longleftrightarrow> items = [fst p, snd p]"
  by (auto split: list.split)

text \<open>
  A cluster scan step.  A reply is accepted exactly when it is an array of two elements whose
  first is a textual cursor and whose second is an array of keys, nil (no keys) or a single key; the
  cursor and all the keys are returned, in order.  A new cursor, an empty id and the id \<open>0\<close> all start a
  new scan without consulting the saved cursors.
\<close>

lemma cluster_scan_step:
  "(parse_cluster_scan X reply = Inr (next_cursor, keys) \<longleftrightarrow>
     (\<exists>cv kv. reply = VArray [cv, kv] \<and> to_string X cv = Inr (cursor_id next_cursor)
        \<and> ((\<exists>elems. kv = VArray elems \<and> traverse (to_bytes X) elems = Inr keys)
           \<or> (kv = VNil \<and> keys = [])
           \<or> ((\<nexists>elems. kv = VArray elems) \<and> kv \<noteq> VNil \<and> (\<exists>k. to_bytes X kv = Inr k \<and> keys = [k])))))
   \<and> cluster_scan X K self (cursor_from_id ''0'') m n t = cluster_scan X K self cursor_new m n t
   \<and> cluster_scan X K self cursor_new m n t w =
       (case core_cluster_scan K (gcc_inner self) FreshScan (cluster_scan_args_new m n t) w of
          (Inl e, w') \<Rightarrow> (Inl (from_redis_error e), w')
        | (Inr reply', w') \<Rightarrow> (parse_cluster_scan X reply', w'))"
proof (intro conjI)
  show "parse_cluster_scan X reply = Inr (next_cursor, keys) \<longleftrightarrow>
     (\<exists>cv kv. reply = VArray [cv, kv] \<and> to_string X cv = Inr (cursor_id next_cursor)
        \<and> ((\<exists>elems. kv = VArray elems \<and> traverse (to_bytes X) elems = Inr keys)
           \<or> (kv = VNil \<and> keys = [])
           \<or> ((\<nexists>elems. kv = VArray elems) \<and> kv \<noteq> VNil \<and> (\<exists>k. to_bytes X kv = Inr k \<and> keys = [k]))))"
    by (cases next_cursor; cases reply)
       (auto simp: parse_cluster_scan_def bind_res_Inr two_elements_Inr scan_keys_Inr)
  show "cluster_scan X K self (cursor_from_id ''0'') m n t = cluster_scan X K self cursor_new m n t"
    by (simp add: cluster_scan_def cursor_from_id_def cursor_new_def)
  show "cluster_scan X K self cursor_new m n t w =
       (case core_cluster_scan K (gcc_inner self) FreshScan (cluster_scan_args_new m n t) w of
          (Inl e, w') \<Rightarrow> (Inl (from_redis_error e), w')
        | (Inr reply', w') \<Rightarrow> (parse_cluster_scan X reply', w'))"
    by (auto simp: cluster_scan_def cursor_new_def map_err_io_def bind_io_def
        split: prod.splits sum.splits)
qed

end
