(* ===== verification/ClusterScan.thy ===== *)
theory ClusterScan
  imports Client
begin

text \<open>
  A whole cluster scan: the loop a caller of \<open>GlideClusterClient::cluster_scan\<close> (\<open>src/client/mod.rs\<close>) writes
  as its documentation says, starting from \<open>ClusterScanCursor::new\<close> and passing on the returned cursor
  until \<open>is_finished\<close>.  The core coordinates the shards; it hands out an opaque id per page and keeps the
  state of the scan behind it.  A core that never finishes keeps the loop running, so it is a partial
  function whose value \<open>None\<close> is a loop that does not return.
\<close>

partial_function (option) cluster_scan_all ::
  "redis_ext \<Rightarrow> ('c, 's, 'w, 'p) core_ops \<Rightarrow> 'c glide_cluster_client \<Rightarrow> bytes option \<Rightarrow> u32 option
     \<Rightarrow> object_type option \<Rightarrow> cluster_scan_cursor \<Rightarrow> 'w \<Rightarrow> (bytes list result \<times> 'w) option" where
  "cluster_scan_all X K self m n t cursor w =
     (case cluster_scan X K self cursor m n t w of
        (Inl e, w') \<Rightarrow> Some (Inl e, w')
      | (Inr (next_cursor, keys), w') \<Rightarrow>
          (if cursor_is_finished next_cursor then Some (Inr keys, w')
           else Option.bind (cluster_scan_all X K self m n t next_cursor w')
                  (\<lambda>(r, w''). Some (bind_res r (\<lambda>rest. Inr (keys @ rest)), w''))))"

text \<open>
  What the core answers: \<open>core_pages X K core args st w pages r w'\<close> says that from the scan state \<open>st\<close> it
  sends the given pages of keys, and that the scan then is over (\<open>r = None\<close>) or fails with a redis error,
  which may be that of a saved state that has expired.  An id that stands for a saved state is none of
  the three the client gives a meaning of its own.
\<close>

definition saved_id :: "string \<Rightarrow> bool" where
  "saved_id s \<longleftrightarrow> s \<noteq> [] \<and> s \<noteq> ''0'' \<and> s \<noteq> ''finished''"

inductive core_page :: "redis_ext \<Rightarrow> value \<Rightarrow> string \<Rightarrow> bytes list \<Rightarrow> bool" for X where
  "to_string X cv = Inr s \<Longrightarrow> traverse (to_bytes X) elems = Inr keys \<Longrightarrow>
     core_page X (VArray [cv, VArray elems]) s keys"

inductive core_pages ::
  "redis_ext \<Rightarrow> ('c, 's, 'w, 'p) core_ops \<Rightarrow> 'c \<Rightarrow> cluster_scan_args \<Rightarrow> 's scan_state \<Rightarrow> 'w \<Rightarrow> bytes list list
     \<Rightarrow> redis_error option \<Rightarrow> 'w \<Rightarrow> bool"
  for X K core args where
  finished: "core_cluster_scan K core st args w = (Inr reply, w') \<Longrightarrow> core_page X reply ''finished'' keys \<Longrightarrow>
     core_pages X K core args st w [keys] None w'"
| fails: "core_cluster_scan K core st args w = (Inl e, w') \<Longrightarrow>
     core_pages X K core args st w [] (Some e) w'"
| expired: "core_cluster_scan K core st args w = (Inr reply, w1) \<Longrightarrow> core_page X reply s keys \<Longrightarrow> saved_id s \<Longrightarrow>
     core_get_cluster_scan_cursor K s w1 = (Inl e, w') \<Longrightarrow>
     core_pages X K core args st w [keys] (Some e) w'"
| more: "core_cluster_scan K core st args w = (Inr reply, w1) \<Longrightarrow> core_page X reply s keys \<Longrightarrow> saved_id s \<Longrightarrow>
     core_get_cluster_scan_cursor K s w1 = (Inr st', w2) \<Longrightarrow>
     core_pages X K core args (SavedScan st') w2 pages r w' \<Longrightarrow>
     core_pages X K core args st w (keys # pages) r w'"

text \<open>The state a cursor stands for, as \<open>cluster_scan\<close> looks it up.\<close>

definition resolves :: "('c, 's, 'w, 'p) core_ops \<Rightarrow> cluster_scan_cursor \<Rightarrow> 'w \<Rightarrow> 's scan_state \<Rightarrow> 'w \<Rightarrow> bool" where
  "resolves K cursor w st w' \<longleftrightarrow>
     (if cursor_id cursor = [] \<or> cursor_id cursor = ''0'' then st = FreshScan \<and> w' = w
      else \<exists>s. core_get_cluster_scan_cursor K (cursor_id cursor) w = (Inr s, w') \<and> st = SavedScan s)"

lemma parse_core_page: "core_page X reply s keys \<Longrightarrow> parse_cluster_scan X reply = Inr (ClusterScanCursor s, keys)"
  by (auto simp: parse_cluster_scan_def elim!: core_page.cases)

lemma cluster_scan_resolved:
  assumes "resolves K cursor w st w0"
  shows "cluster_scan X K self cursor m n t w =
    (case core_cluster_scan K (gcc_inner self) st (cluster_scan_args_new m n t) w0 of
       (Inl e, w') \<Rightarrow> (Inl (from_redis_error e), w')
     | (Inr reply, w') \<Rightarrow> (parse_cluster_scan X reply, w'))"
  using assms
  by (auto simp: resolves_def cluster_scan_def bind_io_def pure_io_def map_err_io_def split: if_splits prod.splits sum.splits)

lemma cluster_scan_expired:
  assumes "saved_id s" and "core_get_cluster_scan_cursor K s w = (Inl e, w')"
  shows "cluster_scan X K self (ClusterScanCursor s) m n t w = (Inl (from_redis_error e), w')"
  using assms by (auto simp: saved_id_def cluster_scan_def bind_io_def map_err_io_def)

lemma cluster_scan_all_pages:
  assumes "core_pages X K (gcc_inner self) (cluster_scan_args_new m n t) st w0 pages r w'"
    and "resolves K cursor w st w0"
  shows "cluster_scan_all X K self m n t cursor w =
    Some (case r of None \<Rightarrow> Inr (concat pages) | Some e \<Rightarrow> Inl (from_redis_error e), w')"
  using assms
proof (induction arbitrary: cursor w rule: core_pages.induct)
  case (finished st w0 reply w' keys)
  then show ?case
    by (subst cluster_scan_all.simps)
       (simp add: cluster_scan_resolved parse_core_page cursor_is_finished_def)
next
  case (fails st w0 e w')
  then show ?case
    by (subst cluster_scan_all.simps) (simp add: cluster_scan_resolved)
next
  case (expired st w0 reply w1 s keys e w')
  have "cluster_scan_all X K self m n t (ClusterScanCursor s) w1 = Some (Inl (from_redis_error e), w')"
    by (subst cluster_scan_all.simps) (simp add: cluster_scan_expired expired.hyps)
  with expired show ?case
    by (subst cluster_scan_all.simps)
       (simp add: cluster_scan_resolved parse_core_page cursor_is_finished_def saved_id_def)
next
  case (more st w0 reply w1 s keys st' w2 pages r w')
  have "resolves K (ClusterScanCursor s) w1 (SavedScan st') w2"
    using more.hyps by (simp add: resolves_def saved_id_def)
  from more.IH [OF this] more.hyps more.prems show ?case
    by (subst cluster_scan_all.simps)
       (simp add: cluster_scan_resolved parse_core_page cursor_is_finished_def saved_id_def split: option.split)
qed

text \<open>
  C18: a whole cluster scan is complete.  When the core, asked with the filters of the call, sends a
  number of pages and finishes, the documented loop ends and has collected exactly the keys of all pages,
  in order; when the core fails on the way, or no longer knows the id of a page, the loop ends with that
  error, classified.  Every page after the first is requested from the state saved under the id the
  page before came with.
\<close>

theorem cluster_scan_complete:
  assumes "core_pages X K (gcc_inner self) (cluster_scan_args_new m n t) FreshScan w pages r w'"
  shows "cluster_scan_all X K self m n t cursor_new w =
    Some (case r of None \<Rightarrow> Inr (concat pages) | Some e \<Rightarrow> Inl (from_redis_error e), w')"
  using assms by (rule cluster_scan_all_pages) (simp add: resolves_def cursor_new_def)

text \<open>Two pages, the second of which comes from the saved state \<open>c1\<close>.\<close>

lemma sample_core_pages:
  "core_pages X sample_core () args FreshScan
     ([Inr (VArray [VSimpleString ''c1'', VArray [VBulkString ''a'', VBulkString ''b'']]),
       Inr (VArray [VSimpleString ''finished'', VArray [VBulkString ''c'']])], [])
     [[''a'', ''b''], [''c'']] None ([], [[AStr ''SCAN''], [AStr ''SCAN'']])"
  by (rule core_pages.more [where s = "''c1''" and st' = "''c1''"
        and reply = "VArray [VSimpleString ''c1'', VArray [VBulkString ''a'', VBulkString ''b'']]"]
      , simp_all add: sample_core_def saved_id_def core_page.simps)
     (rule core_pages.finished [where reply = "VArray [VSimpleString ''finished'', VArray [VBulkString ''c'']]"],
      simp_all add: core_page.simps)

theorem cluster_scan_complete_witness:
  "cluster_scan_all sample_ext sample_core \<lparr>gcc_inner = (), gcc_pubsub_rx = None\<rparr> None (Some 10) None cursor_new
     ([Inr (VArray [VSimpleString ''c1'', VArray [VBulkString ''a'', VBulkString ''b'']]),
       Inr (VArray [VSimpleString ''finished'', VArray [VBulkString ''c'']])], [])
   = Some (Inr [''a'', ''b'', ''c''], [], [[AStr ''SCAN''], [AStr ''SCAN'']])"
  using cluster_scan_complete [of sample_ext sample_core "\<lparr>gcc_inner = (), gcc_pubsub_rx = None\<rparr>" None "Some 10" None]
    sample_core_pages [of sample_ext]
  by fastforce

end
