(* ===== verification/CommandTable.thy ===== *)
theory CommandTable
  imports Client
begin

text \<open>
  The unified command API (\<open>src/commands/core.rs\<close>): the command table from which the macro
  \<open>implement_glide_commands!\<close> generates the traits \<open>AsyncCommands\<close> and \<open>Commands\<close>, as data, and the methods
  the macro generates for an entry.

  An entry keeps the method name, the command its documentation names, whether it is deprecated, its
  generic parameters (all bounded by \<open>ToRedisArgs\<close>) and its arguments with their types.  The constructor
  \<open>Cmd::<name>\<close> of the fork is a parameter of the generated methods.
\<close>

datatype arg_type =
    TGen string
  | TSlice string
  | TPairSlice string string
  | TU64 | TI64 | TIsize | TUsize | TF64 | TBool
  | TDirection | TExpiry | TSetOptions | TLposOptions | TOptNonZeroUsize | TOptIsize

record table_entry =
  te_name :: string
  te_doc :: string
  te_deprecated :: bool
  te_generics :: "string list"
  te_args :: "(string \<times> arg_type) list"

definition entry :: "string \<Rightarrow> string \<Rightarrow> bool \<Rightarrow> string list \<Rightarrow> (string \<times> arg_type) list \<Rightarrow> table_entry" where
  "entry n d dep gs args =
     \<lparr>te_name = n, te_doc = d, te_deprecated = dep, te_generics = gs, te_args = args\<rparr>"

section \<open>The table\<close>

definition string_entries :: "table_entry list" where
  "string_entries =
     [entry ''get'' ''GET'' False [''K''] [(''key'', TGen ''K'')],
      entry ''mget'' ''MGET'' False [''K''] [(''key'', TGen ''K'')],
      entry ''set'' ''SET'' False [''K'', ''V''] [(''key'', TGen ''K''), (''value'', TGen ''V'')],
      entry ''set_options'' ''SET'' False [''K'', ''V''] [(''key'', TGen ''K''), (''value'', TGen ''V''), (''options'', TSetOptions)],
      entry ''set_multiple'' ''MSET'' True [''K'', ''V''] [(''items'', TPairSlice ''K'' ''V'')],
      entry ''mset'' ''MSET'' False [''K'', ''V''] [(''items'', TPairSlice ''K'' ''V'')],
      entry ''set_ex'' ''SETEX'' False [''K'', ''V''] [(''key'', TGen ''K''), (''value'', TGen ''V''), (''seconds'', TU64)],
      entry ''pset_ex'' ''PSETEX'' False [''K'', ''V''] [(''key'', TGen ''K''), (''value'', TGen ''V''), (''milliseconds'', TU64)],
      entry ''set_nx'' ''SETNX'' False [''K'', ''V''] [(''key'', TGen ''K''), (''value'', TGen ''V'')],
      entry ''mset_nx'' ''MSETNX'' False [''K'', ''V''] [(''items'', TPairSlice ''K'' ''V'')],
      entry ''getset'' ''GETSET'' False [''K'', ''V''] [(''key'', TGen ''K''), (''value'', TGen ''V'')],
      entry ''getrange'' ''GETRANGE'' False [''K''] [(''key'', TGen ''K''), (''from'', TIsize), (''to'', TIsize)],
      entry ''setrange'' ''SETRANGE'' False [''K'', ''V''] [(''key'', TGen ''K''), (''offset'', TIsize), (''value'', TGen ''V'')],
      entry ''get_ex'' ''GETEX'' False [''K''] [(''key'', TGen ''K''), (''expire_at'', TExpiry)],
      entry ''get_del'' ''GETDEL'' False [''K''] [(''key'', TGen ''K'')],
      entry ''append'' ''APPEND'' False [''K'', ''V''] [(''key'', TGen ''K''), (''value'', TGen ''V'')],
      entry ''incr'' ''INCRBY'' False [''K'', ''V''] [(''key'', TGen ''K''), (''delta'', TGen ''V'')],
      entry ''decr'' ''DECRBY'' False [''K'', ''V''] [(''key'', TGen ''K''), (''delta'', TGen ''V'')],
      entry ''strlen'' ''STRLEN'' False [''K''] [(''key'', TGen ''K'')]]"

definition key_entries :: "table_entry list" where
  "key_entries =
     [entry ''keys'' ''KEYS'' False [''K''] [(''key'', TGen ''K'')],
      entry ''del'' ''DEL'' False [''K''] [(''key'', TGen ''K'')],
      entry ''exists'' ''EXISTS'' False [''K''] [(''key'', TGen ''K'')],
      entry ''key_type'' ''TYPE'' False [''K''] [(''key'', TGen ''K'')],
      entry ''expire'' ''EXPIRE'' False [''K''] [(''key'', TGen ''K''), (''seconds'', TI64)],
      entry ''expire_at'' ''EXPIREAT'' False [''K''] [(''key'', TGen ''K''), (''ts'', TI64)],
      entry ''pexpire'' ''PEXPIRE'' False [''K''] [(''key'', TGen ''K''), (''ms'', TI64)],
      entry ''pexpire_at'' ''PEXPIREAT'' False [''K''] [(''key'', TGen ''K''), (''ts'', TI64)],
      entry ''persist'' ''PERSIST'' False [''K''] [(''key'', TGen ''K'')],
      entry ''ttl'' ''TTL'' False [''K''] [(''key'', TGen ''K'')],
      entry ''pttl'' ''PTTL'' False [''K''] [(''key'', TGen ''K'')],
      entry ''rename'' ''RENAME'' False [''K'', ''N''] [(''key'', TGen ''K''), (''new_key'', TGen ''N'')],
      entry ''rename_nx'' ''RENAMENX'' False [''K'', ''N''] [(''key'', TGen ''K''), (''new_key'', TGen ''N'')],
      entry ''unlink'' ''UNLINK'' False [''K''] [(''key'', TGen ''K'')],
      entry ''object_encoding'' ''OBJECT ENCODING'' False [''K''] [(''key'', TGen ''K'')],
      entry ''object_idletime'' ''OBJECT IDLETIME'' False [''K''] [(''key'', TGen ''K'')],
      entry ''object_freq'' ''OBJECT FREQ'' False [''K''] [(''key'', TGen ''K'')],
      entry ''object_refcount'' ''OBJECT REFCOUNT'' False [''K''] [(''key'', TGen ''K'')]]"

definition list_entries :: "table_entry list" where
  "list_entries =
     [entry ''blmove'' ''BLMOVE'' False [''S'', ''D''] [(''srckey'', TGen ''S''), (''dstkey'', TGen ''D''), (''src_dir'', TDirection), (''dst_dir'', TDirection), (''timeout'', TF64)],
      entry ''blmpop'' ''BLMPOP'' False [''K''] [(''timeout'', TF64), (''numkeys'', TUsize), (''key'', TGen ''K''), (''dir'', TDirection), (''count'', TUsize)],
      entry ''blpop'' ''BLPOP'' False [''K''] [(''key'', TGen ''K''), (''timeout'', TF64)],
      entry ''brpop'' ''BRPOP'' False [''K''] [(''key'', TGen ''K''), (''timeout'', TF64)],
      entry ''brpoplpush'' ''BRPOPLPUSH'' False [''S'', ''D''] [(''srckey'', TGen ''S''), (''dstkey'', TGen ''D''), (''timeout'', TF64)],
      entry ''lindex'' ''LINDEX'' False [''K''] [(''key'', TGen ''K''), (''index'', TIsize)],
      entry ''linsert_before'' ''LINSERT'' False [''K'', ''P'', ''V''] [(''key'', TGen ''K''), (''pivot'', TGen ''P''), (''value'', TGen ''V'')],
      entry ''linsert_after'' ''LINSERT'' False [''K'', ''P'', ''V''] [(''key'', TGen ''K''), (''pivot'', TGen ''P''), (''value'', TGen ''V'')],
      entry ''llen'' ''LLEN'' False [''K''] [(''key'', TGen ''K'')],
      entry ''lmove'' ''LMOVE'' False [''S'', ''D''] [(''srckey'', TGen ''S''), (''dstkey'', TGen ''D''), (''src_dir'', TDirection), (''dst_dir'', TDirection)],
      entry ''lmpop'' ''LMPOP'' False [''K''] [(''numkeys'', TUsize), (''key'', TGen ''K''), (''dir'', TDirection), (''count'', TUsize)],
      entry ''lpop'' ''LPOP'' False [''K''] [(''key'', TGen ''K''), (''count'', TOptNonZeroUsize)],
      entry ''lpos'' ''LPOS'' False [''K'', ''V''] [(''key'', TGen ''K''), (''value'', TGen ''V''), (''options'', TLposOptions)],
      entry ''lpush'' ''LPUSH'' False [''K'', ''V''] [(''key'', TGen ''K''), (''value'', TGen ''V'')],
      entry ''lpush_exists'' ''LPUSHX'' False [''K'', ''V''] [(''key'', TGen ''K''), (''value'', TGen ''V'')],
      entry ''lrange'' ''LRANGE'' False [''K''] [(''key'', TGen ''K''), (''start'', TIsize), (''stop'', TIsize)],
      entry ''lrem'' ''LREM'' False [''K'', ''V''] [(''key'', TGen ''K''), (''count'', TIsize), (''value'', TGen ''V'')],
      entry ''ltrim'' ''LTRIM'' False [''K''] [(''key'', TGen ''K''), (''start'', TIsize), (''stop'', TIsize)],
      entry ''lset'' ''LSET'' False [''K'', ''V''] [(''key'', TGen ''K''), (''index'', TIsize), (''value'', TGen ''V'')],
      entry ''rpop'' ''RPOP'' False [''K''] [(''key'', TGen ''K''), (''count'', TOptNonZeroUsize)],
      entry ''rpoplpush'' ''RPOPLPUSH'' False [''K'', ''D''] [(''key'', TGen ''K''), (''dstkey'', TGen ''D'')],
      entry ''rpush'' ''RPUSH'' False [''K'', ''V''] [(''key'', TGen ''K''), (''value'', TGen ''V'')],
      entry ''rpush_exists'' ''RPUSHX'' False [''K'', ''V''] [(''key'', TGen ''K''), (''value'', TGen ''V'')]]"

definition hash_entries :: "table_entry list" where
  "hash_entries =
     [entry ''hget'' ''HGET'' False [''K'', ''F''] [(''key'', TGen ''K''), (''field'', TGen ''F'')],
      entry ''hdel'' ''HDEL'' False [''K'', ''F''] [(''key'', TGen ''K''), (''field'', TGen ''F'')],
      entry ''hset'' ''HSET'' False [''K'', ''F'', ''V''] [(''key'', TGen ''K''), (''field'', TGen ''F''), (''value'', TGen ''V'')],
      entry ''hset_nx'' ''HSETNX'' False [''K'', ''F'', ''V''] [(''key'', TGen ''K''), (''field'', TGen ''F''), (''value'', TGen ''V'')],
      entry ''hset_multiple'' ''HMSET'' False [''K'', ''F'', ''V''] [(''key'', TGen ''K''), (''items'', TPairSlice ''F'' ''V'')],
      entry ''hincr'' ''HINCRBY'' False [''K'', ''F'', ''D''] [(''key'', TGen ''K''), (''field'', TGen ''F''), (''delta'', TGen ''D'')],
      entry ''hexists'' ''HEXISTS'' False [''K'', ''F''] [(''key'', TGen ''K''), (''field'', TGen ''F'')],
      entry ''hkeys'' ''HKEYS'' False [''K''] [(''key'', TGen ''K'')],
      entry ''hvals'' ''HVALS'' False [''K''] [(''key'', TGen ''K'')],
      entry ''hgetall'' ''HGETALL'' False [''K''] [(''key'', TGen ''K'')],
      entry ''hlen'' ''HLEN'' False [''K''] [(''key'', TGen ''K'')]]"

definition set_entries :: "table_entry list" where
  "set_entries =
     [entry ''sadd'' ''SADD'' False [''K'', ''M''] [(''key'', TGen ''K''), (''member'', TGen ''M'')],
      entry ''scard'' ''SCARD'' False [''K''] [(''key'', TGen ''K'')],
      entry ''sdiff'' ''SDIFF'' False [''K''] [(''keys'', TGen ''K'')],
      entry ''sdiffstore'' ''SDIFFSTORE'' False [''D'', ''K''] [(''dstkey'', TGen ''D''), (''keys'', TGen ''K'')],
      entry ''sinter'' ''SINTER'' False [''K''] [(''keys'', TGen ''K'')],
      entry ''sinterstore'' ''SINTERSTORE'' False [''D'', ''K''] [(''dstkey'', TGen ''D''), (''keys'', TGen ''K'')],
      entry ''sismember'' ''SISMEMBER'' False [''K'', ''M''] [(''key'', TGen ''K''), (''member'', TGen ''M'')],
      entry ''smismember'' ''SMISMEMBER'' False [''K'', ''M''] [(''key'', TGen ''K''), (''members'', TGen ''M'')],
      entry ''smembers'' ''SMEMBERS'' False [''K''] [(''key'', TGen ''K'')],
      entry ''smove'' ''SMOVE'' False [''S'', ''D'', ''M''] [(''srckey'', TGen ''S''), (''dstkey'', TGen ''D''), (''member'', TGen ''M'')],
      entry ''spop'' ''SPOP'' False [''K''] [(''key'', TGen ''K'')],
      entry ''srandmember'' ''SRANDMEMBER'' False [''K''] [(''key'', TGen ''K'')],
      entry ''srandmember_multiple'' ''SRANDMEMBER'' False [''K''] [(''key'', TGen ''K''), (''count'', TUsize)],
      entry ''srem'' ''SREM'' False [''K'', ''M''] [(''key'', TGen ''K''), (''member'', TGen ''M'')],
      entry ''sunion'' ''SUNION'' False [''K''] [(''keys'', TGen ''K'')],
      entry ''sunionstore'' ''SUNIONSTORE'' False [''D'', ''K''] [(''dstkey'', TGen ''D''), (''keys'', TGen ''K'')]]"

definition sorted_set_entries :: "table_entry list" where
  "sorted_set_entries =
     [entry ''zadd'' ''ZADD'' False [''K'', ''S'', ''M''] [(''key'', TGen ''K''), (''member'', TGen ''M''), (''score'', TGen ''S'')],
      entry ''zadd_multiple'' ''ZADD'' False [''K'', ''S'', ''M''] [(''key'', TGen ''K''), (''items'', TPairSlice ''S'' ''M'')],
      entry ''zcard'' ''ZCARD'' False [''K''] [(''key'', TGen ''K'')],
      entry ''zcount'' ''ZCOUNT'' False [''K'', ''M'', ''MM''] [(''key'', TGen ''K''), (''min'', TGen ''M''), (''max'', TGen ''MM'')],
      entry ''zincr'' ''ZINCRBY'' False [''K'', ''M'', ''D''] [(''key'', TGen ''K''), (''member'', TGen ''M''), (''delta'', TGen ''D'')],
      entry ''zinterstore'' ''ZINTERSTORE'' False [''D'', ''K''] [(''dstkey'', TGen ''D''), (''keys'', TSlice ''K'')],
      entry ''zinterstore_min'' ''ZINTERSTORE'' False [''D'', ''K''] [(''dstkey'', TGen ''D''), (''keys'', TSlice ''K'')],
      entry ''zinterstore_max'' ''ZINTERSTORE'' False [''D'', ''K''] [(''dstkey'', TGen ''D''), (''keys'', TSlice ''K'')],
      entry ''zinterstore_weights'' ''ZINTERSTORE'' False [''D'', ''K'', ''W''] [(''dstkey'', TGen ''D''), (''keys'', TPairSlice ''K'' ''W'')],
      entry ''zinterstore_min_weights'' ''ZINTERSTORE'' False [''D'', ''K'', ''W''] [(''dstkey'', TGen ''D''), (''keys'', TPairSlice ''K'' ''W'')],
      entry ''zinterstore_max_weights'' ''ZINTERSTORE'' False [''D'', ''K'', ''W''] [(''dstkey'', TGen ''D''), (''keys'', TPairSlice ''K'' ''W'')],
      entry ''zlexcount'' ''ZLEXCOUNT'' False [''K'', ''M'', ''MM''] [(''key'', TGen ''K''), (''min'', TGen ''M''), (''max'', TGen ''MM'')],
      entry ''bzpopmax'' ''BZPOPMAX'' False [''K''] [(''key'', TGen ''K''), (''timeout'', TF64)],
      entry ''zpopmax'' ''ZPOPMAX'' False [''K''] [(''key'', TGen ''K''), (''count'', TIsize)],
      entry ''bzpopmin'' ''BZPOPMIN'' False [''K''] [(''key'', TGen ''K''), (''timeout'', TF64)],
      entry ''zpopmin'' ''ZPOPMIN'' False [''K''] [(''key'', TGen ''K''), (''count'', TIsize)],
      entry ''bzmpop_max'' ''BZMPOP'' False [''K''] [(''timeout'', TF64), (''keys'', TSlice ''K''), (''count'', TIsize)],
      entry ''zmpop_max'' ''ZMPOP'' False [''K''] [(''keys'', TSlice ''K''), (''count'', TIsize)],
      entry ''bzmpop_min'' ''BZMPOP'' False [''K''] [(''timeout'', TF64), (''keys'', TSlice ''K''), (''count'', TIsize)],
      entry ''zmpop_min'' ''ZMPOP'' False [''K''] [(''keys'', TSlice ''K''), (''count'', TIsize)],
      entry ''zrandmember'' ''ZRANDMEMBER'' False [''K''] [(''key'', TGen ''K''), (''count'', TOptIsize)],
      entry ''zrandmember_withscores'' ''ZRANDMEMBER'' False [''K''] [(''key'', TGen ''K''), (''count'', TIsize)],
      entry ''zrange'' ''ZRANGE'' False [''K''] [(''key'', TGen ''K''), (''start'', TIsize), (''stop'', TIsize)],
      entry ''zrange_withscores'' ''ZRANGE'' False [''K''] [(''key'', TGen ''K''), (''start'', TIsize), (''stop'', TIsize)],
      entry ''zrangebylex'' ''ZRANGEBYLEX'' False [''K'', ''M'', ''MM''] [(''key'', TGen ''K''), (''min'', TGen ''M''), (''max'', TGen ''MM'')],
      entry ''zrangebylex_limit'' ''ZRANGEBYLEX'' False [''K'', ''M'', ''MM''] [(''key'', TGen ''K''), (''min'', TGen ''M''), (''max'', TGen ''MM''), (''offset'', TIsize), (''count'', TIsize)],
      entry ''zrevrangebylex'' ''ZREVRANGEBYLEX'' False [''K'', ''MM'', ''M''] [(''key'', TGen ''K''), (''max'', TGen ''MM''), (''min'', TGen ''M'')],
      entry ''zrevrangebylex_limit'' ''ZREVRANGEBYLEX'' False [''K'', ''MM'', ''M''] [(''key'', TGen ''K''), (''max'', TGen ''MM''), (''min'', TGen ''M''), (''offset'', TIsize), (''count'', TIsize)],
      entry ''zrangebyscore'' ''ZRANGEBYSCORE'' False [''K'', ''M'', ''MM''] [(''key'', TGen ''K''), (''min'', TGen ''M''), (''max'', TGen ''MM'')],
      entry ''zrangebyscore_withscores'' ''ZRANGEBYSCORE'' False [''K'', ''M'', ''MM''] [(''key'', TGen ''K''), (''min'', TGen ''M''), (''max'', TGen ''MM'')],
      entry ''zrangebyscore_limit'' ''ZRANGEBYSCORE'' False [''K'', ''M'', ''MM''] [(''key'', TGen ''K''), (''min'', TGen ''M''), (''max'', TGen ''MM''), (''offset'', TIsize), (''count'', TIsize)],
      entry ''zrangebyscore_limit_withscores'' ''ZRANGEBYSCORE'' False [''K'', ''M'', ''MM''] [(''key'', TGen ''K''), (''min'', TGen ''M''), (''max'', TGen ''MM''), (''offset'', TIsize), (''count'', TIsize)],
      entry ''zrank'' ''ZRANK'' False [''K'', ''M''] [(''key'', TGen ''K''), (''member'', TGen ''M'')],
      entry ''zrem'' ''ZREM'' False [''K'', ''M''] [(''key'', TGen ''K''), (''members'', TGen ''M'')],
      entry ''zrembylex'' ''ZREMRANGEBYLEX'' False [''K'', ''M'', ''MM''] [(''key'', TGen ''K''), (''min'', TGen ''M''), (''max'', TGen ''MM'')],
      entry ''zremrangebyrank'' ''ZREMRANGEBYRANK'' False [''K''] [(''key'', TGen ''K''), (''start'', TIsize), (''stop'', TIsize)],
      entry ''zrembyscore'' ''ZREMRANGEBYSCORE'' False [''K'', ''M'', ''MM''] [(''key'', TGen ''K''), (''min'', TGen ''M''), (''max'', TGen ''MM'')],
      entry ''zrevrange'' ''ZREVRANGE'' False [''K''] [(''key'', TGen ''K''), (''start'', TIsize), (''stop'', TIsize)],
      entry ''zrevrange_withscores'' ''ZREVRANGE'' False [''K''] [(''key'', TGen ''K''), (''start'', TIsize), (''stop'', TIsize)],
      entry ''zrevrangebyscore'' ''ZREVRANGEBYSCORE'' False [''K'', ''MM'', ''M''] [(''key'', TGen ''K''), (''max'', TGen ''MM''), (''min'', TGen ''M'')],
      entry ''zrevrangebyscore_withscores'' ''ZREVRANGEBYSCORE'' False [''K'', ''MM'', ''M''] [(''key'', TGen ''K''), (''max'', TGen ''MM''), (''min'', TGen ''M'')],
      entry ''zrevrangebyscore_limit'' ''ZREVRANGEBYSCORE'' False [''K'', ''MM'', ''M''] [(''key'', TGen ''K''), (''max'', TGen ''MM''), (''min'', TGen ''M''), (''offset'', TIsize), (''count'', TIsize)],
      entry ''zrevrangebyscore_limit_withscores'' ''ZREVRANGEBYSCORE'' False [''K'', ''MM'', ''M''] [(''key'', TGen ''K''), (''max'', TGen ''MM''), (''min'', TGen ''M''), (''offset'', TIsize), (''count'', TIsize)],
      entry ''zrevrank'' ''ZREVRANK'' False [''K'', ''M''] [(''key'', TGen ''K''), (''member'', TGen ''M'')],
      entry ''zscore'' ''ZSCORE'' False [''K'', ''M''] [(''key'', TGen ''K''), (''member'', TGen ''M'')],
      entry ''zscore_multiple'' ''ZMSCORE'' False [''K'', ''M''] [(''key'', TGen ''K''), (''members'', TSlice ''M'')],
      entry ''zunionstore'' ''ZUNIONSTORE'' False [''D'', ''K''] [(''dstkey'', TGen ''D''), (''keys'', TSlice ''K'')],
      entry ''zunionstore_min'' ''ZUNIONSTORE'' False [''D'', ''K''] [(''dstkey'', TGen ''D''), (''keys'', TSlice ''K'')],
      entry ''zunionstore_max'' ''ZUNIONSTORE'' False [''D'', ''K''] [(''dstkey'', TGen ''D''), (''keys'', TSlice ''K'')],
      entry ''zunionstore_weights'' ''ZUNIONSTORE'' False [''D'', ''K'', ''W''] [(''dstkey'', TGen ''D''), (''keys'', TPairSlice ''K'' ''W'')],
      entry ''zunionstore_min_weights'' ''ZUNIONSTORE'' False [''D'', ''K'', ''W''] [(''dstkey'', TGen ''D''), (''keys'', TPairSlice ''K'' ''W'')],
      entry ''zunionstore_max_weights'' ''ZUNIONSTORE'' False [''D'', ''K'', ''W''] [(''dstkey'', TGen ''D''), (''keys'', TPairSlice ''K'' ''W'')]]"

definition hyperloglog_entries :: "table_entry list" where
  "hyperloglog_entries =
     [entry ''pfadd'' ''PFADD'' False [''K'', ''E''] [(''key'', TGen ''K''), (''element'', TGen ''E'')],
      entry ''pfcount'' ''PFCOUNT'' False [''K''] [(''key'', TGen ''K'')],
      entry ''pfmerge'' ''PFMERGE'' False [''D'', ''S''] [(''dstkey'', TGen ''D''), (''srckeys'', TGen ''S'')]]"

definition bitmap_entries :: "table_entry list" where
  "bitmap_entries =
     [entry ''setbit'' ''SETBIT'' False [''K''] [(''key'', TGen ''K''), (''offset'', TUsize), (''value'', TBool)],
      entry ''getbit'' ''GETBIT'' False [''K''] [(''key'', TGen ''K''), (''offset'', TUsize)],
      entry ''bitcount'' ''BITCOUNT'' False [''K''] [(''key'', TGen ''K'')],
      entry ''bitcount_range'' ''BITCOUNT'' False [''K''] [(''key'', TGen ''K''), (''start'', TUsize), (''end'', TUsize)],
      entry ''bit_and'' ''BITOP'' False [''D'', ''S''] [(''dstkey'', TGen ''D''), (''srckeys'', TGen ''S'')],
      entry ''bit_or'' ''BITOP'' False [''D'', ''S''] [(''dstkey'', TGen ''D''), (''srckeys'', TGen ''S'')],
      entry ''bit_xor'' ''BITOP'' False [''D'', ''S''] [(''dstkey'', TGen ''D''), (''srckeys'', TGen ''S'')],
      entry ''bit_not'' ''BITOP'' False [''D'', ''S''] [(''dstkey'', TGen ''D''), (''srckey'', TGen ''S'')]]"

definition pubsub_entries :: "table_entry list" where
  "pubsub_entries =
     [entry ''publish'' ''PUBLISH'' False [''K'', ''E''] [(''channel'', TGen ''K''), (''message'', TGen ''E'')]]"

definition command_table :: "table_entry list" where
  "command_table =
     string_entries @ key_entries @ list_entries @ hash_entries @ set_entries @ sorted_set_entries
     @ hyperloglog_entries @ bitmap_entries @ pubsub_entries"

section \<open>The generated methods\<close>

definition glide_send ::
  "(cmd \<Rightarrow> ('w, redis_error, value) io) \<Rightarrow> (value \<Rightarrow> redis_error + 'rv) \<Rightarrow> cmd \<Rightarrow> ('w, redis_error, 'rv) io" where
  "glide_send send_owned from_owned_redis_value c =
     bind_io (send_owned c) (\<lambda>v. pure_io (from_owned_redis_value v))"

definition table_method ::
  "(string \<Rightarrow> 'a list \<Rightarrow> cmd) \<Rightarrow> (cmd \<Rightarrow> ('w, redis_error, value) io) \<Rightarrow> (value \<Rightarrow> redis_error + 'rv)
     \<Rightarrow> table_entry \<Rightarrow> 'a list \<Rightarrow> ('w, redis_error, 'rv) io" where
  "table_method cmd_new send_owned from_owned_redis_value e args =
     (let c = cmd_new (te_name e) args
      in bind_io (send_owned c) (\<lambda>v. pure_io (from_owned_redis_value v)))"

definition glide_send_sync ::
  "(cmd \<Rightarrow> ('w, redis_error, value) io) \<Rightarrow> (value \<Rightarrow> redis_error + 'rv) \<Rightarrow> cmd \<Rightarrow> ('w, redis_error, 'rv) io" where
  "glide_send_sync send_owned_sync from_owned_redis_value c =
     bind_io (send_owned_sync c) (\<lambda>v. pure_io (from_owned_redis_value v))"

definition sync_table_method ::
  "(string \<Rightarrow> 'a list \<Rightarrow> cmd) \<Rightarrow> (cmd \<Rightarrow> ('w, redis_error, value) io) \<Rightarrow> (value \<Rightarrow> redis_error + 'rv)
     \<Rightarrow> table_entry \<Rightarrow> 'a list \<Rightarrow> ('w, redis_error, 'rv) io" where
  "sync_table_method cmd_new send_owned_sync from_owned_redis_value e args =
     bind_io (send_owned_sync (cmd_new (te_name e) args)) (\<lambda>v. pure_io (from_owned_redis_value v))"

section \<open>The table is well formed\<close>

fun type_generics :: "arg_type \<Rightarrow> string list" where
  "type_generics (TGen g) = [g]"
| "type_generics (TSlice g) = [g]"
| "type_generics (TPairSlice g h) = [g, h]"
| "type_generics _ = []"

text \<open>
  The generic parameters of an entry are those its arguments use, each once; the arguments have
  different names.  The macro passes the generics on in the order of the table, which is the order
  call sites with explicit type arguments rely on.
\<close>

definition entry_ok :: "table_entry \<Rightarrow> bool" where
  "entry_ok e \<longleftrightarrow>
     distinct (te_generics e)
     \<and> list_all (\<lambda>a. list_all (\<lambda>g. g \<in> set (te_generics e)) (type_generics (snd a))) (te_args e)
     \<and> list_all (\<lambda>g. g \<in> set (concat (map (\<lambda>a. type_generics (snd a)) (te_args e)))) (te_generics e)
     \<and> distinct (map fst (te_args e))"

lemmas entry_ok_simps = entry_ok_def entry_def

lemma entries_ok:
  "list_all entry_ok string_entries" "list_all entry_ok key_entries" "list_all entry_ok list_entries"
  "list_all entry_ok hash_entries" "list_all entry_ok set_entries" "list_all entry_ok hyperloglog_entries"
  "list_all entry_ok bitmap_entries" "list_all entry_ok pubsub_entries"
  by (simp_all add: string_entries_def key_entries_def list_entries_def hash_entries_def set_entries_def
      hyperloglog_entries_def bitmap_entries_def pubsub_entries_def entry_ok_simps)

lemma sorted_set_entries_ok: "list_all entry_ok sorted_set_entries"
  by (simp add: sorted_set_entries_def entry_ok_simps)

text \<open>
  The command table is well typed.  It defines the 151 methods the design document counts, and in
  each of them every type parameter an argument uses is declared, every declared one is used and is
  declared once, and no two arguments have the same name, so that the macro expands every entry to a
  method whose types are determined by its arguments.
\<close>

lemma command_table_ok: "length command_table = 151 \<and> list_all entry_ok command_table"
proof
  show "length command_table = 151"
    by (simp add: command_table_def string_entries_def key_entries_def list_entries_def hash_entries_def
        set_entries_def sorted_set_entries_def hyperloglog_entries_def bitmap_entries_def pubsub_entries_def)
  show "list_all entry_ok command_table"
    by (simp add: command_table_def entries_ok sorted_set_entries_ok)
qed

section \<open>Dispatch\<close>

lemma table_method_is_glide_send:
  "table_method cmd_new send_owned dec e args = glide_send send_owned dec (cmd_new (te_name e) args)"
  by (simp add: table_method_def glide_send_def Let_def)

lemma sync_table_method_is_glide_send:
  "sync_table_method cmd_new send_owned dec e args = glide_send_sync send_owned dec (cmd_new (te_name e) args)"
  by (simp add: sync_table_method_def glide_send_sync_def)

lemma glide_send_run:
  "glide_send send_owned dec c w = (case send_owned c w of (r, w') \<Rightarrow> (bind_res r dec, w'))"
  by (simp add: glide_send_def)

end
