(* ===== verification/Crate_Root.thy ===== *)
theory Crate_Root
  imports CommandTable
begin

text \<open>
  The module tree of the crate and what its root exports (\<open>lib.rs\<close>, \<open>commands/mod.rs\<close>, \<open>config/mod.rs\<close>): the modules
  as data, with the items they declare, their child modules and their \<open>pub use\<close> declarations, and the resolution of
  names through them.

  A build has the feature \<open>sync\<close> or not; the modules are a function of it.  An item is the pair of the module that
  declares it and its name; an item of another crate is a pair that starts with that crate.  Rust keeps types, values and
  macros in different name spaces; the model has one, so the absence of collisions it shows is the stronger statement.
\<close>

section \<open>Modules\<close>

type_synonym path = "string list"

datatype module_item =
    Declare string
  | Module bool string
  | Use path "string list"
  | Use_All path
  | Use_Crate string

type_synonym module_tree = "(path \<times> module_item list) list"

datatype origin = In_Crate path string | Extern path string | Unresolved

section \<open>The root\<close>

definition root_modules :: "bool \<Rightarrow> module_item list" where
  "root_modules sync =
     map (Module True)
       [''client'', ''commands'', ''config'', ''error'', ''executor'', ''pipeline_options'', ''routes'', ''script'',
        ''telemetry'', ''value'']
     @ (if sync then [Module True ''sync''] else [])"

definition root_api :: "module_item list" where
  "root_api =
     [Use [''client''] [''ClusterScanCursor'', ''GlideClient'', ''GlideClusterClient'', ''PubSubMessage'', ''PubSubMessageKind''],
      Use [''error''] [''GlideError'', ''Result''],
      Use [''executor''] [''CommandExecutor'', ''CustomCommand''],
      Use [''pipeline_options''] [''PipelineOptions''],
      Use [''routes''] [''Route'', ''SlotType''],
      Use [''config''] [''BackoffStrategy'', ''ClientIdentity'', ''GlideClientConfiguration'', ''GlideClusterClientConfiguration'',
        ''IamAuthConfig'', ''NodeAddress'', ''NodeDiscoveryMode'', ''PeriodicChecks'', ''ProtocolVersion'',
        ''PubSubChannelMode'', ''PubSubSubscriptions'', ''ReadFrom'', ''ServerCredentials'', ''ServiceType'', ''TlsConfig'']]"

definition root_commands :: "module_item list" where
  "root_commands =
     [Use_All [''commands'', ''prelude''],
      Use [''commands'', ''options''] [''ClientPauseMode'', ''ConditionalChange'', ''ExpireOptions'', ''ExpirySet'', ''FlushMode'',
        ''FunctionRestorePolicy'', ''HashFieldConditionalChange'', ''Limit'', ''MigrateOptions'', ''ObjectType'', ''OrderBy'',
        ''RestoreOptions''],
      Use [''commands'', ''bitmap''] [''BitEncoding'', ''BitFieldOffset'', ''BitFieldSubcommand'', ''BitOverflow'', ''BitmapIndexType''],
      Use [''commands'', ''geo''] [''GeoSearchShape'', ''GeoUnit'', ''GeospatialData''],
      Use [''commands'', ''sorted_set''] [''AggregationType'', ''LexBound'', ''ScoreBound''],
      Use [''commands'', ''stream''] [''PendingConsumer'', ''StreamAddOptions'', ''StreamClaimOptions'', ''StreamEntry'',
        ''StreamGroupCreateOptions'', ''StreamReadGroupOptions'', ''StreamReadOptions'', ''StreamTrimOptions'',
        ''StreamTrimStrategy'', ''XPendingEntry'', ''XPendingSummary''],
      Use [''redis''] [''Value'']]"

definition root_unified :: "bool \<Rightarrow> module_item list" where
  "root_unified sync =
     [Use [''client''] [''GlidePipelineTarget'', ''PipelineExt''],
      Use [''commands'', ''core''] [''AsyncCommands'']]
     @ (if sync then [Use [''commands'', ''core''] [''Commands'']] else [])
     @ [Use [''commands'', ''scan''] [''ScanIter'']]
     @ (if sync then [Use [''commands'', ''scan''] [''SyncScanIter'']] else [])"

definition root_redis :: "module_item list" where
  "root_redis =
     [Use_Crate ''redis'',
      Use [''redis''] [''ConnectionAddr'', ''ConnectionInfo'', ''IntoConnectionInfo''],
      Use [''redis''] [''Direction'', ''LposOptions''],
      Use [''redis''] [''ErrorKind'', ''FromRedisValue'', ''RedisError'', ''RedisResult'', ''ToRedisArgs'', ''cmd''],
      Use [''redis''] [''Pipeline'', ''pipe''],
      Use [''script''] [''Script'', ''ScriptInvocation''],
      Use [''bytes''] [''Bytes'']]"

definition root_items :: "bool \<Rightarrow> module_item list" where
  "root_items sync = root_modules sync @ root_api @ root_commands @ root_unified sync @ root_redis"

section \<open>The modules below the root\<close>

definition commands_items :: "module_item list" where
  "commands_items =
     map (Module True)
       [''options'', ''core'', ''scan'', ''bitmap'', ''connection_management'', ''ft'', ''generic'', ''geo'', ''hash'', ''json'',
        ''pubsub'', ''scripting'', ''server_management'', ''set'', ''sorted_set'', ''stream'', ''string'', ''prelude'']"

definition prelude_items :: "module_item list" where
  "prelude_items =
     [Use [''super'', ''bitmap''] [''BitmapCommands''],
      Use [''super'', ''connection_management''] [''ConnectionManagementCommands''],
      Use [''super'', ''ft''] [''FtCommands''],
      Use [''super'', ''generic''] [''GenericCommands''],
      Use [''super'', ''geo''] [''GeoCommands''],
      Use [''super'', ''hash''] [''HashCommands''],
      Use [''super'', ''json''] [''JsonCommands''],
      Use [''super'', ''pubsub''] [''PubSubCommands''],
      Use [''super'', ''scripting''] [''ScriptingCommands''],
      Use [''super'', ''server_management''] [''ServerManagementCommands''],
      Use [''super'', ''set''] [''SetCommands''],
      Use [''super'', ''sorted_set''] [''SortedSetCommands''],
      Use [''super'', ''stream''] [''StreamCommands''],
      Use [''super'', ''string''] [''StringCommands'']]"

definition config_items :: "module_item list" where
  "config_items =
     map (Module False) [''cluster'', ''common'', ''standalone'']
     @ [Use [''cluster''] [''GlideClusterClientConfiguration''],
        Use [''common''] [''BackoffStrategy'', ''ClientIdentity'', ''IamAuthConfig'', ''NodeAddress'', ''PeriodicChecks'',
          ''ProtocolVersion'', ''PubSubChannelMode'', ''PubSubSubscriptions'', ''ReadFrom'', ''ServerCredentials'',
          ''ServiceType'', ''TlsConfig''],
        Use [''standalone''] [''GlideClientConfiguration''],
        Use [''glide_core'', ''client''] [''NodeDiscoveryMode'']]"

definition common_items :: "module_item list" where
  "common_items =
     map Declare
       [''PubSubChannelMode'', ''PubSubSubscriptions'', ''ProtocolVersion'', ''ReadFrom'', ''NodeAddress'', ''ServerCredentials'',
        ''ClientIdentity'', ''ServiceType'', ''IamAuthConfig'', ''BackoffStrategy'', ''PeriodicChecks'', ''TlsConfig'']"

definition client_items :: "module_item list" where
  "client_items =
     map Declare [''PubSubMessageKind'', ''PubSubMessage'', ''ClusterScanCursor'', ''GlideClient'', ''GlideClusterClient'']
     @ [Module False ''connection'', Use [''connection''] [''GlidePipelineTarget'', ''PipelineExt'']]"

definition connection_items :: "module_item list" where
  "connection_items = map Declare [''GlidePipelineTarget'', ''PipelineExt'']"

definition options_items :: "module_item list" where
  "options_items =
     map Declare
       [''ConditionalChange'', ''ExpirySet'', ''ExpireOptions'', ''FunctionRestorePolicy'', ''ClientPauseMode'',
        ''HashFieldConditionalChange'', ''MigrateOptions'', ''RestoreOptions'', ''OrderBy'', ''Limit'', ''ObjectType'', ''FlushMode'']"

definition core_items :: "bool \<Rightarrow> module_item list" where
  "core_items sync = Declare ''AsyncCommands'' # (if sync then [Declare ''Commands''] else [])"

definition scan_items :: "bool \<Rightarrow> module_item list" where
  "scan_items sync = Declare ''ScanIter'' # (if sync then [Declare ''SyncScanIter''] else [])"

definition bitmap_items :: "module_item list" where
  "bitmap_items =
     map Declare [''BitmapIndexType'', ''BitEncoding'', ''BitFieldOffset'', ''BitOverflow'', ''BitFieldSubcommand'', ''BitmapCommands'']"

definition geo_items :: "module_item list" where
  "geo_items = map Declare [''GeoUnit'', ''GeospatialData'', ''GeoSearchShape'', ''GeoCommands'']"

definition sorted_set_items :: "module_item list" where
  "sorted_set_items = map Declare [''ScoreBound'', ''LexBound'', ''AggregationType'', ''SortedSetCommands'']"

definition stream_items :: "module_item list" where
  "stream_items =
     map Declare
       [''StreamEntry'', ''StreamTrimStrategy'', ''StreamTrimOptions'', ''StreamAddOptions'', ''StreamReadOptions'',
        ''StreamReadGroupOptions'', ''StreamGroupCreateOptions'', ''StreamClaimOptions'', ''PendingConsumer'',
        ''XPendingSummary'', ''XPendingEntry'', ''StreamCommands'']"

definition telemetry_items :: "module_item list" where
  "telemetry_items =
     map Declare
       [''DEFAULT_TRACE_SAMPLE_PERCENT'', ''TelemetryExporter'', ''OpenTelemetryConfig'', ''OpenTelemetryConfigBuilder'',
        ''init'', ''is_initialized'', ''shutdown'']"

definition value_items :: "module_item list" where
  "value_items =
     map Declare
       [''from_value'', ''to_opt_bytes'', ''to_bytes'', ''to_string'', ''to_opt_string'', ''to_i64'', ''to_f64'', ''to_opt_f64'',
        ''to_bool'', ''to_unit'']"

definition sync_items :: "module_item list" where
  "sync_items = map Declare [''block_on'', ''SyncGlideClient'', ''SyncGlideClusterClient'', ''SyncPipelineTarget'', ''PipelineExt'']"

definition crate_tree :: "bool \<Rightarrow> module_tree" where
  "crate_tree sync =
     [([], root_items sync),
      ([''client''], client_items),
      ([''client'', ''connection''], connection_items),
      ([''commands''], commands_items),
      ([''commands'', ''options''], options_items),
      ([''commands'', ''core''], core_items sync),
      ([''commands'', ''scan''], scan_items sync),
      ([''commands'', ''bitmap''], bitmap_items),
      ([''commands'', ''connection_management''], [Declare ''ConnectionManagementCommands'']),
      ([''commands'', ''ft''], [Declare ''FtCommands'']),
      ([''commands'', ''generic''], [Declare ''GenericCommands'']),
      ([''commands'', ''geo''], geo_items),
      ([''commands'', ''hash''], [Declare ''HashCommands'']),
      ([''commands'', ''json''], [Declare ''JsonCommands'']),
      ([''commands'', ''pubsub''], [Declare ''PubSubCommands'']),
      ([''commands'', ''scripting''], [Declare ''ScriptingCommands'']),
      ([''commands'', ''server_management''], [Declare ''ServerManagementCommands'']),
      ([''commands'', ''set''], [Declare ''SetCommands'']),
      ([''commands'', ''sorted_set''], sorted_set_items),
      ([''commands'', ''stream''], stream_items),
      ([''commands'', ''string''], [Declare ''StringCommands'']),
      ([''commands'', ''prelude''], prelude_items),
      ([''config''], config_items),
      ([''config'', ''cluster''], [Declare ''GlideClusterClientConfiguration'']),
      ([''config'', ''common''], common_items),
      ([''config'', ''standalone''], [Declare ''GlideClientConfiguration'']),
      ([''error''], map Declare [''Result'', ''GlideError'']),
      ([''executor''], map Declare [''CommandExecutor'', ''CustomCommand'']),
      ([''pipeline_options''], [Declare ''PipelineOptions'']),
      ([''routes''], map Declare [''SlotType'', ''Route'']),
      ([''script''], map Declare [''Script'', ''ScriptInvocation'']),
      ([''telemetry''], telemetry_items),
      ([''value''], value_items)]
     @ (if sync then [([''sync''], sync_items)] else [])"

section \<open>Name resolution\<close>

definition items_of :: "module_tree \<Rightarrow> path \<Rightarrow> module_item list" where
  "items_of tree p = (case map_of tree p of Some items \<Rightarrow> items | None \<Rightarrow> [])"

definition child :: "module_tree \<Rightarrow> bool \<Rightarrow> path \<Rightarrow> string \<Rightarrow> bool" where
  "child tree inside p s \<longleftrightarrow> Module True s \<in> set (items_of tree p) \<or> inside \<and> Module False s \<in> set (items_of tree p)"

text \<open>
  The module a path names, seen from a module: \<open>super\<close> is the parent, a child module comes before a crate of the same
  name, and a private child is visible from inside its parent only.
\<close>

fun walk :: "module_tree \<Rightarrow> bool \<Rightarrow> path \<Rightarrow> path \<Rightarrow> path option" where
  "walk tree inside p [] = Some p"
| "walk tree inside p (s # ss) =
     (if s = ''super'' then (if inside \<and> p \<noteq> [] then walk tree True (butlast p) ss else None)
      else if child tree inside p s then walk tree False (p @ [s]) ss else None)"

definition is_extern :: "module_tree \<Rightarrow> path \<Rightarrow> path \<Rightarrow> bool" where
  "is_extern tree p q \<longleftrightarrow> q \<noteq> [] \<and> hd q \<noteq> ''super'' \<and> \<not> child tree True p (hd q)"

text \<open>
  The names a module exports, each with the item it stands for; a name that no rule resolves is \<open>Unresolved\<close> (the
  compiler rejects it).  The fuel bounds the length of a chain of re-exports; three steps reach every item of this crate
  (root, prelude, family), and running out of it gives \<open>Unresolved\<close>.
\<close>

fun export_item :: "(path \<Rightarrow> (string \<times> origin) list) \<Rightarrow> module_tree \<Rightarrow> path \<Rightarrow> module_item \<Rightarrow> (string \<times> origin) list" where
  "export_item names tree p (Declare s) = [(s, In_Crate p s)]"
| "export_item names tree p (Module public s) = (if public then [(s, In_Crate p s)] else [])"
| "export_item names tree p (Use q ss) =
     (if is_extern tree p q then map (\<lambda>s. (s, Extern q s)) ss
      else (case walk tree True p q of
          None \<Rightarrow> map (\<lambda>s. (s, Unresolved)) ss
        | Some m \<Rightarrow> map (\<lambda>s. (s, case map_of (names m) s of None \<Rightarrow> Unresolved | Some target \<Rightarrow> target)) ss))"
| "export_item names tree p (Use_All q) = (case walk tree True p q of None \<Rightarrow> [('''', Unresolved)] | Some m \<Rightarrow> names m)"
| "export_item names tree p (Use_Crate c) = [(c, Extern [] c)]"

fun exports :: "nat \<Rightarrow> module_tree \<Rightarrow> path \<Rightarrow> (string \<times> origin) list" where
  "exports 0 tree p = [('''', Unresolved)]"
| "exports (Suc n) tree p = concat (map (export_item (exports n tree) tree p) (items_of tree p))"

definition root_exports :: "bool \<Rightarrow> (string \<times> origin) list" where
  "root_exports sync = exports 3 (crate_tree sync) []"

definition exported :: "bool \<Rightarrow> origin \<Rightarrow> bool" where
  "exported sync item \<longleftrightarrow> item \<in> set (map snd (root_exports sync))"

text \<open>The items the public modules other than the root declare, and the type names of the command table.\<close>

fun declared_in :: "path \<times> module_item list \<Rightarrow> origin list" where
  "declared_in (p, items) = concat (map (\<lambda>i. case i of Declare s \<Rightarrow> [In_Crate p s] | _ \<Rightarrow> []) items)"

definition declared_items :: "bool \<Rightarrow> origin list" where
  "declared_items sync = concat (map declared_in (crate_tree sync))"

fun type_name :: "arg_type \<Rightarrow> string list" where
  "type_name TDirection = [''Direction'']"
| "type_name TExpiry = [''Expiry'']"
| "type_name TSetOptions = [''SetOptions'']"
| "type_name TLposOptions = [''LposOptions'']"
| "type_name _ = []"

definition signature_types :: "string list" where
  "signature_types = remdups (concat (map (\<lambda>e. concat (map (\<lambda>a. type_name (snd a)) (te_args e))) command_table))"

fun declared_below :: "path list \<Rightarrow> origin \<Rightarrow> bool" where
  "declared_below ps (In_Crate p s) = (p \<in> set ps)"
| "declared_below ps (Extern p s) = False"
| "declared_below ps Unresolved = False"

section \<open>What the root exports\<close>

lemma items_of_crate:
  "items_of (crate_tree sync) [] = root_items sync"
  "items_of (crate_tree sync) [''client''] = client_items"
  "items_of (crate_tree sync) [''client'', ''connection''] = connection_items"
  "items_of (crate_tree sync) [''commands''] = commands_items"
  "items_of (crate_tree sync) [''commands'', ''options''] = options_items"
  "items_of (crate_tree sync) [''commands'', ''core''] = core_items sync"
  "items_of (crate_tree sync) [''commands'', ''scan''] = scan_items sync"
  "items_of (crate_tree sync) [''commands'', ''bitmap''] = bitmap_items"
  "items_of (crate_tree sync) [''commands'', ''connection_management''] = [Declare ''ConnectionManagementCommands'']"
  "items_of (crate_tree sync) [''commands'', ''ft''] = [Declare ''FtCommands'']"
  "items_of (crate_tree sync) [''commands'', ''generic''] = [Declare ''GenericCommands'']"
  "items_of (crate_tree sync) [''commands'', ''geo''] = geo_items"
  "items_of (crate_tree sync) [''commands'', ''hash''] = [Declare ''HashCommands'']"
  "items_of (crate_tree sync) [''commands'', ''json''] = [Declare ''JsonCommands'']"
  "items_of (crate_tree sync) [''commands'', ''pubsub''] = [Declare ''PubSubCommands'']"
  "items_of (crate_tree sync) [''commands'', ''scripting''] = [Declare ''ScriptingCommands'']"
  "items_of (crate_tree sync) [''commands'', ''server_management''] = [Declare ''ServerManagementCommands'']"
  "items_of (crate_tree sync) [''commands'', ''set''] = [Declare ''SetCommands'']"
  "items_of (crate_tree sync) [''commands'', ''sorted_set''] = sorted_set_items"
  "items_of (crate_tree sync) [''commands'', ''stream''] = stream_items"
  "items_of (crate_tree sync) [''commands'', ''string''] = [Declare ''StringCommands'']"
  "items_of (crate_tree sync) [''commands'', ''prelude''] = prelude_items"
  "items_of (crate_tree sync) [''config''] = config_items"
  "items_of (crate_tree sync) [''config'', ''cluster''] = [Declare ''GlideClusterClientConfiguration'']"
  "items_of (crate_tree sync) [''config'', ''common''] = common_items"
  "items_of (crate_tree sync) [''config'', ''standalone''] = [Declare ''GlideClientConfiguration'']"
  "items_of (crate_tree sync) [''error''] = map Declare [''Result'', ''GlideError'']"
  "items_of (crate_tree sync) [''executor''] = map Declare [''CommandExecutor'', ''CustomCommand'']"
  "items_of (crate_tree sync) [''pipeline_options''] = [Declare ''PipelineOptions'']"
  "items_of (crate_tree sync) [''routes''] = map Declare [''SlotType'', ''Route'']"
  "items_of (crate_tree sync) [''script''] = map Declare [''Script'', ''ScriptInvocation'']"
  by (simp_all add: items_of_def crate_tree_def)

lemma root_children:
  "child (crate_tree sync) inside [] s \<longleftrightarrow>
     s \<in> {''client'', ''commands'', ''config'', ''error'', ''executor'', ''pipeline_options'', ''routes'', ''script'', ''telemetry'',
          ''value''} \<or> sync \<and> s = ''sync''"
  by (auto simp: child_def items_of_crate root_items_def root_modules_def root_api_def root_commands_def root_unified_def
      root_redis_def)

lemma module_children:
  "child (crate_tree sync) inside [''client''] s \<longleftrightarrow> inside \<and> s = ''connection''"
  "child (crate_tree sync) inside [''config''] s \<longleftrightarrow> inside \<and> s \<in> {''cluster'', ''common'', ''standalone''}"
  "child (crate_tree sync) inside [''commands''] s \<longleftrightarrow>
     s \<in> {''options'', ''core'', ''scan'', ''bitmap'', ''connection_management'', ''ft'', ''generic'', ''geo'', ''hash'', ''json'',
        ''pubsub'', ''scripting'', ''server_management'', ''set'', ''sorted_set'', ''stream'', ''string'', ''prelude''}"
  "child (crate_tree sync) inside [''commands'', ''prelude''] s \<longleftrightarrow> False"
  by (auto simp: child_def items_of_crate client_items_def config_items_def commands_items_def prelude_items_def)

definition names_of :: "path \<Rightarrow> string list \<Rightarrow> (string \<times> origin) list" where
  "names_of p = map (\<lambda>s. (s, In_Crate p s))"

definition extern_names :: "path \<Rightarrow> string list \<Rightarrow> (string \<times> origin) list" where
  "extern_names p = map (\<lambda>s. (s, Extern p s))"

lemmas exports_simps = items_of_crate root_children module_children is_extern_def names_of_def extern_names_def

lemma exports_client:
  "exports (Suc (Suc n)) (crate_tree sync) [''client''] =
     names_of [''client''] [''PubSubMessageKind'', ''PubSubMessage'', ''ClusterScanCursor'', ''GlideClient'', ''GlideClusterClient'']
     @ names_of [''client'', ''connection''] [''GlidePipelineTarget'', ''PipelineExt'']"
  by (simp add: exports_simps client_items_def connection_items_def)

lemma exports_config:
  "exports (Suc (Suc n)) (crate_tree sync) [''config''] =
     names_of [''config'', ''cluster''] [''GlideClusterClientConfiguration'']
     @ names_of [''config'', ''common''] [''BackoffStrategy'', ''ClientIdentity'', ''IamAuthConfig'', ''NodeAddress'', ''PeriodicChecks'',
          ''ProtocolVersion'', ''PubSubChannelMode'', ''PubSubSubscriptions'', ''ReadFrom'', ''ServerCredentials'',
          ''ServiceType'', ''TlsConfig'']
     @ names_of [''config'', ''standalone''] [''GlideClientConfiguration'']
     @ extern_names [''glide_core'', ''client''] [''NodeDiscoveryMode'']"
  by (simp add: exports_simps config_items_def common_items_def)

lemma exports_prelude:
  "exports (Suc (Suc n)) (crate_tree sync) [''commands'', ''prelude''] = concat (map (\<lambda>(m, t). names_of [''commands'', m] [t])
     [(''bitmap'', ''BitmapCommands''), (''connection_management'', ''ConnectionManagementCommands''), (''ft'', ''FtCommands''),
      (''generic'', ''GenericCommands''), (''geo'', ''GeoCommands''), (''hash'', ''HashCommands''), (''json'', ''JsonCommands''),
      (''pubsub'', ''PubSubCommands''), (''scripting'', ''ScriptingCommands''),
      (''server_management'', ''ServerManagementCommands''), (''set'', ''SetCommands''),
      (''sorted_set'', ''SortedSetCommands''), (''stream'', ''StreamCommands''), (''string'', ''StringCommands'')])"
  by (simp add: exports_simps prelude_items_def bitmap_items_def geo_items_def sorted_set_items_def stream_items_def)

declare exports.simps(2) [simp del]

lemmas exports_step = exports.simps(2) [of _ _ "[]"]
  exports.simps(2) [of _ _ "[''error'']"] exports.simps(2) [of _ _ "[''executor'']"]
  exports.simps(2) [of _ _ "[''pipeline_options'']"] exports.simps(2) [of _ _ "[''routes'']"] exports.simps(2) [of _ _ "[''script'']"]
  exports.simps(2) [of _ _ "[''commands'', ''options'']"] exports.simps(2) [of _ _ "[''commands'', ''core'']"]
  exports.simps(2) [of _ _ "[''commands'', ''scan'']"] exports.simps(2) [of _ _ "[''commands'', ''bitmap'']"]
  exports.simps(2) [of _ _ "[''commands'', ''geo'']"] exports.simps(2) [of _ _ "[''commands'', ''sorted_set'']"]
  exports.simps(2) [of _ _ "[''commands'', ''stream'']"]

lemmas root_items_simps = root_items_def root_modules_def root_api_def root_commands_def root_unified_def root_redis_def

lemmas item_simps = options_items_def core_items_def scan_items_def bitmap_items_def geo_items_def sorted_set_items_def
  stream_items_def

lemma root_exports_eq:
  "root_exports sync =
     names_of [] [''client'', ''commands'', ''config'', ''error'', ''executor'', ''pipeline_options'', ''routes'', ''script'',
       ''telemetry'', ''value'']
     @ (if sync then names_of [] [''sync''] else [])
     @ names_of [''client''] [''ClusterScanCursor'', ''GlideClient'', ''GlideClusterClient'', ''PubSubMessage'', ''PubSubMessageKind'']
     @ names_of [''error''] [''GlideError'', ''Result'']
     @ names_of [''executor''] [''CommandExecutor'', ''CustomCommand'']
     @ names_of [''pipeline_options''] [''PipelineOptions'']
     @ names_of [''routes''] [''Route'', ''SlotType'']
     @ names_of [''config'', ''common''] [''BackoffStrategy'', ''ClientIdentity'']
     @ names_of [''config'', ''standalone''] [''GlideClientConfiguration'']
     @ names_of [''config'', ''cluster''] [''GlideClusterClientConfiguration'']
     @ names_of [''config'', ''common''] [''IamAuthConfig'', ''NodeAddress'']
     @ extern_names [''glide_core'', ''client''] [''NodeDiscoveryMode'']
     @ names_of [''config'', ''common''] [''PeriodicChecks'', ''ProtocolVersion'', ''PubSubChannelMode'', ''PubSubSubscriptions'',
       ''ReadFrom'', ''ServerCredentials'', ''ServiceType'', ''TlsConfig'']
     @ exports 2 (crate_tree sync) [''commands'', ''prelude'']
     @ names_of [''commands'', ''options''] [''ClientPauseMode'', ''ConditionalChange'', ''ExpireOptions'', ''ExpirySet'', ''FlushMode'',
       ''FunctionRestorePolicy'', ''HashFieldConditionalChange'', ''Limit'', ''MigrateOptions'', ''ObjectType'', ''OrderBy'',
       ''RestoreOptions'']
     @ names_of [''commands'', ''bitmap''] [''BitEncoding'', ''BitFieldOffset'', ''BitFieldSubcommand'', ''BitOverflow'', ''BitmapIndexType'']
     @ names_of [''commands'', ''geo''] [''GeoSearchShape'', ''GeoUnit'', ''GeospatialData'']
     @ names_of [''commands'', ''sorted_set''] [''AggregationType'', ''LexBound'', ''ScoreBound'']
     @ names_of [''commands'', ''stream''] [''PendingConsumer'', ''StreamAddOptions'', ''StreamClaimOptions'', ''StreamEntry'',
       ''StreamGroupCreateOptions'', ''StreamReadGroupOptions'', ''StreamReadOptions'', ''StreamTrimOptions'',
       ''StreamTrimStrategy'', ''XPendingEntry'', ''XPendingSummary'']
     @ extern_names [''redis''] [''Value'']
     @ names_of [''client'', ''connection''] [''GlidePipelineTarget'', ''PipelineExt'']
     @ names_of [''commands'', ''core''] [''AsyncCommands'']
     @ (if sync then names_of [''commands'', ''core''] [''Commands''] else [])
     @ names_of [''commands'', ''scan''] [''ScanIter'']
     @ (if sync then names_of [''commands'', ''scan''] [''SyncScanIter''] else [])
     @ extern_names [] [''redis'']
     @ extern_names [''redis''] [''ConnectionAddr'', ''ConnectionInfo'', ''IntoConnectionInfo'', ''Direction'', ''LposOptions'',
       ''ErrorKind'', ''FromRedisValue'', ''RedisError'', ''RedisResult'', ''ToRedisArgs'', ''cmd'', ''Pipeline'', ''pipe'']
     @ names_of [''script''] [''Script'', ''ScriptInvocation'']
     @ extern_names [''bytes''] [''Bytes'']"
proof -
  have "root_exports sync = exports (Suc (Suc (Suc 0))) (crate_tree sync) []"
    by (simp add: root_exports_def numeral_3_eq_3)
  moreover have "exports 2 (crate_tree sync) p = exports (Suc (Suc 0)) (crate_tree sync) p" for p
    by (simp add: numeral_2_eq_2)
  ultimately show ?thesis
    by (cases sync) (simp_all add: exports_step exports_simps exports_client exports_config
        exports_prelude root_items_simps item_simps)
qed

lemmas root_exports_literal = root_exports_eq numeral_2_eq_2 exports_prelude names_of_def extern_names_def

lemma root_names_distinct: "distinct (map fst (root_exports sync))"
  by (cases sync) (simp_all add: root_exports_literal)

lemma root_names_resolve: "Unresolved \<notin> set (map snd (root_exports sync))"
  by (cases sync) (simp_all add: root_exports_literal)

lemma exported_names_of:
  "In_Crate q s \<in> snd ` set (names_of p ss) \<longleftrightarrow> q = p \<and> s \<in> set ss" "In_Crate q s \<in> snd ` set (extern_names p ss) \<longleftrightarrow> False"
  by (force simp: names_of_def extern_names_def)+

lemma exported_append: "i \<in> snd ` set (xs @ ys) \<longleftrightarrow> i \<in> snd ` set xs \<or> i \<in> snd ` set ys"
  by auto

lemma exported_Nil: "i \<in> snd ` set [] \<longleftrightarrow> False"
  by simp

lemmas exported_unfold = root_exports_eq exports_prelude [of 0, folded numeral_2_eq_2] set_map exported_append exported_names_of
  exported_Nil if_True if_False list.map concat.simps prod.case

lemmas exported_iff = exported_def [of True "In_Crate p s" for p s, unfolded exported_unfold]
  exported_def [of False "In_Crate p s" for p s, unfolded exported_unfold]

lemma modules_not_exported:
  "\<not> exported sync (In_Crate [''telemetry''] s)" "\<not> exported sync (In_Crate [''value''] s)" "\<not> exported sync (In_Crate [''sync''] s)"
  by (cases sync; simp add: exported_iff)+

lemmas exported_at =
  exported_iff(1) [of "[''client'']", simplified] exported_iff(2) [of "[''client'']", simplified]
  exported_iff(1) [of "[''client'', ''connection'']", simplified] exported_iff(2) [of "[''client'', ''connection'']", simplified]
  exported_iff(1) [of "[''config'', ''common'']", simplified] exported_iff(2) [of "[''config'', ''common'']", simplified]
  exported_iff(1) [of "[''commands'', ''options'']", simplified] exported_iff(2) [of "[''commands'', ''options'']", simplified]
  exported_iff(1) [of "[''commands'', ''bitmap'']", simplified] exported_iff(2) [of "[''commands'', ''bitmap'']", simplified]
  exported_iff(1) [of "[''commands'', ''geo'']", simplified] exported_iff(2) [of "[''commands'', ''geo'']", simplified]
  exported_iff(1) [of "[''commands'', ''sorted_set'']", simplified] exported_iff(2) [of "[''commands'', ''sorted_set'']", simplified]
  exported_iff(1) [of "[''commands'', ''stream'']", simplified] exported_iff(2) [of "[''commands'', ''stream'']", simplified]

lemma declared_groups_exported:
  "list_all (exported sync) (declared_in ([''client''], client_items))"
  "list_all (exported sync) (declared_in ([''client'', ''connection''], connection_items))"
  "list_all (exported sync) (declared_in ([''config'', ''common''], common_items))"
  "list_all (exported sync) (declared_in ([''commands'', ''options''], options_items))"
  "list_all (exported sync) (declared_in ([''commands'', ''bitmap''], bitmap_items))"
  "list_all (exported sync) (declared_in ([''commands'', ''geo''], geo_items))"
  "list_all (exported sync) (declared_in ([''commands'', ''sorted_set''], sorted_set_items))"
  "list_all (exported sync) (declared_in ([''commands'', ''stream''], stream_items))"
  by (cases sync; simp add: exported_at client_items_def connection_items_def common_items_def item_simps)+

lemma declared_nowhere:
  "declared_in ([], root_items sync) = []" "declared_in ([''commands''], commands_items) = []"
  "declared_in ([''commands'', ''prelude''], prelude_items) = []" "declared_in ([''config''], config_items) = []"
  by (cases sync; simp add: root_items_simps commands_items_def prelude_items_def config_items_def)+

lemma declared_singles_exported:
  "list_all (exported sync) (declared_in ([''commands'', ''core''], core_items sync))"
  "list_all (exported sync) (declared_in ([''commands'', ''scan''], scan_items sync))"
  "exported sync (In_Crate [''commands'', ''connection_management''] ''ConnectionManagementCommands'')"
  "exported sync (In_Crate [''commands'', ''ft''] ''FtCommands'')"
  "exported sync (In_Crate [''commands'', ''generic''] ''GenericCommands'')"
  "exported sync (In_Crate [''commands'', ''hash''] ''HashCommands'')"
  "exported sync (In_Crate [''commands'', ''json''] ''JsonCommands'')"
  "exported sync (In_Crate [''commands'', ''pubsub''] ''PubSubCommands'')"
  "exported sync (In_Crate [''commands'', ''scripting''] ''ScriptingCommands'')"
  "exported sync (In_Crate [''commands'', ''server_management''] ''ServerManagementCommands'')"
  "exported sync (In_Crate [''commands'', ''set''] ''SetCommands'')"
  "exported sync (In_Crate [''commands'', ''string''] ''StringCommands'')"
  "exported sync (In_Crate [''config'', ''cluster''] ''GlideClusterClientConfiguration'')"
  "exported sync (In_Crate [''config'', ''standalone''] ''GlideClientConfiguration'')"
  "exported sync (In_Crate [''error''] ''Result'')" "exported sync (In_Crate [''error''] ''GlideError'')"
  "exported sync (In_Crate [''executor''] ''CommandExecutor'')" "exported sync (In_Crate [''executor''] ''CustomCommand'')"
  "exported sync (In_Crate [''pipeline_options''] ''PipelineOptions'')"
  "exported sync (In_Crate [''routes''] ''SlotType'')" "exported sync (In_Crate [''routes''] ''Route'')"
  "exported sync (In_Crate [''script''] ''Script'')" "exported sync (In_Crate [''script''] ''ScriptInvocation'')"
  by (cases sync; simp add: exported_iff core_items_def scan_items_def)+

definition flat_module :: "bool \<Rightarrow> path \<times> module_item list \<Rightarrow> bool" where
  "flat_module sync m \<longleftrightarrow> list_all (\<lambda>i. \<not> exported sync i \<longleftrightarrow> declared_below [[''telemetry''], [''value''], [''sync'']] i) (declared_in m)"

lemma flat_module_exported:
  "list_all (exported sync) (declared_in (p, items)) \<Longrightarrow> p \<notin> {[''telemetry''], [''value''], [''sync'']} \<Longrightarrow>
     flat_module sync (p, items)"
  by (auto simp: flat_module_def list_all_iff split: module_item.splits)

lemma flat_module_hidden:
  "p \<in> {[''telemetry''], [''value''], [''sync'']} \<Longrightarrow> flat_module sync (p, items)"
  by (auto simp: flat_module_def list_all_iff modules_not_exported split: module_item.splits)

lemma declared_in_Declare: "declared_in (p, Declare s # items) = In_Crate p s # declared_in (p, items)" "declared_in (p, []) = []"
  by simp_all

lemma modules_flat: "list_all (flat_module sync) (crate_tree sync)"
  by (cases sync; simp add: crate_tree_def flat_module_exported flat_module_hidden declared_groups_exported declared_nowhere
      declared_singles_exported declared_in_Declare del: declared_in.simps)

lemma not_exported:
  "filter (\<lambda>i. \<not> exported sync i) (declared_items sync)
     = filter (declared_below [[''telemetry''], [''value''], [''sync'']]) (declared_items sync)"
  using modules_flat [of sync]
  by (intro filter_cong refl) (fastforce simp: declared_items_def flat_module_def list_all_iff)

lemma signature_types_eq: "signature_types = [''SetOptions'', ''Expiry'', ''Direction'', ''LposOptions'']"
  by (simp add: signature_types_def command_table_def string_entries_def key_entries_def list_entries_def hash_entries_def
      set_entries_def sorted_set_entries_def hyperloglog_entries_def bitmap_entries_def pubsub_entries_def entry_def)

lemma signature_types_not_exported:
  "filter (\<lambda>n. n \<notin> set (map fst (root_exports sync))) signature_types = [''SetOptions'', ''Expiry'']"
  by (cases sync) (simp_all add: root_exports_literal signature_types_eq)

lemma root_exports_sync:
  "root_exports False = filter (\<lambda>e. fst e \<notin> set [''sync'', ''Commands'', ''SyncScanIter'']) (root_exports True)"
  by (simp add: root_exports_literal)

lemma root_exports_redis: "exported sync (Extern [] ''redis'')"
  by (simp add: exported_def root_exports_eq extern_names_def)

text \<open>
  One import suffices.  With and without the feature \<open>sync\<close>, no two exports of the crate root have the same name and
  every one of them resolves, through any chain of re-exports, to an item that a module of the crate declares or to another crate.
  The root exports every public type, trait and alias of the crate; what is not exported flat is exactly what the modules
  \<open>telemetry\<close>, \<open>value\<close> and \<open>sync\<close> declare.  Of the types of the fork in the signatures of the command table exactly
  \<open>SetOptions\<close> and \<open>Expiry\<close> are missing, although no export has their name; the re-exported crate \<open>redis\<close> has them.
  Without the feature the root exports the same less the module \<open>sync\<close>, \<open>Commands\<close> and \<open>SyncScanIter\<close>.
\<close>

lemma root_exports_complete:
  "distinct (map fst (root_exports sync)) \<and> \<not> exported sync Unresolved
   \<and> filter (\<lambda>i. \<not> exported sync i) (declared_items sync)
       = filter (declared_below [[''telemetry''], [''value''], [''sync'']]) (declared_items sync)
   \<and> filter (\<lambda>n. n \<notin> set (map fst (root_exports sync))) signature_types = [''SetOptions'', ''Expiry'']
   \<and> exported sync (Extern [] ''redis'')
   \<and> root_exports False = filter (\<lambda>e. fst e \<notin> set [''sync'', ''Commands'', ''SyncScanIter'']) (root_exports True)"
  using root_names_distinct root_names_resolve not_exported signature_types_not_exported root_exports_redis
    root_exports_sync unfolding exported_def by blast

end
