(* ===== verification/Decoders.thy ===== *)
theory Decoders
  imports Routes
begin

text \<open>
  The shapes of reply decoding that the command families share, and their contracts as locales.

  \<^item> \<open>list_decoder\<close>: an array reply is decoded element by element, in order, stopping at the first error;
    \<open>nil_list_decoder\<close> adds that nil is the empty list, \<open>scalar_list_decoder\<close> that a single value is a list
    of one.
  \<^item> \<open>pair_decoder\<close>: a reply is a flat sequence of alternating parts or an array of two-element arrays;
    \<open>map_pair_decoder\<close> adds the RESP3 map.
  \<^item> \<open>flat_map_decoder\<close>: a flat sequence or a RESP3 map.

  The families interpret them on their own decoders.
\<close>

definition unexpected :: "redis_ext \<Rightarrow> string \<Rightarrow> value \<Rightarrow> 'a result" where
  "unexpected X msg v = Inl (Request (msg @ x_debug X v))"

text \<open>\<open>matches!(it, Value::Array(inner) if inner.len() == 2)\<close>\<close>

definition is_pair :: "value \<Rightarrow> bool" where
  "is_pair v = (case v of VArray [_, _] \<Rightarrow> True | _ \<Rightarrow> False)"

text \<open>
  \<open>for it in items { if let Value::Array(mut parts) = it \<and> parts.len() == 2 { ... } }\<close>: the two-element
  arrays among the items, as pairs; every other item is skipped.
\<close>

fun array_pairs :: "value list \<Rightarrow> (value \<times> value) list" where
  "array_pairs [] = []"
| "array_pairs (v # vs) = (case v of VArray [a, b] \<Rightarrow> (a, b) # array_pairs vs | _ \<Rightarrow> array_pairs vs)"

definition nested :: "(value \<times> value) list \<Rightarrow> value list" where
  "nested ps = map (\<lambda>p. VArray [fst p, snd p]) ps"

fun scalar :: "value \<Rightarrow> bool" where
  "scalar VNil = False"
| "scalar (VArray _) = False"
| "scalar (VSet _) = False"
| "scalar (VMap _) = False"
| "scalar _ = True"

text \<open>A list of keys behind their number: \<open>cmd.arg(keys.len()); for k in keys { cmd.arg(k); }\<close>.\<close>

definition counted_keys :: "bytes list list \<Rightarrow> cmd" where
  "counted_keys keys = AUsize (length keys) # map AGen keys"

lemma array_pairs_nested [simp]: "array_pairs (nested ps) = ps"
  by (induction ps) (simp_all add: nested_def)

lemma nested_simps [simp]: "nested [] = []" "nested (p # ps) = VArray [fst p, snd p] # nested ps"
  by (simp_all add: nested_def)

lemma list_all_is_pair_nested [simp]: "list_all is_pair (nested ps)"
  by (induction ps) (simp_all add: is_pair_def)

lemma is_pairE: "is_pair v \<Longrightarrow> (\<And>a b. v = VArray [a, b] \<Longrightarrow> P) \<Longrightarrow> P"
  by (auto simp: is_pair_def split: value_splits list.splits)

lemma all_pairs_nested: "list_all is_pair vs \<Longrightarrow> vs = nested (array_pairs vs)"
  by (induction vs) (auto elim!: is_pairE)

lemma array_pairs_not_pair: "\<not> is_pair v \<Longrightarrow> array_pairs (v # vs) = array_pairs vs"
  by (auto simp: is_pair_def split: value_splits list.splits)

lemma array_pairs_filter: "array_pairs (filter is_pair vs) = array_pairs vs"
proof (induction vs)
  case (Cons v vs)
  then show ?case
    by (cases "is_pair v") (auto simp: array_pairs_not_pair elim!: is_pairE simp del: array_pairs.simps(2)
        simp: array_pairs.simps(2) [of "VArray _"])
qed simp

lemma scalar_not_pair: "scalar v \<Longrightarrow> \<not> is_pair v"
  by (cases v) (auto simp: is_pair_def)

lemma flatten_not_pairs:
  assumes "p \<in> set ps" and "scalar (fst p)"
  shows "\<not> list_all is_pair (flatten ps)"
  using assms
proof (induction ps)
  case (Cons q ps)
  obtain a b where "q = (a, b)" by (cases q)
  with Cons show ?case by (auto dest: scalar_not_pair)
qed simp

locale list_decoder =
  fixes dec :: "value \<Rightarrow> 'a list result" and conv :: "value \<Rightarrow> 'a result"
  assumes dec_array: "dec (VArray vs) = traverse conv vs"
begin

lemma dec_roundtrip:
  assumes "\<And>x. conv (enc x) = Inr x"
  shows "dec (VArray (map enc xs)) = Inr xs"
  using traverse_total [of xs "\<lambda>x. conv (enc x)" id] assms by (simp add: dec_array traverse_map)

lemma dec_length: "dec (VArray vs) = Inr xs \<Longrightarrow> length xs = length vs"
  by (simp add: dec_array traverse_Inr_length)

lemma dec_first_error:
  assumes "dec (VArray vs) = Inl e"
  shows "\<exists>us v ws. vs = us @ v # ws \<and> (\<forall>u \<in> set us. \<exists>y. conv u = Inr y) \<and> conv v = Inl e"
  using assms unfolding dec_array by (rule traverse_error_origin)

end

locale nil_list_decoder = list_decoder +
  assumes dec_nil: "dec VNil = Inr []"
begin

lemma dec_nil_is_empty: "dec VNil = dec (VArray [])"
  by (simp add: dec_nil dec_array)

end

locale scalar_list_decoder = nil_list_decoder +
  assumes dec_scalar: "scalar v \<Longrightarrow> dec v = bind_res (conv v) (\<lambda>x. Inr [x])"
begin

lemma dec_scalar_is_singleton: "scalar v \<Longrightarrow> dec v = dec (VArray [v])"
  by (simp add: dec_scalar dec_array)

end

locale pair_decoder =
  fixes dec :: "value \<Rightarrow> ('a \<times> 'b) list result" and f :: "value \<Rightarrow> 'a result" and g :: "value \<Rightarrow> 'b result"
  assumes pairs_nil: "dec VNil = Inr []"
    and pairs_nested: "dec (VArray (nested ps)) = traverse (pair_res_rev f g) ps"
    and pairs_flat: "\<not> list_all is_pair vs \<Longrightarrow> dec (VArray vs) = flat_pairs f g vs"
begin

lemma flat_nested_agree:
  assumes "\<not> list_all is_pair (flatten ps)"
  shows "dec (VArray (flatten ps)) = Inr out \<longleftrightarrow> dec (VArray (nested ps)) = Inr out"
  by (simp add: pairs_flat [OF assms] flat_pairs_flatten pairs_nested traverse_rev_Inr)

lemma pairs_empty: "dec (VArray []) = Inr []"
  using pairs_nested [of "[]"] by simp

lemma pairs_roundtrip:
  assumes "\<And>a. f (ea a) = Inr a" and "\<And>b. g (eb b) = Inr b" and "\<And>a. scalar (ea a)"
  shows "dec (VArray (nested (map (\<lambda>p. (ea (fst p), eb (snd p))) ps))) = Inr ps"
    and "dec (VArray (flatten (map (\<lambda>p. (ea (fst p), eb (snd p))) ps))) = Inr ps"
proof -
  let ?qs = "map (\<lambda>p. (ea (fst p), eb (snd p))) ps"
  show nested: "dec (VArray (nested ?qs)) = Inr ps"
    using assms(1,2)
    by (auto simp: pairs_nested traverse_rev_Inr traverse_Inr_iff pair_res_Inr pair_res_rev_Inr list_all2_conv_all_nth)
  show "dec (VArray (flatten ?qs)) = Inr ps"
  proof (cases ps)
    case Nil
    then show ?thesis by (simp add: pairs_empty)
  next
    case (Cons p rest)
    have "\<not> list_all is_pair (flatten ?qs)"
      by (rule flatten_not_pairs [of "(ea (fst p), eb (snd p))"]) (simp_all add: Cons assms(3))
    with nested show ?thesis by (simp add: flat_nested_agree)
  qed
qed

lemma odd_item_dropped:
  assumes "\<not> list_all is_pair (flatten ps @ [v])" and "\<not> list_all is_pair (flatten ps)"
  shows "dec (VArray (flatten ps @ [v])) = dec (VArray (flatten ps))"
  by (simp add: pairs_flat [OF assms(1)] pairs_flat [OF assms(2)] flat_pairs_flatten
      flat_pairs_flatten_odd)

end

locale map_pair_decoder = pair_decoder +
  assumes pairs_map: "dec (VMap ps) = traverse (pair_res f g) ps"
begin

lemma map_nested_agree: "dec (VMap ps) = Inr out \<longleftrightarrow> dec (VArray (nested ps)) = Inr out"
  by (simp add: pairs_map pairs_nested traverse_rev_Inr)

lemma map_flat_agree:
  assumes "\<not> list_all is_pair (flatten ps)"
  shows "dec (VArray (flatten ps)) = dec (VMap ps)"
  by (simp add: pairs_flat [OF assms] flat_pairs_flatten pairs_map)

end

locale flat_map_decoder =
  fixes dec :: "value \<Rightarrow> ('a \<times> 'b) list result" and f :: "value \<Rightarrow> 'a result" and g :: "value \<Rightarrow> 'b result"
  assumes flat_nil: "dec VNil = Inr []"
    and flat_map: "dec (VMap ps) = traverse (pair_res f g) ps"
    and flat_array: "dec (VArray vs) = flat_pairs f g vs"
begin

lemma resp_versions_agree: "dec (VArray (flatten ps)) = dec (VMap ps)"
  by (simp add: flat_map flat_array flat_pairs_flatten)

lemma resp_versions_agree_odd: "dec (VArray (flatten ps @ [v])) = dec (VMap ps)"
  by (simp add: flat_map flat_array flat_pairs_flatten_odd)

end

section \<open>The number of keys\<close>

lemma wire_counted_keys:
  "enc_documented enc \<Longrightarrow> wire enc (counted_keys keys) = nat_to_string (length keys) # concat keys"
  by (simp add: counted_keys_def wire_gens enc_documented_def [of enc])

lemma counted_keys_exact:
  assumes "\<And>k. k \<in> set keys \<Longrightarrow> length k = 1"
  shows "length (concat keys) = length keys"
  using assms by (induction keys) auto

end
