(* ===== verification/Streams.thy ===== *)
theory Streams
  imports Decoders Options
begin

text \<open>
  Stream commands (\<open>src/commands/stream.rs\<close>): the option types with the arguments they contribute, one
  function per command, and the reply parsers for both protocol versions.
\<close>

section \<open>Options\<close>

datatype stream_trim_strategy = MaxLen | MinId

record stream_trim_options =
  trim_strategy :: stream_trim_strategy
  trim_exact :: bool
  trim_threshold :: string
  trim_limit :: "i64 option"

definition trim_max_len :: "bool \<Rightarrow> i64 \<Rightarrow> i64 option \<Rightarrow> stream_trim_options" where
  "trim_max_len exact threshold limit =
     \<lparr>trim_strategy = MaxLen, trim_exact = exact, trim_threshold = i64_to_string threshold,
      trim_limit = limit\<rparr>"

definition trim_min_id :: "bool \<Rightarrow> string \<Rightarrow> i64 option \<Rightarrow> stream_trim_options" where
  "trim_min_id exact threshold limit =
     \<lparr>trim_strategy = MinId, trim_exact = exact, trim_threshold = threshold, trim_limit = limit\<rparr>"

definition trim_add_to :: "stream_trim_options \<Rightarrow> cmd \<Rightarrow> cmd" where
  "trim_add_to t c =
     c @ (case trim_strategy t of MaxLen \<Rightarrow> [AStr ''MAXLEN''] | MinId \<Rightarrow> [AStr ''MINID''])
       @ [AStr (if trim_exact t then ''='' else ''~'')]
       @ [AStr (trim_threshold t)]
       @ opt_clause ''LIMIT'' AI64 (trim_limit t)"

record stream_add_options =
  add_make_stream :: bool
  add_trim :: "stream_trim_options option"

definition stream_add_options_default :: stream_add_options where
  "stream_add_options_default = \<lparr>add_make_stream = False, add_trim = None\<rparr>"

definition add_options_add_to :: "stream_add_options \<Rightarrow> cmd \<Rightarrow> cmd" where
  "add_options_add_to opts c =
     (let c = c @ flag (\<not> add_make_stream opts) ''NOMKSTREAM'' in
      case add_trim opts of None \<Rightarrow> c | Some t \<Rightarrow> trim_add_to t c)"

record stream_read_options =
  rd_block_ms :: "i64 option"
  rd_count :: "i64 option"

definition read_options_add_to :: "stream_read_options \<Rightarrow> cmd \<Rightarrow> cmd" where
  "read_options_add_to opts c =
     c @ opt_clause ''BLOCK'' AI64 (rd_block_ms opts) @ opt_clause ''COUNT'' AI64 (rd_count opts)"

record stream_read_group_options =
  rg_block_ms :: "i64 option"
  rg_count :: "i64 option"
  rg_no_ack :: bool

definition read_group_options_add_to :: "stream_read_group_options \<Rightarrow> cmd \<Rightarrow> cmd" where
  "read_group_options_add_to opts c =
     c @ opt_clause ''BLOCK'' AI64 (rg_block_ms opts) @ opt_clause ''COUNT'' AI64 (rg_count opts)
       @ flag (rg_no_ack opts) ''NOACK''"

record stream_group_create_options =
  gco_make_stream :: bool
  gco_entries_read :: "i64 option"

definition group_create_options_add_to :: "stream_group_create_options \<Rightarrow> cmd \<Rightarrow> cmd" where
  "group_create_options_add_to opts c =
     c @ flag (gco_make_stream opts) ''MKSTREAM'' @ opt_clause ''ENTRIESREAD'' AI64 (gco_entries_read opts)"

record stream_claim_options =
  clm_idle :: "i64 option"
  clm_idle_unix_time :: "i64 option"
  clm_retry_count :: "i64 option"
  clm_is_force :: bool

definition claim_options_add_to :: "stream_claim_options \<Rightarrow> cmd \<Rightarrow> cmd" where
  "claim_options_add_to opts c =
     c @ opt_clause ''IDLE'' AI64 (clm_idle opts) @ opt_clause ''TIME'' AI64 (clm_idle_unix_time opts)
       @ opt_clause ''RETRYCOUNT'' AI64 (clm_retry_count opts) @ flag (clm_is_force opts) ''FORCE''"

text \<open>\<open>if let Some(o) = options { o.add_to(&mut cmd); }\<close>\<close>

definition opt_add_to :: "('o \<Rightarrow> cmd \<Rightarrow> cmd) \<Rightarrow> 'o option \<Rightarrow> cmd \<Rightarrow> cmd" where
  "opt_add_to add x c = (case x of None \<Rightarrow> c | Some opts \<Rightarrow> add opts c)"

section \<open>Replies\<close>

type_synonym stream_entry = "string \<times> (bytes \<times> bytes) list"

record x_pending_summary =
  xps_count :: i64
  xps_min_id :: "bytes option"
  xps_max_id :: "bytes option"
  xps_consumers :: "(bytes \<times> i64) list"

record x_pending_entry =
  xpe_id :: bytes
  xpe_consumer :: bytes
  xpe_idle_ms :: i64
  xpe_delivery_count :: i64

definition parse_fields :: "redis_ext \<Rightarrow> value \<Rightarrow> (bytes \<times> bytes) list result" where
  "parse_fields X v =
     (case v of
        VArray items \<Rightarrow>
          (if list_all is_pair items
           then traverse (pair_res_rev (to_bytes X) (to_bytes X)) (array_pairs items)
           else flat_pairs (to_bytes X) (to_bytes X) items)
      | VNil \<Rightarrow> Inr []
      | other \<Rightarrow> bind_res (to_bytes X other) (\<lambda>b. Inr [(b, [])]))"

definition parse_entries :: "redis_ext \<Rightarrow> value \<Rightarrow> stream_entry list result" where
  "parse_entries X v =
     (case v of
        VNil \<Rightarrow> Inr []
      | VMap pairs \<Rightarrow> traverse (pair_res (to_string X) (parse_fields X)) pairs
      | VArray items \<Rightarrow> traverse (pair_res (to_string X) (parse_fields X)) (array_pairs items)
      | other \<Rightarrow> unexpected X ''unexpected stream reply: '' other)"

definition collect_strings :: "redis_ext \<Rightarrow> value \<Rightarrow> string list result" where
  "collect_strings X v =
     (case v of
        VNil \<Rightarrow> Inr []
      | VArray items \<Rightarrow> traverse (to_string X) items
      | other \<Rightarrow> bind_res (to_string X other) (\<lambda>s. Inr [s]))"

definition parse_stream_read :: "redis_ext \<Rightarrow> value \<Rightarrow> (bytes \<times> stream_entry list) list result" where
  "parse_stream_read X v =
     (case v of
        VNil \<Rightarrow> Inr []
      | VMap pairs \<Rightarrow> traverse (pair_res (to_bytes X) (parse_entries X)) pairs
      | VArray items \<Rightarrow> traverse (pair_res (to_bytes X) (parse_entries X)) (array_pairs items)
      | other \<Rightarrow> unexpected X ''unexpected XREAD reply: '' other)"

definition parse_autoclaim :: "redis_ext \<Rightarrow> value \<Rightarrow> (string \<times> stream_entry list \<times> string list) result" where
  "parse_autoclaim X v =
     (case v of
        VArray [cursor_val, entries_val, deleted_val] \<Rightarrow>
          bind_res (collect_strings X deleted_val) (\<lambda>deleted.
          bind_res (parse_entries X entries_val) (\<lambda>entries.
          bind_res (to_string X cursor_val) (\<lambda>cursor. Inr (cursor, entries, deleted))))
      | VArray [cursor_val, entries_val] \<Rightarrow>
          bind_res (parse_entries X entries_val) (\<lambda>entries.
          bind_res (to_string X cursor_val) (\<lambda>cursor. Inr (cursor, entries, [])))
      | other \<Rightarrow> unexpected X ''unexpected XAUTOCLAIM reply: '' other)"

definition parse_autoclaim_justid :: "redis_ext \<Rightarrow> value \<Rightarrow> (string \<times> string list \<times> string list) result" where
  "parse_autoclaim_justid X v =
     (case v of
        VArray [cursor_val, ids_val, deleted_val] \<Rightarrow>
          bind_res (collect_strings X deleted_val) (\<lambda>deleted.
          bind_res (collect_strings X ids_val) (\<lambda>ids.
          bind_res (to_string X cursor_val) (\<lambda>cursor. Inr (cursor, ids, deleted))))
      | VArray [cursor_val, ids_val] \<Rightarrow>
          bind_res (collect_strings X ids_val) (\<lambda>ids.
          bind_res (to_string X cursor_val) (\<lambda>cursor. Inr (cursor, ids, [])))
      | other \<Rightarrow> unexpected X ''unexpected XAUTOCLAIM JUSTID reply: '' other)"

definition parse_xpending_summary :: "redis_ext \<Rightarrow> value \<Rightarrow> x_pending_summary result" where
  "parse_xpending_summary X v =
     (case v of
        VArray [count_val, min_val, max_val, consumers_val] \<Rightarrow>
          bind_res (to_i64 X count_val) (\<lambda>count.
          bind_res
            (case consumers_val of
               VNil \<Rightarrow> Inr []
             | VArray items \<Rightarrow> traverse (pair_res_rev (to_bytes X) (to_i64 X)) (array_pairs items)
             | _ \<Rightarrow> Inr [])
          (\<lambda>consumers.
          bind_res (to_opt_bytes X min_val) (\<lambda>min_id.
          bind_res (to_opt_bytes X max_val) (\<lambda>max_id.
            Inr \<lparr>xps_count = count, xps_min_id = min_id, xps_max_id = max_id, xps_consumers = consumers\<rparr>))))
      | VNil \<Rightarrow> Inr \<lparr>xps_count = 0, xps_min_id = None, xps_max_id = None, xps_consumers = []\<rparr>
      | other \<Rightarrow> unexpected X ''unexpected XPENDING summary reply: '' other)"

fun xpending_loop :: "redis_ext \<Rightarrow> value list \<Rightarrow> x_pending_entry list result" where
  "xpending_loop X [] = Inr []"
| "xpending_loop X (it # items) =
     (case it of
        VArray [id_val, consumer_val, idle_val, count_val] \<Rightarrow>
          bind_res (to_i64 X count_val) (\<lambda>delivery_count.
          bind_res (to_i64 X idle_val) (\<lambda>idle_ms.
          bind_res (to_bytes X consumer_val) (\<lambda>consumer.
          bind_res (to_bytes X id_val) (\<lambda>entry_id.
          bind_res (xpending_loop X items) (\<lambda>out.
            Inr (\<lparr>xpe_id = entry_id, xpe_consumer = consumer, xpe_idle_ms = idle_ms,
                  xpe_delivery_count = delivery_count\<rparr> # out))))))
      | _ \<Rightarrow> xpending_loop X items)"

definition parse_xpending_range :: "redis_ext \<Rightarrow> value \<Rightarrow> x_pending_entry list result" where
  "parse_xpending_range X v =
     (case v of
        VNil \<Rightarrow> Inr []
      | VArray items \<Rightarrow> xpending_loop X items
      | other \<Rightarrow> unexpected X ''unexpected XPENDING range reply: '' other)"

definition parse_field_value_map :: "redis_ext \<Rightarrow> value \<Rightarrow> (bytes \<times> value) list result" where
  "parse_field_value_map X v =
     (case v of
        VNil \<Rightarrow> Inr []
      | VMap pairs \<Rightarrow> traverse (pair_res (to_bytes X) Inr) pairs
      | VArray items \<Rightarrow> flat_pairs (to_bytes X) Inr items
      | other \<Rightarrow> unexpected X ''unexpected XINFO reply: '' other)"

definition parse_list_of_maps :: "redis_ext \<Rightarrow> value \<Rightarrow> (bytes \<times> value) list list result" where
  "parse_list_of_maps X v =
     (case v of
        VNil \<Rightarrow> Inr []
      | VArray items \<Rightarrow> traverse (parse_field_value_map X) items
      | other \<Rightarrow> unexpected X ''unexpected XINFO list reply: '' other)"

section \<open>Commands\<close>

text \<open>
  A key, field or value of a generic type is given by the wire arguments it writes; \<open>field_args\<close> and
  \<open>read_args\<close> are the loops over pairs of \<open>xadd\<close> and \<open>xread\<close>.
\<close>

definition field_args :: "(bytes list \<times> bytes list) list \<Rightarrow> cmd" where
  "field_args flds = concat (map (\<lambda>(f, v). [AGen f, AGen v]) flds)"

definition read_args :: "(bytes list \<times> string) list \<Rightarrow> cmd" where
  "read_args keys_ids = map (\<lambda>(k, _). AGen k) keys_ids @ map (\<lambda>(_, i). AStr i) keys_ids"

definition xadd ::
  "redis_ext \<Rightarrow> ('w, 'p) executor_fn \<Rightarrow> bytes list \<Rightarrow> string \<Rightarrow> (bytes list \<times> bytes list) list
     \<Rightarrow> ('w, glide_error, string option) io" where
  "xadd X ex key entry_id flds =
     call ex ([AStr ''XADD'', AGen key, AStr entry_id] @ field_args flds) (to_opt_string X)"

definition xlen :: "redis_ext \<Rightarrow> ('w, 'p) executor_fn \<Rightarrow> bytes list \<Rightarrow> ('w, glide_error, i64) io" where
  "xlen X ex key = call ex [AStr ''XLEN'', AGen key] (to_i64 X)"

definition xdel :: "redis_ext \<Rightarrow> ('w, 'p) executor_fn \<Rightarrow> bytes list \<Rightarrow> string list \<Rightarrow> ('w, glide_error, i64) io" where
  "xdel X ex key ids = call ex ([AStr ''XDEL'', AGen key] @ map AStr ids) (to_i64 X)"

definition xtrim_maxlen ::
  "redis_ext \<Rightarrow> ('w, 'p) executor_fn \<Rightarrow> bytes list \<Rightarrow> i64 \<Rightarrow> bool \<Rightarrow> ('w, glide_error, i64) io" where
  "xtrim_maxlen X ex key maxlen approximate =
     call ex ([AStr ''XTRIM'', AGen key, AStr ''MAXLEN''] @ flag approximate ''~'' @ [AI64 maxlen]) (to_i64 X)"

definition xrange ::
  "redis_ext \<Rightarrow> ('w, 'p) executor_fn \<Rightarrow> bytes list \<Rightarrow> string \<Rightarrow> string
     \<Rightarrow> ('w, glide_error, stream_entry list) io" where
  "xrange X ex key start end_id =
     call ex [AStr ''XRANGE'', AGen key, AStr start, AStr end_id] (parse_entries X)"

definition xrevrange ::
  "redis_ext \<Rightarrow> ('w, 'p) executor_fn \<Rightarrow> bytes list \<Rightarrow> string \<Rightarrow> string
     \<Rightarrow> ('w, glide_error, stream_entry list) io" where
  "xrevrange X ex key end_id start =
     call ex [AStr ''XREVRANGE'', AGen key, AStr end_id, AStr start] (parse_entries X)"

definition xgroup_create ::
  "('w, 'p) executor_fn \<Rightarrow> bytes list \<Rightarrow> string \<Rightarrow> string \<Rightarrow> bool \<Rightarrow> ('w, glide_error, unit) io" where
  "xgroup_create ex key grp entry_id mkstream =
     call ex ([AStr ''XGROUP'', AStr ''CREATE'', AGen key, AStr grp, AStr entry_id]
        @ flag mkstream ''MKSTREAM'') to_unit"

definition xgroup_destroy ::
  "redis_ext \<Rightarrow> ('w, 'p) executor_fn \<Rightarrow> bytes list \<Rightarrow> string \<Rightarrow> ('w, glide_error, bool) io" where
  "xgroup_destroy X ex key grp =
     call ex [AStr ''XGROUP'', AStr ''DESTROY'', AGen key, AStr grp] (to_bool X)"

definition xack ::
  "redis_ext \<Rightarrow> ('w, 'p) executor_fn \<Rightarrow> bytes list \<Rightarrow> string \<Rightarrow> string list \<Rightarrow> ('w, glide_error, i64) io" where
  "xack X ex key grp ids = call ex ([AStr ''XACK'', AGen key, AStr grp] @ map AStr ids) (to_i64 X)"

definition xadd_options ::
  "redis_ext \<Rightarrow> ('w, 'p) executor_fn \<Rightarrow> bytes list \<Rightarrow> string \<Rightarrow> (bytes list \<times> bytes list) list
     \<Rightarrow> stream_add_options \<Rightarrow> ('w, glide_error, string option) io" where
  "xadd_options X ex key entry_id flds options =
     call ex (add_options_add_to options [AStr ''XADD'', AGen key] @ [AStr entry_id] @ field_args flds)
       (to_opt_string X)"

definition xtrim_minid ::
  "redis_ext \<Rightarrow> ('w, 'p) executor_fn \<Rightarrow> bytes list \<Rightarrow> string \<Rightarrow> bool \<Rightarrow> ('w, glide_error, i64) io" where
  "xtrim_minid X ex key minid approximate =
     call ex ([AStr ''XTRIM'', AGen key, AStr ''MINID''] @ flag approximate ''~'' @ [AStr minid]) (to_i64 X)"

definition xread ::
  "redis_ext \<Rightarrow> ('w, 'p) executor_fn \<Rightarrow> (bytes list \<times> string) list \<Rightarrow> stream_read_options option
     \<Rightarrow> ('w, glide_error, (bytes \<times> stream_entry list) list) io" where
  "xread X ex keys_ids options =
     call ex (opt_add_to read_options_add_to options [AStr ''XREAD''] @ [AStr ''STREAMS''] @ read_args keys_ids)
       (parse_stream_read X)"

definition xreadgroup ::
  "redis_ext \<Rightarrow> ('w, 'p) executor_fn \<Rightarrow> string \<Rightarrow> string \<Rightarrow> (bytes list \<times> string) list
     \<Rightarrow> stream_read_group_options option \<Rightarrow> ('w, glide_error, (bytes \<times> stream_entry list) list) io" where
  "xreadgroup X ex grp consumer keys_ids options =
     call ex (opt_add_to read_group_options_add_to options
          [AStr ''XREADGROUP'', AStr ''GROUP'', AStr grp, AStr consumer]
        @ [AStr ''STREAMS''] @ read_args keys_ids)
       (parse_stream_read X)"

definition xclaim ::
  "redis_ext \<Rightarrow> ('w, 'p) executor_fn \<Rightarrow> bytes list \<Rightarrow> string \<Rightarrow> string \<Rightarrow> i64 \<Rightarrow> string list
     \<Rightarrow> stream_claim_options option \<Rightarrow> ('w, glide_error, stream_entry list) io" where
  "xclaim X ex key grp consumer min_idle_time_ms ids options =
     call ex (opt_add_to claim_options_add_to options
          ([AStr ''XCLAIM'', AGen key, AStr grp, AStr consumer, AI64 min_idle_time_ms] @ map AStr ids))
       (parse_entries X)"

definition xclaim_justid ::
  "redis_ext \<Rightarrow> ('w, 'p) executor_fn \<Rightarrow> bytes list \<Rightarrow> string \<Rightarrow> string \<Rightarrow> i64 \<Rightarrow> string list
     \<Rightarrow> stream_claim_options option \<Rightarrow> ('w, glide_error, string list) io" where
  "xclaim_justid X ex key grp consumer min_idle_time_ms ids options =
     call ex (opt_add_to claim_options_add_to options
          ([AStr ''XCLAIM'', AGen key, AStr grp, AStr consumer, AI64 min_idle_time_ms] @ map AStr ids)
        @ [AStr ''JUSTID''])
       (collect_strings X)"

definition xautoclaim ::
  "redis_ext \<Rightarrow> ('w, 'p) executor_fn \<Rightarrow> bytes list \<Rightarrow> string \<Rightarrow> string \<Rightarrow> i64 \<Rightarrow> string \<Rightarrow> i64 option
     \<Rightarrow> ('w, glide_error, string \<times> stream_entry list \<times> string list) io" where
  "xautoclaim X ex key grp consumer min_idle_time_ms start count =
     call ex ([AStr ''XAUTOCLAIM'', AGen key, AStr grp, AStr consumer, AI64 min_idle_time_ms, AStr start]
        @ opt_clause ''COUNT'' AI64 count) (parse_autoclaim X)"

definition xautoclaim_justid ::
  "redis_ext \<Rightarrow> ('w, 'p) executor_fn \<Rightarrow> bytes list \<Rightarrow> string \<Rightarrow> string \<Rightarrow> i64 \<Rightarrow> string \<Rightarrow> i64 option
     \<Rightarrow> ('w, glide_error, string \<times> string list \<times> string list) io" where
  "xautoclaim_justid X ex key grp consumer min_idle_time_ms start count =
     call ex ([AStr ''XAUTOCLAIM'', AGen key, AStr grp, AStr consumer, AI64 min_idle_time_ms, AStr start]
        @ opt_clause ''COUNT'' AI64 count @ [AStr ''JUSTID'']) (parse_autoclaim_justid X)"

definition xpending ::
  "redis_ext \<Rightarrow> ('w, 'p) executor_fn \<Rightarrow> bytes list \<Rightarrow> string \<Rightarrow> ('w, glide_error, x_pending_summary) io" where
  "xpending X ex key grp = call ex [AStr ''XPENDING'', AGen key, AStr grp] (parse_xpending_summary X)"

definition xpending_range ::
  "redis_ext \<Rightarrow> ('w, 'p) executor_fn \<Rightarrow> bytes list \<Rightarrow> string \<Rightarrow> string \<Rightarrow> string \<Rightarrow> i64 \<Rightarrow> i64 option
     \<Rightarrow> string option \<Rightarrow> ('w, glide_error, x_pending_entry list) io" where
  "xpending_range X ex key grp start end_id count min_idle_time_ms consumer =
     call ex ([AStr ''XPENDING'', AGen key, AStr grp] @ opt_clause ''IDLE'' AI64 min_idle_time_ms
        @ [AStr start, AStr end_id, AI64 count] @ opt_arg AStr consumer) (parse_xpending_range X)"

definition xinfo_stream ::
  "redis_ext \<Rightarrow> ('w, 'p) executor_fn \<Rightarrow> bytes list \<Rightarrow> ('w, glide_error, (bytes \<times> value) list) io" where
  "xinfo_stream X ex key = call ex [AStr ''XINFO'', AStr ''STREAM'', AGen key] (parse_field_value_map X)"

definition xinfo_stream_full ::
  "redis_ext \<Rightarrow> ('w, 'p) executor_fn \<Rightarrow> bytes list \<Rightarrow> i64 option \<Rightarrow> ('w, glide_error, (bytes \<times> value) list) io" where
  "xinfo_stream_full X ex key count =
     call ex ([AStr ''XINFO'', AStr ''STREAM'', AGen key, AStr ''FULL''] @ opt_clause ''COUNT'' AI64 count)
       (parse_field_value_map X)"

definition xinfo_groups ::
  "redis_ext \<Rightarrow> ('w, 'p) executor_fn \<Rightarrow> bytes list \<Rightarrow> ('w, glide_error, (bytes \<times> value) list list) io" where
  "xinfo_groups X ex key = call ex [AStr ''XINFO'', AStr ''GROUPS'', AGen key] (parse_list_of_maps X)"

definition xinfo_consumers ::
  "redis_ext \<Rightarrow> ('w, 'p) executor_fn \<Rightarrow> bytes list \<Rightarrow> string \<Rightarrow> ('w, glide_error, (bytes \<times> value) list list) io" where
  "xinfo_consumers X ex key grp =
     call ex [AStr ''XINFO'', AStr ''CONSUMERS'', AGen key, AStr grp] (parse_list_of_maps X)"

definition xsetid ::
  "('w, 'p) executor_fn \<Rightarrow> bytes list \<Rightarrow> string \<Rightarrow> i64 option \<Rightarrow> string option \<Rightarrow> ('w, glide_error, unit) io" where
  "xsetid ex key last_id entries_added max_deleted_id =
     call ex ([AStr ''XSETID'', AGen key, AStr last_id] @ opt_clause ''ENTRIESADDED'' AI64 entries_added
        @ opt_clause ''MAXDELETEDID'' AStr max_deleted_id) to_unit"

definition xgroup_create_options ::
  "('w, 'p) executor_fn \<Rightarrow> bytes list \<Rightarrow> string \<Rightarrow> string \<Rightarrow> stream_group_create_options
     \<Rightarrow> ('w, glide_error, unit) io" where
  "xgroup_create_options ex key grp entry_id options =
     call ex (group_create_options_add_to options
        [AStr ''XGROUP'', AStr ''CREATE'', AGen key, AStr grp, AStr entry_id]) to_unit"

definition xgroup_create_consumer ::
  "redis_ext \<Rightarrow> ('w, 'p) executor_fn \<Rightarrow> bytes list \<Rightarrow> string \<Rightarrow> string \<Rightarrow> ('w, glide_error, bool) io" where
  "xgroup_create_consumer X ex key grp consumer =
     call ex [AStr ''XGROUP'', AStr ''CREATECONSUMER'', AGen key, AStr grp, AStr consumer] (to_bool X)"

definition xgroup_del_consumer ::
  "redis_ext \<Rightarrow> ('w, 'p) executor_fn \<Rightarrow> bytes list \<Rightarrow> string \<Rightarrow> string \<Rightarrow> ('w, glide_error, i64) io" where
  "xgroup_del_consumer X ex key grp consumer =
     call ex [AStr ''XGROUP'', AStr ''DELCONSUMER'', AGen key, AStr grp, AStr consumer] (to_i64 X)"

definition xgroup_set_id ::
  "('w, 'p) executor_fn \<Rightarrow> bytes list \<Rightarrow> string \<Rightarrow> string \<Rightarrow> i64 option \<Rightarrow> ('w, glide_error, unit) io" where
  "xgroup_set_id ex key grp entry_id entries_read =
     call ex ([AStr ''XGROUP'', AStr ''SETID'', AGen key, AStr grp, AStr entry_id]
        @ opt_clause ''ENTRIESREAD'' AI64 entries_read) to_unit"

section \<open>The option contracts\<close>



interpretation trim: lossless_appender trim_add_to
proof unfold_locales
  fix o1 o2 :: stream_trim_options
  assume "trim_add_to o1 [] = trim_add_to o2 []"
  then show "o1 = o2"
    by (cases o1; cases o2)
       (auto simp: trim_add_to_def opt_clause_def split: stream_trim_strategy.splits if_splits option.splits)
qed (simp add: trim_add_to_def)

interpretation add_options: lossless_appender add_options_add_to
proof unfold_locales
  fix o1 o2 :: stream_add_options
  assume eq: "add_options_add_to o1 [] = add_options_add_to o2 []"
  have ne: "trim_add_to t [] \<noteq> []" "trim_add_to t [] \<noteq> AStr ''NOMKSTREAM'' # ys" for t ys
    by (simp_all add: trim_add_to_def split: stream_trim_strategy.split)
  show "o1 = o2"
    using eq
    by (cases o1; cases o2)
       (auto simp: add_options_add_to_def Let_def trim.add_to_eq [of _ "[AStr ''NOMKSTREAM'']"]
          trim.add_to_options_inj flag_def ne ne [symmetric] split: option.splits if_splits)
qed (simp add: add_options_add_to_def Let_def trim.add_to_eq [of _ "_ @ _"] split: option.split)

interpretation read_options: lossless_appender read_options_add_to
proof unfold_locales
  fix o1 o2 :: stream_read_options
  assume "read_options_add_to o1 [] = read_options_add_to o2 []"
  then show "o1 = o2"
    by (cases o1; cases o2) (auto simp: read_options_add_to_def opt_clause_def split: option.splits)
qed (simp add: read_options_add_to_def)

interpretation read_group_options: lossless_appender read_group_options_add_to
proof unfold_locales
  fix o1 o2 :: stream_read_group_options
  assume "read_group_options_add_to o1 [] = read_group_options_add_to o2 []"
  then show "o1 = o2"
    by (cases o1; cases o2)
       (auto simp: read_group_options_add_to_def opt_clause_def flag_def split: option.splits if_splits)
qed (simp add: read_group_options_add_to_def)

interpretation group_create_options: lossless_appender group_create_options_add_to
proof unfold_locales
  fix o1 o2 :: stream_group_create_options
  assume "group_create_options_add_to o1 [] = group_create_options_add_to o2 []"
  then show "o1 = o2"
    by (cases o1; cases o2)
       (auto simp: group_create_options_add_to_def opt_clause_def flag_def split: option.splits if_splits)
qed (simp add: group_create_options_add_to_def)

interpretation claim_options: lossless_appender claim_options_add_to
proof unfold_locales
  fix o1 o2 :: stream_claim_options
  assume "claim_options_add_to o1 [] = claim_options_add_to o2 []"
  then show "o1 = o2"
    by (cases o1; cases o2)
       (auto simp: claim_options_add_to_def opt_clause_def flag_def split: option.splits if_splits)
qed (simp add: claim_options_add_to_def)

section \<open>The reply contracts\<close>

interpretation stream_fields: pair_decoder "parse_fields X" "to_bytes X" "to_bytes X" for X
  by unfold_locales (simp_all add: parse_fields_def)

interpretation stream_info: flat_map_decoder "parse_field_value_map X" "to_bytes X" Inr for X
  by unfold_locales (simp_all add: parse_field_value_map_def)

interpretation stream_infos: nil_list_decoder "parse_list_of_maps X" "parse_field_value_map X" for X
  by unfold_locales (simp_all add: parse_list_of_maps_def)

lemma collect_strings_scalar: "scalar v \<Longrightarrow> collect_strings X v = bind_res (to_string X v) (\<lambda>s. Inr [s])"
  by (cases v) (simp_all add: collect_strings_def)

interpretation stream_ids: scalar_list_decoder "collect_strings X" "to_string X" for X
  by unfold_locales (simp_all add: collect_strings_scalar, simp_all add: collect_strings_def)

section \<open>Entries in every protocol\<close>

text \<open>How a server sends fields, flat or as pairs, and an entry with its id.\<close>

definition enc_pairs :: "(bytes \<times> bytes) list \<Rightarrow> (value \<times> value) list" where
  "enc_pairs fs = map (\<lambda>p. (VBulkString (fst p), VBulkString (snd p))) fs"

definition enc_fields :: "bool \<Rightarrow> (bytes \<times> bytes) list \<Rightarrow> value" where
  "enc_fields as_pairs fs = VArray ((if as_pairs then nested else flatten) (enc_pairs fs))"

definition enc_entries :: "bool \<Rightarrow> stream_entry list \<Rightarrow> (value \<times> value) list" where
  "enc_entries as_pairs es = map (\<lambda>e. (VBulkString (fst e), enc_fields as_pairs (snd e))) es"

definition resp :: "bool \<Rightarrow> (value \<times> value) list \<Rightarrow> value" where
  "resp as_map ps = (if as_map then VMap ps else VArray (nested ps))"

lemma parse_fields_enc: "parse_fields X (enc_fields as_pairs fs) = Inr fs"
  using stream_fields.pairs_roundtrip [of X VBulkString VBulkString fs]
  by (cases as_pairs) (simp_all add: enc_fields_def enc_pairs_def)

lemma parse_entries_resp:
  "parse_entries X (resp as_map ps) = traverse (pair_res (to_string X) (parse_fields X)) ps"
  by (simp add: parse_entries_def resp_def)

lemma parse_entries_enc:
  assumes "\<And>e. e \<in> set es \<Longrightarrow> x_string X (VBulkString (fst e)) = Inr (fst e)"
  shows "parse_entries X (resp as_map (enc_entries as_pairs es)) = Inr es"
proof -
  have "traverse (pair_res (to_string X) (parse_fields X)) (enc_entries as_pairs es) = Inr (map id es)"
    unfolding enc_entries_def traverse_map
    by (rule traverse_total)
       (simp add: pair_res_Inr parse_fields_enc assms from_value_def)
  then show ?thesis by (simp add: parse_entries_resp)
qed

text \<open>
  C14: the entries a server sends are the entries the client returns.  For ids that are text, a list
  of entries is read back unchanged, ids, fields and order, from each of the reply shapes: RESP2
  arrays or RESP3 maps of entries, with the fields flat or as pairs; and so are the entries of several
  streams in the replies of \<open>XREAD\<close>.
\<close>

theorem stream_entries_roundtrip:
  assumes "\<And>k es e. (k, es) \<in> set streams \<Longrightarrow> e \<in> set es \<Longrightarrow> x_string X (VBulkString (fst e)) = Inr (fst e)"
  shows "parse_stream_read X (resp outer_map
      (map (\<lambda>s. (VBulkString (fst s), resp as_map (enc_entries as_pairs (snd s)))) streams)) = Inr streams"
proof -
  have "traverse (pair_res (to_bytes X) (parse_entries X))
      (map (\<lambda>s. (VBulkString (fst s), resp as_map (enc_entries as_pairs (snd s)))) streams) = Inr (map id streams)"
    unfolding traverse_map
  proof (rule traverse_total)
    fix s assume "s \<in> set streams"
    then have "parse_entries X (resp as_map (enc_entries as_pairs (snd s))) = Inr (snd s)"
      using assms by (intro parse_entries_enc) (cases s, auto)
    then show "pair_res (to_bytes X) (parse_entries X)
        (VBulkString (fst s), resp as_map (enc_entries as_pairs (snd s))) = Inr (id s)"
      by (simp add: pair_res_Inr)
  qed
  then show ?thesis by (simp add: parse_stream_read_def resp_def)
qed

theorem stream_entries_roundtrip_witness:
  "parse_stream_read sample_ext (resp True
      (map (\<lambda>s. (VBulkString (fst s), resp False (enc_entries False (snd s))))
        [(''s'', [(''1-0'', [(''f'', ''v'')]), (''2-0'', [])])]))
     = Inr [(''s'', [(''1-0'', [(''f'', ''v'')]), (''2-0'', [])])]"
  by (rule stream_entries_roundtrip) (auto simp: sample_ext_def)

text \<open>
  C38: malformed entries are skipped, not misread.  Items of an entry list, of an \<open>XREAD\<close> reply or of a
  pending list that are not arrays of the expected length have no influence on the result: the result
  is that of the reply without them.
\<close>

theorem stream_malformed_items_skipped:
  "parse_entries X (VArray items) = parse_entries X (VArray (filter is_pair items))
   \<and> parse_stream_read X (VArray items) = parse_stream_read X (VArray (filter is_pair items))
   \<and> parse_xpending_range X (VArray items) =
       parse_xpending_range X (VArray (filter (\<lambda>v. case v of VArray [_, _, _, _] \<Rightarrow> True | _ \<Rightarrow> False) items))"
proof -
  have "xpending_loop X items =
      xpending_loop X (filter (\<lambda>v. case v of VArray [_, _, _, _] \<Rightarrow> True | _ \<Rightarrow> False) items)"
    by (induction items) (auto split: value_split list.split)
  then show ?thesis
    by (simp add: parse_entries_def parse_stream_read_def parse_xpending_range_def array_pairs_filter)
qed

text \<open>
  Both reply formats of \<open>XAUTOCLAIM\<close> are understood.  A reply without the list of deleted ids, which
  servers before version 7 send, is read like one with an empty or nil list, in both variants of the
  command; a reply of any other length is an error.
\<close>

lemma autoclaim_formats_agree:
  "parse_autoclaim X (VArray [c, e]) = parse_autoclaim X (VArray [c, e, VArray []])
   \<and> parse_autoclaim X (VArray [c, e, VNil]) = parse_autoclaim X (VArray [c, e, VArray []])
   \<and> parse_autoclaim_justid X (VArray [c, e]) = parse_autoclaim_justid X (VArray [c, e, VArray []])
   \<and> (length items = 2 \<or> length items = 3 \<or>
       ((\<exists>m. parse_autoclaim X (VArray items) = Inl (Request m))
        \<and> (\<exists>m. parse_autoclaim_justid X (VArray items) = Inl (Request m))))"
proof (intro conjI)
  show "length items = 2 \<or> length items = 3 \<or>
       ((\<exists>m. parse_autoclaim X (VArray items) = Inl (Request m))
        \<and> (\<exists>m. parse_autoclaim_justid X (VArray items) = Inl (Request m)))"
    by (auto simp: parse_autoclaim_def parse_autoclaim_justid_def unexpected_def split: list.split)
qed (simp_all add: parse_autoclaim_def parse_autoclaim_justid_def collect_strings_def)

text \<open>
  An \<open>XADD\<close> creates the stream by default only without options.  With options that allow creation
  and no trimming, \<open>xadd_options\<close> sends what \<open>xadd\<close> sends; the \<open>Default\<close> options differ: they forbid the
  creation of the stream.
\<close>

lemma xadd_options_default:
  "xadd_options X ex key entry_id flds \<lparr>add_make_stream = True, add_trim = None\<rparr> = xadd X ex key entry_id flds
   \<and> xadd_options X ex key entry_id flds stream_add_options_default =
       call ex ([AStr ''XADD'', AGen key, AStr ''NOMKSTREAM'', AStr entry_id] @ field_args flds) (to_opt_string X)"
  by (simp add: xadd_options_def xadd_def add_options_add_to_def stream_add_options_default_def)

text \<open>
  \<open>XREAD\<close> pairs keys with ids.  On the wire the keys come first and the ids after them, in the same
  order and number, so that a server that splits the arguments in the middle gets back the pairs the
  caller gave, when every key is a single argument.
\<close>

lemma xread_arguments_pair_up:
  assumes "enc_documented enc" and "w = wire enc (read_args (map (\<lambda>p. ([fst p], snd p)) keys_ids))"
  shows "zip (take (length w div 2) w) (drop (length w div 2) w) = keys_ids"
proof -
  have "wire enc (map (\<lambda>p. AGen [fst p]) keys_ids) = map fst keys_ids"
    and "wire enc (map (\<lambda>p. AStr (snd p)) keys_ids) = map snd keys_ids"
    using assms(1) by (induction keys_ids) (auto simp: enc_documented_def)
  then have "w = map fst keys_ids @ map snd keys_ids"
    using assms(2) by (simp add: read_args_def comp_def)
  then show ?thesis by (simp add: zip_map_fst_snd)
qed

theorem xread_arguments_pair_up_witness:
  "zip (take 2 [''a'', ''b'', ''0'', ''$'']) (drop 2 [''a'', ''b'', ''0'', ''$'']) = [(''a'', ''0''), (''b'', ''$'')]"
proof -
  have "wire sample_enc (read_args (map (\<lambda>p. ([fst p], snd p)) [(''a'', ''0''), (''b'', ''$'')]))
      = [''a'', ''b'', ''0'', ''$'']"
    by (simp add: read_args_def)
  then show ?thesis
    using xread_arguments_pair_up [OF sample_enc_documented, of "[''a'', ''b'', ''0'', ''$'']"
        "[(''a'', ''0''), (''b'', ''$'')]"]
    by simp
qed

end
