(* ===== verification/SortedSets.thy ===== *)
theory SortedSets
  imports Decoders Options
begin

text \<open>
  Sorted-set commands (\<open>src/commands/sorted_set.rs\<close>): the range bounds and the aggregation mode, one
  function per command, and the parsers of member/score replies.  The text of a float (\<open>to_string\<close>,
  \<open>format!\<close>) is \<open>x_f64_display\<close>.
\<close>

datatype score_bound = ScoreNegativeInfinity | ScorePositiveInfinity | ScoreInclusive f64 | ScoreExclusive f64

definition score_bound_to_arg :: "redis_ext \<Rightarrow> score_bound \<Rightarrow> string" where
  "score_bound_to_arg X b =
     (case b of
        ScoreNegativeInfinity \<Rightarrow> ''-inf''
      | ScorePositiveInfinity \<Rightarrow> ''+inf''
      | ScoreInclusive v \<Rightarrow> x_f64_display X v
      | ScoreExclusive v \<Rightarrow> ''('' @ x_f64_display X v)"

datatype lex_bound = LexNegativeInfinity | LexPositiveInfinity | LexInclusive bytes | LexExclusive bytes

definition lex_bound_to_arg :: "lex_bound \<Rightarrow> bytes" where
  "lex_bound_to_arg b =
     (case b of
        LexNegativeInfinity \<Rightarrow> ''-''
      | LexPositiveInfinity \<Rightarrow> ''+''
      | LexInclusive v \<Rightarrow> ''['' @ v
      | LexExclusive v \<Rightarrow> ''('' @ v)"

datatype aggregation_type = AggSum | AggMin | AggMax

fun aggregation_type_as_arg :: "aggregation_type \<Rightarrow> string" where
  "aggregation_type_as_arg AggSum = ''SUM''"
| "aggregation_type_as_arg AggMin = ''MIN''"
| "aggregation_type_as_arg AggMax = ''MAX''"

section \<open>Replies\<close>

definition zset_collect_bytes :: "redis_ext \<Rightarrow> value \<Rightarrow> bytes list result" where
  "zset_collect_bytes X v =
     (case v of
        VArray items \<Rightarrow> traverse (to_bytes X) items
      | VNil \<Rightarrow> Inr []
      | other \<Rightarrow> bind_res (to_bytes X other) (\<lambda>b. Inr [b]))"

definition collect_member_scores :: "redis_ext \<Rightarrow> value \<Rightarrow> (bytes \<times> f64) list result" where
  "collect_member_scores X v =
     (case v of
        VNil \<Rightarrow> Inr []
      | VMap pairs \<Rightarrow> traverse (pair_res (to_bytes X) (to_f64 X)) pairs
      | VArray items \<Rightarrow>
          (if list_all is_pair items
           then traverse (pair_res_rev (to_bytes X) (to_f64 X)) (array_pairs items)
           else flat_pairs (to_bytes X) (to_f64 X) items)
      | other \<Rightarrow> unexpected X ''unexpected sorted-set reply: '' other)"

definition parse_rank_withscore :: "redis_ext \<Rightarrow> value \<Rightarrow> (i64 \<times> f64) option result" where
  "parse_rank_withscore X v =
     (case v of
        VNil \<Rightarrow> Inr None
      | VArray [rank_val, score_val] \<Rightarrow>
          bind_res (to_f64 X score_val) (\<lambda>score.
          bind_res (to_i64 X rank_val) (\<lambda>rank. Inr (Some (rank, score))))
      | other \<Rightarrow> unexpected X ''unexpected ZRANK WITHSCORE reply: '' other)"

definition parse_bzpop :: "redis_ext \<Rightarrow> value \<Rightarrow> (bytes \<times> bytes \<times> f64) option result" where
  "parse_bzpop X v =
     (case v of
        VNil \<Rightarrow> Inr None
      | VArray [key_val, member_val, score_val] \<Rightarrow>
          bind_res (to_f64 X score_val) (\<lambda>score.
          bind_res (to_bytes X member_val) (\<lambda>member.
          bind_res (to_bytes X key_val) (\<lambda>key. Inr (Some (key, member, score)))))
      | other \<Rightarrow> unexpected X ''unexpected blocking zpop reply: '' other)"

section \<open>Commands\<close>

definition aggregate_args :: "aggregation_type option \<Rightarrow> cmd" where
  "aggregate_args agg = opt_clause ''AGGREGATE'' (\<lambda>a. AStr (aggregation_type_as_arg a)) agg"

definition zadd_incr ::
  "redis_ext \<Rightarrow> ('w, 'p) executor_fn \<Rightarrow> bytes list \<Rightarrow> bytes list \<Rightarrow> f64 \<Rightarrow> ('w, glide_error, f64 option) io" where
  "zadd_incr X ex key member increment =
     call ex [AStr ''ZADD'', AGen key, AStr ''INCR'', AF64 increment, AGen member] (to_opt_f64 X)"

definition zrank_withscore ::
  "redis_ext \<Rightarrow> ('w, 'p) executor_fn \<Rightarrow> bytes list \<Rightarrow> bytes list \<Rightarrow> ('w, glide_error, (i64 \<times> f64) option) io" where
  "zrank_withscore X ex key member =
     call ex [AStr ''ZRANK'', AGen key, AGen member, AStr ''WITHSCORE''] (parse_rank_withscore X)"

definition zrevrank_withscore ::
  "redis_ext \<Rightarrow> ('w, 'p) executor_fn \<Rightarrow> bytes list \<Rightarrow> bytes list \<Rightarrow> ('w, glide_error, (i64 \<times> f64) option) io" where
  "zrevrank_withscore X ex key member =
     call ex [AStr ''ZREVRANK'', AGen key, AGen member, AStr ''WITHSCORE''] (parse_rank_withscore X)"

definition bzpop ::
  "redis_ext \<Rightarrow> ('w, 'p) executor_fn \<Rightarrow> string \<Rightarrow> bytes list list \<Rightarrow> f64
     \<Rightarrow> ('w, glide_error, (bytes \<times> bytes \<times> f64) option) io" where
  "bzpop X ex op keys timeout =
     call ex ([AStr op] @ map AGen keys @ [AF64 timeout]) (parse_bzpop X)"

definition zrangestore_by_index ::
  "redis_ext \<Rightarrow> ('w, 'p) executor_fn \<Rightarrow> bytes list \<Rightarrow> bytes list \<Rightarrow> i64 \<Rightarrow> i64 \<Rightarrow> bool
     \<Rightarrow> ('w, glide_error, i64) io" where
  "zrangestore_by_index X ex destination source start stop reverse =
     call ex ([AStr ''ZRANGESTORE'', AGen destination, AGen source, AI64 start, AI64 stop] @ flag reverse ''REV'')
       (to_i64 X)"

definition zrangestore_by_score ::
  "redis_ext \<Rightarrow> ('w, 'p) executor_fn \<Rightarrow> bytes list \<Rightarrow> bytes list \<Rightarrow> score_bound \<Rightarrow> score_bound \<Rightarrow> bool
     \<Rightarrow> limit option \<Rightarrow> ('w, glide_error, i64) io" where
  "zrangestore_by_score X ex destination source mn mx reverse lim =
     (let (first, second) = (if reverse then (mx, mn) else (mn, mx)) in
      call ex ([AStr ''ZRANGESTORE'', AGen destination, AGen source, AStr (score_bound_to_arg X first),
                AStr (score_bound_to_arg X second), AStr ''BYSCORE'']
          @ flag reverse ''REV'' @ limit_args lim)
        (to_i64 X))"

definition zrangestore_by_lex ::
  "redis_ext \<Rightarrow> ('w, 'p) executor_fn \<Rightarrow> bytes list \<Rightarrow> bytes list \<Rightarrow> lex_bound \<Rightarrow> lex_bound \<Rightarrow> bool
     \<Rightarrow> limit option \<Rightarrow> ('w, glide_error, i64) io" where
  "zrangestore_by_lex X ex destination source mn mx reverse lim =
     (let (first, second) = (if reverse then (mx, mn) else (mn, mx)) in
      call ex ([AStr ''ZRANGESTORE'', AGen destination, AGen source, AStr (lex_bound_to_arg first),
                AStr (lex_bound_to_arg second), AStr ''BYLEX'']
          @ flag reverse ''REV'' @ limit_args lim)
        (to_i64 X))"

definition zdiff :: "redis_ext \<Rightarrow> ('w, 'p) executor_fn \<Rightarrow> bytes list list \<Rightarrow> ('w, glide_error, bytes list) io" where
  "zdiff X ex keys = call ex ([AStr ''ZDIFF''] @ counted_keys keys) (zset_collect_bytes X)"

definition zdiff_withscores ::
  "redis_ext \<Rightarrow> ('w, 'p) executor_fn \<Rightarrow> bytes list list \<Rightarrow> ('w, glide_error, (bytes \<times> f64) list) io" where
  "zdiff_withscores X ex keys =
     call ex ([AStr ''ZDIFF''] @ counted_keys keys @ [AStr ''WITHSCORES'']) (collect_member_scores X)"

definition zdiffstore ::
  "redis_ext \<Rightarrow> ('w, 'p) executor_fn \<Rightarrow> bytes list \<Rightarrow> bytes list list \<Rightarrow> ('w, glide_error, i64) io" where
  "zdiffstore X ex destination keys =
     call ex ([AStr ''ZDIFFSTORE'', AGen destination] @ counted_keys keys) (to_i64 X)"

definition zunion ::
  "redis_ext \<Rightarrow> ('w, 'p) executor_fn \<Rightarrow> bytes list list \<Rightarrow> aggregation_type option
     \<Rightarrow> ('w, glide_error, bytes list) io" where
  "zunion X ex keys aggregate =
     call ex ([AStr ''ZUNION''] @ counted_keys keys @ aggregate_args aggregate) (zset_collect_bytes X)"

definition zunion_withscores ::
  "redis_ext \<Rightarrow> ('w, 'p) executor_fn \<Rightarrow> bytes list list \<Rightarrow> aggregation_type option
     \<Rightarrow> ('w, glide_error, (bytes \<times> f64) list) io" where
  "zunion_withscores X ex keys aggregate =
     call ex ([AStr ''ZUNION''] @ counted_keys keys @ aggregate_args aggregate @ [AStr ''WITHSCORES''])
       (collect_member_scores X)"

definition zinter ::
  "redis_ext \<Rightarrow> ('w, 'p) executor_fn \<Rightarrow> bytes list list \<Rightarrow> aggregation_type option
     \<Rightarrow> ('w, glide_error, bytes list) io" where
  "zinter X ex keys aggregate =
     call ex ([AStr ''ZINTER''] @ counted_keys keys @ aggregate_args aggregate) (zset_collect_bytes X)"

definition zinter_withscores ::
  "redis_ext \<Rightarrow> ('w, 'p) executor_fn \<Rightarrow> bytes list list \<Rightarrow> aggregation_type option
     \<Rightarrow> ('w, glide_error, (bytes \<times> f64) list) io" where
  "zinter_withscores X ex keys aggregate =
     call ex ([AStr ''ZINTER''] @ counted_keys keys @ aggregate_args aggregate @ [AStr ''WITHSCORES''])
       (collect_member_scores X)"

definition zintercard ::
  "redis_ext \<Rightarrow> ('w, 'p) executor_fn \<Rightarrow> bytes list list \<Rightarrow> i64 option \<Rightarrow> ('w, glide_error, i64) io" where
  "zintercard X ex keys lim =
     call ex ([AStr ''ZINTERCARD''] @ counted_keys keys @ opt_clause ''LIMIT'' AI64 lim) (to_i64 X)"

definition zsetop_store ::
  "redis_ext \<Rightarrow> ('w, 'p) executor_fn \<Rightarrow> string \<Rightarrow> bytes list \<Rightarrow> bytes list list \<Rightarrow> aggregation_type option
     \<Rightarrow> ('w, glide_error, i64) io" where
  "zsetop_store X ex op destination keys aggregate =
     call ex ([AStr op, AGen destination] @ counted_keys keys @ aggregate_args aggregate) (to_i64 X)"

section \<open>The contracts\<close>

interpretation aggregation: keyword aggregation_type_as_arg
  by unfold_locales (auto elim!: aggregation_type_as_arg.elims)

lemma zset_collect_bytes_scalar: "scalar v \<Longrightarrow> zset_collect_bytes X v = bind_res (to_bytes X v) (\<lambda>b. Inr [b])"
  by (cases v) (simp_all add: zset_collect_bytes_def)

interpretation zset_members: scalar_list_decoder "zset_collect_bytes X" "to_bytes X" for X
  by unfold_locales (simp_all add: zset_collect_bytes_scalar, simp_all add: zset_collect_bytes_def)

interpretation member_scores: map_pair_decoder "collect_member_scores X" "to_bytes X" "to_f64 X" for X
  by unfold_locales (simp_all add: collect_member_scores_def)

section \<open>Bounds\<close>

lemma lex_bound_to_arg_inj: "lex_bound_to_arg a = lex_bound_to_arg b \<longleftrightarrow> a = b"
  by (cases a; cases b) (auto simp: lex_bound_to_arg_def)

text \<open>
  A lexicographical bound is never mistaken for another: two bounds are sent as the same bytes
  only when they are equal, whatever bytes they contain; an infinite bound differs from every bound
  on a string, also on the strings \<open>-\<close> and \<open>+\<close>.  A score bound is as unambiguous as the text of floats: a
  number written without a leading parenthesis, that is not the text of an infinity.
\<close>

lemma bounds_unambiguous:
  assumes "\<And>u v. x_f64_display X u = x_f64_display X v \<Longrightarrow> u = v"
    and "\<And>u s. x_f64_display X u \<noteq> ''('' @ s" and "\<And>u. x_f64_display X u \<noteq> ''-inf''"
    and "\<And>u. x_f64_display X u \<noteq> ''+inf''"
  shows "(lex_bound_to_arg a = lex_bound_to_arg b \<longleftrightarrow> a = b)
    \<and> (score_bound_to_arg X s = score_bound_to_arg X t \<longleftrightarrow> s = t)"
  using assms [symmetric] assms
  by (cases s; cases t) (auto simp: lex_bound_to_arg_inj score_bound_to_arg_def)

lemma nat_to_string_neq_sign: "nat_to_string n \<noteq> CHR ''('' # s" "nat_to_string n \<noteq> CHR ''-'' # s"
  "nat_to_string n \<noteq> CHR ''+'' # s"
proof -
  have "parse_digits 0 (nat_to_string n) = Some n" by (rule parse_digits_nat_to_string)
  moreover have "parse_digits 0 (CHR ''('' # s) = None" "parse_digits 0 (CHR ''-'' # s) = None"
    "parse_digits 0 (CHR ''+'' # s) = None"
    by (simp_all add: digit_val_def)
  ultimately show "nat_to_string n \<noteq> CHR ''('' # s" "nat_to_string n \<noteq> CHR ''-'' # s"
    "nat_to_string n \<noteq> CHR ''+'' # s"
    by (metis option.distinct(1))+
qed

theorem bounds_unambiguous_witness:
  "lex_bound_to_arg LexNegativeInfinity \<noteq> lex_bound_to_arg (LexInclusive ''-'')
   \<and> score_bound_to_arg (sample_ext\<lparr>x_f64_display := (\<lambda>f. nat_to_string (unat f))\<rparr>) (ScoreInclusive 1)
     \<noteq> score_bound_to_arg (sample_ext\<lparr>x_f64_display := (\<lambda>f. nat_to_string (unat f))\<rparr>) (ScoreExclusive 1)"
proof -
  let ?X = "sample_ext\<lparr>x_f64_display := (\<lambda>f. nat_to_string (unat f))\<rparr>"
  have inj: "nat_to_string (unat u) = nat_to_string (unat v) \<Longrightarrow> u = v" for u v :: f64
    by (metis option.inject parse_digits_nat_to_string word_unat_eq_iff)
  have "(lex_bound_to_arg LexNegativeInfinity = lex_bound_to_arg (LexInclusive ''-'')
        \<longleftrightarrow> LexNegativeInfinity = LexInclusive ''-'')
      \<and> (score_bound_to_arg ?X (ScoreInclusive 1) = score_bound_to_arg ?X (ScoreExclusive 1)
        \<longleftrightarrow> ScoreInclusive 1 = ScoreExclusive 1)"
    by (rule bounds_unambiguous) (simp_all add: nat_to_string_neq_sign inj)
  then show ?thesis by simp
qed

text \<open>
  A reverse range swaps its bounds and nothing else.  Storing the reverse of a range sends, up to
  the \<open>REV\<close> flag, what storing the range with the bounds exchanged sends, by score and
  lexicographically.
\<close>

lemma zrangestore_reverse:
  "(\<exists>before after. (\<forall>ex. zrangestore_by_score X ex d s mn mx True lim
        = call ex (before @ [AStr ''BYSCORE'', AStr ''REV''] @ after) (to_i64 X))
      \<and> (\<forall>ex. zrangestore_by_score X ex d s mx mn False lim
        = call ex (before @ [AStr ''BYSCORE''] @ after) (to_i64 X)))
   \<and> (\<exists>before after. (\<forall>ex. zrangestore_by_lex X ex d s ln lx True lim
        = call ex (before @ [AStr ''BYLEX'', AStr ''REV''] @ after) (to_i64 X))
      \<and> (\<forall>ex. zrangestore_by_lex X ex d s lx ln False lim
        = call ex (before @ [AStr ''BYLEX''] @ after) (to_i64 X)))"
proof
  show "\<exists>before after. (\<forall>ex. zrangestore_by_score X ex d s mn mx True lim
        = call ex (before @ [AStr ''BYSCORE'', AStr ''REV''] @ after) (to_i64 X))
      \<and> (\<forall>ex. zrangestore_by_score X ex d s mx mn False lim
        = call ex (before @ [AStr ''BYSCORE''] @ after) (to_i64 X))"
    by (intro exI [of _ "[AStr ''ZRANGESTORE'', AGen d, AGen s, AStr (score_bound_to_arg X mx),
        AStr (score_bound_to_arg X mn)]"] exI [of _ "limit_args lim"])
       (simp add: zrangestore_by_score_def)
  show "\<exists>before after. (\<forall>ex. zrangestore_by_lex X ex d s ln lx True lim
        = call ex (before @ [AStr ''BYLEX'', AStr ''REV''] @ after) (to_i64 X))
      \<and> (\<forall>ex. zrangestore_by_lex X ex d s lx ln False lim
        = call ex (before @ [AStr ''BYLEX''] @ after) (to_i64 X))"
    by (intro exI [of _ "[AStr ''ZRANGESTORE'', AGen d, AGen s, AStr (lex_bound_to_arg lx),
        AStr (lex_bound_to_arg ln)]"] exI [of _ "limit_args lim"])
       (simp add: zrangestore_by_lex_def)
qed

section \<open>Scores in every protocol\<close>

text \<open>
  C25: the scores a server sends are the scores the client returns, in every reply shape.  A list of
  members and scores is read back unchanged from a RESP3 map, from an array of pairs and from the flat
  array of RESP2, whenever a score is sent in a form that the fork converts to it.
\<close>

theorem member_scores_roundtrip:
  assumes "\<And>s. x_f64 X (enc s) = Inr s"
  shows "collect_member_scores X (VMap (map (\<lambda>p. (VBulkString (fst p), enc (snd p))) ms)) = Inr ms
    \<and> collect_member_scores X (VArray (nested (map (\<lambda>p. (VBulkString (fst p), enc (snd p))) ms))) = Inr ms
    \<and> collect_member_scores X (VArray (flatten (map (\<lambda>p. (VBulkString (fst p), enc (snd p))) ms))) = Inr ms"
proof -
  have conv: "to_f64 X (enc s) = Inr s" for s by (simp add: to_f64_def from_value_def assms)
  have nested: "collect_member_scores X (VArray (nested (map (\<lambda>p. (VBulkString (fst p), enc (snd p))) ms))) = Inr ms"
    by (rule member_scores.pairs_roundtrip(1)) (simp_all add: conv)
  moreover have "collect_member_scores X (VArray (flatten (map (\<lambda>p. (VBulkString (fst p), enc (snd p))) ms))) = Inr ms"
    by (rule member_scores.pairs_roundtrip(2)) (simp_all add: conv)
  ultimately show ?thesis by (simp add: member_scores.map_nested_agree)
qed

theorem member_scores_roundtrip_witness:
  "collect_member_scores sample_ext (VMap [(VBulkString ''a'', VDouble 1)]) = Inr [(''a'', 1)]
   \<and> collect_member_scores sample_ext (VArray [VBulkString ''a'', VDouble 1]) = Inr [(''a'', 1)]"
  using member_scores_roundtrip [of sample_ext VDouble "[(''a'', 1)]"] by (simp add: sample_ext_def)

end
