(* ===== verification/Generic.thy ===== *)
theory Generic
  imports Decoders Options
begin

text \<open>
  Generic key commands (\<open>src/commands/generic.rs\<close>): cursor-style \<open>SCAN\<close> with its reply parser, \<open>SORT\<close>,
  \<open>COPY\<close>, \<open>RESTORE\<close>, \<open>MIGRATE\<close> and the others.  The name of an object type as the fork displays it is the
  parameter \<open>shown\<close>; the code sends it in lower case (\<open>to_lowercase\<close>, here on ASCII letters).
\<close>

definition lower_char :: "char \<Rightarrow> char" where
  "lower_char c = (let n = (of_char c :: nat) in if 65 \<le> n \<and> n \<le> 90 then char_of (n + 32) else c)"

definition to_lowercase :: "string \<Rightarrow> string" where
  "to_lowercase s = map lower_char s"

definition parse_scan_reply :: "redis_ext \<Rightarrow> value \<Rightarrow> (string \<times> bytes list) result" where
  "parse_scan_reply X reply =
     (case reply of
        VArray [cursor_val, keys_val] \<Rightarrow>
          bind_res (to_string X cursor_val) (\<lambda>cursor.
          bind_res
            (case keys_val of
               VArray elems \<Rightarrow> traverse (to_bytes X) elems
             | VNil \<Rightarrow> Inr []
             | other \<Rightarrow> unexpected X ''unexpected SCAN keys shape: '' other)
          (\<lambda>keys. Inr (cursor, keys)))
      | _ \<Rightarrow> Inl (Request ''unexpected SCAN reply shape''))"

definition parse_sorted :: "redis_ext \<Rightarrow> value \<Rightarrow> bytes list result" where
  "parse_sorted X v =
     (case v of
        VArray items \<Rightarrow> traverse (to_bytes X) items
      | VNil \<Rightarrow> Inr []
      | other \<Rightarrow> bind_res (to_bytes X other) (\<lambda>b. Inr [b]))"

section \<open>Commands\<close>

definition scan_cursor ::
  "redis_ext \<Rightarrow> (redis_object_type \<Rightarrow> string) \<Rightarrow> ('w, 'p) executor_fn \<Rightarrow> string \<Rightarrow> bytes option \<Rightarrow> i64 option
     \<Rightarrow> object_type option \<Rightarrow> ('w, glide_error, string \<times> bytes list) io" where
  "scan_cursor X shown ex cursor pattern count type_filter =
     call ex ([AStr ''SCAN'', AStr cursor] @ opt_clause ''MATCH'' AStr pattern
        @ opt_clause ''COUNT'' AI64 count
        @ opt_clause ''TYPE'' (\<lambda>t. AStr (to_lowercase (shown (object_type_to_redis t)))) type_filter)
       (parse_scan_reply X)"

definition expiretime :: "redis_ext \<Rightarrow> ('w, 'p) executor_fn \<Rightarrow> bytes list \<Rightarrow> ('w, glide_error, i64) io" where
  "expiretime X ex key = call ex [AStr ''EXPIRETIME'', AGen key] (to_i64 X)"

definition pexpiretime :: "redis_ext \<Rightarrow> ('w, 'p) executor_fn \<Rightarrow> bytes list \<Rightarrow> ('w, glide_error, i64) io" where
  "pexpiretime X ex key = call ex [AStr ''PEXPIRETIME'', AGen key] (to_i64 X)"

definition randomkey :: "redis_ext \<Rightarrow> ('w, 'p) executor_fn \<Rightarrow> ('w, glide_error, bytes option) io" where
  "randomkey X ex = call ex [AStr ''RANDOMKEY''] (to_opt_bytes X)"

definition dump :: "redis_ext \<Rightarrow> ('w, 'p) executor_fn \<Rightarrow> bytes list \<Rightarrow> ('w, glide_error, bytes option) io" where
  "dump X ex key = call ex [AStr ''DUMP'', AGen key] (to_opt_bytes X)"

definition touch :: "redis_ext \<Rightarrow> ('w, 'p) executor_fn \<Rightarrow> bytes list list \<Rightarrow> ('w, glide_error, i64) io" where
  "touch X ex keys = call ex ([AStr ''TOUCH''] @ map AGen keys) (to_i64 X)"

definition copy ::
  "redis_ext \<Rightarrow> ('w, 'p) executor_fn \<Rightarrow> bytes list \<Rightarrow> bytes list \<Rightarrow> bool \<Rightarrow> ('w, glide_error, bool) io" where
  "copy X ex source destination replace =
     call ex ([AStr ''COPY'', AGen source, AGen destination] @ flag replace ''REPLACE'') (to_bool X)"

definition sort_args :: "order_by option \<Rightarrow> limit option \<Rightarrow> bool \<Rightarrow> cmd" where
  "sort_args order lim alpha =
     limit_args lim @ opt_arg (\<lambda>d. AStr (order_by_as_arg d)) order @ flag alpha ''ALPHA''"

definition sort_cmd ::
  "redis_ext \<Rightarrow> ('w, 'p) executor_fn \<Rightarrow> bytes list \<Rightarrow> order_by option \<Rightarrow> limit option \<Rightarrow> bool
     \<Rightarrow> ('w, glide_error, bytes list) io" where
  "sort_cmd X ex key order lim alpha =
     call ex ([AStr ''SORT'', AGen key] @ sort_args order lim alpha) (parse_sorted X)"

definition copy_with_options ::
  "redis_ext \<Rightarrow> ('w, 'p) executor_fn \<Rightarrow> bytes list \<Rightarrow> bytes list \<Rightarrow> i64 option \<Rightarrow> bool
     \<Rightarrow> ('w, glide_error, bool) io" where
  "copy_with_options X ex source destination destination_db replace =
     call ex ([AStr ''COPY'', AGen source, AGen destination] @ opt_clause ''DB'' AI64 destination_db
        @ flag replace ''REPLACE'') (to_bool X)"

definition restore ::
  "('w, 'p) executor_fn \<Rightarrow> bytes list \<Rightarrow> i64 \<Rightarrow> bytes list \<Rightarrow> restore_options \<Rightarrow> ('w, glide_error, unit) io" where
  "restore ex key ttl_ms serialized options =
     call ex (restore_options_add_to options [AStr ''RESTORE'', AGen key, AI64 ttl_ms, AGen serialized]) to_unit"

definition wait_cmd :: "redis_ext \<Rightarrow> ('w, 'p) executor_fn \<Rightarrow> i64 \<Rightarrow> i64 \<Rightarrow> ('w, glide_error, i64) io" where
  "wait_cmd X ex numreplicas timeout_ms =
     call ex [AStr ''WAIT'', AI64 numreplicas, AI64 timeout_ms] (to_i64 X)"

definition sort_store ::
  "redis_ext \<Rightarrow> ('w, 'p) executor_fn \<Rightarrow> bytes list \<Rightarrow> bytes list \<Rightarrow> order_by option \<Rightarrow> limit option \<Rightarrow> bool
     \<Rightarrow> ('w, glide_error, i64) io" where
  "sort_store X ex key destination order lim alpha =
     call ex ([AStr ''SORT'', AGen key] @ sort_args order lim alpha @ [AStr ''STORE'', AGen destination])
       (to_i64 X)"

definition sort_ro ::
  "redis_ext \<Rightarrow> ('w, 'p) executor_fn \<Rightarrow> bytes list \<Rightarrow> order_by option \<Rightarrow> limit option \<Rightarrow> bool
     \<Rightarrow> ('w, glide_error, bytes list) io" where
  "sort_ro X ex key order lim alpha =
     call ex ([AStr ''SORT_RO'', AGen key] @ sort_args order lim alpha) (parse_sorted X)"

definition move_key :: "redis_ext \<Rightarrow> ('w, 'p) executor_fn \<Rightarrow> bytes list \<Rightarrow> i64 \<Rightarrow> ('w, glide_error, bool) io" where
  "move_key X ex key db = call ex [AStr ''MOVE'', AGen key, AI64 db] (to_bool X)"

definition migrate ::
  "('w, 'p) executor_fn \<Rightarrow> bytes list \<Rightarrow> i64 \<Rightarrow> bytes list \<Rightarrow> i64 \<Rightarrow> i64 \<Rightarrow> migrate_options
     \<Rightarrow> ('w, glide_error, unit) io" where
  "migrate ex host port key destination_db timeout_ms options =
     call ex (migrate_options_add_to options
        [AStr ''MIGRATE'', AGen host, AI64 port, AGen key, AI64 destination_db, AI64 timeout_ms]) to_unit"

definition watch :: "('w, 'p) executor_fn \<Rightarrow> bytes list list \<Rightarrow> ('w, glide_error, unit) io" where
  "watch ex keys = call ex ([AStr ''WATCH''] @ map AGen keys) to_unit"

definition unwatch :: "('w, 'p) executor_fn \<Rightarrow> ('w, glide_error, unit) io" where
  "unwatch ex = call ex [AStr ''UNWATCH''] to_unit"

section \<open>The contracts\<close>

lemma parse_sorted_scalar: "scalar v \<Longrightarrow> parse_sorted X v = bind_res (to_bytes X v) (\<lambda>b. Inr [b])"
  by (cases v) (simp_all add: parse_sorted_def)

interpretation sorted_elements: scalar_list_decoder "parse_sorted X" "to_bytes X" for X
  by unfold_locales (simp_all add: parse_sorted_scalar, simp_all add: parse_sorted_def)

text \<open>
  The options of \<open>SORT\<close> are recoverable from their arguments: no two combinations of order, limit and
  \<open>ALPHA\<close> are sent alike.
\<close>

lemma order_by_keywords:
  "order_by_as_arg k \<noteq> ''ALPHA''" "order_by_as_arg k \<noteq> ''LIMIT''" "order_by_as_arg k = order_by_as_arg k' \<longleftrightarrow> k = k'"
  by (cases k; cases k'; simp)+

lemma sort_args_inj: "sort_args d l a = sort_args d' l' a' \<longleftrightarrow> d = d' \<and> l = l' \<and> a = a'"
  by (cases l; cases l'; cases d; cases d')
     (auto simp: sort_args_def limit_args_def flag_def order_by_keywords order_by_keywords(1,2) [symmetric]
        split: if_splits)

text \<open>
  A page of a cursor scan is read exactly or rejected.  The reply is accepted exactly when it is a
  pair of a textual cursor and an array of keys (nil for none); the keys come back in order; and every
  reply of another shape is a request error rather than an empty page, so that an iteration cannot
  end early unnoticed.
\<close>

lemma parse_scan_reply_exact:
  "(parse_scan_reply X reply = Inr (cursor, keys) \<longleftrightarrow>
     (\<exists>cv kv. reply = VArray [cv, kv] \<and> to_string X cv = Inr cursor
        \<and> ((kv = VNil \<and> keys = []) \<or> (\<exists>elems. kv = VArray elems \<and> traverse (to_bytes X) elems = Inr keys))))
   \<and> ((\<exists>cv elems. reply = VArray [cv, VArray elems]) \<or> (\<exists>cv. reply = VArray [cv, VNil])
      \<or> (\<exists>cv. (\<exists>kv. reply = VArray [cv, kv]) \<and> (\<exists>e. to_string X cv = Inl e))
      \<or> (\<exists>m. parse_scan_reply X reply = Inl (Request m)))"
proof (cases "\<exists>cv kv. reply = VArray [cv, kv]")
  case True
  then obtain cv kv where r: "reply = VArray [cv, kv]" by blast
  show ?thesis
    unfolding r
    by (cases "to_string X cv"; cases kv)
       (auto simp: parse_scan_reply_def res_simps unexpected_def)
next
  case False
  then have "parse_scan_reply X reply = Inl (Request ''unexpected SCAN reply shape'')"
    by (auto simp: parse_scan_reply_def split: value_split list.split)
  with False show ?thesis by auto
qed

end
