(* ===== verification/Hashes.thy ===== *)
theory Hashes
  imports Decoders Options Generic
begin

text \<open>
  Hash commands (\<open>src/commands/hash.rs\<close>): one function per command and the list and pair decoders.  The
  field-expiry family (\<open>HEXPIRE\<close>, \<open>HTTL\<close>, ...) goes through \<open>hfield_expire\<close>.
\<close>

section \<open>Replies\<close>

definition parse_hmget :: "redis_ext \<Rightarrow> value \<Rightarrow> bytes option list result" where
  "parse_hmget X v =
     (case v of
        VArray items \<Rightarrow> traverse (to_opt_bytes X) items
      | other \<Rightarrow> bind_res (to_opt_bytes X other) (\<lambda>b. Inr [b]))"

definition parse_hgetex :: "redis_ext \<Rightarrow> value \<Rightarrow> bytes option list result" where
  "parse_hgetex X v =
     (case v of
        VArray items \<Rightarrow> traverse (to_opt_bytes X) items
      | VNil \<Rightarrow> Inr []
      | other \<Rightarrow> bind_res (to_opt_bytes X other) (\<lambda>b. Inr [b]))"

definition collect_i64 :: "redis_ext \<Rightarrow> value \<Rightarrow> i64 list result" where
  "collect_i64 X v =
     (case v of
        VNil \<Rightarrow> Inr []
      | VArray items \<Rightarrow> traverse (to_i64 X) items
      | other \<Rightarrow> bind_res (to_i64 X other) (\<lambda>i. Inr [i]))"

definition collect_pairs :: "redis_ext \<Rightarrow> value \<Rightarrow> (bytes \<times> bytes) list result" where
  "collect_pairs X v =
     (case v of
        VNil \<Rightarrow> Inr []
      | VMap pairs \<Rightarrow> traverse (pair_res (to_bytes X) (to_bytes X)) pairs
      | VArray items \<Rightarrow>
          (if list_all is_pair items
           then traverse (pair_res_rev (to_bytes X) (to_bytes X)) (array_pairs items)
           else flat_pairs (to_bytes X) (to_bytes X) items)
      | other \<Rightarrow> bind_res (to_bytes X other) (\<lambda>b. Inr [(b, [])]))"

definition hash_collect_bytes :: "redis_ext \<Rightarrow> value \<Rightarrow> bytes list result" where
  "hash_collect_bytes X v =
     (case v of
        VArray items \<Rightarrow> traverse (to_bytes X) items
      | VNil \<Rightarrow> Inr []
      | other \<Rightarrow> bind_res (to_bytes X other) (\<lambda>b. Inr [b]))"

section \<open>Commands\<close>

definition hmget ::
  "redis_ext \<Rightarrow> ('w, 'p) executor_fn \<Rightarrow> bytes list \<Rightarrow> bytes list list \<Rightarrow> ('w, glide_error, bytes option list) io" where
  "hmget X ex key flds = call ex ([AStr ''HMGET'', AGen key] @ map AGen flds) (parse_hmget X)"

definition hstrlen ::
  "redis_ext \<Rightarrow> ('w, 'p) executor_fn \<Rightarrow> bytes list \<Rightarrow> bytes list \<Rightarrow> ('w, glide_error, i64) io" where
  "hstrlen X ex key field = call ex [AStr ''HSTRLEN'', AGen key, AGen field] (to_i64 X)"

definition hrandfield ::
  "redis_ext \<Rightarrow> ('w, 'p) executor_fn \<Rightarrow> bytes list \<Rightarrow> ('w, glide_error, bytes option) io" where
  "hrandfield X ex key = call ex [AStr ''HRANDFIELD'', AGen key] (to_opt_bytes X)"

definition hrandfield_count ::
  "redis_ext \<Rightarrow> ('w, 'p) executor_fn \<Rightarrow> bytes list \<Rightarrow> i64 \<Rightarrow> ('w, glide_error, bytes list) io" where
  "hrandfield_count X ex key count =
     call ex [AStr ''HRANDFIELD'', AGen key, AI64 count] (hash_collect_bytes X)"

definition hrandfield_withvalues ::
  "redis_ext \<Rightarrow> ('w, 'p) executor_fn \<Rightarrow> bytes list \<Rightarrow> i64 \<Rightarrow> ('w, glide_error, (bytes \<times> bytes) list) io" where
  "hrandfield_withvalues X ex key count =
     call ex [AStr ''HRANDFIELD'', AGen key, AI64 count, AStr ''WITHVALUES''] (collect_pairs X)"

definition hscan_novalues ::
  "redis_ext \<Rightarrow> ('w, 'p) executor_fn \<Rightarrow> bytes list \<Rightarrow> string \<Rightarrow> bytes option \<Rightarrow> i64 option
     \<Rightarrow> ('w, glide_error, string \<times> bytes list) io" where
  "hscan_novalues X ex key cursor pattern count =
     call ex ([AStr ''HSCAN'', AGen key, AStr cursor] @ opt_clause ''MATCH'' AStr pattern
        @ opt_clause ''COUNT'' AI64 count @ [AStr ''NOVALUES'']) (parse_scan_reply X)"

definition hfield_expire ::
  "redis_ext \<Rightarrow> ('w, 'p) executor_fn \<Rightarrow> string \<Rightarrow> bytes list \<Rightarrow> i64 option \<Rightarrow> bytes list list
     \<Rightarrow> expire_options option \<Rightarrow> ('w, glide_error, i64 list) io" where
  "hfield_expire X ex op key val flds option =
     (let c = [AStr op, AGen key] @ opt_arg AI64 val;
          c = (case option of None \<Rightarrow> c | Some e \<Rightarrow> expire_options_add_to e c)
      in call ex (c @ [AStr ''FIELDS''] @ counted_keys flds) (collect_i64 X))"

definition hexpire ::
  "redis_ext \<Rightarrow> ('w, 'p) executor_fn \<Rightarrow> bytes list \<Rightarrow> i64 \<Rightarrow> bytes list list \<Rightarrow> expire_options option
     \<Rightarrow> ('w, glide_error, i64 list) io" where
  "hexpire X ex key seconds flds option = hfield_expire X ex ''HEXPIRE'' key (Some seconds) flds option"

definition hexpireat ::
  "redis_ext \<Rightarrow> ('w, 'p) executor_fn \<Rightarrow> bytes list \<Rightarrow> i64 \<Rightarrow> bytes list list \<Rightarrow> expire_options option
     \<Rightarrow> ('w, glide_error, i64 list) io" where
  "hexpireat X ex key unix_seconds flds option =
     hfield_expire X ex ''HEXPIREAT'' key (Some unix_seconds) flds option"

definition hexpiretime ::
  "redis_ext \<Rightarrow> ('w, 'p) executor_fn \<Rightarrow> bytes list \<Rightarrow> bytes list list \<Rightarrow> ('w, glide_error, i64 list) io" where
  "hexpiretime X ex key flds = hfield_expire X ex ''HEXPIRETIME'' key None flds None"

definition hpexpire ::
  "redis_ext \<Rightarrow> ('w, 'p) executor_fn \<Rightarrow> bytes list \<Rightarrow> i64 \<Rightarrow> bytes list list \<Rightarrow> expire_options option
     \<Rightarrow> ('w, glide_error, i64 list) io" where
  "hpexpire X ex key milliseconds flds option =
     hfield_expire X ex ''HPEXPIRE'' key (Some milliseconds) flds option"

definition hpexpireat ::
  "redis_ext \<Rightarrow> ('w, 'p) executor_fn \<Rightarrow> bytes list \<Rightarrow> i64 \<Rightarrow> bytes list list \<Rightarrow> expire_options option
     \<Rightarrow> ('w, glide_error, i64 list) io" where
  "hpexpireat X ex key unix_milliseconds flds option =
     hfield_expire X ex ''HPEXPIREAT'' key (Some unix_milliseconds) flds option"

definition hpexpiretime ::
  "redis_ext \<Rightarrow> ('w, 'p) executor_fn \<Rightarrow> bytes list \<Rightarrow> bytes list list \<Rightarrow> ('w, glide_error, i64 list) io" where
  "hpexpiretime X ex key flds = hfield_expire X ex ''HPEXPIRETIME'' key None flds None"

definition httl ::
  "redis_ext \<Rightarrow> ('w, 'p) executor_fn \<Rightarrow> bytes list \<Rightarrow> bytes list list \<Rightarrow> ('w, glide_error, i64 list) io" where
  "httl X ex key flds = hfield_expire X ex ''HTTL'' key None flds None"

definition hpttl ::
  "redis_ext \<Rightarrow> ('w, 'p) executor_fn \<Rightarrow> bytes list \<Rightarrow> bytes list list \<Rightarrow> ('w, glide_error, i64 list) io" where
  "hpttl X ex key flds = hfield_expire X ex ''HPTTL'' key None flds None"

definition hpersist ::
  "redis_ext \<Rightarrow> ('w, 'p) executor_fn \<Rightarrow> bytes list \<Rightarrow> bytes list list \<Rightarrow> ('w, glide_error, i64 list) io" where
  "hpersist X ex key flds = hfield_expire X ex ''HPERSIST'' key None flds None"

definition hgetex ::
  "redis_ext \<Rightarrow> ('w, 'p) executor_fn \<Rightarrow> bytes list \<Rightarrow> bytes list list \<Rightarrow> expiry_set option
     \<Rightarrow> ('w, glide_error, bytes option list) io" where
  "hgetex X ex key flds expiry =
     (let c = [AStr ''HGETEX'', AGen key];
          c = (case expiry of None \<Rightarrow> c | Some e \<Rightarrow> expiry_set_add_to e c)
      in call ex (c @ [AStr ''FIELDS''] @ counted_keys flds) (parse_hgetex X))"

definition hsetex ::
  "redis_ext \<Rightarrow> ('w, 'p) executor_fn \<Rightarrow> bytes list \<Rightarrow> (bytes list \<times> bytes list) list
     \<Rightarrow> hash_field_conditional_change option \<Rightarrow> expiry_set option \<Rightarrow> ('w, glide_error, i64) io" where
  "hsetex X ex key field_values condition expiry =
     (let c = [AStr ''HSETEX'', AGen key]
                @ opt_arg (\<lambda>h. AStr (hash_field_conditional_change_as_arg h)) condition;
          c = (case expiry of None \<Rightarrow> c | Some e \<Rightarrow> expiry_set_add_to e c)
      in call ex (c @ [AStr ''FIELDS'', AUsize (length field_values)]
             @ concat (map (\<lambda>(f, v). [AGen f, AGen v]) field_values)) (to_i64 X))"

section \<open>The contracts\<close>

lemma collect_i64_scalar: "scalar v \<Longrightarrow> collect_i64 X v = bind_res (to_i64 X v) (\<lambda>i. Inr [i])"
  by (cases v) (simp_all add: collect_i64_def)

interpretation hash_codes: scalar_list_decoder "collect_i64 X" "to_i64 X" for X
  by unfold_locales (simp_all add: collect_i64_scalar, simp_all add: collect_i64_def)

lemma hash_collect_bytes_scalar: "scalar v \<Longrightarrow> hash_collect_bytes X v = bind_res (to_bytes X v) (\<lambda>b. Inr [b])"
  by (cases v) (simp_all add: hash_collect_bytes_def)

interpretation hash_fields: scalar_list_decoder "hash_collect_bytes X" "to_bytes X" for X
  by unfold_locales (simp_all add: hash_collect_bytes_scalar, simp_all add: hash_collect_bytes_def)

interpretation hash_pairs: map_pair_decoder "collect_pairs X" "to_bytes X" "to_bytes X" for X
  by unfold_locales (simp_all add: collect_pairs_def)

interpretation hash_values: list_decoder "parse_hmget X" "to_opt_bytes X" for X
  by unfold_locales (simp add: parse_hmget_def)

lemma parse_hgetex_scalar: "scalar v \<Longrightarrow> parse_hgetex X v = bind_res (to_opt_bytes X v) (\<lambda>b. Inr [b])"
  by (cases v) (simp_all add: parse_hgetex_def)

interpretation hash_values_ex: scalar_list_decoder "parse_hgetex X" "to_opt_bytes X" for X
  by unfold_locales (simp_all add: parse_hgetex_scalar, simp_all add: parse_hgetex_def)

section \<open>Values\<close>

text \<open>
  \<open>HMGET\<close> and \<open>HGETEX\<close> return one value per field, in the order of the fields, with \<open>None\<close> exactly
  for the missing ones: whatever the values are, the array a server sends for them is read back
  unchanged.
\<close>

lemma hash_values_roundtrip:
  "parse_hmget X (VArray (map (\<lambda>o'. case o' of None \<Rightarrow> VNil | Some b \<Rightarrow> VBulkString b) vals)) = Inr vals
   \<and> parse_hgetex X (VArray (map (\<lambda>o'. case o' of None \<Rightarrow> VNil | Some b \<Rightarrow> VBulkString b) vals)) = Inr vals"
proof -
  have "to_opt_bytes X (case o' of None \<Rightarrow> VNil | Some b \<Rightarrow> VBulkString b) = Inr o'" for o'
    by (cases o') (simp_all add: to_opt_bytes_not_Nil)
  then show ?thesis
    by (simp add: hash_values.dec_roundtrip hash_values_ex.dec_roundtrip)
qed

text \<open>
  Hash fields with their values are read back unchanged from all three reply shapes, the RESP3
  map, the array of pairs and the flat array, for every list of pairs, empty or not.
\<close>

lemma hash_pairs_roundtrip:
  "collect_pairs X (VMap (map (\<lambda>p. (VBulkString (fst p), VBulkString (snd p))) ps)) = Inr ps
   \<and> collect_pairs X (VArray (nested (map (\<lambda>p. (VBulkString (fst p), VBulkString (snd p))) ps))) = Inr ps
   \<and> collect_pairs X (VArray (flatten (map (\<lambda>p. (VBulkString (fst p), VBulkString (snd p))) ps))) = Inr ps"
proof -
  have "collect_pairs X (VArray (nested (map (\<lambda>p. (VBulkString (fst p), VBulkString (snd p))) ps))) = Inr ps"
    by (rule hash_pairs.pairs_roundtrip(1)) simp_all
  moreover have "collect_pairs X (VArray (flatten (map (\<lambda>p. (VBulkString (fst p), VBulkString (snd p))) ps))) = Inr ps"
    by (rule hash_pairs.pairs_roundtrip(2)) simp_all
  ultimately show ?thesis by (simp add: hash_pairs.map_nested_agree)
qed

end
