(* ===== verification/Geo.thy ===== *)
theory Geo
  imports Decoders Options
begin

text \<open>
  Geospatial commands (\<open>src/commands/geo.rs\<close>): units, search shapes, one function per command and the
  position decoder.
\<close>

datatype geo_unit = Meters | Kilometers | Miles | Feet

fun geo_unit_as_arg :: "geo_unit \<Rightarrow> string" where
  "geo_unit_as_arg Meters = ''m''"
| "geo_unit_as_arg Kilometers = ''km''"
| "geo_unit_as_arg Miles = ''mi''"
| "geo_unit_as_arg Feet = ''ft''"

record geospatial_data =
  longitude :: f64
  latitude :: f64

datatype geo_search_shape = ByRadius f64 geo_unit | ByBox f64 f64 geo_unit

fun geo_search_shape_add_to :: "geo_search_shape \<Rightarrow> cmd \<Rightarrow> cmd" where
  "geo_search_shape_add_to (ByRadius radius u) c =
     c @ [AStr ''BYRADIUS'', AF64 radius, AStr (geo_unit_as_arg u)]"
| "geo_search_shape_add_to (ByBox width height u) c =
     c @ [AStr ''BYBOX'', AF64 width, AF64 height, AStr (geo_unit_as_arg u)]"

definition add_search_tail :: "order_by option \<Rightarrow> i64 option \<Rightarrow> bool \<Rightarrow> cmd \<Rightarrow> cmd" where
  "add_search_tail order count any c =
     c @ opt_arg (\<lambda>d. AStr (order_by_as_arg d)) order
       @ (case count of None \<Rightarrow> [] | Some n \<Rightarrow> [AStr ''COUNT'', AI64 n] @ flag any ''ANY'')"

section \<open>Replies\<close>

definition geo_collect_bytes :: "redis_ext \<Rightarrow> value \<Rightarrow> bytes list result" where
  "geo_collect_bytes X v =
     (case v of
        VArray items \<Rightarrow> traverse (to_bytes X) items
      | VNil \<Rightarrow> Inr []
      | other \<Rightarrow> bind_res (to_bytes X other) (\<lambda>b. Inr [b]))"

definition parse_geohash :: "redis_ext \<Rightarrow> value \<Rightarrow> bytes option list result" where
  "parse_geohash X v =
     (case v of
        VArray items \<Rightarrow> traverse (to_opt_bytes X) items
      | other \<Rightarrow> bind_res (to_opt_bytes X other) (\<lambda>b. Inr [b]))"

definition parse_position :: "redis_ext \<Rightarrow> value \<Rightarrow> (f64 \<times> f64) option result" where
  "parse_position X it =
     (case it of
        VNil \<Rightarrow> Inr None
      | VArray [lon_val, lat_val] \<Rightarrow>
          bind_res (to_f64 X lat_val) (\<lambda>lat.
          bind_res (to_f64 X lon_val) (\<lambda>lon. Inr (Some (lon, lat))))
      | _ \<Rightarrow> Inr None)"

definition parse_geopos :: "redis_ext \<Rightarrow> value \<Rightarrow> (f64 \<times> f64) option list result" where
  "parse_geopos X v =
     (case v of
        VArray items \<Rightarrow> traverse (parse_position X) items
      | _ \<Rightarrow> Inr [])"

section \<open>Commands\<close>

definition position_args :: "(bytes list \<times> geospatial_data) list \<Rightarrow> cmd" where
  "position_args mps = concat (map (\<lambda>(m, pos). [AF64 (longitude pos), AF64 (latitude pos), AGen m]) mps)"

definition geoadd ::
  "redis_ext \<Rightarrow> ('w, 'p) executor_fn \<Rightarrow> bytes list \<Rightarrow> (bytes list \<times> geospatial_data) list
     \<Rightarrow> ('w, glide_error, i64) io" where
  "geoadd X ex key mps = call ex ([AStr ''GEOADD'', AGen key] @ position_args mps) (to_i64 X)"

definition geodist ::
  "redis_ext \<Rightarrow> ('w, 'p) executor_fn \<Rightarrow> bytes list \<Rightarrow> bytes list \<Rightarrow> bytes list \<Rightarrow> geo_unit option
     \<Rightarrow> ('w, glide_error, f64 option) io" where
  "geodist X ex key member1 member2 u =
     call ex ([AStr ''GEODIST'', AGen key, AGen member1, AGen member2]
        @ opt_arg (\<lambda>v. AStr (geo_unit_as_arg v)) u) (to_opt_f64 X)"

definition geohash ::
  "redis_ext \<Rightarrow> ('w, 'p) executor_fn \<Rightarrow> bytes list \<Rightarrow> bytes list list \<Rightarrow> ('w, glide_error, bytes option list) io" where
  "geohash X ex key members = call ex ([AStr ''GEOHASH'', AGen key] @ map AGen members) (parse_geohash X)"

definition geopos ::
  "redis_ext \<Rightarrow> ('w, 'p) executor_fn \<Rightarrow> bytes list \<Rightarrow> bytes list list
     \<Rightarrow> ('w, glide_error, (f64 \<times> f64) option list) io" where
  "geopos X ex key members = call ex ([AStr ''GEOPOS'', AGen key] @ map AGen members) (parse_geopos X)"

definition geosearch_by_radius_from_member ::
  "redis_ext \<Rightarrow> ('w, 'p) executor_fn \<Rightarrow> bytes list \<Rightarrow> bytes list \<Rightarrow> f64 \<Rightarrow> geo_unit
     \<Rightarrow> ('w, glide_error, bytes list) io" where
  "geosearch_by_radius_from_member X ex key member radius u =
     call ex [AStr ''GEOSEARCH'', AGen key, AStr ''FROMMEMBER'', AGen member, AStr ''BYRADIUS'', AF64 radius,
              AStr (geo_unit_as_arg u)]
       (\<lambda>v. case v of
          VArray items \<Rightarrow> traverse (to_bytes X) items
        | VNil \<Rightarrow> Inr []
        | other \<Rightarrow> bind_res (to_bytes X other) (\<lambda>b. Inr [b]))"

definition geoadd_options ::
  "redis_ext \<Rightarrow> ('w, 'p) executor_fn \<Rightarrow> bytes list \<Rightarrow> (bytes list \<times> geospatial_data) list
     \<Rightarrow> conditional_change option \<Rightarrow> bool \<Rightarrow> ('w, glide_error, i64) io" where
  "geoadd_options X ex key mps cond changed =
     (let c = [AStr ''GEOADD'', AGen key];
          c = (case cond of None \<Rightarrow> c | Some cc \<Rightarrow> conditional_change_add_to cc c)
      in call ex (c @ flag changed ''CH'' @ position_args mps) (to_i64 X))"

definition geosearch_from_member ::
  "redis_ext \<Rightarrow> ('w, 'p) executor_fn \<Rightarrow> bytes list \<Rightarrow> bytes list \<Rightarrow> geo_search_shape \<Rightarrow> order_by option
     \<Rightarrow> i64 option \<Rightarrow> bool \<Rightarrow> ('w, glide_error, bytes list) io" where
  "geosearch_from_member X ex key member shape order count any =
     call ex (add_search_tail order count any (geo_search_shape_add_to shape
        [AStr ''GEOSEARCH'', AGen key, AStr ''FROMMEMBER'', AGen member])) (geo_collect_bytes X)"

definition geosearch_from_coord ::
  "redis_ext \<Rightarrow> ('w, 'p) executor_fn \<Rightarrow> bytes list \<Rightarrow> geospatial_data \<Rightarrow> geo_search_shape \<Rightarrow> order_by option
     \<Rightarrow> i64 option \<Rightarrow> bool \<Rightarrow> ('w, glide_error, bytes list) io" where
  "geosearch_from_coord X ex key coord shape order count any =
     call ex (add_search_tail order count any (geo_search_shape_add_to shape
        [AStr ''GEOSEARCH'', AGen key, AStr ''FROMLONLAT'', AF64 (longitude coord), AF64 (latitude coord)]))
       (geo_collect_bytes X)"

definition geosearchstore_from_member ::
  "redis_ext \<Rightarrow> ('w, 'p) executor_fn \<Rightarrow> bytes list \<Rightarrow> bytes list \<Rightarrow> bytes list \<Rightarrow> geo_search_shape
     \<Rightarrow> order_by option \<Rightarrow> i64 option \<Rightarrow> bool \<Rightarrow> bool \<Rightarrow> ('w, glide_error, i64) io" where
  "geosearchstore_from_member X ex destination source member shape order count any store_dist =
     call ex (add_search_tail order count any (geo_search_shape_add_to shape
        [AStr ''GEOSEARCHSTORE'', AGen destination, AGen source, AStr ''FROMMEMBER'', AGen member])
        @ flag store_dist ''STOREDIST'') (to_i64 X)"

definition geosearchstore_from_coord ::
  "redis_ext \<Rightarrow> ('w, 'p) executor_fn \<Rightarrow> bytes list \<Rightarrow> bytes list \<Rightarrow> geospatial_data \<Rightarrow> geo_search_shape
     \<Rightarrow> order_by option \<Rightarrow> i64 option \<Rightarrow> bool \<Rightarrow> bool \<Rightarrow> ('w, glide_error, i64) io" where
  "geosearchstore_from_coord X ex destination source coord shape order count any store_dist =
     call ex (add_search_tail order count any (geo_search_shape_add_to shape
        [AStr ''GEOSEARCHSTORE'', AGen destination, AGen source, AStr ''FROMLONLAT'',
         AF64 (longitude coord), AF64 (latitude coord)])
        @ flag store_dist ''STOREDIST'') (to_i64 X)"

section \<open>The contracts\<close>

interpretation geo_unit: keyword geo_unit_as_arg
  by unfold_locales (auto elim!: geo_unit_as_arg.elims)

interpretation geo_shape: lossless_appender geo_search_shape_add_to
proof unfold_locales
  fix s and c d :: cmd
  show "geo_search_shape_add_to s (c @ d) = c @ geo_search_shape_add_to s d" by (cases s) auto
next
  fix s t
  assume "geo_search_shape_add_to s [] = geo_search_shape_add_to t []"
  then show "s = t" by (cases s; cases t) (auto dest: geo_unit.as_arg_inj)
qed

interpretation search_tail: appender "\<lambda>t. case t of (order, count, any) \<Rightarrow> add_search_tail order count any"
  by unfold_locales (simp add: add_search_tail_def split: prod.split)

lemma geo_collect_bytes_scalar: "scalar v \<Longrightarrow> geo_collect_bytes X v = bind_res (to_bytes X v) (\<lambda>b. Inr [b])"
  by (cases v) (simp_all add: geo_collect_bytes_def)

interpretation geo_members: scalar_list_decoder "geo_collect_bytes X" "to_bytes X" for X
  by unfold_locales (simp_all add: geo_collect_bytes_scalar, simp_all add: geo_collect_bytes_def)

interpretation geo_positions: list_decoder "parse_geopos X" "parse_position X" for X
  by unfold_locales (simp add: parse_geopos_def)

interpretation geo_hashes: list_decoder "parse_geohash X" "to_opt_bytes X" for X
  by unfold_locales (simp add: parse_geohash_def)

section \<open>Properties\<close>

lemma geosearch_by_radius_is_shape:
  "geosearch_by_radius_from_member X ex key member radius u
     = geosearch_from_member X ex key member (ByRadius radius u) None None any"
proof -
  have "(\<lambda>v. case v of VArray items \<Rightarrow> traverse (to_bytes X) items | VNil \<Rightarrow> Inr []
      | other \<Rightarrow> bind_res (to_bytes X other) (\<lambda>b. Inr [b])) = geo_collect_bytes X"
    by (rule ext) (simp only: geo_collect_bytes_def)
  then show ?thesis
    by (simp add: geosearch_by_radius_from_member_def geosearch_from_member_def add_search_tail_def)
qed

text \<open>
  Positions come back as they were stored.  \<open>GEOADD\<close> sends longitude before latitude for every
  member, and the positions of a \<open>GEOPOS\<close> reply are read in that order: a list of positions, with nil
  for the missing members, is read back unchanged, one result per member.
\<close>

lemma geo_positions_roundtrip:
  assumes "\<And>f. x_f64 X (enc f) = Inr f"
  shows "parse_geopos X (VArray (map (\<lambda>p. case p of None \<Rightarrow> VNil | Some (lon, lat) \<Rightarrow> VArray [enc lon, enc lat]) ps)) = Inr ps
    \<and> geoadd X ex key [(m, \<lparr>longitude = lon, latitude = lat\<rparr>)]
        = call ex [AStr ''GEOADD'', AGen key, AF64 lon, AF64 lat, AGen m] (to_i64 X)"
proof
  have "parse_position X (case p of None \<Rightarrow> VNil | Some (lon, lat) \<Rightarrow> VArray [enc lon, enc lat]) = Inr p" for p
    using assms by (cases p) (auto simp: parse_position_def to_f64_def from_value_def)
  then show "parse_geopos X (VArray (map (\<lambda>p. case p of None \<Rightarrow> VNil
      | Some (lon, lat) \<Rightarrow> VArray [enc lon, enc lat]) ps)) = Inr ps"
    by (rule geo_positions.dec_roundtrip)
  show "geoadd X ex key [(m, \<lparr>longitude = lon, latitude = lat\<rparr>)]
        = call ex [AStr ''GEOADD'', AGen key, AF64 lon, AF64 lat, AGen m] (to_i64 X)"
    by (simp add: geoadd_def position_args_def)
qed

theorem geo_positions_roundtrip_witness:
  "parse_geopos sample_ext (VArray [VArray [VDouble 1, VDouble 2], VNil]) = Inr [Some (1, 2), None]"
proof -
  have "x_f64 sample_ext (VDouble f) = Inr f" for f by (simp add: sample_ext_def)
  from conjunct1 [OF geo_positions_roundtrip [OF this, of "[Some (1, 2), None]" "\<lambda>c r w. (Inr VNil, w)" "[]" "[]" 0 0]]
  show ?thesis by simp
qed

end
