(* ===== verification/Bitmap.thy ===== *)
theory Bitmap
  imports Decoders
begin

text \<open>
  Bitmap commands (\<open>src/commands/bitmap.rs\<close>): bit-field encodings, offsets and subcommands, and the
  \<open>BITFIELD\<close> reply.
\<close>

datatype bitmap_index_type = IndexByte | IndexBit

fun bitmap_index_type_as_arg :: "bitmap_index_type \<Rightarrow> string" where
  "bitmap_index_type_as_arg IndexByte = ''BYTE''"
| "bitmap_index_type_as_arg IndexBit = ''BIT''"

datatype bit_encoding = Signed u32 | Unsigned u32

fun bit_encoding_to_arg :: "bit_encoding \<Rightarrow> string" where
  "bit_encoding_to_arg (Signed n) = ''i'' @ nat_to_string (unat n)"
| "bit_encoding_to_arg (Unsigned n) = ''u'' @ nat_to_string (unat n)"

datatype bit_field_offset = OffsetBit u64 | OffsetMultiplier u64

fun bit_field_offset_to_arg :: "bit_field_offset \<Rightarrow> string" where
  "bit_field_offset_to_arg (OffsetBit n) = nat_to_string (unat n)"
| "bit_field_offset_to_arg (OffsetMultiplier n) = ''#'' @ nat_to_string (unat n)"

datatype bit_overflow = Wrap | Sat | Fail

fun bit_overflow_as_arg :: "bit_overflow \<Rightarrow> string" where
  "bit_overflow_as_arg Wrap = ''WRAP''"
| "bit_overflow_as_arg Sat = ''SAT''"
| "bit_overflow_as_arg Fail = ''FAIL''"

datatype bit_field_subcommand =
    BitGet bit_encoding bit_field_offset
  | BitSet bit_encoding bit_field_offset i64
  | BitIncrBy bit_encoding bit_field_offset i64
  | BitOverflow bit_overflow

fun bit_field_subcommand_add_to :: "bit_field_subcommand \<Rightarrow> cmd \<Rightarrow> cmd" where
  "bit_field_subcommand_add_to (BitGet e f) c =
     c @ [AStr ''GET'', AStr (bit_encoding_to_arg e), AStr (bit_field_offset_to_arg f)]"
| "bit_field_subcommand_add_to (BitSet e f v) c =
     c @ [AStr ''SET'', AStr (bit_encoding_to_arg e), AStr (bit_field_offset_to_arg f), AI64 v]"
| "bit_field_subcommand_add_to (BitIncrBy e f i) c =
     c @ [AStr ''INCRBY'', AStr (bit_encoding_to_arg e), AStr (bit_field_offset_to_arg f), AI64 i]"
| "bit_field_subcommand_add_to (BitOverflow b) c = c @ [AStr ''OVERFLOW'', AStr (bit_overflow_as_arg b)]"

text \<open>The loop \<open>for sub in subcommands { sub.add_to(&mut cmd); }\<close>.\<close>

definition subcommands_add_to :: "bit_field_subcommand list \<Rightarrow> cmd \<Rightarrow> cmd" where
  "subcommands_add_to subs c = foldl (\<lambda>d s. bit_field_subcommand_add_to s d) c subs"

definition parse_bitfield :: "redis_ext \<Rightarrow> value \<Rightarrow> i64 option list result" where
  "parse_bitfield X v =
     (case v of
        VNil \<Rightarrow> Inr []
      | VArray items \<Rightarrow>
          traverse (\<lambda>it. case it of
              VNil \<Rightarrow> Inr None
            | other \<Rightarrow> bind_res (to_i64 X other) (\<lambda>i. Inr (Some i))) items
      | other \<Rightarrow> bind_res (to_i64 X other) (\<lambda>i. Inr [Some i]))"

section \<open>Commands\<close>

definition bitpos :: "redis_ext \<Rightarrow> ('w, 'p) executor_fn \<Rightarrow> bytes list \<Rightarrow> u8 \<Rightarrow> ('w, glide_error, i64) io" where
  "bitpos X ex key b = call ex [AStr ''BITPOS'', AGen key, AU8 b] (to_i64 X)"

definition bitpos_range ::
  "redis_ext \<Rightarrow> ('w, 'p) executor_fn \<Rightarrow> bytes list \<Rightarrow> u8 \<Rightarrow> i64 \<Rightarrow> i64 \<Rightarrow> bitmap_index_type option
     \<Rightarrow> ('w, glide_error, i64) io" where
  "bitpos_range X ex key b start stop index_type =
     call ex ([AStr ''BITPOS'', AGen key, AU8 b, AI64 start, AI64 stop]
        @ opt_arg (\<lambda>t. AStr (bitmap_index_type_as_arg t)) index_type) (to_i64 X)"

definition bitfield ::
  "redis_ext \<Rightarrow> ('w, 'p) executor_fn \<Rightarrow> bytes list \<Rightarrow> bit_field_subcommand list
     \<Rightarrow> ('w, glide_error, i64 option list) io" where
  "bitfield X ex key subs = call ex (subcommands_add_to subs [AStr ''BITFIELD'', AGen key]) (parse_bitfield X)"

definition bitfield_readonly ::
  "redis_ext \<Rightarrow> ('w, 'p) executor_fn \<Rightarrow> bytes list \<Rightarrow> bit_field_subcommand list
     \<Rightarrow> ('w, glide_error, i64 option list) io" where
  "bitfield_readonly X ex key subs =
     call ex (subcommands_add_to subs [AStr ''BITFIELD_RO'', AGen key]) (parse_bitfield X)"

section \<open>The contracts\<close>

interpretation bitmap_index: keyword bitmap_index_type_as_arg
  by unfold_locales (auto elim!: bitmap_index_type_as_arg.elims)

interpretation bit_overflow: keyword bit_overflow_as_arg
  by unfold_locales (auto elim!: bit_overflow_as_arg.elims)

declare nat_to_string_inj [simp]

lemma bit_encoding_to_arg_inj [simp]: "bit_encoding_to_arg a = bit_encoding_to_arg b \<longleftrightarrow> a = b"
  by (cases a; cases b) (simp_all add: word_unat_eq_iff)

lemma hash_not_digits: "nat_to_string m \<noteq> CHR ''#'' # nat_to_string n"
proof
  assume "nat_to_string m = CHR ''#'' # nat_to_string n"
  then have "parse_digits 0 (CHR ''#'' # nat_to_string n) = Some m"
    using parse_digits_nat_to_string [of m] by simp
  then show False by (simp add: digit_val_def)
qed

lemma bit_field_offset_to_arg_inj [simp]: "bit_field_offset_to_arg a = bit_field_offset_to_arg b \<longleftrightarrow> a = b"
  by (cases a; cases b) (simp_all add: word_unat_eq_iff hash_not_digits hash_not_digits [symmetric])

interpretation subcommand: lossless_appender bit_field_subcommand_add_to
proof unfold_locales
  fix s and c d :: cmd
  show "bit_field_subcommand_add_to s (c @ d) = c @ bit_field_subcommand_add_to s d" by (cases s) auto
next
  fix s t
  assume "bit_field_subcommand_add_to s [] = bit_field_subcommand_add_to t []"
  then show "s = t" by (cases s; cases t) (auto dest: bit_overflow.as_arg_inj)
qed

lemma subcommands_add_to_simps:
  "subcommands_add_to [] c = c"
  "subcommands_add_to (s # subs) c = subcommands_add_to subs (bit_field_subcommand_add_to s c)"
  by (simp_all add: subcommands_add_to_def)

lemma subcommands_add_to_concat:
  "subcommands_add_to subs c = c @ concat (map (\<lambda>s. bit_field_subcommand_add_to s []) subs)"
proof (induction subs arbitrary: c)
  case (Cons s subs)
  have "bit_field_subcommand_add_to s c = c @ bit_field_subcommand_add_to s []"
    by (rule subcommand.add_to_eq)
  with Cons show ?case by (simp add: subcommands_add_to_simps)
qed (simp add: subcommands_add_to_simps)

interpretation bitfield_results: nil_list_decoder "parse_bitfield X"
    "\<lambda>it. case it of VNil \<Rightarrow> Inr None | other \<Rightarrow> bind_res (to_i64 X other) (\<lambda>i. Inr (Some i))" for X
  by unfold_locales (simp_all add: parse_bitfield_def)

text \<open>The first subcommand is determined by the arguments, whatever follows it.\<close>

lemma subcommand_prefix_free:
  assumes "bit_field_subcommand_add_to s [] @ xs = bit_field_subcommand_add_to t [] @ ys"
  shows "s = t \<and> xs = ys"
  using assms by (cases s; cases t) (auto dest: bit_overflow.as_arg_inj)

text \<open>
  The operations of a \<open>BITFIELD\<close> command are unambiguous.  Two lists of subcommands give the same
  arguments only when they are the same list, for every width, offset, multiplier, value and overflow
  mode, and the arguments of a list are those of its parts, in order.
\<close>

lemma bitfield_subcommands_lossless:
  "(subcommands_add_to subs c = subcommands_add_to subs' c \<longleftrightarrow> subs = subs')
   \<and> subcommands_add_to (subs @ subs') c = subcommands_add_to subs' (subcommands_add_to subs c)"
proof
  have "concat (map (\<lambda>s. bit_field_subcommand_add_to s []) subs)
      = concat (map (\<lambda>s. bit_field_subcommand_add_to s []) subs') \<Longrightarrow> subs = subs'"
  proof (induction subs arbitrary: subs')
    case Nil
    have "bit_field_subcommand_add_to s [] \<noteq> []" for s by (cases s) auto
    with Nil show ?case by (cases subs') auto
  next
    case (Cons s subs)
    have ne: "bit_field_subcommand_add_to s [] \<noteq> []" by (cases s) auto
    then obtain t ts where ts: "subs' = t # ts" using Cons.prems by (cases subs') auto
    with Cons.prems have "s = t \<and> concat (map (\<lambda>s. bit_field_subcommand_add_to s []) subs)
        = concat (map (\<lambda>s. bit_field_subcommand_add_to s []) ts)"
      by (intro subcommand_prefix_free) simp
    with Cons.IH ts show ?case by simp
  qed
  then show "subcommands_add_to subs c = subcommands_add_to subs' c \<longleftrightarrow> subs = subs'"
    by (auto simp: subcommands_add_to_concat)
  show "subcommands_add_to (subs @ subs') c = subcommands_add_to subs' (subcommands_add_to subs c)"
    by (simp add: subcommands_add_to_def)
qed

end
