(* ===== verification/Json.thy ===== *)
theory Json
  imports Decoders
begin

text \<open>
  JSON module commands (\<open>src/commands/json.rs\<close>): one function per command.  The commands that return the
  raw reply hand the executor's result on unchanged.
\<close>

definition json_set :: "('w, 'p) executor_fn \<Rightarrow> bytes list \<Rightarrow> bytes list \<Rightarrow> bytes list \<Rightarrow> ('w, glide_error, unit) io" where
  "json_set ex key path val =
     call ex [AStr ''JSON.SET'', AGen key, AGen path, AGen val] to_unit"

definition json_get :: "redis_ext \<Rightarrow> ('w, 'p) executor_fn \<Rightarrow> bytes list \<Rightarrow> bytes list list \<Rightarrow> ('w, glide_error, bytes option) io" where
  "json_get X ex key paths =
     call ex ([AStr ''JSON.GET'', AGen key] @ map AGen paths) (to_opt_bytes X)"

definition json_del :: "redis_ext \<Rightarrow> ('w, 'p) executor_fn \<Rightarrow> bytes list \<Rightarrow> bytes list \<Rightarrow> ('w, glide_error, i64) io" where
  "json_del X ex key path =
     call ex [AStr ''JSON.DEL'', AGen key, AGen path] (to_i64 X)"

definition json_forget :: "redis_ext \<Rightarrow> ('w, 'p) executor_fn \<Rightarrow> bytes list \<Rightarrow> bytes list \<Rightarrow> ('w, glide_error, i64) io" where
  "json_forget X ex key path =
     call ex [AStr ''JSON.FORGET'', AGen key, AGen path] (to_i64 X)"

definition json_type :: "('w, 'p) executor_fn \<Rightarrow> bytes list \<Rightarrow> bytes list \<Rightarrow> ('w, glide_error, value) io" where
  "json_type ex key path =
     ex [AStr ''JSON.TYPE'', AGen key, AGen path] None"

definition json_numincrby :: "redis_ext \<Rightarrow> ('w, 'p) executor_fn \<Rightarrow> bytes list \<Rightarrow> bytes list \<Rightarrow> f64 \<Rightarrow> ('w, glide_error, bytes option) io" where
  "json_numincrby X ex key path val =
     call ex [AStr ''JSON.NUMINCRBY'', AGen key, AGen path, AF64 val] (to_opt_bytes X)"

definition json_nummultby :: "redis_ext \<Rightarrow> ('w, 'p) executor_fn \<Rightarrow> bytes list \<Rightarrow> bytes list \<Rightarrow> f64 \<Rightarrow> ('w, glide_error, bytes option) io" where
  "json_nummultby X ex key path val =
     call ex [AStr ''JSON.NUMMULTBY'', AGen key, AGen path, AF64 val] (to_opt_bytes X)"

definition json_strappend :: "('w, 'p) executor_fn \<Rightarrow> bytes list \<Rightarrow> bytes list \<Rightarrow> bytes list \<Rightarrow> ('w, glide_error, value) io" where
  "json_strappend ex key path val =
     ex [AStr ''JSON.STRAPPEND'', AGen key, AGen path, AGen val] None"

definition json_strlen :: "('w, 'p) executor_fn \<Rightarrow> bytes list \<Rightarrow> bytes list \<Rightarrow> ('w, glide_error, value) io" where
  "json_strlen ex key path =
     ex [AStr ''JSON.STRLEN'', AGen key, AGen path] None"

definition json_arrappend :: "('w, 'p) executor_fn \<Rightarrow> bytes list \<Rightarrow> bytes list \<Rightarrow> bytes list list \<Rightarrow> ('w, glide_error, value) io" where
  "json_arrappend ex key path vals =
     ex ([AStr ''JSON.ARRAPPEND'', AGen key, AGen path] @ map AGen vals) None"

definition json_arrinsert :: "('w, 'p) executor_fn \<Rightarrow> bytes list \<Rightarrow> bytes list \<Rightarrow> i64 \<Rightarrow> bytes list list \<Rightarrow> ('w, glide_error, value) io" where
  "json_arrinsert ex key path index vals =
     ex ([AStr ''JSON.ARRINSERT'', AGen key, AGen path, AI64 index] @ map AGen vals) None"

definition json_arrlen :: "('w, 'p) executor_fn \<Rightarrow> bytes list \<Rightarrow> bytes list \<Rightarrow> ('w, glide_error, value) io" where
  "json_arrlen ex key path =
     ex [AStr ''JSON.ARRLEN'', AGen key, AGen path] None"

definition json_arrpop :: "('w, 'p) executor_fn \<Rightarrow> bytes list \<Rightarrow> bytes list \<Rightarrow> i64 option \<Rightarrow> ('w, glide_error, value) io" where
  "json_arrpop ex key path index =
     ex ([AStr ''JSON.ARRPOP'', AGen key, AGen path] @ opt_arg AI64 index) None"

definition json_arrtrim :: "('w, 'p) executor_fn \<Rightarrow> bytes list \<Rightarrow> bytes list \<Rightarrow> i64 \<Rightarrow> i64 \<Rightarrow> ('w, glide_error, value) io" where
  "json_arrtrim ex key path start stop =
     ex [AStr ''JSON.ARRTRIM'', AGen key, AGen path, AI64 start, AI64 stop] None"

definition json_objkeys :: "('w, 'p) executor_fn \<Rightarrow> bytes list \<Rightarrow> bytes list \<Rightarrow> ('w, glide_error, value) io" where
  "json_objkeys ex key path =
     ex [AStr ''JSON.OBJKEYS'', AGen key, AGen path] None"

definition json_objlen :: "('w, 'p) executor_fn \<Rightarrow> bytes list \<Rightarrow> bytes list \<Rightarrow> ('w, glide_error, value) io" where
  "json_objlen ex key path =
     ex [AStr ''JSON.OBJLEN'', AGen key, AGen path] None"

definition json_toggle :: "('w, 'p) executor_fn \<Rightarrow> bytes list \<Rightarrow> bytes list \<Rightarrow> ('w, glide_error, value) io" where
  "json_toggle ex key path =
     ex [AStr ''JSON.TOGGLE'', AGen key, AGen path] None"

definition json_clear :: "redis_ext \<Rightarrow> ('w, 'p) executor_fn \<Rightarrow> bytes list \<Rightarrow> bytes list \<Rightarrow> ('w, glide_error, i64) io" where
  "json_clear X ex key path =
     call ex [AStr ''JSON.CLEAR'', AGen key, AGen path] (to_i64 X)"

definition json_arrindex :: "('w, 'p) executor_fn \<Rightarrow> bytes list \<Rightarrow> bytes list \<Rightarrow> bytes list \<Rightarrow> (i64 \<times> i64) option \<Rightarrow> ('w, glide_error, value) io" where
  "json_arrindex ex key path val bounds =
     ex ([AStr ''JSON.ARRINDEX'', AGen key, AGen path, AGen val]
        @ (case bounds of None \<Rightarrow> [] | Some (start, stop) \<Rightarrow> [AI64 start, AI64 stop])) None"

definition parse_json_mget :: "redis_ext \<Rightarrow> value \<Rightarrow> bytes option list result" where
  "parse_json_mget X v =
     (case v of
        VArray items \<Rightarrow> traverse (to_opt_bytes X) items
      | VNil \<Rightarrow> Inr []
      | other \<Rightarrow> bind_res (to_opt_bytes X other) (\<lambda>b. Inr [b]))"

definition json_mget :: "redis_ext \<Rightarrow> ('w, 'p) executor_fn \<Rightarrow> bytes list list \<Rightarrow> bytes list \<Rightarrow> ('w, glide_error, bytes option list) io" where
  "json_mget X ex keys path =
     call ex ([AStr ''JSON.MGET''] @ map AGen keys @ [AGen path]) (parse_json_mget X)"

definition json_resp :: "('w, 'p) executor_fn \<Rightarrow> bytes list \<Rightarrow> bytes list \<Rightarrow> ('w, glide_error, value) io" where
  "json_resp ex key path =
     ex [AStr ''JSON.RESP'', AGen key, AGen path] None"

definition json_debug_memory :: "('w, 'p) executor_fn \<Rightarrow> bytes list \<Rightarrow> bytes list \<Rightarrow> ('w, glide_error, value) io" where
  "json_debug_memory ex key path =
     ex [AStr ''JSON.DEBUG'', AStr ''MEMORY'', AGen key, AGen path] None"

definition json_debug_fields :: "('w, 'p) executor_fn \<Rightarrow> bytes list \<Rightarrow> bytes list \<Rightarrow> ('w, glide_error, value) io" where
  "json_debug_fields ex key path =
     ex [AStr ''JSON.DEBUG'', AStr ''FIELDS'', AGen key, AGen path] None"

section \<open>The contracts\<close>

lemma parse_json_mget_scalar:
  "scalar v \<Longrightarrow> parse_json_mget X v = bind_res (to_opt_bytes X v) (\<lambda>b. Inr [b])"
  by (cases v) (simp_all add: parse_json_mget_def)

interpretation json_values: scalar_list_decoder "parse_json_mget X" "to_opt_bytes X" for X
  by unfold_locales (simp_all add: parse_json_mget_scalar, simp_all add: parse_json_mget_def)

text \<open>
  \<open>JSON.MGET\<close> answers one value per key, nil for a missing one; the path goes behind all the keys.
\<close>

lemma json_mget_roundtrip:
  "json_mget X (\<lambda>c r w. (Inr (VArray (map (\<lambda>b. case b of None \<Rightarrow> VNil | Some s \<Rightarrow> VBulkString s) bs)), c # w))
     keys path w = (Inr bs, (AStr ''JSON.MGET'' # map AGen keys @ [AGen path]) # w)"
proof -
  have "to_opt_bytes X (case b of None \<Rightarrow> VNil | Some s \<Rightarrow> VBulkString s) = Inr b" for b
    by (cases b) (simp_all add: to_opt_bytes_def bytes_from_value_def)
  then show ?thesis by (simp add: json_mget_def call_run json_values.dec_roundtrip)
qed

end
