(* ===== verification/Ft.thy ===== *)
theory Ft
  imports Decoders
begin

text \<open>
  Search module commands (\<open>src/commands/ft.rs\<close>): one function per command.
\<close>

definition ft_create :: "('w, 'p) executor_fn \<Rightarrow> bytes list \<Rightarrow> bytes list list \<Rightarrow> ('w, glide_error, unit) io" where
  "ft_create ex index args =
     call ex ([AStr ''FT.CREATE'', AGen index] @ map AGen args) to_unit"

definition ft_dropindex :: "('w, 'p) executor_fn \<Rightarrow> bytes list \<Rightarrow> bool \<Rightarrow> ('w, glide_error, unit) io" where
  "ft_dropindex ex index delete_docs =
     call ex ([AStr ''FT.DROPINDEX'', AGen index] @ flag delete_docs ''DD'') to_unit"

definition ft_info :: "('w, 'p) executor_fn \<Rightarrow> bytes list \<Rightarrow> ('w, glide_error, value) io" where
  "ft_info ex index =
     ex [AStr ''FT.INFO'', AGen index] None"

definition parse_ft_list :: "redis_ext \<Rightarrow> value \<Rightarrow> bytes list result" where
  "parse_ft_list X v =
     (case v of
        VArray items \<Rightarrow> traverse (to_bytes X) items
      | VSet items \<Rightarrow> traverse (to_bytes X) items
      | VNil \<Rightarrow> Inr []
      | other \<Rightarrow> bind_res (to_bytes X other) (\<lambda>b. Inr [b]))"

definition ft_list :: "redis_ext \<Rightarrow> ('w, 'p) executor_fn \<Rightarrow> ('w, glide_error, bytes list) io" where
  "ft_list X ex =
     call ex [AStr ''FT._LIST''] (parse_ft_list X)"

definition ft_search :: "('w, 'p) executor_fn \<Rightarrow> bytes list \<Rightarrow> bytes list \<Rightarrow> bytes list list \<Rightarrow> ('w, glide_error, value) io" where
  "ft_search ex index query args =
     ex ([AStr ''FT.SEARCH'', AGen index, AGen query] @ map AGen args) None"

definition ft_aggregate :: "('w, 'p) executor_fn \<Rightarrow> bytes list \<Rightarrow> bytes list \<Rightarrow> bytes list list \<Rightarrow> ('w, glide_error, value) io" where
  "ft_aggregate ex index query args =
     ex ([AStr ''FT.AGGREGATE'', AGen index, AGen query] @ map AGen args) None"

definition ft_explain :: "redis_ext \<Rightarrow> ('w, 'p) executor_fn \<Rightarrow> bytes list \<Rightarrow> bytes list \<Rightarrow> ('w, glide_error, bytes) io" where
  "ft_explain X ex index query =
     call ex [AStr ''FT.EXPLAIN'', AGen index, AGen query] (to_bytes X)"

definition ft_explaincli :: "('w, 'p) executor_fn \<Rightarrow> bytes list \<Rightarrow> bytes list \<Rightarrow> ('w, glide_error, value) io" where
  "ft_explaincli ex index query =
     ex [AStr ''FT.EXPLAINCLI'', AGen index, AGen query] None"

definition ft_aliasadd :: "('w, 'p) executor_fn \<Rightarrow> bytes list \<Rightarrow> bytes list \<Rightarrow> ('w, glide_error, unit) io" where
  "ft_aliasadd ex alias index =
     call ex [AStr ''FT.ALIASADD'', AGen alias, AGen index] to_unit"

definition ft_aliasdel :: "('w, 'p) executor_fn \<Rightarrow> bytes list \<Rightarrow> ('w, glide_error, unit) io" where
  "ft_aliasdel ex alias =
     call ex [AStr ''FT.ALIASDEL'', AGen alias] to_unit"

definition ft_aliasupdate :: "('w, 'p) executor_fn \<Rightarrow> bytes list \<Rightarrow> bytes list \<Rightarrow> ('w, glide_error, unit) io" where
  "ft_aliasupdate ex alias index =
     call ex [AStr ''FT.ALIASUPDATE'', AGen alias, AGen index] to_unit"

definition ft_aliaslist :: "('w, 'p) executor_fn \<Rightarrow> ('w, glide_error, value) io" where
  "ft_aliaslist ex =
     ex [AStr ''FT._ALIASLIST''] None"

definition ft_profile :: "('w, 'p) executor_fn \<Rightarrow> bytes list \<Rightarrow> string \<Rightarrow> bool \<Rightarrow> bytes list list \<Rightarrow> ('w, glide_error, value) io" where
  "ft_profile ex index query_type limited args =
     ex ([AStr ''FT.PROFILE'', AGen index, AStr query_type] @ flag limited ''LIMITED'' @ [AStr ''QUERY''] @ map AGen args) None"

section \<open>The contracts\<close>

lemma parse_ft_list_scalar:
  "scalar v \<Longrightarrow> parse_ft_list X v = bind_res (to_bytes X v) (\<lambda>b. Inr [b])"
  by (cases v) (simp_all add: parse_ft_list_def)

interpretation ft_indexes: scalar_list_decoder "parse_ft_list X" "to_bytes X" for X
  by unfold_locales (simp_all add: parse_ft_list_scalar, simp_all add: parse_ft_list_def)

lemma parse_ft_list_set: "parse_ft_list X (VSet vs) = parse_ft_list X (VArray vs)"
  by (simp add: parse_ft_list_def)

text \<open>
  \<open>FT.PROFILE\<close> writes the keyword \<open>QUERY\<close> itself: arguments that already start with it, as the
  documentation of the function suggests, reach the server with the keyword twice.
\<close>

lemma ft_profile_query_twice:
  assumes "enc_documented enc"
  shows "ft_profile (\<lambda>c r w. (Inr VNil, wire enc c # w)) [index] query_type limited ([''QUERY''] # args) w =
     (Inr VNil, ([''FT.PROFILE'', index, query_type] @ (if limited then [''LIMITED''] else [])
        @ [''QUERY'', ''QUERY''] @ concat args) # w)"
  using assms by (auto simp: ft_profile_def flag_def enc_documented_def [of enc] wire_gens)

end
