(* ===== verification/Scripting.thy ===== *)
theory Scripting
  imports Decoders Options
begin

text \<open>
  Scripting and function commands (\<open>src/commands/scripting.rs\<close>): one function per command, and what a
  server reads back as the keys and the arguments of a script.
\<close>

definition eval :: "('w, 'p) executor_fn \<Rightarrow> string \<Rightarrow> bytes list list \<Rightarrow> bytes list list \<Rightarrow> ('w, glide_error, value) io" where
  "eval ex script keys args =
     ex ([AStr ''EVAL'', AStr script] @ counted_keys keys @ map AGen args) None"

definition evalsha :: "('w, 'p) executor_fn \<Rightarrow> string \<Rightarrow> bytes list list \<Rightarrow> bytes list list \<Rightarrow> ('w, glide_error, value) io" where
  "evalsha ex sha1 keys args =
     ex ([AStr ''EVALSHA'', AStr sha1] @ counted_keys keys @ map AGen args) None"

definition script_load :: "redis_ext \<Rightarrow> ('w, 'p) executor_fn \<Rightarrow> string \<Rightarrow> ('w, glide_error, string) io" where
  "script_load X ex script =
     call ex [AStr ''SCRIPT'', AStr ''LOAD'', AStr script] (to_string X)"

definition parse_script_exists :: "redis_ext \<Rightarrow> value \<Rightarrow> bool list result" where
  "parse_script_exists X v =
     (case v of
        VArray items \<Rightarrow> traverse (to_bool X) items
      | other \<Rightarrow> bind_res (to_bool X other) (\<lambda>b. Inr [b]))"

definition script_exists :: "redis_ext \<Rightarrow> ('w, 'p) executor_fn \<Rightarrow> string list \<Rightarrow> ('w, glide_error, bool list) io" where
  "script_exists X ex sha1s =
     call ex ([AStr ''SCRIPT'', AStr ''EXISTS''] @ map AStr sha1s) (parse_script_exists X)"

definition script_flush :: "('w, 'p) executor_fn \<Rightarrow> ('w, glide_error, unit) io" where
  "script_flush ex =
     call ex [AStr ''SCRIPT'', AStr ''FLUSH''] to_unit"

definition fcall :: "('w, 'p) executor_fn \<Rightarrow> string \<Rightarrow> bytes list list \<Rightarrow> bytes list list \<Rightarrow> ('w, glide_error, value) io" where
  "fcall ex function_name keys args =
     ex ([AStr ''FCALL'', AStr function_name] @ counted_keys keys @ map AGen args) None"

definition fcall_ro :: "('w, 'p) executor_fn \<Rightarrow> string \<Rightarrow> bytes list list \<Rightarrow> bytes list list \<Rightarrow> ('w, glide_error, value) io" where
  "fcall_ro ex function_name keys args =
     ex ([AStr ''FCALL_RO'', AStr function_name] @ counted_keys keys @ map AGen args) None"

definition fcall_route ::
  "'p routing_ext \<Rightarrow> ('w, 'p) executor_fn \<Rightarrow> string \<Rightarrow> bytes list list \<Rightarrow> bytes list list \<Rightarrow> route
     \<Rightarrow> ('w, glide_error, value) io" where
  "fcall_route R ex function_name keys args r =
     (let c = [AStr ''FCALL'', AStr function_name] @ counted_keys keys @ map AGen args;
          routing = to_routing_info R r (Some c)
      in ex c (Some routing))"

definition fcall_ro_route ::
  "'p routing_ext \<Rightarrow> ('w, 'p) executor_fn \<Rightarrow> string \<Rightarrow> bytes list list \<Rightarrow> bytes list list \<Rightarrow> route
     \<Rightarrow> ('w, glide_error, value) io" where
  "fcall_ro_route R ex function_name keys args r =
     (let c = [AStr ''FCALL_RO'', AStr function_name] @ counted_keys keys @ map AGen args;
          routing = to_routing_info R r (Some c)
      in ex c (Some routing))"

definition function_load :: "redis_ext \<Rightarrow> ('w, 'p) executor_fn \<Rightarrow> string \<Rightarrow> bool \<Rightarrow> ('w, glide_error, string) io" where
  "function_load X ex code replace =
     call ex ([AStr ''FUNCTION'', AStr ''LOAD''] @ flag replace ''REPLACE'' @ [AStr code]) (to_string X)"

definition function_delete :: "('w, 'p) executor_fn \<Rightarrow> string \<Rightarrow> ('w, glide_error, unit) io" where
  "function_delete ex library_name =
     call ex [AStr ''FUNCTION'', AStr ''DELETE'', AStr library_name] to_unit"

definition function_flush :: "('w, 'p) executor_fn \<Rightarrow> ('w, glide_error, unit) io" where
  "function_flush ex =
     call ex [AStr ''FUNCTION'', AStr ''FLUSH''] to_unit"

definition function_flush_mode :: "('w, 'p) executor_fn \<Rightarrow> flush_mode \<Rightarrow> ('w, glide_error, unit) io" where
  "function_flush_mode ex mode =
     call ex [AStr ''FUNCTION'', AStr ''FLUSH'', AStr (flush_mode_as_arg mode)] to_unit"

definition function_list :: "('w, 'p) executor_fn \<Rightarrow> string option \<Rightarrow> bool \<Rightarrow> ('w, glide_error, value) io" where
  "function_list ex library_name with_code =
     ex ([AStr ''FUNCTION'', AStr ''LIST''] @ opt_clause ''LIBRARYNAME'' AStr library_name @ flag with_code ''WITHCODE'') None"

definition function_dump :: "redis_ext \<Rightarrow> ('w, 'p) executor_fn \<Rightarrow> ('w, glide_error, bytes) io" where
  "function_dump X ex =
     call ex [AStr ''FUNCTION'', AStr ''DUMP''] (to_bytes X)"

definition function_restore :: "('w, 'p) executor_fn \<Rightarrow> bytes list \<Rightarrow> function_restore_policy \<Rightarrow> ('w, glide_error, unit) io" where
  "function_restore ex payload policy =
     call ex [AStr ''FUNCTION'', AStr ''RESTORE'', AGen payload, AStr (function_restore_policy_as_arg policy)] to_unit"

definition function_stats :: "('w, 'p) executor_fn \<Rightarrow> ('w, glide_error, value) io" where
  "function_stats ex =
     ex [AStr ''FUNCTION'', AStr ''STATS''] None"

definition function_kill :: "('w, 'p) executor_fn \<Rightarrow> ('w, glide_error, unit) io" where
  "function_kill ex =
     call ex [AStr ''FUNCTION'', AStr ''KILL''] to_unit"

definition script_kill :: "('w, 'p) executor_fn \<Rightarrow> ('w, glide_error, unit) io" where
  "script_kill ex =
     call ex [AStr ''SCRIPT'', AStr ''KILL''] to_unit"

definition script_show :: "redis_ext \<Rightarrow> ('w, 'p) executor_fn \<Rightarrow> string \<Rightarrow> ('w, glide_error, bytes) io" where
  "script_show X ex sha1 =
     call ex [AStr ''SCRIPT'', AStr ''SHOW'', AStr sha1] (to_bytes X)"

section \<open>The contracts\<close>

interpretation script_flags: list_decoder "parse_script_exists X" "to_bool X" for X
  by unfold_locales (simp add: parse_script_exists_def)

text \<open>
  A routed function call sends the very command of the plain one; only the routing differs.
\<close>

lemma fcall_route_command:
  "fcall_route R (\<lambda>c r. ex c None) function_name keys args r = fcall ex function_name keys args"
  "fcall_ro_route R (\<lambda>c r. ex c None) function_name keys args r = fcall_ro ex function_name keys args"
  by (simp_all add: fcall_route_def fcall_def fcall_ro_route_def fcall_ro_def Let_def)

section \<open>Keys and arguments of a script\<close>

text \<open>
  What the server does with \<open>EVAL script numkeys arg...\<close> and its variants: the third argument is the number
  of keys, which must not exceed the number of arguments behind it.
\<close>

fun split_script_args :: "bytes list \<Rightarrow> (bytes list \<times> bytes list) option" where
  "split_script_args (name # script # numkeys # rest) =
     (case parse_digits 0 numkeys of
        None \<Rightarrow> None
      | Some n \<Rightarrow> if n \<le> length rest then Some (take n rest, drop n rest) else None)"
| "split_script_args _ = None"

text \<open>An executor that records the arguments it puts on the wire.\<close>

definition recorder :: "(rarg \<Rightarrow> bytes list) \<Rightarrow> (bytes list, unit) executor_fn" where
  "recorder enc c r w = (Inr VNil, wire enc c)"

lemma split_at_boundary:
  "(n \<le> length (ks @ as) \<and> take n (ks @ as) = ks \<and> drop n (ks @ as) = as) \<longleftrightarrow> length ks = n"
proof
  assume *: "n \<le> length (ks @ as) \<and> take n (ks @ as) = ks \<and> drop n (ks @ as) = as"
  then have "length (take n (ks @ as)) = n" by (metis length_take min_absorb2)
  with * show "length ks = n" by metis
qed auto

lemma split_counted:
  assumes "enc_documented enc"
  shows "split_script_args (wire enc ([AStr name, AStr script] @ counted_keys keys @ map AGen args))
           = Some (concat keys, concat args) \<longleftrightarrow> length (concat keys) = length keys"
proof -
  have "wire enc ([AStr name, AStr script] @ counted_keys keys @ map AGen args)
          = name # script # nat_to_string (length keys) # concat keys @ concat args"
    using assms by (simp add: wire_counted_keys wire_gens enc_documented_def [of enc])
  then show ?thesis
    using split_at_boundary [of "length keys" "concat keys" "concat args"]
    by (simp only:) (auto simp: parse_digits_nat_to_string simp del: length_concat length_append take_append drop_append)
qed

text \<open>
  C24: the server tells the keys of a script from its arguments exactly as the caller did when, and only
  when, the keys write one wire argument each on the whole: the number announced is the number of keys
  in the slice, not the number of arguments they write.  The same holds for all six commands that run a
  script or a function.
\<close>

theorem script_keys_boundary:
  assumes "enc_documented enc"
    and "c \<in> {snd (eval (recorder enc) s keys args w), snd (evalsha (recorder enc) s keys args w),
       snd (fcall (recorder enc) s keys args w), snd (fcall_ro (recorder enc) s keys args w),
       snd (fcall_route R (recorder enc) s keys args r w), snd (fcall_ro_route R (recorder enc) s keys args r w)}"
  shows "split_script_args c = Some (concat keys, concat args) \<longleftrightarrow> length (concat keys) = length keys"
proof -
  obtain name where "c = wire enc ([AStr name, AStr s] @ counted_keys keys @ map AGen args)"
    using assms(2)
    by (auto simp: eval_def evalsha_def fcall_def fcall_ro_def fcall_route_def fcall_ro_route_def
        recorder_def Let_def)
  then show ?thesis by (simp only: split_counted [OF assms(1)])
qed

theorem script_keys_boundary_witness:
  "split_script_args (snd (eval (recorder sample_enc) ''return 1'' [[''k1''], [''k2'']] [[''a'']] []))
     = Some ([''k1'', ''k2''], [''a''])"
  using script_keys_boundary [OF sample_enc_documented, where s = "''return 1''" and w = "[]"
      and keys = "[[''k1''], [''k2'']]" and args = "[[''a'']]"
      and c = "snd (eval (recorder sample_enc) ''return 1'' [[''k1''], [''k2'']] [[''a'']] [])"
      and R = "\<lparr>r_get_slot = (\<lambda>_. 0), r_command = (\<lambda>_. None), r_policy = (\<lambda>_. None)\<rparr>" and r = AllNodes]
  by simp

end
