(* ===== verification/PubSubCommands.thy ===== *)
theory PubSubCommands
  imports Decoders
begin

text \<open>
  Pub/Sub subscription management and introspection commands (\<open>src/commands/pubsub.rs\<close>).
\<close>

definition pubsub_subscribe_impl ::
  "('w, 'p) executor_fn \<Rightarrow> string \<Rightarrow> bytes list list \<Rightarrow> ('w, glide_error, unit) io" where
  "pubsub_subscribe_impl ex kw channels =
     bind_io (ex ([AStr kw] @ map AGen channels) None) (\<lambda>_. pure_io (Inr ()))"

definition subscribe :: "('w, 'p) executor_fn \<Rightarrow> bytes list list \<Rightarrow> ('w, glide_error, unit) io" where
  "subscribe ex channels = pubsub_subscribe_impl ex ''SUBSCRIBE'' channels"

definition unsubscribe :: "('w, 'p) executor_fn \<Rightarrow> bytes list list \<Rightarrow> ('w, glide_error, unit) io" where
  "unsubscribe ex channels = pubsub_subscribe_impl ex ''UNSUBSCRIBE'' channels"

definition psubscribe :: "('w, 'p) executor_fn \<Rightarrow> bytes list list \<Rightarrow> ('w, glide_error, unit) io" where
  "psubscribe ex channels = pubsub_subscribe_impl ex ''PSUBSCRIBE'' channels"

definition punsubscribe :: "('w, 'p) executor_fn \<Rightarrow> bytes list list \<Rightarrow> ('w, glide_error, unit) io" where
  "punsubscribe ex channels = pubsub_subscribe_impl ex ''PUNSUBSCRIBE'' channels"

definition ssubscribe :: "('w, 'p) executor_fn \<Rightarrow> bytes list list \<Rightarrow> ('w, glide_error, unit) io" where
  "ssubscribe ex channels = pubsub_subscribe_impl ex ''SSUBSCRIBE'' channels"

definition sunsubscribe :: "('w, 'p) executor_fn \<Rightarrow> bytes list list \<Rightarrow> ('w, glide_error, unit) io" where
  "sunsubscribe ex channels = pubsub_subscribe_impl ex ''SUNSUBSCRIBE'' channels"

definition spublish :: "redis_ext \<Rightarrow> ('w, 'p) executor_fn \<Rightarrow> bytes list \<Rightarrow> bytes list \<Rightarrow> ('w, glide_error, i64) io" where
  "spublish X ex channel msg =
     call ex [AStr ''SPUBLISH'', AGen channel, AGen msg] (to_i64 X)"

definition parse_channels :: "redis_ext \<Rightarrow> value \<Rightarrow> bytes list result" where
  "parse_channels X v =
     (case v of
        VArray items \<Rightarrow> traverse (to_bytes X) items
      | VNil \<Rightarrow> Inr []
      | other \<Rightarrow> bind_res (to_bytes X other) (\<lambda>b. Inr [b]))"

definition pubsub_channels_impl ::
  "redis_ext \<Rightarrow> ('w, 'p) executor_fn \<Rightarrow> string \<Rightarrow> bytes option \<Rightarrow> ('w, glide_error, bytes list) io" where
  "pubsub_channels_impl X ex sub pattern =
     call ex ([AStr ''PUBSUB'', AStr sub] @ opt_arg AStr pattern) (parse_channels X)"

definition parse_numsub :: "redis_ext \<Rightarrow> value \<Rightarrow> (bytes \<times> i64) list result" where
  "parse_numsub X v =
     (case v of
        VNil \<Rightarrow> Inr []
      | VMap pairs \<Rightarrow> traverse (pair_res (to_bytes X) (to_i64 X)) pairs
      | VArray items \<Rightarrow> flat_pairs (to_bytes X) (to_i64 X) items
      | other \<Rightarrow> unexpected X ''unexpected PUBSUB NUMSUB reply: '' other)"

definition pubsub_numsub_impl ::
  "redis_ext \<Rightarrow> ('w, 'p) executor_fn \<Rightarrow> string \<Rightarrow> bytes list list \<Rightarrow> ('w, glide_error, (bytes \<times> i64) list) io" where
  "pubsub_numsub_impl X ex sub channels =
     call ex ([AStr ''PUBSUB'', AStr sub] @ map AGen channels) (parse_numsub X)"

definition pubsub_channels :: "redis_ext \<Rightarrow> ('w, 'p) executor_fn \<Rightarrow> bytes option \<Rightarrow> ('w, glide_error, bytes list) io" where
  "pubsub_channels X ex pattern = pubsub_channels_impl X ex ''CHANNELS'' pattern"

definition pubsub_shardchannels :: "redis_ext \<Rightarrow> ('w, 'p) executor_fn \<Rightarrow> bytes option \<Rightarrow> ('w, glide_error, bytes list) io" where
  "pubsub_shardchannels X ex pattern = pubsub_channels_impl X ex ''SHARDCHANNELS'' pattern"

definition pubsub_numpat :: "redis_ext \<Rightarrow> ('w, 'p) executor_fn \<Rightarrow> ('w, glide_error, i64) io" where
  "pubsub_numpat X ex =
     call ex [AStr ''PUBSUB'', AStr ''NUMPAT''] (to_i64 X)"

definition pubsub_numsub :: "redis_ext \<Rightarrow> ('w, 'p) executor_fn \<Rightarrow> bytes list list \<Rightarrow> ('w, glide_error, (bytes \<times> i64) list) io" where
  "pubsub_numsub X ex channels = pubsub_numsub_impl X ex ''NUMSUB'' channels"

definition pubsub_shardnumsub :: "redis_ext \<Rightarrow> ('w, 'p) executor_fn \<Rightarrow> bytes list list \<Rightarrow> ('w, glide_error, (bytes \<times> i64) list) io" where
  "pubsub_shardnumsub X ex channels = pubsub_numsub_impl X ex ''SHARDNUMSUB'' channels"

section \<open>The contracts\<close>

lemma parse_channels_scalar: "scalar v \<Longrightarrow> parse_channels X v = bind_res (to_bytes X v) (\<lambda>b. Inr [b])"
  by (cases v) (simp_all add: parse_channels_def)

interpretation channel_list: scalar_list_decoder "parse_channels X" "to_bytes X" for X
  by unfold_locales (simp_all add: parse_channels_scalar, simp_all add: parse_channels_def)

interpretation numsub: flat_map_decoder "parse_numsub X" "to_bytes X" "to_i64 X" for X
  by unfold_locales (simp_all add: parse_numsub_def)

text \<open>
  A runtime (un)subscription reports the failure of the command and ignores what a successful reply says.
\<close>

lemma pubsub_subscribe_impl_run:
  "pubsub_subscribe_impl ex kw channels w =
     (case ex (AStr kw # map AGen channels) None w of (r, w') \<Rightarrow> (bind_res r (\<lambda>_. Inr ()), w'))"
  by (simp add: pubsub_subscribe_impl_def)

text \<open>
  Both protocol versions of a \<open>NUMSUB\<close> reply give the channels and counts the server sent.
\<close>

lemma numsub_roundtrip:
  assumes "\<And>i. x_i64 X (VInt i) = Inr i"
  shows "parse_numsub X (VArray (flatten (map (\<lambda>(c, n). (VBulkString c, VInt n)) ps))) = Inr ps"
    and "parse_numsub X (VMap (map (\<lambda>(c, n). (VBulkString c, VInt n)) ps)) = Inr ps"
proof -
  show "parse_numsub X (VMap (map (\<lambda>(c, n). (VBulkString c, VInt n)) ps)) = Inr ps"
    using assms
    by (induction ps) (auto simp: parse_numsub_def pair_res_def to_bytes_def bytes_from_value_def to_i64_def
        from_value_def)
  then show "parse_numsub X (VArray (flatten (map (\<lambda>(c, n). (VBulkString c, VInt n)) ps))) = Inr ps"
    by (simp only: numsub.resp_versions_agree)
qed

end
