(* ===== verification/SetsStrings.thy ===== *)
theory SetsStrings
  imports Decoders
begin

text \<open>
  The set and string commands outside the command table (\<open>src/commands/set.rs\<close>,
  \<open>src/commands/string.rs\<close>).
\<close>

definition set_collect_bytes :: "redis_ext \<Rightarrow> value \<Rightarrow> bytes list result" where
  "set_collect_bytes X v =
     (case v of
        VArray items \<Rightarrow> traverse (to_bytes X) items
      | VSet items \<Rightarrow> traverse (to_bytes X) items
      | VNil \<Rightarrow> Inr []
      | other \<Rightarrow> bind_res (to_bytes X other) (\<lambda>b. Inr [b]))"

definition sintercard :: "redis_ext \<Rightarrow> ('w, 'p) executor_fn \<Rightarrow> bytes list list \<Rightarrow> ('w, glide_error, i64) io" where
  "sintercard X ex keys =
     call ex ([AStr ''SINTERCARD''] @ counted_keys keys) (to_i64 X)"

definition sintercard_limit :: "redis_ext \<Rightarrow> ('w, 'p) executor_fn \<Rightarrow> bytes list list \<Rightarrow> i64 \<Rightarrow> ('w, glide_error, i64) io" where
  "sintercard_limit X ex keys lim =
     call ex ([AStr ''SINTERCARD''] @ counted_keys keys @ [AStr ''LIMIT'', AI64 lim]) (to_i64 X)"

definition set_op ::
  "redis_ext \<Rightarrow> ('w, 'p) executor_fn \<Rightarrow> string \<Rightarrow> bytes list list \<Rightarrow> ('w, glide_error, bytes set) io" where
  "set_op X ex op keys =
     call ex ([AStr op] @ map AGen keys) (\<lambda>v. bind_res (set_collect_bytes X v) (\<lambda>bs. Inr (set bs)))"

definition set_op_store :: "redis_ext \<Rightarrow> ('w, 'p) executor_fn \<Rightarrow> string \<Rightarrow> bytes list \<Rightarrow> bytes list list \<Rightarrow> ('w, glide_error, i64) io" where
  "set_op_store X ex op destination keys =
     call ex ([AStr op, AGen destination] @ map AGen keys) (to_i64 X)"

definition lcs_len :: "redis_ext \<Rightarrow> ('w, 'p) executor_fn \<Rightarrow> bytes list \<Rightarrow> bytes list \<Rightarrow> ('w, glide_error, i64) io" where
  "lcs_len X ex key1 key2 =
     call ex [AStr ''LCS'', AGen key1, AGen key2, AStr ''LEN''] (to_i64 X)"

definition lcs :: "redis_ext \<Rightarrow> ('w, 'p) executor_fn \<Rightarrow> bytes list \<Rightarrow> bytes list \<Rightarrow> ('w, glide_error, bytes) io" where
  "lcs X ex key1 key2 =
     call ex [AStr ''LCS'', AGen key1, AGen key2] (to_bytes X)"

definition lcs_idx :: "('w, 'p) executor_fn \<Rightarrow> bytes list \<Rightarrow> bytes list \<Rightarrow> i64 option \<Rightarrow> bool \<Rightarrow> ('w, glide_error, value) io" where
  "lcs_idx ex key1 key2 min_match_len with_match_len =
     ex ([AStr ''LCS'', AGen key1, AGen key2, AStr ''IDX'']
        @ opt_clause ''MINMATCHLEN'' AI64 min_match_len @ flag with_match_len ''WITHMATCHLEN'') None"

section \<open>The contracts\<close>

lemma set_collect_bytes_scalar:
  "scalar v \<Longrightarrow> set_collect_bytes X v = bind_res (to_bytes X v) (\<lambda>b. Inr [b])"
  by (cases v) (simp_all add: set_collect_bytes_def)

interpretation set_members: scalar_list_decoder "set_collect_bytes X" "to_bytes X" for X
  by unfold_locales (simp_all add: set_collect_bytes_scalar, simp_all add: set_collect_bytes_def)

text \<open>
  Whatever order and protocol version the server answers in, a set operation returns the same set.
\<close>

lemma set_op_order_irrelevant:
  assumes "set xs = set ys"
  shows "fst (set_op X (\<lambda>c r w. (Inr (VArray (map VBulkString xs)), w)) op keys w)
      = fst (set_op X (\<lambda>c r w. (Inr (VSet (map VBulkString ys)), w)) op keys w)"
proof -
  have roundtrip: "set_collect_bytes X (VArray (map VBulkString zs)) = Inr zs" for zs
    by (rule set_members.dec_roundtrip) (simp add: to_bytes_def bytes_from_value_def)
  moreover have "set_collect_bytes X (VSet vs) = set_collect_bytes X (VArray vs)" for vs
    by (simp add: set_collect_bytes_def)
  ultimately show ?thesis using assms by (simp add: set_op_def call_run)
qed

end
