(* ===== verification/Server.thy ===== *)
theory Server
  imports Decoders Options
begin

text \<open>
  Server-management and connection-management commands (\<open>src/commands/server_management.rs\<close> and
  \<open>src/commands/connection_management.rs\<close>): one function per command, the \<open>TIME\<close> decoder and the
  \<open>FAILOVER\<close> command line.
\<close>

section \<open>Server management\<close>

definition info :: "redis_ext \<Rightarrow> ('w, 'p) executor_fn \<Rightarrow> ('w, glide_error, bytes) io" where
  "info X ex =
     call ex [AStr ''INFO''] (to_bytes X)"

definition info_sections :: "redis_ext \<Rightarrow> ('w, 'p) executor_fn \<Rightarrow> bytes list list \<Rightarrow> ('w, glide_error, bytes) io" where
  "info_sections X ex sections =
     call ex ([AStr ''INFO''] @ map AGen sections) (to_bytes X)"

definition dbsize :: "redis_ext \<Rightarrow> ('w, 'p) executor_fn \<Rightarrow> ('w, glide_error, i64) io" where
  "dbsize X ex =
     call ex [AStr ''DBSIZE''] (to_i64 X)"

definition flushdb :: "('w, 'p) executor_fn \<Rightarrow> flush_mode option \<Rightarrow> ('w, glide_error, unit) io" where
  "flushdb ex mode =
     call ex ([AStr ''FLUSHDB''] @ opt_arg (\<lambda>m. AStr (flush_mode_as_arg m)) mode) to_unit"

definition flushall :: "('w, 'p) executor_fn \<Rightarrow> flush_mode option \<Rightarrow> ('w, glide_error, unit) io" where
  "flushall ex mode =
     call ex ([AStr ''FLUSHALL''] @ opt_arg (\<lambda>m. AStr (flush_mode_as_arg m)) mode) to_unit"

definition config_get ::
  "redis_ext \<Rightarrow> ('w, 'p) executor_fn \<Rightarrow> bytes list \<Rightarrow> ('w, glide_error, string \<rightharpoonup> bytes) io" where
  "config_get X ex parameter =
     call ex [AStr ''CONFIG'', AStr ''GET'', AGen parameter]
       (\<lambda>v. bind_res (from_value (x_string_map X) v) (\<lambda>m. Inr (map_of m)))"

definition config_set :: "('w, 'p) executor_fn \<Rightarrow> bytes list \<Rightarrow> bytes list \<Rightarrow> ('w, glide_error, unit) io" where
  "config_set ex parameter val =
     call ex [AStr ''CONFIG'', AStr ''SET'', AGen parameter, AGen val] to_unit"

definition config_resetstat :: "('w, 'p) executor_fn \<Rightarrow> ('w, glide_error, unit) io" where
  "config_resetstat ex =
     call ex [AStr ''CONFIG'', AStr ''RESETSTAT''] to_unit"

text \<open>\<open>s.parse().unwrap_or_default()\<close> at type \<open>i64\<close>.\<close>

definition parse_or_default :: "string \<Rightarrow> i64" where
  "parse_or_default s = (case parse_i64 s of None \<Rightarrow> 0 | Some i \<Rightarrow> i)"

definition parse_time :: "redis_ext \<Rightarrow> value \<Rightarrow> (i64 \<times> i64) result" where
  "parse_time X v =
     (case v of
        VArray [secs_val, micros_val] \<Rightarrow>
          bind_res (to_string X micros_val) (\<lambda>micros.
          bind_res (to_string X secs_val) (\<lambda>secs.
            Inr (parse_or_default secs, parse_or_default micros)))
      | other \<Rightarrow> unexpected X ''unexpected TIME reply: '' other)"

definition time :: "redis_ext \<Rightarrow> ('w, 'p) executor_fn \<Rightarrow> ('w, glide_error, i64 \<times> i64) io" where
  "time X ex =
     call ex [AStr ''TIME''] (parse_time X)"

definition lastsave :: "redis_ext \<Rightarrow> ('w, 'p) executor_fn \<Rightarrow> ('w, glide_error, i64) io" where
  "lastsave X ex =
     call ex [AStr ''LASTSAVE''] (to_i64 X)"

definition config_rewrite :: "('w, 'p) executor_fn \<Rightarrow> ('w, glide_error, unit) io" where
  "config_rewrite ex =
     call ex [AStr ''CONFIG'', AStr ''REWRITE''] to_unit"

definition lolwut :: "redis_ext \<Rightarrow> ('w, 'p) executor_fn \<Rightarrow> i64 option \<Rightarrow> ('w, glide_error, bytes) io" where
  "lolwut X ex version =
     call ex ([AStr ''LOLWUT''] @ opt_clause ''VERSION'' AI64 version) (to_bytes X)"

definition bgrewriteaof :: "redis_ext \<Rightarrow> ('w, 'p) executor_fn \<Rightarrow> ('w, glide_error, bytes) io" where
  "bgrewriteaof X ex =
     call ex [AStr ''BGREWRITEAOF''] (to_bytes X)"

definition bgsave :: "redis_ext \<Rightarrow> ('w, 'p) executor_fn \<Rightarrow> bool \<Rightarrow> ('w, glide_error, bytes) io" where
  "bgsave X ex schedule =
     call ex ([AStr ''BGSAVE''] @ flag schedule ''SCHEDULE'') (to_bytes X)"

definition save :: "('w, 'p) executor_fn \<Rightarrow> ('w, glide_error, unit) io" where
  "save ex =
     call ex [AStr ''SAVE''] to_unit"

definition replicaof :: "('w, 'p) executor_fn \<Rightarrow> bytes list \<Rightarrow> i64 \<Rightarrow> ('w, glide_error, unit) io" where
  "replicaof ex host port =
     call ex [AStr ''REPLICAOF'', AGen host, AI64 port] to_unit"

definition replicaof_no_one :: "('w, 'p) executor_fn \<Rightarrow> ('w, glide_error, unit) io" where
  "replicaof_no_one ex =
     call ex [AStr ''REPLICAOF'', AStr ''NO'', AStr ''ONE''] to_unit"

definition failover_cmd :: "(bytes list \<times> i64) option \<Rightarrow> bool \<Rightarrow> i64 option \<Rightarrow> cmd" where
  "failover_cmd target force timeout_ms =
     [AStr ''FAILOVER'']
     @ (case target of
          None \<Rightarrow> []
        | Some (host, port) \<Rightarrow> [AStr ''TO'', AGen host, AI64 port] @ flag force ''FORCE'')
     @ opt_clause ''TIMEOUT'' AI64 timeout_ms"

definition failover :: "('w, 'p) executor_fn \<Rightarrow> (bytes list \<times> i64) option \<Rightarrow> bool \<Rightarrow> i64 option \<Rightarrow> ('w, glide_error, unit) io" where
  "failover ex target force timeout_ms =
     call ex (failover_cmd target force timeout_ms) to_unit"

definition failover_abort :: "('w, 'p) executor_fn \<Rightarrow> ('w, glide_error, unit) io" where
  "failover_abort ex =
     call ex [AStr ''FAILOVER'', AStr ''ABORT''] to_unit"

definition client_pause :: "('w, 'p) executor_fn \<Rightarrow> i64 \<Rightarrow> client_pause_mode option \<Rightarrow> ('w, glide_error, unit) io" where
  "client_pause ex timeout_ms mode =
     call ex ([AStr ''CLIENT'', AStr ''PAUSE'', AI64 timeout_ms] @ opt_arg (\<lambda>m. AStr (client_pause_mode_as_arg m)) mode) to_unit"

definition client_unpause :: "('w, 'p) executor_fn \<Rightarrow> ('w, glide_error, unit) io" where
  "client_unpause ex =
     call ex [AStr ''CLIENT'', AStr ''UNPAUSE''] to_unit"

definition latency_history :: "('w, 'p) executor_fn \<Rightarrow> bytes list \<Rightarrow> ('w, glide_error, value) io" where
  "latency_history ex event =
     ex [AStr ''LATENCY'', AStr ''HISTORY'', AGen event] None"

definition latency_latest :: "('w, 'p) executor_fn \<Rightarrow> ('w, glide_error, value) io" where
  "latency_latest ex =
     ex [AStr ''LATENCY'', AStr ''LATEST''] None"

definition latency_reset :: "redis_ext \<Rightarrow> ('w, 'p) executor_fn \<Rightarrow> bytes list list \<Rightarrow> ('w, glide_error, i64) io" where
  "latency_reset X ex events =
     call ex ([AStr ''LATENCY'', AStr ''RESET''] @ map AGen events) (to_i64 X)"

definition latency_doctor :: "redis_ext \<Rightarrow> ('w, 'p) executor_fn \<Rightarrow> ('w, glide_error, bytes) io" where
  "latency_doctor X ex =
     call ex [AStr ''LATENCY'', AStr ''DOCTOR''] (to_bytes X)"

definition latency_graph :: "redis_ext \<Rightarrow> ('w, 'p) executor_fn \<Rightarrow> bytes list \<Rightarrow> ('w, glide_error, bytes) io" where
  "latency_graph X ex event =
     call ex [AStr ''LATENCY'', AStr ''GRAPH'', AGen event] (to_bytes X)"

section \<open>Connection management\<close>

definition ping :: "redis_ext \<Rightarrow> ('w, 'p) executor_fn \<Rightarrow> ('w, glide_error, string) io" where
  "ping X ex =
     call ex [AStr ''PING''] (to_string X)"

definition ping_message :: "redis_ext \<Rightarrow> ('w, 'p) executor_fn \<Rightarrow> bytes list \<Rightarrow> ('w, glide_error, bytes) io" where
  "ping_message X ex msg =
     call ex [AStr ''PING'', AGen msg] (to_bytes X)"

definition echo :: "redis_ext \<Rightarrow> ('w, 'p) executor_fn \<Rightarrow> bytes list \<Rightarrow> ('w, glide_error, bytes) io" where
  "echo X ex msg =
     call ex [AStr ''ECHO'', AGen msg] (to_bytes X)"

definition select :: "('w, 'p) executor_fn \<Rightarrow> i64 \<Rightarrow> ('w, glide_error, unit) io" where
  "select ex index =
     call ex [AStr ''SELECT'', AI64 index] to_unit"

definition client_id :: "redis_ext \<Rightarrow> ('w, 'p) executor_fn \<Rightarrow> ('w, glide_error, i64) io" where
  "client_id X ex =
     call ex [AStr ''CLIENT'', AStr ''ID''] (to_i64 X)"

definition client_getname :: "redis_ext \<Rightarrow> ('w, 'p) executor_fn \<Rightarrow> ('w, glide_error, bytes option) io" where
  "client_getname X ex =
     call ex [AStr ''CLIENT'', AStr ''GETNAME''] (to_opt_bytes X)"

definition client_setname :: "('w, 'p) executor_fn \<Rightarrow> bytes list \<Rightarrow> ('w, glide_error, unit) io" where
  "client_setname ex name =
     call ex [AStr ''CLIENT'', AStr ''SETNAME'', AGen name] to_unit"

definition client_no_evict :: "('w, 'p) executor_fn \<Rightarrow> bool \<Rightarrow> ('w, glide_error, unit) io" where
  "client_no_evict ex on =
     call ex [AStr ''CLIENT'', AStr ''NO-EVICT'', AStr (if on then ''ON'' else ''OFF'')] to_unit"

definition client_no_touch :: "('w, 'p) executor_fn \<Rightarrow> bool \<Rightarrow> ('w, glide_error, unit) io" where
  "client_no_touch ex on =
     call ex [AStr ''CLIENT'', AStr ''NO-TOUCH'', AStr (if on then ''ON'' else ''OFF'')] to_unit"

definition reset :: "('w, 'p) executor_fn \<Rightarrow> ('w, glide_error, unit) io" where
  "reset ex =
     call ex [AStr ''RESET''] to_unit"

section \<open>Replies and arguments\<close>

lemma parse_time_not_pair:
  "is_pair v \<or> parse_time X v = Inl (Request (''unexpected TIME reply: '' @ x_debug X v))"
  by (cases v) (auto simp: parse_time_def is_pair_def unexpected_def split: list.split)

text \<open>
  \<open>TIME\<close> returns the seconds and the microseconds the server sent, in that order, whether it sends
  them as bulk strings, which the fork reads as their text, as simple strings or as integers.  A part
  that is not a decimal \<open>i64\<close> is reported as 0 rather than as an error, and a reply that is not a pair is a
  request error with the reply in it.
\<close>

lemma parse_time_exact:
  assumes "\<And>b. x_string X (VBulkString b) = Inr b"
  shows "parse_time X (VArray [VBulkString (i64_to_string s), VBulkString (i64_to_string u)]) = Inr (s, u)
    \<and> parse_time X (VArray [VSimpleString (i64_to_string s), VSimpleString (i64_to_string u)]) = Inr (s, u)
    \<and> parse_time X (VArray [VInt s, VInt u]) = Inr (s, u)
    \<and> (parse_i64 bad = None \<longrightarrow> parse_time X (VArray [VInt s, VBulkString bad]) = Inr (s, 0))
    \<and> (is_pair v \<or> parse_time X v = Inl (Request (''unexpected TIME reply: '' @ x_debug X v)))"
  using assms
  by (intro conjI impI parse_time_not_pair)
    (simp_all add: parse_time_def to_string_def from_value_def parse_or_default_def parse_i64_to_string)

lemma parse_time_exact_witness:
  "parse_time sample_ext (VArray [VInt 7, VBulkString ''soon'']) = Inr (7, 0)"
proof -
  have "x_string sample_ext (VBulkString b) = Inr b" for b by (simp add: sample_ext_def)
  moreover have "parse_i64 ''soon'' = None" by (simp add: parse_i64_def digit_val_def)
  ultimately show ?thesis using parse_time_exact [of sample_ext 7 0 "''soon''" VNil] by simp
qed

text \<open>
  The \<open>FAILOVER\<close> command line determines the target and the timeout; \<open>FORCE\<close> is sent only with a target.
\<close>

lemma failover_cmd_recoverable:
  "failover_cmd target force timeout_ms = failover_cmd target' force' timeout_ms' \<longleftrightarrow>
     target = target' \<and> timeout_ms = timeout_ms' \<and> (target = None \<or> force = force')"
  by (cases timeout_ms; cases timeout_ms')
    (auto simp: failover_cmd_def flag_def split: option.splits if_splits)

end
