(* ===== verification/Sync.thy ===== *)
theory Sync
  imports CommandTable Server
begin

text \<open>
  The blocking clients (\<open>src/sync/mod.rs\<close>).

  The state of the process is a record: whether the shared runtime exists and how many were built,
  whether the calling thread is inside an async context, and the world the commands run in.  A future
  is the effectful action it performs when it is driven to completion; \<open>block_on\<close> initialises the
  runtime on first use and drives the future, or panics when it is called from an async context, as
  the sources document of the runtime.

  The locale \<open>blocking\<close> is the contract of a blocking operation: it is \<open>block_on\<close> of its async
  counterpart and nothing else.
\<close>

datatype 'a outcome = Panics | Returns 'a

record 'w process =
  pr_runtime :: bool
  pr_built :: nat
  pr_in_async :: bool
  pr_world :: 'w

definition runtime :: "'w process \<Rightarrow> 'w process" where
  "runtime p = (if pr_runtime p then p else p\<lparr>pr_runtime := True, pr_built := Suc (pr_built p)\<rparr>)"

definition block_on :: "('w \<Rightarrow> 'a \<times> 'w) \<Rightarrow> 'w process \<Rightarrow> 'a outcome \<times> 'w process" where
  "block_on future p =
     (let p = runtime p in
      if pr_in_async p then (Panics, p)
      else (case future (pr_world p) of (r, w) \<Rightarrow> (Returns r, p\<lparr>pr_world := w\<rparr>)))"

record 'c sync_glide_client =
  sgc_inner :: "'c glide_client"

record 'c sync_glide_cluster_client =
  sgcc_inner :: "'c glide_cluster_client"

section \<open>The standalone client\<close>

definition sync_connect ::
  "connection_request \<Rightarrow> ('c, 's, 'w, 'p) core_ops \<Rightarrow> client_config \<Rightarrow> (push_channel list \<times> 'w) process
     \<Rightarrow> 'c sync_glide_client result outcome \<times> (push_channel list \<times> 'w) process" where
  "sync_connect D K config p =
     (case block_on (client_connect D K config) p of
        (Panics, p) \<Rightarrow> (Panics, p)
      | (Returns r, p) \<Rightarrow> (Returns (bind_res r (\<lambda>inner. Inr \<lparr>sgc_inner = inner\<rparr>)), p))"

definition async_client :: "'c sync_glide_client \<Rightarrow> 'c glide_client" where
  "async_client self = sgc_inner self"

definition sync_run ::
  "'c sync_glide_client \<Rightarrow> ('c glide_client \<Rightarrow> 'w \<Rightarrow> 'a \<times> 'w) \<Rightarrow> 'w process \<Rightarrow> 'a outcome \<times> 'w process" where
  "sync_run self f = block_on (f (sgc_inner self))"

definition sync_update_connection_password ::
  "('c, 's, 'w, 'p) core_ops \<Rightarrow> 'c sync_glide_client \<Rightarrow> string option \<Rightarrow> bool \<Rightarrow> 'w process
     \<Rightarrow> unit result outcome \<times> 'w process" where
  "sync_update_connection_password K self password immediate_auth =
     block_on (update_connection_password K (sgc_inner self) password immediate_auth)"

definition sync_custom_command ::
  "('c, 's, 'w, 'p) core_ops \<Rightarrow> 'c sync_glide_client \<Rightarrow> bytes list list \<Rightarrow> 'w process
     \<Rightarrow> value result outcome \<times> 'w process" where
  "sync_custom_command K self args = block_on (custom_command (execute_command K (sgc_inner self)) args)"

definition sync_execute_pipeline ::
  "('c, 's, 'w, 'p) core_ops \<Rightarrow> 'c sync_glide_client \<Rightarrow> pipeline \<Rightarrow> bool \<Rightarrow> pipeline_options \<Rightarrow> 'w process
     \<Rightarrow> value list result outcome \<times> 'w process" where
  "sync_execute_pipeline K self p raise_on_error options =
     block_on (execute_pipeline K (sgc_inner self) p raise_on_error options)"

definition sync_ping ::
  "redis_ext \<Rightarrow> ('c, 's, 'w, 'p) core_ops \<Rightarrow> 'c sync_glide_client \<Rightarrow> 'w process
     \<Rightarrow> string result outcome \<times> 'w process" where
  "sync_ping X K self = block_on (ping X (execute_command K (sgc_inner self)))"

definition glide_send_owned_sync ::
  "('c, 's, 'w, 'p) core_ops \<Rightarrow> 'c sync_glide_client \<Rightarrow> cmd \<Rightarrow> 'w process
     \<Rightarrow> (redis_error + value) outcome \<times> 'w process" where
  "glide_send_owned_sync K self c = block_on (glide_send_owned K (sgc_inner self) c)"

definition async_conn :: "'c sync_glide_client \<Rightarrow> 'c glide_client" where
  "async_conn self = sgc_inner self"

definition sync_query_glide ::
  "redis_ext \<Rightarrow> ('c, 's, 'w, 'p) core_ops \<Rightarrow> (pipeline \<Rightarrow> 'w pipeline_conn \<Rightarrow> ('w, redis_error, 't) io)
     \<Rightarrow> pipeline \<Rightarrow> 'c sync_glide_client \<Rightarrow> 'w process \<Rightarrow> (redis_error + 't) outcome \<times> 'w process" where
  "sync_query_glide X K query_async p con = block_on (query_glide X K query_async p (async_conn con))"

section \<open>The cluster client\<close>

definition sync_cluster_connect ::
  "connection_request \<Rightarrow> ('c, 's, 'w, 'p) core_ops \<Rightarrow> cluster_config \<Rightarrow> (push_channel list \<times> 'w) process
     \<Rightarrow> 'c sync_glide_cluster_client result outcome \<times> (push_channel list \<times> 'w) process" where
  "sync_cluster_connect D K config p =
     (case block_on (cluster_connect D K config) p of
        (Panics, p) \<Rightarrow> (Panics, p)
      | (Returns r, p) \<Rightarrow> (Returns (bind_res r (\<lambda>inner. Inr \<lparr>sgcc_inner = inner\<rparr>)), p))"

definition cluster_async_client :: "'c sync_glide_cluster_client \<Rightarrow> 'c glide_cluster_client" where
  "cluster_async_client self = sgcc_inner self"

definition sync_cluster_run ::
  "'c sync_glide_cluster_client \<Rightarrow> ('c glide_cluster_client \<Rightarrow> 'w \<Rightarrow> 'a \<times> 'w) \<Rightarrow> 'w process
     \<Rightarrow> 'a outcome \<times> 'w process" where
  "sync_cluster_run self f = block_on (f (sgcc_inner self))"

definition sync_cluster_custom_command ::
  "('c, 's, 'w, 'p) core_ops \<Rightarrow> 'c sync_glide_cluster_client \<Rightarrow> bytes list list \<Rightarrow> 'w process
     \<Rightarrow> value result outcome \<times> 'w process" where
  "sync_cluster_custom_command K self args =
     block_on (custom_command (cluster_execute_command K (sgcc_inner self)) args)"

definition sync_custom_command_with_route ::
  "'p routing_ext \<Rightarrow> ('c, 's, 'w, 'p) core_ops \<Rightarrow> 'c sync_glide_cluster_client \<Rightarrow> bytes list list \<Rightarrow> route
     \<Rightarrow> 'w process \<Rightarrow> value result outcome \<times> 'w process" where
  "sync_custom_command_with_route R K self args r =
     block_on (custom_command_with_route R (cluster_execute_command K (sgcc_inner self)) args r)"

definition sync_cluster_update_connection_password ::
  "('c, 's, 'w, 'p) core_ops \<Rightarrow> 'c sync_glide_cluster_client \<Rightarrow> string option \<Rightarrow> bool \<Rightarrow> 'w process
     \<Rightarrow> unit result outcome \<times> 'w process" where
  "sync_cluster_update_connection_password K self password immediate_auth =
     block_on (cluster_update_connection_password K (sgcc_inner self) password immediate_auth)"

definition sync_cluster_execute_pipeline ::
  "'p routing_ext \<Rightarrow> ('c, 's, 'w, 'p) core_ops \<Rightarrow> 'c sync_glide_cluster_client \<Rightarrow> pipeline \<Rightarrow> bool
     \<Rightarrow> route option \<Rightarrow> pipeline_options \<Rightarrow> 'w process \<Rightarrow> value list result outcome \<times> 'w process" where
  "sync_cluster_execute_pipeline R K self p raise_on_error r options =
     block_on (cluster_execute_pipeline R K (sgcc_inner self) p raise_on_error r options)"

definition sync_cluster_ping ::
  "redis_ext \<Rightarrow> ('c, 's, 'w, 'p) core_ops \<Rightarrow> 'c sync_glide_cluster_client \<Rightarrow> 'w process
     \<Rightarrow> string result outcome \<times> 'w process" where
  "sync_cluster_ping X K self = block_on (ping X (cluster_execute_command K (sgcc_inner self)))"

definition cluster_glide_send_owned_sync ::
  "('c, 's, 'w, 'p) core_ops \<Rightarrow> 'c sync_glide_cluster_client \<Rightarrow> cmd \<Rightarrow> 'w process
     \<Rightarrow> (redis_error + value) outcome \<times> 'w process" where
  "cluster_glide_send_owned_sync K self c = block_on (cluster_glide_send_owned K (sgcc_inner self) c)"

definition cluster_async_conn :: "'c sync_glide_cluster_client \<Rightarrow> 'c glide_cluster_client" where
  "cluster_async_conn self = sgcc_inner self"

definition sync_cluster_query_glide ::
  "redis_ext \<Rightarrow> ('c, 's, 'w, 'p) core_ops \<Rightarrow> (pipeline \<Rightarrow> 'w pipeline_conn \<Rightarrow> ('w, redis_error, 't) io)
     \<Rightarrow> pipeline \<Rightarrow> 'c sync_glide_cluster_client \<Rightarrow> 'w process \<Rightarrow> (redis_error + 't) outcome \<times> 'w process" where
  "sync_cluster_query_glide X K query_async p con =
     block_on (cluster_query_glide X K query_async p (cluster_async_conn con))"

section \<open>The contract of blocking calls\<close>

lemma runtime_simps [simp]:
  "pr_world (runtime p) = pr_world p" "pr_in_async (runtime p) = pr_in_async p" "pr_runtime (runtime p)"
  "runtime (runtime p) = runtime p"
  by (simp_all add: runtime_def)

lemma runtime_once [simp]: "(runtime ((runtime p)\<lparr>pr_world := w\<rparr>))\<lparr>pr_world := v\<rparr> = (runtime p)\<lparr>pr_world := v\<rparr>"
  by (simp add: runtime_def)

lemma block_on_outside:
  assumes "\<not> pr_in_async p" and "future (pr_world p) = (r, w)"
  shows "block_on future p = (Returns r, (runtime p)\<lparr>pr_world := w\<rparr>)"
  using assms by (simp add: block_on_def Let_def)

lemma block_on_inside: "pr_in_async p \<Longrightarrow> block_on future p = (Panics, runtime p)"
  by (simp add: block_on_def Let_def)

lemma block_on_runtime: "pr_runtime (snd (block_on future p))"
  by (simp add: block_on_def Let_def split: prod.split)

lemma block_on_built: "pr_built (snd (block_on future p)) = (if pr_runtime p then pr_built p else Suc (pr_built p))"
  by (simp add: block_on_def Let_def runtime_def split: prod.split)

lemma fold_block_on_built:
  "pr_runtime q \<Longrightarrow> pr_built (fold (\<lambda>future p. snd (block_on future p)) fs q) = pr_built q"
  by (induction fs arbitrary: q) (simp_all add: block_on_runtime block_on_built)

text \<open>A program that makes one call after the other and keeps the results.\<close>

fun session :: "('x \<Rightarrow> 's \<Rightarrow> 'a \<times> 's) \<Rightarrow> 'x list \<Rightarrow> 's \<Rightarrow> 'a list \<times> 's" where
  "session op [] s = ([], s)"
| "session op (x # xs) s =
     (let (r, s1) = op x s; (rs, s2) = session op xs s1 in (r # rs, s2))"

locale blocking =
  fixes sync_op :: "'x \<Rightarrow> 'w process \<Rightarrow> 'a outcome \<times> 'w process" and async_op :: "'x \<Rightarrow> 'w \<Rightarrow> 'a \<times> 'w"
  assumes sync_op_eq: "sync_op x = block_on (async_op x)"
begin

lemma blocks_outside:
  "\<not> pr_in_async p \<Longrightarrow> async_op x (pr_world p) = (r, w) \<Longrightarrow>
     sync_op x p = (Returns r, (runtime p)\<lparr>pr_world := w\<rparr>)"
  by (simp add: sync_op_eq block_on_outside)

lemma panics_inside: "pr_in_async p \<Longrightarrow> sync_op x p = (Panics, runtime p)"
  by (simp add: sync_op_eq block_on_inside)

lemma session_panics: "pr_in_async p \<Longrightarrow> session sync_op (x # xs) p = (replicate (Suc (length xs)) Panics, runtime p)"
  by (induction xs arbitrary: x p) (simp_all add: panics_inside Let_def)

lemma session_outside:
  "\<not> pr_in_async p \<Longrightarrow> session sync_op (x # xs) p =
     map_prod (map Returns) (\<lambda>w. (runtime p)\<lparr>pr_world := w\<rparr>) (session async_op (x # xs) (pr_world p))"
proof (induction xs arbitrary: x p)
  case Nil
  obtain r w where "async_op x (pr_world p) = (r, w)" by fastforce
  with Nil show ?case by (simp add: blocks_outside)
next
  case (Cons y ys)
  obtain r w where x: "async_op x (pr_world p) = (r, w)" by fastforce
  have "session sync_op (x # y # ys) p
      = (let (rs, p2) = session sync_op (y # ys) ((runtime p)\<lparr>pr_world := w\<rparr>) in (Returns r # rs, p2))"
    by (subst session.simps) (simp only: blocks_outside [OF Cons.prems x] Let_def prod.case)
  also have "session sync_op (y # ys) ((runtime p)\<lparr>pr_world := w\<rparr>)
      = map_prod (map Returns) (\<lambda>w. (runtime p)\<lparr>pr_world := w\<rparr>) (session async_op (y # ys) w)"
    using Cons.IH [of "(runtime p)\<lparr>pr_world := w\<rparr>" y] Cons.prems by simp
  finally show ?case
    using x by (simp add: Let_def split: prod.split)
qed

lemma session_refines:
  "session sync_op xs p =
     (if xs = [] then ([], p)
      else if pr_in_async p then (replicate (length xs) Panics, runtime p)
      else map_prod (map Returns) (\<lambda>w. (runtime p)\<lparr>pr_world := w\<rparr>) (session async_op xs (pr_world p)))"
proof (cases xs)
  case (Cons y ys)
  show ?thesis
  proof (cases "pr_in_async p")
    case True
    then show ?thesis using session_panics [OF True, of y ys] Cons by simp
  next
    case False
    then show ?thesis using session_outside [OF False, of y ys] Cons by (simp only: list.simps if_False)
  qed
qed simp

end

interpretation sync_run: blocking "\<lambda>f. sync_run self f" "\<lambda>f. f (sgc_inner self)" for self
  by unfold_locales (simp add: sync_run_def)

interpretation sync_password: blocking
  "\<lambda>(password, now). sync_update_connection_password K self password now"
  "\<lambda>(password, now). update_connection_password K (sgc_inner self) password now" for K self
  by unfold_locales (auto simp: sync_update_connection_password_def)

interpretation sync_custom: blocking
  "sync_custom_command K self" "custom_command (execute_command K (sgc_inner self))" for K self
  by unfold_locales (simp add: sync_custom_command_def)

interpretation sync_pipeline: blocking
  "\<lambda>(pl, raise, options). sync_execute_pipeline K self pl raise options"
  "\<lambda>(pl, raise, options). execute_pipeline K (sgc_inner self) pl raise options" for K self
  by unfold_locales (auto simp: sync_execute_pipeline_def)

interpretation sync_send: blocking "glide_send_owned_sync K self" "glide_send_owned K (sgc_inner self)" for K self
  by unfold_locales (simp add: glide_send_owned_sync_def)

interpretation sync_cluster_send: blocking
  "cluster_glide_send_owned_sync K self" "cluster_glide_send_owned K (sgcc_inner self)" for K self
  by unfold_locales (simp add: cluster_glide_send_owned_sync_def)

interpretation sync_routed: blocking
  "\<lambda>(args, r). sync_custom_command_with_route R K self args r"
  "\<lambda>(args, r). custom_command_with_route R (cluster_execute_command K (sgcc_inner self)) args r" for R K self
  by unfold_locales (auto simp: sync_custom_command_with_route_def)

text \<open>
  A blocking command outside an async context has the result of the async one and leaves the world
  in the same state, on either client; inside an async context it panics before anything is sent.
\<close>

lemma blocking_commands_agree:
  "(if pr_in_async p then glide_send_owned_sync K self c p = (Panics, runtime p)
    else \<exists>r w. core_send_command K (gc_inner (sgc_inner self)) c None (pr_world p) = (r, w)
           \<and> glide_send_owned_sync K self c p = (Returns r, (runtime p)\<lparr>pr_world := w\<rparr>))
   \<and> (if pr_in_async p then cluster_glide_send_owned_sync K self' c p = (Panics, runtime p)
      else \<exists>r w. core_send_command K (gcc_inner (sgcc_inner self')) c None (pr_world p) = (r, w)
             \<and> cluster_glide_send_owned_sync K self' c p = (Returns r, (runtime p)\<lparr>pr_world := w\<rparr>))"
  by (auto simp: sync_send.panics_inside sync_cluster_send.panics_inside sync_send.sync_op_eq
      sync_cluster_send.sync_op_eq block_on_outside glide_send_owned_def cluster_glide_send_owned_def
      block_on_def Let_def split: prod.splits)

text \<open>
  C30: the blocking clients refine the asynchronous ones.  A program that sends any sequence of commands
  through a blocking client, standalone or cluster, gets the replies, errors included, and leaves the
  deployment in the state that the same sequence has on the asynchronous client it wraps; all its calls
  share one runtime, built at the first of them.  Called from inside an async context every call
  panics and nothing is sent.
\<close>

theorem sync_session_refines:
  "session (glide_send_owned_sync K self) cmds p =
     (if cmds = [] then ([], p)
      else if pr_in_async p then (replicate (length cmds) Panics, runtime p)
      else map_prod (map Returns) (\<lambda>w. (runtime p)\<lparr>pr_world := w\<rparr>)
             (session (glide_send_owned K (async_client self)) cmds (pr_world p)))
   \<and> session (cluster_glide_send_owned_sync K self') cmds p =
     (if cmds = [] then ([], p)
      else if pr_in_async p then (replicate (length cmds) Panics, runtime p)
      else map_prod (map Returns) (\<lambda>w. (runtime p)\<lparr>pr_world := w\<rparr>)
             (session (cluster_glide_send_owned K (cluster_async_client self')) cmds (pr_world p)))"
  unfolding async_client_def cluster_async_client_def
  by (intro conjI sync_send.session_refines sync_cluster_send.session_refines)

text \<open>
  However many blocking calls a program makes, and whether or not they panic, they share one runtime:
  none is built before the first call and none after it.
\<close>

lemma one_runtime:
  assumes "\<not> pr_runtime p"
  shows "pr_built (fold (\<lambda>future p. snd (block_on future p)) futures p)
           = (if futures = [] then pr_built p else Suc (pr_built p))"
  using assms by (cases futures) (simp_all add: fold_block_on_built block_on_runtime block_on_built)

end
