(* ===== verification/Telemetry.thy ===== *)
theory Telemetry
  imports Config_Types
begin

text \<open>
  The OpenTelemetry front end (\<open>src/telemetry.rs\<close>).  The configuration builder, the initialisation and
  the shutdown of \<open>glide-core\<close> are the fields of \<open>otel_core\<close>; this module lowers the exporters, passes the
  settings on and turns an initialisation error into a configuration error.
\<close>

datatype telemetry_exporter = Grpc string | Http string | File string

datatype core_exporter = CoreGrpc string | CoreHttp string | CoreFile string

fun exporter_into :: "telemetry_exporter \<Rightarrow> core_exporter" where
  "exporter_into (Grpc s) = CoreGrpc s"
| "exporter_into (Http s) = CoreHttp s"
| "exporter_into (File p) = CoreFile p"

definition exporter_grpc :: "string \<Rightarrow> telemetry_exporter" where
  "exporter_grpc endpoint = Grpc endpoint"

definition exporter_http :: "string \<Rightarrow> telemetry_exporter" where
  "exporter_http endpoint = Http endpoint"

definition exporter_file :: "string \<Rightarrow> telemetry_exporter" where
  "exporter_file path = File path"

record ('b, 'k, 'e, 'w) otel_core =
  oc_default :: 'b
  oc_with_flush_interval :: "'b \<Rightarrow> duration \<Rightarrow> 'b"
  oc_with_trace_exporter :: "'b \<Rightarrow> core_exporter \<Rightarrow> u32 option \<Rightarrow> 'b"
  oc_with_metrics_exporter :: "'b \<Rightarrow> core_exporter \<Rightarrow> 'b"
  oc_build :: "'b \<Rightarrow> 'k"
  oc_initialise :: "'k \<Rightarrow> ('w, 'e, unit) io"
  oc_display :: "'e \<Rightarrow> string"
  oc_is_initialized :: "'w \<Rightarrow> bool"
  oc_shutdown :: "'w \<Rightarrow> 'w"
  oc_default_sample_percentage :: u32

record 'b open_telemetry_config =
  otc_inner :: 'b

record 'b open_telemetry_config_builder =
  otb_inner :: 'b

definition default_trace_sample_percent :: "('b, 'k, 'e, 'w) otel_core \<Rightarrow> u32" where
  "default_trace_sample_percent OT = oc_default_sample_percentage OT"

definition config_builder :: "('b, 'k, 'e, 'w) otel_core \<Rightarrow> 'b open_telemetry_config_builder" where
  "config_builder OT = \<lparr>otb_inner = oc_default OT\<rparr>"

definition with_flush_interval ::
  "('b, 'k, 'e, 'w) otel_core \<Rightarrow> 'b open_telemetry_config_builder \<Rightarrow> duration \<Rightarrow> 'b open_telemetry_config_builder" where
  "with_flush_interval OT self interval = self\<lparr>otb_inner := oc_with_flush_interval OT (otb_inner self) interval\<rparr>"

definition with_trace_exporter ::
  "('b, 'k, 'e, 'w) otel_core \<Rightarrow> 'b open_telemetry_config_builder \<Rightarrow> telemetry_exporter \<Rightarrow> u32 option
     \<Rightarrow> 'b open_telemetry_config_builder" where
  "with_trace_exporter OT self exporter sample_percentage =
     self\<lparr>otb_inner := oc_with_trace_exporter OT (otb_inner self) (exporter_into exporter) sample_percentage\<rparr>"

definition with_metrics_exporter ::
  "('b, 'k, 'e, 'w) otel_core \<Rightarrow> 'b open_telemetry_config_builder \<Rightarrow> telemetry_exporter
     \<Rightarrow> 'b open_telemetry_config_builder" where
  "with_metrics_exporter OT self exporter =
     self\<lparr>otb_inner := oc_with_metrics_exporter OT (otb_inner self) (exporter_into exporter)\<rparr>"

definition telemetry_build :: "'b open_telemetry_config_builder \<Rightarrow> 'b open_telemetry_config" where
  "telemetry_build self = \<lparr>otc_inner = otb_inner self\<rparr>"

definition init :: "('b, 'k, 'e, 'w) otel_core \<Rightarrow> 'b open_telemetry_config \<Rightarrow> ('w, glide_error, unit) io" where
  "init OT config =
     map_err_io (\<lambda>e. Configuration (''OpenTelemetry init failed: '' @ oc_display OT e))
       (oc_initialise OT (oc_build OT (otc_inner config)))"

definition is_initialized :: "('b, 'k, 'e, 'w) otel_core \<Rightarrow> 'w \<Rightarrow> bool" where
  "is_initialized OT w = oc_is_initialized OT w"

definition shutdown :: "('b, 'k, 'e, 'w) otel_core \<Rightarrow> 'w \<Rightarrow> 'w" where
  "shutdown OT w = oc_shutdown OT w"

section \<open>What reaches the core\<close>

lemma exporter_into_inj: "exporter_into e = exporter_into e' \<longleftrightarrow> e = e'"
  by (cases e; cases e') auto

text \<open>
  The builder hands every setting to the core once, in the order of the calls, with the exporters
  lowered; initialisation fails exactly when the core's does, and always with a configuration error.
\<close>

lemma init_built:
  "init OT (telemetry_build (with_metrics_exporter OT (with_trace_exporter OT
       (with_flush_interval OT (config_builder OT) interval) te percent) me)) w =
     (case oc_initialise OT (oc_build OT (oc_with_metrics_exporter OT (oc_with_trace_exporter OT
        (oc_with_flush_interval OT (oc_default OT) interval) (exporter_into te) percent) (exporter_into me))) w of
        (r, w') \<Rightarrow> (map_err (\<lambda>e. Configuration (''OpenTelemetry init failed: '' @ oc_display OT e)) r, w'))"
  by (simp add: init_def telemetry_build_def with_metrics_exporter_def with_trace_exporter_def
      with_flush_interval_def config_builder_def map_err_io_def)

end
