(* ===== verification/Digests.thy ===== *)
theory Digests
  imports Prelude
begin

text \<open>
  The two digests the tests of the repository rely on, as their standards define them: SHA-1 (FIPS 180-4), under which a server
  stores a script, and the slot of a key in a cluster (the CRC-16 with polynomial \<open>1021\<close> of the key, or of its hash tag, modulo 16384, as the
  cluster specification says).  The code that computes them is outside of the repository (\<open>sha1_smol\<close>, \<open>get_slot\<close> of the fork);
  these definitions are the documented behaviour against which the values in the tests are stated.  A word is the list of its bits
  with the most significant one first, as in the standard.
\<close>

type_synonym bits = "bool list"

section \<open>Bits\<close>

fun char_bits :: "char \<Rightarrow> bits" where
  "char_bits (Char b0 b1 b2 b3 b4 b5 b6 b7) = [b7, b6, b5, b4, b3, b2, b1, b0]"

definition message_bits :: "bytes \<Rightarrow> bits" where
  "message_bits m = concat (map char_bits m)"

fun int_bits :: "nat \<Rightarrow> int \<Rightarrow> bits" where
  "int_bits 0 n = []"
| "int_bits (Suc k) n = int_bits k (n div 2) @ [odd n]"

definition bits_int :: "bits \<Rightarrow> int" where
  "bits_int = foldl (\<lambda>n b. 2 * n + (if b then 1 else 0)) 0"

definition hex_digits :: string where
  "hex_digits = ''0123456789abcdef''"

fun hex :: "bits \<Rightarrow> string" where
  "hex (b3 # b2 # b1 # b0 # bs) = hex_digits ! nat (bits_int [b3, b2, b1, b0]) # hex bs"
| "hex _ = ''''"

definition rotate_left :: "nat \<Rightarrow> bits \<Rightarrow> bits" where
  "rotate_left n x = drop n x @ take n x"

definition xor_bits :: "bits \<Rightarrow> bits \<Rightarrow> bits" where
  "xor_bits x y = map2 (\<lambda>a b. if a then (\<not> b) else b) x y"

fun carry_add :: "bits \<Rightarrow> bits \<Rightarrow> bool \<times> bits" where
  "carry_add (x # xs) (y # ys) = (case carry_add xs ys of (c, zs) \<Rightarrow>
     if x then (if y then (True, c # zs) else (c, (\<not> c) # zs))
     else (if y then (c, (\<not> c) # zs) else (False, c # zs)))"
| "carry_add _ _ = (False, [])"

definition add_bits :: "bits \<Rightarrow> bits \<Rightarrow> bits" where
  "add_bits x y = snd (carry_add x y)"

section \<open>SHA-1\<close>

type_synonym sha1_state = "bits \<times> bits \<times> bits \<times> bits \<times> bits"

definition sha1_ch :: "bits \<Rightarrow> bits \<Rightarrow> bits \<Rightarrow> bits" where
  "sha1_ch x y z = map2 (\<lambda>a (b, c). if a then b else c) x (zip y z)"

definition sha1_maj :: "bits \<Rightarrow> bits \<Rightarrow> bits \<Rightarrow> bits" where
  "sha1_maj x y z = map2 (\<lambda>a (b, c). if a then b \<or> c else b \<and> c) x (zip y z)"

definition sha1_parity :: "bits \<Rightarrow> bits \<Rightarrow> bits \<Rightarrow> bits" where
  "sha1_parity x y z = xor_bits x (xor_bits y z)"

text \<open>The schedule keeps the sixteen words that the next ones depend on.\<close>

definition sha1_next :: "bits list \<Rightarrow> bits" where
  "sha1_next w = rotate_left 1 (xor_bits (xor_bits (w ! 13) (w ! 8)) (xor_bits (w ! 2) (w ! 0)))"

fun sha1_rounds :: "nat \<Rightarrow> (bits \<Rightarrow> bits \<Rightarrow> bits \<Rightarrow> bits) \<Rightarrow> bits \<Rightarrow> bits list \<times> sha1_state \<Rightarrow> bits list \<times> sha1_state" where
  "sha1_rounds 0 f k s = s"
| "sha1_rounds (Suc n) f k (w, a, b, c, d, e) =
     sha1_rounds n f k (tl w @ [sha1_next w],
       add_bits (add_bits (rotate_left 5 a) (f b c d)) (add_bits (add_bits e k) (hd w)), a, rotate_left 30 b, c, d)"

definition sha1_block :: "sha1_state \<Rightarrow> bits list \<Rightarrow> sha1_state" where
  "sha1_block h w = (case h of (a, b, c, d, e) \<Rightarrow>
     (case sha1_rounds 20 sha1_parity (int_bits 32 0xca62c1d6)
             (sha1_rounds 20 sha1_maj (int_bits 32 0x8f1bbcdc)
               (sha1_rounds 20 sha1_parity (int_bits 32 0x6ed9eba1)
                 (sha1_rounds 20 sha1_ch (int_bits 32 0x5a827999) (w, h)))) of
        (w', a', b', c', d', e') \<Rightarrow> (add_bits a a', add_bits b b', add_bits c c', add_bits d d', add_bits e e')))"

function chunks :: "nat \<Rightarrow> bits \<Rightarrow> bits list" where
  "chunks k x = (if x = [] \<or> k = 0 then [] else take k x # chunks k (drop k x))"
  by pat_completeness auto
termination
  by (relation "measure (\<lambda>(k, x). length x)") auto

definition sha1_padded :: "bytes \<Rightarrow> bits" where
  "sha1_padded m = (let n = 8 * int (length m) in
     message_bits m @ True # replicate (nat ((959 - n mod 512) mod 512)) False @ int_bits 64 n)"

definition sha1_init :: sha1_state where
  "sha1_init = (int_bits 32 0x67452301, int_bits 32 0xefcdab89, int_bits 32 0x98badcfe, int_bits 32 0x10325476,
     int_bits 32 0xc3d2e1f0)"

definition sha1 :: "bytes \<Rightarrow> string" where
  "sha1 m = (case foldl sha1_block sha1_init (map (chunks 32) (chunks 512 (sha1_padded m))) of
     (a, b, c, d, e) \<Rightarrow> hex (a @ b @ c @ d @ e))"

section \<open>Slots\<close>

fun crc16 :: "bits \<Rightarrow> bits \<Rightarrow> bits" where
  "crc16 crc [] = crc"
| "crc16 crc (b # bs) =
     crc16 (let shifted = tl crc @ [False] in
            if hd crc = b then shifted else xor_bits shifted (int_bits 16 0x1021)) bs"

definition hash_tag :: "bytes \<Rightarrow> bytes" where
  "hash_tag key = (case dropWhile (\<lambda>c. c \<noteq> CHR ''{'') key of
      [] \<Rightarrow> key
    | _ # rest \<Rightarrow> (let tag = takeWhile (\<lambda>c. c \<noteq> CHR ''}'') rest in
        if tag = [] \<or> length tag = length rest then key else tag))"

definition key_slot :: "bytes \<Rightarrow> u16" where
  "key_slot key = of_int (bits_int (crc16 (replicate 16 False) (message_bits (hash_tag key))) mod 16384)"

section \<open>The values in the tests\<close>

lemma sha1_return_1_block: "map (chunks 32) (chunks 512 (sha1_padded ''return 1'')) = [chunks 32 (sha1_padded ''return 1'')]"
  by code_simp

lemma sha1_return_1_state:
  "sha1_block sha1_init (chunks 32 (sha1_padded ''return 1'')) =
     (int_bits 32 0xe0e1f9fa, int_bits 32 0xbfc9d480, int_bits 32 0x0c877a70, int_bits 32 0x3b823ac0, int_bits 32 0x578ff8db)"
  by code_simp

lemma sha1_return_1_hex:
  "hex (int_bits 32 0xe0e1f9fa @ int_bits 32 0xbfc9d480 @ int_bits 32 0x0c877a70 @ int_bits 32 0x3b823ac0 @ int_bits 32 0x578ff8db)
     = ''e0e1f9fabfc9d4800c877a703b823ac0578ff8db''"
  by code_simp

lemma sha1_return_1: "sha1 ''return 1'' = ''e0e1f9fabfc9d4800c877a703b823ac0578ff8db''"
  by (simp only: sha1_def sha1_return_1_block foldl.simps sha1_return_1_state prod.case sha1_return_1_hex)

lemma slot_of_check_value: "key_slot ''123456789'' = 12739"
  by code_simp

lemma slots_of_keys: "key_slot ''key-a'' = 6672" "key_slot ''key-b-different'' = 11257"
  by code_simp+

lemma slot_of_empty_tag: "key_slot ''foo{}{bar}'' = 8363"
  by code_simp

end
