(* ===== verification/Conformance.thy ===== *)
theory Conformance
  imports Routes Streams SortedSets Generic Geo Bitmap Scripts Telemetry Digests
begin

text \<open>
  A check of the model against the tests of the repository: the unit tests of the modules as predicates on the definitions, one
  per test function, under its name, and one lemma per module that says that its tests hold.  They are computations on the
  inputs of the tests and no more than that; what holds of all inputs is shown in the theories of the components.  What the tests observe of code outside of
  the repository comes in as parameters, and what they rely on is stated as hypotheses; the slots of keys and the digests of
  scripts are those of the standards that \<open>Digests\<close> writes out.  Tests that compare a value with itself say nothing
  on a model and are left out (\<open>variants_are_clonable_and_comparable\<close>, \<open>slot_type_default_is_primary\<close>,
  \<open>default_sample_percent_matches_core\<close>), and so are those of \<open>config/tests.rs\<close> and \<open>tests/\<close>.

  An assertion behind a failing \<open>expect\<close> or \<open>unwrap\<close> is \<open>False\<close>.
\<close>

definition expect :: "'a option \<Rightarrow> ('a \<Rightarrow> bool) \<Rightarrow> bool" where
  "expect x P = (case x of None \<Rightarrow> False | Some v \<Rightarrow> P v)"

fun unwrap :: "'e + 'a \<Rightarrow> ('a \<Rightarrow> bool) \<Rightarrow> bool" where
  "unwrap (Inl e) P = False"
| "unwrap (Inr v) P = P v"

fun is_err :: "'e + 'a \<Rightarrow> bool" where
  "is_err (Inl e) = True"
| "is_err (Inr v) = False"

lemma is_err_iff: "is_err r \<longleftrightarrow> (\<exists>e. r = Inl e)"
  by (cases r) auto

section \<open>\<open>src/error.rs\<close>\<close>

text \<open>
  \<open>mk\<close> is \<open>RedisError::from((kind, description))\<close>: it has that kind, is no timeout, and shows the
  description.  \<open>io\<close> is the conversion of an I/O error, a timeout or not.
\<close>

record error_ext =
  ee_mk :: "error_kind \<Rightarrow> string \<Rightarrow> redis_error"
  ee_io :: "bool \<Rightarrow> string \<Rightarrow> redis_error"
  ee_type_error :: error_kind

definition errors_documented :: "error_ext \<Rightarrow> bool" where
  "errors_documented E \<longleftrightarrow>
     (\<forall>k d. re_kind (ee_mk E k d) = k \<and> \<not> re_timeout (ee_mk E k d) \<and> sublist d (re_display (ee_mk E k d)))
     \<and> (\<forall>t d. re_kind (ee_io E t d) = IoError \<and> re_timeout (ee_io E t d) = t)
     \<and> (\<exists>n. ee_type_error E = OtherKind n)"

fun is_timeout_error :: "glide_error \<Rightarrow> bool" where
  "is_timeout_error (Timeout _) = True"
| "is_timeout_error _ = False"

fun is_connection_error :: "glide_error \<Rightarrow> bool" where
  "is_connection_error (Connection _) = True"
| "is_connection_error _ = False"

fun is_request_error :: "glide_error \<Rightarrow> bool" where
  "is_request_error (Request _) = True"
| "is_request_error _ = False"

fun is_configuration_error :: "glide_error \<Rightarrow> bool" where
  "is_configuration_error (Configuration _) = True"
| "is_configuration_error _ = False"

fun is_exec_abort_error :: "glide_error \<Rightarrow> bool" where
  "is_exec_abort_error (ExecAbort _) = True"
| "is_exec_abort_error _ = False"

fun is_circuit_breaker_error :: "glide_error \<Rightarrow> bool" where
  "is_circuit_breaker_error (CircuitBreaker _) = True"
| "is_circuit_breaker_error _ = False"

definition redis_exec_abort_maps_to_exec_abort :: "error_ext \<Rightarrow> bool" where
  "redis_exec_abort_maps_to_exec_abort E =
     (let g = from_redis_error (ee_mk E ExecAbortError ''aborted'') in
      is_exec_abort_error g \<and> class_name g = ''ExecAbortError'')"

definition redis_circuit_breaker_maps_to_circuit_breaker :: "error_ext \<Rightarrow> bool" where
  "redis_circuit_breaker_maps_to_circuit_breaker E =
     (let g = from_redis_error (ee_mk E CircuitBreakerOpen ''open'') in
      is_circuit_breaker_error g \<and> class_name g = ''CircuitBreakerError'')"

definition redis_invalid_client_config_maps_to_configuration :: "error_ext \<Rightarrow> bool" where
  "redis_invalid_client_config_maps_to_configuration E =
     (let g = from_redis_error (ee_mk E InvalidClientConfig ''bad config'') in
      is_configuration_error g \<and> class_name g = ''ConfigurationError'')"

definition redis_response_error_maps_to_request :: "error_ext \<Rightarrow> bool" where
  "redis_response_error_maps_to_request E =
     (let g = from_redis_error (ee_mk E ResponseError ''wrong type'') in
      is_request_error g \<and> class_name g = ''RequestError'')"

definition redis_unknown_kind_maps_to_request :: "error_ext \<Rightarrow> bool" where
  "redis_unknown_kind_maps_to_request E =
     is_request_error (from_redis_error (ee_mk E (ee_type_error E) ''type mismatch''))"

definition redis_io_error_maps_to_connection :: "error_ext \<Rightarrow> bool" where
  "redis_io_error_maps_to_connection E =
     (let g = from_redis_error (ee_mk E IoError ''socket error'') in
      is_connection_error g \<and> class_name g = ''ConnectionError'')"

definition redis_real_io_timeout_maps_to_timeout :: "error_ext \<Rightarrow> bool" where
  "redis_real_io_timeout_maps_to_timeout E =
     (let err = ee_io E True ''slow'' in re_timeout err \<and> is_timeout_error (from_redis_error err))"

definition redis_error_preserves_message :: "error_ext \<Rightarrow> bool" where
  "redis_error_preserves_message E =
     sublist ''custom detail'' (message (from_redis_error (ee_mk E ResponseError ''custom detail'')))"

definition connection_timeout_maps_to_timeout :: bool where
  "connection_timeout_maps_to_timeout =
     (let g = from_connection_error CETimeout in is_timeout_error g \<and> class_name g = ''TimeoutError'')"

definition connection_configuration_maps_to_configuration :: bool where
  "connection_configuration_maps_to_configuration =
     (let g = from_connection_error (CEConfiguration ''nope'') in
      is_configuration_error g \<and> message g = ''nope'')"

definition connection_io_error_maps_to_connection :: "string \<Rightarrow> bool" where
  "connection_io_error_maps_to_connection shown =
     (let g = from_connection_error (CEOther shown) in
      is_connection_error g \<and> class_name g = ''ConnectionError'')"

definition connection_cluster_error_maps_to_connection :: "string \<Rightarrow> bool" where
  "connection_cluster_error_maps_to_connection shown =
     is_connection_error (from_connection_error (CEOther shown))"

definition class_names_for_all_variants :: bool where
  "class_names_for_all_variants =
     (class_name (Closing ''x'') = ''ClosingError''
      \<and> class_name (Configuration ''x'') = ''ConfigurationError''
      \<and> class_name (Connection ''x'') = ''ConnectionError''
      \<and> class_name (ExecAbort ''x'') = ''ExecAbortError''
      \<and> class_name (Request ''x'') = ''RequestError''
      \<and> class_name (Timeout ''x'') = ''TimeoutError''
      \<and> class_name (CircuitBreaker ''x'') = ''CircuitBreakerError'')"

definition message_for_all_variants :: bool where
  "message_for_all_variants =
     (message (Closing ''a'') = ''a'' \<and> message (Configuration ''b'') = ''b''
      \<and> message (Connection ''c'') = ''c'' \<and> message (ExecAbort ''d'') = ''d''
      \<and> message (Request ''e'') = ''e'' \<and> message (Timeout ''f'') = ''f''
      \<and> message (CircuitBreaker ''g'') = ''g'')"

definition display_includes_class_and_message :: bool where
  "display_includes_class_and_message = (display (Timeout ''slow'') = ''TimeoutError: slow'')"

definition error_tests :: "error_ext \<Rightarrow> string \<Rightarrow> bool" where
  "error_tests E shown \<longleftrightarrow>
     redis_exec_abort_maps_to_exec_abort E \<and> redis_circuit_breaker_maps_to_circuit_breaker E
     \<and> redis_invalid_client_config_maps_to_configuration E \<and> redis_response_error_maps_to_request E
     \<and> redis_unknown_kind_maps_to_request E \<and> redis_io_error_maps_to_connection E
     \<and> redis_real_io_timeout_maps_to_timeout E \<and> redis_error_preserves_message E
     \<and> connection_timeout_maps_to_timeout \<and> connection_configuration_maps_to_configuration
     \<and> connection_io_error_maps_to_connection shown \<and> connection_cluster_error_maps_to_connection shown
     \<and> class_names_for_all_variants \<and> message_for_all_variants
     \<and> display_includes_class_and_message"

lemmas error_test_defs =
  redis_exec_abort_maps_to_exec_abort_def redis_circuit_breaker_maps_to_circuit_breaker_def
  redis_invalid_client_config_maps_to_configuration_def redis_response_error_maps_to_request_def
  redis_unknown_kind_maps_to_request_def redis_io_error_maps_to_connection_def
  redis_real_io_timeout_maps_to_timeout_def redis_error_preserves_message_def
  connection_timeout_maps_to_timeout_def connection_configuration_maps_to_configuration_def
  connection_io_error_maps_to_connection_def connection_cluster_error_maps_to_connection_def
  class_names_for_all_variants_def message_for_all_variants_def
  display_includes_class_and_message_def

lemma error_tests_pass:
  assumes "errors_documented E"
  shows "error_tests E shown"
  using assms unfolding error_tests_def error_test_defs errors_documented_def
  by (auto simp: from_redis_error_def Let_def)

section \<open>\<open>src/value.rs\<close>\<close>

text \<open>The fork converts an integer reply and a double reply to themselves.\<close>

definition conversions_documented :: "redis_ext \<Rightarrow> bool" where
  "conversions_documented X \<longleftrightarrow> (\<forall>i. x_i64 X (VInt i) = Inr i) \<and> (\<forall>f. x_f64 X (VDouble f) = Inr f)"

definition opt_bytes_nil_is_none :: "redis_ext \<Rightarrow> bool" where
  "opt_bytes_nil_is_none X = unwrap (to_opt_bytes X VNil) (\<lambda>b. b = None)"

definition opt_bytes_bulkstring :: "redis_ext \<Rightarrow> bool" where
  "opt_bytes_bulkstring X = unwrap (to_opt_bytes X (VBulkString ''hello'')) (\<lambda>b. b = Some ''hello'')"

definition int_and_bool :: "redis_ext \<Rightarrow> bool" where
  "int_and_bool X =
     (unwrap (to_i64 X (VInt 42)) (\<lambda>i. i = 42)
      \<and> unwrap (to_bool X (VInt 1)) (\<lambda>b. b)
      \<and> unwrap (to_bool X (VInt 0)) (\<lambda>b. \<not> b)
      \<and> unwrap (to_bool X (VBoolean True)) (\<lambda>b. b))"

text \<open>The bit pattern of the float 1.5.\<close>

definition f64_1_5 :: f64 where
  "f64_1_5 = 0x3FF8000000000000"

definition opt_f64_nil_and_value :: "redis_ext \<Rightarrow> bool" where
  "opt_f64_nil_and_value X =
     (unwrap (to_opt_f64 X VNil) (\<lambda>f. f = None)
      \<and> unwrap (to_opt_f64 X (VDouble f64_1_5)) (\<lambda>f. f = Some f64_1_5))"

definition string_from_simple :: "redis_ext \<Rightarrow> bool" where
  "string_from_simple X = unwrap (to_string X (VSimpleString ''PONG'')) (\<lambda>s. s = ''PONG'')"

definition value_tests :: "redis_ext \<Rightarrow> bool" where
  "value_tests X \<longleftrightarrow> opt_bytes_nil_is_none X \<and> opt_bytes_bulkstring X \<and> int_and_bool X
     \<and> opt_f64_nil_and_value X \<and> string_from_simple X"

lemma value_tests_pass: "conversions_documented X \<Longrightarrow> value_tests X"
  by (simp add: value_tests_def opt_bytes_nil_is_none_def opt_bytes_bulkstring_def int_and_bool_def
      opt_f64_nil_and_value_def string_from_simple_def conversions_documented_def to_opt_bytes_def
      bytes_from_value_def to_i64_def to_bool_def to_opt_f64_def from_value_def)

section \<open>\<open>src/commands/options.rs\<close>\<close>

text \<open>
  \<open>args_of\<close>: the arguments of a command as text.  The encoding \<open>enc\<close> of the fork is as documented, and
  prints the floats of the tests as the tests say.
\<close>

definition args_of :: "(rarg \<Rightarrow> bytes list) \<Rightarrow> cmd \<Rightarrow> bytes list" where
  "args_of enc c = wire enc c"

definition f64_2 :: f64 where "f64_2 = 0x4000000000000000"

definition f64_3 :: f64 where "f64_3 = 0x4008000000000000"

definition f64_5 :: f64 where "f64_5 = 0x4014000000000000"

definition test_enc_documented :: "(rarg \<Rightarrow> bytes list) \<Rightarrow> bool" where
  "test_enc_documented enc \<longleftrightarrow>
     enc_documented enc
     \<and> enc (AF64 f64_2) = [''2.0''] \<and> enc (AF64 f64_3) = [''3.0''] \<and> enc (AF64 f64_5) = [''5.0'']"

definition conditional_change_args :: "(rarg \<Rightarrow> bytes list) \<Rightarrow> bool" where
  "conditional_change_args enc =
     (args_of enc (conditional_change_add_to OnlyIfExists []) = [''XX'']
      \<and> args_of enc (conditional_change_add_to OnlyIfDoesNotExist []) = [''NX''])"

definition expiry_set_args :: "(rarg \<Rightarrow> bytes list) \<Rightarrow> bool" where
  "expiry_set_args enc =
     (args_of enc (expiry_set_add_to (Seconds 60) []) = [''EX'', ''60'']
      \<and> args_of enc (expiry_set_add_to (Milliseconds 1500) []) = [''PX'', ''1500'']
      \<and> args_of enc (expiry_set_add_to KeepExisting []) = [''KEEPTTL'']
      \<and> args_of enc (expiry_set_add_to Persist []) = [''PERSIST''])"

definition expire_options_args :: "(rarg \<Rightarrow> bytes list) \<Rightarrow> bool" where
  "expire_options_args enc =
     list_all (\<lambda>(opt, expected). args_of enc (expire_options_add_to opt []) = [expected])
       [(HasNoExpiry, ''NX''), (HasExistingExpiry, ''XX''), (NewExpiryGreaterThanCurrent, ''GT''),
        (NewExpiryLessThanCurrent, ''LT'')]"

definition simple_enum_args :: bool where
  "simple_enum_args =
     (order_by_as_arg Asc = ''ASC'' \<and> order_by_as_arg Desc = ''DESC''
      \<and> flush_mode_as_arg FlushSync = ''SYNC'' \<and> flush_mode_as_arg FlushAsync = ''ASYNC'')"

definition restore_options_args :: "(rarg \<Rightarrow> bytes list) \<Rightarrow> bool" where
  "restore_options_args enc =
     (args_of enc (restore_options_add_to
        \<lparr>res_replace = False, res_absttl = False, res_idletime = None, res_frequency = None\<rparr> []) = []
      \<and> args_of enc (restore_options_add_to
        \<lparr>res_replace = True, res_absttl = True, res_idletime = Some 100, res_frequency = Some 5\<rparr> [])
          = [''REPLACE'', ''ABSTTL'', ''IDLETIME'', ''100'', ''FREQ'', ''5''])"

definition migrate_options_args :: "(rarg \<Rightarrow> bytes list) \<Rightarrow> bool" where
  "migrate_options_args enc =
     (args_of enc (migrate_options_add_to
        \<lparr>mig_copy = False, mig_replace = False, mig_password = None, mig_username = None\<rparr> []) = []
      \<and> args_of enc (migrate_options_add_to
        \<lparr>mig_copy = True, mig_replace = True, mig_password = Some ''pw'', mig_username = None\<rparr> [])
          = [''COPY'', ''REPLACE'', ''AUTH'', ''pw'']
      \<and> args_of enc (migrate_options_add_to
        \<lparr>mig_copy = False, mig_replace = False, mig_password = Some ''pw'', mig_username = Some ''user''\<rparr> [])
          = [''AUTH2'', ''user'', ''pw''])"

definition misc_option_args :: bool where
  "misc_option_args =
     (client_pause_mode_as_arg PauseAll = ''ALL'' \<and> client_pause_mode_as_arg PauseWrite = ''WRITE''
      \<and> function_restore_policy_as_arg PolicyAppend = ''APPEND''
      \<and> function_restore_policy_as_arg PolicyFlush = ''FLUSH''
      \<and> function_restore_policy_as_arg PolicyReplace = ''REPLACE''
      \<and> hash_field_conditional_change_as_arg OnlyIfAllExist = ''FXX''
      \<and> hash_field_conditional_change_as_arg OnlyIfNoneExist = ''FNX'')"

definition option_tests :: "(rarg \<Rightarrow> bytes list) \<Rightarrow> bool" where
  "option_tests enc \<longleftrightarrow> conditional_change_args enc \<and> expiry_set_args enc \<and> expire_options_args enc
     \<and> simple_enum_args \<and> restore_options_args enc \<and> migrate_options_args enc \<and> misc_option_args"

text \<open>The decimal numbers the tests expect.\<close>

lemma decimal_digit:
  "digit_char 0 = CHR ''0''" "digit_char (Suc 0) = CHR ''1''" "digit_char 1 = CHR ''1''" "digit_char 2 = CHR ''2''"
  "digit_char 3 = CHR ''3''" "digit_char 4 = CHR ''4''" "digit_char 5 = CHR ''5''" "digit_char 6 = CHR ''6''"
  "digit_char 7 = CHR ''7''" "digit_char 8 = CHR ''8''" "digit_char 9 = CHR ''9''"
  by (simp_all add: digit_char_def char_of_def bit_0)

lemmas decimal = nat_to_string.simps decimal_digit i64_to_string_def int_to_string_def

lemma option_tests_pass:
  assumes "enc_documented enc"
  shows "option_tests enc"
proof -
  have enc: "enc (AStr t) = [t]" "enc (AI64 i) = [i64_to_string i]" "enc (AU64 n) = [nat_to_string (unat n)]" for t i n
    using assms by (simp_all add: enc_documented_def)
  have "expiry_set_args enc" by (simp add: expiry_set_args_def args_of_def enc decimal)
  moreover have "restore_options_args enc"
    by (simp add: restore_options_args_def restore_options_add_to_def args_of_def enc decimal)
  moreover have "migrate_options_args enc"
    by (simp add: migrate_options_args_def migrate_options_add_to_def args_of_def enc)
  ultimately show ?thesis
    by (simp add: option_tests_def conditional_change_args_def expire_options_args_def simple_enum_args_def
        misc_option_args_def args_of_def enc)
qed

section \<open>\<open>src/routes.rs\<close>\<close>

text \<open>
  The response policies the tests name, and what they rely on of the fork: the keyword of a command is
  its first argument, \<open>GET\<close> has no policy, \<open>PING\<close> and \<open>DEL\<close> have theirs, and a key with a hash tag
  has the slot of the tag.
\<close>

datatype policy = AllSucceeded | Aggregate nat | OtherPolicy nat

definition routing_documented :: "policy routing_ext \<Rightarrow> bool" where
  "routing_documented R \<longleftrightarrow>
     (\<forall>kw c. r_command R (AStr kw # c) = Some kw) \<and> (\<forall>kw c. r_command R (AGen [kw] # c) = Some kw)
     \<and> r_policy R ''GET'' = None \<and> r_policy R ''PING'' = Some AllSucceeded
     \<and> (\<exists>op. r_policy R ''DEL'' = Some (Aggregate op))
     \<and> r_get_slot R = key_slot"

fun on_specific_node :: "policy routing_info \<Rightarrow> (u16 \<Rightarrow> slot_addr \<Rightarrow> bool) \<Rightarrow> bool" where
  "on_specific_node (SingleNode (SpecificNode slot addr)) P = P slot addr"
| "on_specific_node _ P = False"

fun on_node_by_address :: "policy routing_info \<Rightarrow> (string \<Rightarrow> u16 \<Rightarrow> bool) \<Rightarrow> bool" where
  "on_node_by_address (SingleNode (NodeByAddress host port)) P = P host port"
| "on_node_by_address _ P = False"

fun on_all_nodes :: "policy routing_info \<Rightarrow> (policy option \<Rightarrow> bool) \<Rightarrow> bool" where
  "on_all_nodes (MultiNode MultiAllNodes p) P = P p"
| "on_all_nodes _ P = False"

fun on_all_masters :: "policy routing_info \<Rightarrow> (policy option \<Rightarrow> bool) \<Rightarrow> bool" where
  "on_all_masters (MultiNode MultiAllMasters p) P = P p"
| "on_all_masters _ P = False"

fun is_aggregate :: "policy option \<Rightarrow> bool" where
  "is_aggregate (Some (Aggregate _)) = True"
| "is_aggregate _ = False"

definition random_node_maps_to_single_random :: "policy routing_ext \<Rightarrow> bool" where
  "random_node_maps_to_single_random R = (to_routing_info R RandomNode None = SingleNode Random)"

definition by_address_route_maps :: "policy routing_ext \<Rightarrow> bool" where
  "by_address_route_maps R =
     on_node_by_address (to_routing_info R (ByAddress ''node1'' 7001) None) (\<lambda>host port. host = ''node1'' \<and> port = 7001)"

definition all_nodes_without_cmd_has_no_policy :: "policy routing_ext \<Rightarrow> bool" where
  "all_nodes_without_cmd_has_no_policy R = on_all_nodes (to_routing_info R AllNodes None) (\<lambda>p. p = None)"

definition all_primaries_without_cmd_has_no_policy :: "policy routing_ext \<Rightarrow> bool" where
  "all_primaries_without_cmd_has_no_policy R = on_all_masters (to_routing_info R AllPrimaries None) (\<lambda>p. p = None)"

definition all_nodes_with_cmd_lacking_policy_has_none :: "policy routing_ext \<Rightarrow> bool" where
  "all_nodes_with_cmd_lacking_policy_has_none R =
     on_all_nodes (to_routing_info R AllNodes (Some [AStr ''GET''])) (\<lambda>p. p = None)"

definition all_nodes_with_policy_cmd_has_policy :: "policy routing_ext \<Rightarrow> bool" where
  "all_nodes_with_policy_cmd_has_policy R =
     on_all_nodes (to_routing_info R AllNodes (Some [AStr ''PING''])) (\<lambda>p. p = Some AllSucceeded)"

definition all_primaries_with_policy_cmd_has_policy :: "policy routing_ext \<Rightarrow> bool" where
  "all_primaries_with_policy_cmd_has_policy R =
     on_all_masters (to_routing_info R AllPrimaries (Some [AStr ''DEL''])) is_aggregate"

definition slot_key_route_computes_slot_and_primary :: "policy routing_ext \<Rightarrow> bool" where
  "slot_key_route_computes_slot_and_primary R =
     on_specific_node (to_routing_info R (route_slot_key ''mykey'' Primary) None)
       (\<lambda>slot addr. slot = r_get_slot R ''mykey'' \<and> addr = Master)"

definition slot_key_route_replica_maps_to_replica_required :: "policy routing_ext \<Rightarrow> bool" where
  "slot_key_route_replica_maps_to_replica_required R =
     on_specific_node (to_routing_info R (route_slot_key ''mykey'' Replica) None)
       (\<lambda>slot addr. slot = r_get_slot R ''mykey'' \<and> addr = ReplicaRequired)"

definition slot_key_hashtag_maps_to_same_slot_as_inner :: "policy routing_ext \<Rightarrow> bool" where
  "slot_key_hashtag_maps_to_same_slot_as_inner R =
     on_specific_node (to_routing_info R (route_slot_key ''{user1000}.foo'' Primary) None)
       (\<lambda>slot addr. slot = r_get_slot R ''user1000'')"

definition slot_key_different_keys_generally_differ :: "policy routing_ext \<Rightarrow> bool" where
  "slot_key_different_keys_generally_differ R = (r_get_slot R ''key-a'' \<noteq> r_get_slot R ''key-b-different'')"

definition slot_id_route_primary :: "policy routing_ext \<Rightarrow> bool" where
  "slot_id_route_primary R =
     on_specific_node (to_routing_info R (SlotId 1000 Primary) None) (\<lambda>slot addr. slot = 1000 \<and> addr = Master)"

definition slot_id_route_replica :: "policy routing_ext \<Rightarrow> bool" where
  "slot_id_route_replica R =
     on_specific_node (to_routing_info R (SlotId 42 Replica) None) (\<lambda>slot addr. slot = 42 \<and> addr = ReplicaRequired)"

definition slot_id_boundaries :: "policy routing_ext \<Rightarrow> bool" where
  "slot_id_boundaries R =
     list_all (\<lambda>s. on_specific_node (to_routing_info R (SlotId s Primary) None) (\<lambda>slot addr. slot = s)) [0, 16383]"

text \<open>A \<open>CommandExecutor\<close> that records the last command and routing it was handed.\<close>

record mock_executor =
  last_args :: "bytes list"
  last_routing :: "policy routing_info option"

definition mock_default :: mock_executor where
  "mock_default = \<lparr>last_args = [], last_routing = None\<rparr>"

definition mock_execute_command :: "(rarg \<Rightarrow> bytes list) \<Rightarrow> (mock_executor, policy) executor_fn" where
  "mock_execute_command enc c routing mock =
     (Inr VOkay, mock\<lparr>last_args := wire enc c, last_routing := routing\<rparr>)"

text \<open>\<open>unwrap\<close> of the result, then a look at the recorded routing.\<close>

definition dispatched :: "glide_error + value \<Rightarrow> mock_executor \<Rightarrow> (policy routing_info \<Rightarrow> bool) \<Rightarrow> bool" where
  "dispatched r mock P = unwrap r (\<lambda>_. expect (last_routing mock) P)"

definition custom_command_builds_expected_args :: "(rarg \<Rightarrow> bytes list) \<Rightarrow> bool" where
  "custom_command_builds_expected_args enc =
     (let (r, mock) = custom_command (mock_execute_command enc) [[''SET''], [''key''], [''value'']] mock_default in
      unwrap r (\<lambda>_. last_args mock = [''SET'', ''key'', ''value'']))"

definition all_primaries_dispatch_derives_response_policy_from_cmd ::
  "policy routing_ext \<Rightarrow> (rarg \<Rightarrow> bytes list) \<Rightarrow> bool" where
  "all_primaries_dispatch_derives_response_policy_from_cmd R enc =
     (let (r, mock) = custom_command_with_route R (mock_execute_command enc) [[''PING'']] AllPrimaries mock_default in
      dispatched r mock (\<lambda>routing. on_all_masters routing (\<lambda>p. p = Some AllSucceeded)))"

definition all_nodes_dispatch_has_no_policy_for_get :: "policy routing_ext \<Rightarrow> (rarg \<Rightarrow> bytes list) \<Rightarrow> bool" where
  "all_nodes_dispatch_has_no_policy_for_get R enc =
     (let (r, mock) = custom_command_with_route R (mock_execute_command enc) [[''GET''], [''k'']] AllNodes mock_default in
      dispatched r mock (\<lambda>routing. on_all_nodes routing (\<lambda>p. p = None)))"

definition random_node_dispatch :: "policy routing_ext \<Rightarrow> (rarg \<Rightarrow> bytes list) \<Rightarrow> bool" where
  "random_node_dispatch R enc =
     (let (r, mock) = custom_command_with_route R (mock_execute_command enc) [[''GET''], [''k'']] RandomNode mock_default in
      dispatched r mock (\<lambda>routing. routing = SingleNode Random))"

definition slot_id_dispatch_specific_node_replica :: "policy routing_ext \<Rightarrow> (rarg \<Rightarrow> bytes list) \<Rightarrow> bool" where
  "slot_id_dispatch_specific_node_replica R enc =
     (let (r, mock) = custom_command_with_route R (mock_execute_command enc) [[''GET''], [''k'']]
            (SlotId 500 Replica) mock_default in
      dispatched r mock (\<lambda>routing. on_specific_node routing (\<lambda>slot addr. slot = 500 \<and> addr = ReplicaRequired)))"

definition by_address_dispatch :: "policy routing_ext \<Rightarrow> (rarg \<Rightarrow> bytes list) \<Rightarrow> bool" where
  "by_address_dispatch R enc =
     (let (r, mock) = custom_command_with_route R (mock_execute_command enc) [[''GET''], [''k'']]
            (ByAddress ''n7'' 7007) mock_default in
      dispatched r mock (\<lambda>routing. on_node_by_address routing (\<lambda>host port. host = ''n7'' \<and> port = 7007)))"

definition route_tests :: "policy routing_ext \<Rightarrow> (rarg \<Rightarrow> bytes list) \<Rightarrow> bool" where
  "route_tests R enc \<longleftrightarrow>
     random_node_maps_to_single_random R \<and> by_address_route_maps R
     \<and> all_nodes_without_cmd_has_no_policy R \<and> all_primaries_without_cmd_has_no_policy R
     \<and> all_nodes_with_cmd_lacking_policy_has_none R \<and> all_nodes_with_policy_cmd_has_policy R
     \<and> all_primaries_with_policy_cmd_has_policy R \<and> slot_key_route_computes_slot_and_primary R
     \<and> slot_key_route_replica_maps_to_replica_required R \<and> slot_key_hashtag_maps_to_same_slot_as_inner R
     \<and> slot_key_different_keys_generally_differ R \<and> slot_id_route_primary R \<and> slot_id_route_replica R \<and> slot_id_boundaries R
     \<and> custom_command_builds_expected_args enc
     \<and> all_primaries_dispatch_derives_response_policy_from_cmd R enc
     \<and> all_nodes_dispatch_has_no_policy_for_get R enc \<and> random_node_dispatch R enc
     \<and> slot_id_dispatch_specific_node_replica R enc \<and> by_address_dispatch R enc"

lemmas route_test_defs =
  random_node_maps_to_single_random_def by_address_route_maps_def
  all_nodes_without_cmd_has_no_policy_def all_primaries_without_cmd_has_no_policy_def
  all_nodes_with_cmd_lacking_policy_has_none_def all_nodes_with_policy_cmd_has_policy_def
  all_primaries_with_policy_cmd_has_policy_def slot_key_route_computes_slot_and_primary_def
  slot_key_route_replica_maps_to_replica_required_def slot_id_route_primary_def slot_id_route_replica_def
  slot_id_boundaries_def custom_command_builds_expected_args_def
  all_primaries_dispatch_derives_response_policy_from_cmd_def all_nodes_dispatch_has_no_policy_for_get_def
  random_node_dispatch_def slot_id_dispatch_specific_node_replica_def by_address_dispatch_def

lemma route_tests_pass:
  assumes "routing_documented R" and "enc_documented enc"
  shows "route_tests R enc"
proof -
  have slot: "r_get_slot R = key_slot"
    using assms(1) by (simp add: routing_documented_def)
  have "slot_key_hashtag_maps_to_same_slot_as_inner R"
    by (simp add: slot_key_hashtag_maps_to_same_slot_as_inner_def route_slot_key_def slot key_slot_def hash_tag_def)
  moreover have "slot_key_different_keys_generally_differ R"
    by (simp add: slot_key_different_keys_generally_differ_def slot slots_of_keys)
  moreover have "r_command R (AStr kw # c) = Some kw" "r_command R (AGen [kw] # c) = Some kw" for kw c
    using assms(1) by (simp_all add: routing_documented_def)
  moreover obtain op where "r_policy R ''GET'' = None" "r_policy R ''PING'' = Some AllSucceeded"
      "r_policy R ''DEL'' = Some (Aggregate op)"
    using assms(1) by (auto simp: routing_documented_def)
  moreover have "enc (AGen xs) = xs" for xs
    using assms(2) by (simp add: enc_documented_def)
  ultimately show ?thesis
    unfolding route_tests_def route_test_defs
    by (simp add: response_policy_def route_slot_key_def custom_command_def custom_command_with_route_def
        mock_execute_command_def dispatched_def expect_def mock_default_def)
qed

section \<open>The command modules\<close>

definition encoding_and_offset_args :: bool where
  "encoding_and_offset_args =
     (bit_encoding_to_arg (Signed 8) = ''i8'' \<and> bit_encoding_to_arg (Unsigned 16) = ''u16''
      \<and> bit_field_offset_to_arg (OffsetBit 5) = ''5'' \<and> bit_field_offset_to_arg (OffsetMultiplier 3) = ''#3'')"

definition bitfield_subcommand_args :: "(rarg \<Rightarrow> bytes list) \<Rightarrow> bool" where
  "bitfield_subcommand_args enc =
     (args_of enc (bit_field_subcommand_add_to (BitGet (Unsigned 8) (OffsetBit 0)) []) = [''GET'', ''u8'', ''0'']
      \<and> args_of enc (bit_field_subcommand_add_to (BitSet (Signed 5) (OffsetMultiplier 1) 12) [])
          = [''SET'', ''i5'', ''#1'', ''12'']
      \<and> args_of enc (bit_field_subcommand_add_to (BitIncrBy (Unsigned 4) (OffsetBit 2) (- 3)) [])
          = [''INCRBY'', ''u4'', ''2'', ''-3'']
      \<and> args_of enc (bit_field_subcommand_add_to (BitOverflow Sat) []) = [''OVERFLOW'', ''SAT''])"

definition parse_bitfield_handles_nil :: "redis_ext \<Rightarrow> bool" where
  "parse_bitfield_handles_nil X = unwrap (parse_bitfield X (VArray [VInt 1, VNil])) (\<lambda>r. r = [Some 1, None])"

definition trim_options_maxlen_args :: "(rarg \<Rightarrow> bytes list) \<Rightarrow> bool" where
  "trim_options_maxlen_args enc =
     (args_of enc (trim_add_to (trim_max_len True 100 None) []) = [''MAXLEN'', ''='', ''100'']
      \<and> args_of enc (trim_add_to (trim_max_len False 100 (Some 10)) [])
          = [''MAXLEN'', ''~'', ''100'', ''LIMIT'', ''10''])"

definition trim_options_minid_args :: "(rarg \<Rightarrow> bytes list) \<Rightarrow> bool" where
  "trim_options_minid_args enc =
     (args_of enc (trim_add_to (trim_min_id False ''1526985054069-0'' None) [])
        = [''MINID'', ''~'', ''1526985054069-0''])"

definition add_options_args :: "(rarg \<Rightarrow> bytes list) \<Rightarrow> bool" where
  "add_options_args enc =
     (args_of enc (add_options_add_to
        \<lparr>add_make_stream = False, add_trim = Some (trim_max_len True 5 None)\<rparr> [])
        = [''NOMKSTREAM'', ''MAXLEN'', ''='', ''5''])"

definition read_group_options_args :: "(rarg \<Rightarrow> bytes list) \<Rightarrow> bool" where
  "read_group_options_args enc =
     (args_of enc (read_group_options_add_to \<lparr>rg_block_ms = Some 500, rg_count = Some 10, rg_no_ack = True\<rparr> [])
        = [''BLOCK'', ''500'', ''COUNT'', ''10'', ''NOACK''])"

definition claim_options_args :: "(rarg \<Rightarrow> bytes list) \<Rightarrow> bool" where
  "claim_options_args enc =
     (args_of enc (claim_options_add_to
        \<lparr>clm_idle = Some 100, clm_idle_unix_time = None, clm_retry_count = Some 3, clm_is_force = True\<rparr> [])
        = [''IDLE'', ''100'', ''RETRYCOUNT'', ''3'', ''FORCE''])"

definition f64_1 :: f64 where "f64_1 = 0x3FF0000000000000"

definition score_bound_formatting :: "redis_ext \<Rightarrow> bool" where
  "score_bound_formatting X =
     (score_bound_to_arg X ScoreNegativeInfinity = ''-inf'' \<and> score_bound_to_arg X ScorePositiveInfinity = ''+inf''
      \<and> score_bound_to_arg X (ScoreExclusive f64_1) = ''(1'')"

definition scan_type_arg_encoding :: "(redis_object_type \<Rightarrow> string) \<Rightarrow> bool" where
  "scan_type_arg_encoding shown = (to_lowercase (shown (object_type_to_redis OtZSet)) = ''zset'')"

definition geo_unit_args :: bool where
  "geo_unit_args =
     (geo_unit_as_arg Meters = ''m'' \<and> geo_unit_as_arg Kilometers = ''km'' \<and> geo_unit_as_arg Miles = ''mi''
      \<and> geo_unit_as_arg Feet = ''ft'')"

definition geosearch_shape_args :: "(rarg \<Rightarrow> bytes list) \<Rightarrow> bool" where
  "geosearch_shape_args enc =
     (args_of enc (geo_search_shape_add_to (ByRadius f64_5 Kilometers) []) = [''BYRADIUS'', ''5.0'', ''km'']
      \<and> args_of enc (geo_search_shape_add_to (ByBox f64_2 f64_3 Meters) []) = [''BYBOX'', ''2.0'', ''3.0'', ''m''])"

definition search_tail_args :: "(rarg \<Rightarrow> bytes list) \<Rightarrow> bool" where
  "search_tail_args enc =
     (args_of enc (add_search_tail (Some Asc) (Some 10) True []) = [''ASC'', ''COUNT'', ''10'', ''ANY''])"

text \<open>The integer argument is written as the fork encodes integers.\<close>

definition invocation_collects_keys_and_args :: "(string \<Rightarrow> string) \<Rightarrow> (rarg \<Rightarrow> bytes list) \<Rightarrow> bool" where
  "invocation_collects_keys_and_args sha enc =
     (let i = prepare_invoke (script_new sha ''return KEYS[1]'');
          i = invocation_arg (invocation_arg (invocation_key (invocation_key i [''k1'']) [''k2'']) [''a1'']) (enc (AI64 2))
      in inv_keys i = [''k1'', ''k2''] \<and> inv_args i = [''a1'', ''2''])"

definition sha1_matches_server_semantics :: "(string \<Rightarrow> string) \<Rightarrow> bool" where
  "sha1_matches_server_semantics sha =
     (get_hash (script_new sha ''return 1'') = ''e0e1f9fabfc9d4800c877a703b823ac0578ff8db'')"

definition command_tests ::
  "redis_ext \<Rightarrow> (rarg \<Rightarrow> bytes list) \<Rightarrow> (redis_object_type \<Rightarrow> string) \<Rightarrow> (string \<Rightarrow> string) \<Rightarrow> bool" where
  "command_tests X enc shown sha \<longleftrightarrow>
     encoding_and_offset_args \<and> bitfield_subcommand_args enc \<and> parse_bitfield_handles_nil X
     \<and> trim_options_maxlen_args enc \<and> trim_options_minid_args enc \<and> add_options_args enc
     \<and> read_group_options_args enc \<and> claim_options_args enc \<and> score_bound_formatting X
     \<and> scan_type_arg_encoding shown \<and> geo_unit_args \<and> geosearch_shape_args enc \<and> search_tail_args enc
     \<and> sha1_matches_server_semantics sha \<and> invocation_collects_keys_and_args sha enc"

text \<open>The fork prints the float 1 without a fraction, and a type by the name of its variant.\<close>

definition rendering_documented :: "redis_ext \<Rightarrow> (redis_object_type \<Rightarrow> string) \<Rightarrow> bool" where
  "rendering_documented X shown \<longleftrightarrow> x_f64_display X f64_1 = ''1'' \<and> shown RedisZSet = ''ZSet''"

text \<open>The hash of a script is its SHA-1 in hexadecimal.\<close>

definition digest_documented :: "(string \<Rightarrow> string) \<Rightarrow> bool" where
  "digest_documented sha \<longleftrightarrow> (\<forall>code. sha code = sha1 code)"

lemma option_builder_tests:
  assumes "enc_documented enc"
  shows "trim_options_maxlen_args enc" and "trim_options_minid_args enc" and "add_options_args enc"
    and "read_group_options_args enc" and "claim_options_args enc" and "search_tail_args enc"
    and "bitfield_subcommand_args enc"
proof -
  have enc: "enc (AStr t) = [t]" "enc (AI64 i) = [i64_to_string i]" for t i
    using assms by (simp_all add: enc_documented_def)
  note defs = args_of_def trim_add_to_def trim_max_len_def trim_min_id_def enc decimal
  show "trim_options_maxlen_args enc" "trim_options_minid_args enc"
    by (simp_all add: trim_options_maxlen_args_def trim_options_minid_args_def defs)
  show "add_options_args enc"
    by (simp add: add_options_args_def add_options_add_to_def defs)
  show "read_group_options_args enc" "claim_options_args enc"
    by (simp_all add: read_group_options_args_def read_group_options_add_to_def claim_options_args_def
        claim_options_add_to_def defs)
  show "search_tail_args enc"
    by (simp add: search_tail_args_def add_search_tail_def defs)
  show "bitfield_subcommand_args enc"
    by (simp add: bitfield_subcommand_args_def defs)
qed

lemma command_tests_pass:
  assumes "conversions_documented X" and "test_enc_documented enc" and "rendering_documented X shown"
    and "digest_documented sha"
  shows "command_tests X enc shown sha"
proof -
  have doc: "enc_documented enc" and floats: "enc (AF64 f64_2) = [''2.0'']" "enc (AF64 f64_3) = [''3.0'']"
      "enc (AF64 f64_5) = [''5.0'']"
    using assms(2) by (simp_all add: test_enc_documented_def)
  have enc: "enc (AStr t) = [t]" "enc (AI64 i) = [i64_to_string i]" for t i
    using doc by (simp_all add: enc_documented_def)
  have "encoding_and_offset_args" "geo_unit_args"
    by (simp_all add: encoding_and_offset_args_def geo_unit_args_def decimal)
  moreover have "parse_bitfield_handles_nil X"
    using assms(1)
    by (simp add: parse_bitfield_handles_nil_def parse_bitfield_def to_i64_def from_value_def conversions_documented_def)
  moreover have "score_bound_formatting X" "scan_type_arg_encoding shown"
    using assms(3)
    by (simp_all add: rendering_documented_def score_bound_formatting_def score_bound_to_arg_def
        scan_type_arg_encoding_def to_lowercase_def lower_char_def char_of_def bit_0)
  moreover have "geosearch_shape_args enc"
    by (simp add: geosearch_shape_args_def args_of_def enc floats)
  moreover have "invocation_collects_keys_and_args sha enc"
    by (simp add: invocation_collects_keys_and_args_def Let_def prepare_invoke_def invocation_key_def
        invocation_arg_def enc decimal)
  moreover have "sha1_matches_server_semantics sha"
    by (simp add: sha1_matches_server_semantics_def script_new_def get_hash_def
        assms(4) [unfolded digest_documented_def] sha1_return_1)
  ultimately show ?thesis
    by (simp add: command_tests_def option_builder_tests [OF doc])
qed

section \<open>\<open>src/telemetry.rs\<close>\<close>

definition exporter_constructors_and_mapping :: bool where
  "exporter_constructors_and_mapping =
     (exporter_grpc ''http://h:4317'' = Grpc ''http://h:4317''
      \<and> exporter_http ''http://h:4318'' = Http ''http://h:4318''
      \<and> exporter_file ''/tmp/sig'' = File ''/tmp/sig''
      \<and> exporter_into (exporter_grpc ''g'') = CoreGrpc ''g'')"

text \<open>\<open>init(config).expect_err(...)\<close>, which must be a configuration error.\<close>

fun rejected :: "glide_error + unit \<Rightarrow> bool" where
  "rejected (Inl err) = is_configuration_error err"
| "rejected (Inr _) = False"

definition duration_from_millis :: "u64 \<Rightarrow> duration" where
  "duration_from_millis m = \<lparr>dur_secs = m div 1000, dur_nanos = ucast (m mod 1000) * 1000000\<rparr>"

definition init_rejects_zero_flush_interval :: "('b, 'k, 'e, 'w) otel_core \<Rightarrow> 'w \<Rightarrow> bool" where
  "init_rejects_zero_flush_interval OT w =
     (let config = telemetry_build (with_trace_exporter OT
            (with_flush_interval OT (config_builder OT) (duration_from_millis 0)) (exporter_file ''/tmp/otel-zero'') (Some 1))
      in rejected (fst (init OT config w)))"

definition init_rejects_sample_percentage_over_100 :: "('b, 'k, 'e, 'w) otel_core \<Rightarrow> 'w \<Rightarrow> bool" where
  "init_rejects_sample_percentage_over_100 OT w =
     (let config = telemetry_build (with_trace_exporter OT
            (with_flush_interval OT (config_builder OT) (duration_from_millis 100))
            (exporter_file ''/tmp/otel-bad-sample'') (Some 101))
      in rejected (fst (init OT config w)))"

text \<open>
  The core refuses to initialise with an empty flush interval, and with a sample percentage above 100.
\<close>

definition telemetry_documented :: "('b, 'k, 'e, 'w) otel_core \<Rightarrow> bool" where
  "telemetry_documented OT \<longleftrightarrow>
     (\<forall>b d e p w. as_millis d = 0 \<or> (\<exists>n. p = Some n \<and> n > 100) \<longrightarrow>
        is_err (fst (oc_initialise OT (oc_build OT (oc_with_trace_exporter OT (oc_with_flush_interval OT b d) e p)) w)))"

definition telemetry_tests :: "('b, 'k, 'e, 'w) otel_core \<Rightarrow> 'w \<Rightarrow> bool" where
  "telemetry_tests OT w \<longleftrightarrow> exporter_constructors_and_mapping
     \<and> init_rejects_zero_flush_interval OT w \<and> init_rejects_sample_percentage_over_100 OT w"

lemma rejected_init:
  assumes "is_err (fst (oc_initialise OT (oc_build OT (otc_inner config)) w))"
  shows "rejected (fst (init OT config w))"
  using assms by (auto simp: init_def map_err_io_def is_err_iff split: prod.splits)

lemma telemetry_tests_pass:
  assumes "telemetry_documented OT"
  shows "telemetry_tests OT w"
proof -
  have "init_rejects_zero_flush_interval OT w"
    unfolding init_rejects_zero_flush_interval_def Let_def
    using assms
    by (intro rejected_init) (simp add: telemetry_documented_def telemetry_build_def with_trace_exporter_def
        with_flush_interval_def config_builder_def duration_from_millis_def as_millis_def)
  moreover have "init_rejects_sample_percentage_over_100 OT w"
    unfolding init_rejects_sample_percentage_over_100_def Let_def
    using assms
    by (intro rejected_init) (simp add: telemetry_documented_def telemetry_build_def with_trace_exporter_def
        with_flush_interval_def)
  ultimately show ?thesis
    by (simp add: telemetry_tests_def exporter_constructors_and_mapping_def exporter_grpc_def exporter_http_def
        exporter_file_def)
qed

end
