(* ===== verification/Config_Debug.thy ===== *)
theory Config_Debug
  imports Config
begin

text \<open>
  The derived \<open>Debug\<close> of the two client configurations (\<open>src/config/standalone.rs\<close>,
  \<open>src/config/cluster.rs\<close>) and of the types in \<open>src/config/common.rs\<close> they contain, down to the two
  hand-written renderings that redact secrets.  A derived \<open>Debug\<close> prints the name of the type and every
  field in the order of declaration, and the name of an enum variant with its contents in parentheses.

  The record \<open>debug_ext\<close> holds what the standard library renders: string literals, durations, and the
  hash map of the subscriptions, whose order it does not specify.
\<close>

record debug_ext =
  dx_str :: "string \<Rightarrow> string"
  dx_duration :: "duration \<Rightarrow> string"
  dx_channels :: "(pubsub_channel_mode \<rightharpoonup> bytes set) \<Rightarrow> string"

definition debug_list :: "('a \<Rightarrow> string) \<Rightarrow> 'a list \<Rightarrow> string" where
  "debug_list f xs =
     ''['' @ (case xs of [] \<Rightarrow> [] | y # ys \<Rightarrow> f y @ concat (map (\<lambda>z. '', '' @ f z) ys)) @ '']''"

definition debug_bool :: "bool \<Rightarrow> string" where
  "debug_bool b = (if b then ''true'' else ''false'')"

definition debug_u32 :: "u32 \<Rightarrow> string" where
  "debug_u32 n = nat_to_string (unat n)"

text \<open>A \<open>Vec<u8>\<close> prints as the list of its bytes in decimal.\<close>

definition debug_bytes :: "bytes \<Rightarrow> string" where
  "debug_bytes = debug_list (\<lambda>c. nat_to_string (of_char c))"

definition node_address_debug :: "debug_ext \<Rightarrow> node_address \<Rightarrow> string" where
  "node_address_debug S a =
     debug_struct ''NodeAddress'' [(''host'', dx_str S (na_host a)), (''port'', nat_to_string (unat (na_port a)))]"

fun tls_debug :: "tls_config \<Rightarrow> string" where
  "tls_debug NoTls = ''NoTls''"
| "tls_debug SecureTls = ''SecureTls''"
| "tls_debug InsecureTls = ''InsecureTls''"

fun protocol_debug :: "protocol_version \<Rightarrow> string" where
  "protocol_debug RESP2 = ''RESP2''"
| "protocol_debug RESP3 = ''RESP3''"

fun read_from_debug :: "debug_ext \<Rightarrow> read_from \<Rightarrow> string" where
  "read_from_debug S ReadPrimary = ''Primary''"
| "read_from_debug S PreferReplica = ''PreferReplica''"
| "read_from_debug S (AZAffinity az) = ''AZAffinity('' @ dx_str S az @ '')''"
| "read_from_debug S (AZAffinityReplicasAndPrimary az) = ''AZAffinityReplicasAndPrimary('' @ dx_str S az @ '')''"
| "read_from_debug S ReadAllNodes = ''AllNodes''"

fun periodic_checks_debug :: "periodic_checks \<Rightarrow> string" where
  "periodic_checks_debug ChecksEnabled = ''Enabled''"
| "periodic_checks_debug ChecksDisabled = ''Disabled''"
| "periodic_checks_debug (ManualInterval n) = ''ManualInterval('' @ nat_to_string (unat n) @ '')''"

definition backoff_debug :: "backoff_strategy \<Rightarrow> string" where
  "backoff_debug b =
     debug_struct ''BackoffStrategy''
       [(''num_of_retries'', debug_u32 (bo_num_of_retries b)), (''factor'', debug_u32 (bo_factor b)),
        (''exponent_base'', debug_u32 (bo_exponent_base b)),
        (''jitter_percent'', debug_option debug_u32 (bo_jitter_percent b))]"

definition subscriptions_debug :: "debug_ext \<Rightarrow> pubsub_subscriptions \<Rightarrow> string" where
  "subscriptions_debug S s = debug_struct ''PubSubSubscriptions'' [(''channels'', dx_channels S (channels s))]"

definition client_config_debug :: "debug_ext \<Rightarrow> client_config \<Rightarrow> string" where
  "client_config_debug S c =
     debug_struct ''GlideClientConfiguration''
       [(''addresses'', debug_list (node_address_debug S) (cfg_addresses c)),
        (''tls'', tls_debug (cfg_tls c)),
        (''credentials'', debug_option (credentials_debug (dx_str S)) (cfg_credentials c)),
        (''read_from'', read_from_debug S (cfg_read_from c)),
        (''request_timeout'', debug_option (dx_duration S) (cfg_request_timeout c)),
        (''connection_timeout'', debug_option (dx_duration S) (cfg_connection_timeout c)),
        (''reconnect_strategy'', debug_option backoff_debug (cfg_reconnect_strategy c)),
        (''database_id'', i64_to_string (cfg_database_id c)),
        (''client_name'', debug_option (dx_str S) (cfg_client_name c)),
        (''protocol'', protocol_debug (cfg_protocol c)),
        (''inflight_requests_limit'', debug_option debug_u32 (cfg_inflight_requests_limit c)),
        (''lazy_connect'', debug_bool (cfg_lazy_connect c)),
        (''pubsub_subscriptions'', debug_option (subscriptions_debug S) (cfg_pubsub_subscriptions c)),
        (''force_pubsub_channel'', debug_bool (cfg_force_pubsub_channel c)),
        (''root_certs'', debug_list debug_bytes (cfg_root_certs c)),
        (''client_identity'', debug_option (client_identity_debug (dx_str S)) (cfg_client_identity c))]"

definition cluster_config_debug :: "debug_ext \<Rightarrow> cluster_config \<Rightarrow> string" where
  "cluster_config_debug S c =
     debug_struct ''GlideClusterClientConfiguration''
       [(''addresses'', debug_list (node_address_debug S) (cfg_addresses c)),
        (''tls'', tls_debug (cfg_tls c)),
        (''credentials'', debug_option (credentials_debug (dx_str S)) (cfg_credentials c)),
        (''read_from'', read_from_debug S (cfg_read_from c)),
        (''request_timeout'', debug_option (dx_duration S) (cfg_request_timeout c)),
        (''connection_timeout'', debug_option (dx_duration S) (cfg_connection_timeout c)),
        (''reconnect_strategy'', debug_option backoff_debug (cfg_reconnect_strategy c)),
        (''client_name'', debug_option (dx_str S) (cfg_client_name c)),
        (''protocol'', protocol_debug (cfg_protocol c)),
        (''periodic_checks'', periodic_checks_debug (cfg_periodic_checks c)),
        (''inflight_requests_limit'', debug_option debug_u32 (cfg_inflight_requests_limit c)),
        (''lazy_connect'', debug_bool (cfg_lazy_connect c)),
        (''pubsub_subscriptions'', debug_option (subscriptions_debug S) (cfg_pubsub_subscriptions c)),
        (''force_pubsub_channel'', debug_bool (cfg_force_pubsub_channel c)),
        (''root_certs'', debug_list debug_bytes (cfg_root_certs c)),
        (''client_identity'', debug_option (client_identity_debug (dx_str S)) (cfg_client_identity c))]"

section \<open>Secrets\<close>

text \<open>A configuration with its secrets blanked: the password and the private key, but not their presence.\<close>

definition blank_credentials :: "server_credentials \<Rightarrow> server_credentials" where
  "blank_credentials s = s\<lparr>sc_password := map_option (\<lambda>_. []) (sc_password s)\<rparr>"

definition blank_identity :: "client_identity \<Rightarrow> client_identity" where
  "blank_identity i = i\<lparr>id_key_pem := []\<rparr>"

definition blank_secrets :: "'z common_config_scheme \<Rightarrow> 'z common_config_scheme" where
  "blank_secrets c =
     c\<lparr>cfg_credentials := map_option blank_credentials (cfg_credentials c),
       cfg_client_identity := map_option blank_identity (cfg_client_identity c)\<rparr>"

lemma debug_option_map: "debug_option f (map_option g x) = debug_option (\<lambda>y. f (g y)) x"
  by (cases x) (simp_all add: debug_option_def)

lemma credentials_debug_blank [simp]: "credentials_debug esc (blank_credentials s) = credentials_debug esc s"
  by (simp add: credentials_debug_def blank_credentials_def debug_option_map)

lemma client_identity_debug_blank [simp]: "client_identity_debug esc (blank_identity i) = client_identity_debug esc i"
  by (simp add: client_identity_debug_def blank_identity_def)

text \<open>
  C28: no secret reaches the logs.  The \<open>Debug\<close> output of a whole configuration, standalone or cluster,
  with everything it contains, is that of the configuration with the password and the private key
  blanked: it does not depend on either secret, whatever the rest of the configuration is, so two
  configurations that differ only in them print the same.
\<close>

theorem config_debug_redacts:
  "client_config_debug S c = client_config_debug S (blank_secrets c)
   \<and> cluster_config_debug S d = cluster_config_debug S (blank_secrets d)"
  by (simp add: client_config_debug_def cluster_config_debug_def blank_secrets_def debug_option_map)

text \<open>Everything else does show: each field is rendered inside the output.\<close>

lemma sublist_within: "sublist v xs \<Longrightarrow> sublist v (ps @ xs @ ss)"
  by (meson sublist_appendI sublist_order.order_trans)

lemma sublist_concat_map: "x \<in> set xs \<Longrightarrow> sublist v (f x) \<Longrightarrow> sublist v (concat (map f xs))"
  by (auto dest!: split_list intro: sublist_within)

lemma debug_struct_field:
  assumes "(n, v) \<in> set flds"
  shows "sublist v (debug_struct name flds)"
proof -
  obtain f fs where flds: "flds = f # fs" using assms by (cases flds) auto
  define tail where "tail = concat (map (\<lambda>g. '', '' @ fst g @ '': '' @ snd g) fs)"
  have "sublist v (snd f @ tail)"
  proof (cases "f = (n, v)")
    case False
    with assms flds have "(n, v) \<in> set fs" by auto
    then have "sublist v tail"
      unfolding tail_def
      by (rule sublist_concat_map) (use sublist_append_leftI [of v "'', '' @ n @ '': ''"] in simp)
    then show ?thesis using sublist_within [of v tail "snd f" "[]"] by simp
  qed simp
  from sublist_within [OF this, of "name @ '' { '' @ fst f @ '': ''" "'' }''"] show ?thesis
    by (simp add: debug_struct_def flds tail_def)
qed

lemma debug_option_Some: "sublist (f v) (debug_option f (Some v))"
  using sublist_appendI [of "f v" "''Some(''" "'')''"] by (simp add: debug_option_def)

lemma credentials_debug_shows_username:
  assumes "sc_username s = Some u"
  shows "sublist (esc u) (credentials_debug esc s)"
  unfolding credentials_debug_def assms
  by (rule sublist_order.order_trans [OF debug_option_Some debug_struct_field [of "''username''"]]) simp

lemma config_debug_shows_username:
  assumes "cfg_credentials c = Some s" and "sc_username s = Some u"
  shows "sublist (dx_str S u) (client_config_debug S c)"
proof -
  have "sublist (debug_option (credentials_debug (dx_str S)) (Some s)) (client_config_debug S c)"
    unfolding client_config_debug_def by (rule debug_struct_field [of "''credentials''"]) (simp add: assms(1))
  with credentials_debug_shows_username [OF assms(2)] debug_option_Some show ?thesis
    by (meson sublist_order.order_trans)
qed

end
