(* ===== verification/Push_Tasks.thy ===== *)
theory Push_Tasks
  imports Push
begin

text \<open>
  Concurrent calls of \<open>get_pubsub_message\<close> and \<open>try_get_pubsub_message\<close> on the clones of one client
  (\<open>src/client/mod.rs\<close>), with the lock of the receiver written out.

  A call only makes a future, which does nothing before it is polled.  Its first poll runs to
  \<open>rx.lock().await\<close> on a \<open>tokio::Mutex\<close>, which is fair: the future queues for the lock at that poll and the one
  at the head of the queue owns it.  It keeps the lock until it returns or is dropped;
  in particular a \<open>get_pubsub_message\<close> that waits for a message keeps it while it waits.  The events are
  chosen by the environment: the core sends or closes, a call is made (\<open>Call\<close>), its future is polled (\<open>Resume\<close>) or
  dropped (\<open>Cancel\<close>).

  The machine refines the protocol \<open>ps_step\<close>, which only says that the lock excludes.
\<close>

datatype call_kind = Get | TryGet

record pt_state =
  pt_store :: "push_channel list"
  pt_created :: "(nat \<times> call_kind) list"
  pt_queue :: "(nat \<times> call_kind) list"
  pt_returned :: "(nat \<times> pubsub_message option result) list"
  pt_sent :: "push_info list"

datatype pt_event = Send push_info | Close | Call nat call_kind | Resume nat | Cancel nat

definition pt_return :: "nat \<Rightarrow> pubsub_message option result \<Rightarrow> push_channel list \<Rightarrow> pt_state \<Rightarrow> pt_state" where
  "pt_return i r st s =
     s\<lparr>pt_store := st, pt_queue := tl (pt_queue s), pt_returned := pt_returned s @ [(i, r)]\<rparr>"

definition pt_enter :: "nat \<Rightarrow> pt_state \<Rightarrow> pt_state" where
  "pt_enter i s =
     (case find (\<lambda>c. fst c = i) (pt_created s) of
        None \<Rightarrow> s
      | Some c \<Rightarrow> s\<lparr>pt_created := remove1 c (pt_created s), pt_queue := pt_queue s @ [c]\<rparr>)"

definition pt_poll :: "redis_ext \<Rightarrow> push_rx \<Rightarrow> nat \<Rightarrow> pt_state \<Rightarrow> pt_state" where
  "pt_poll X rx i s =
     (case pt_queue s of
        [] \<Rightarrow> s
      | (j, kind) # _ \<Rightarrow>
          if i \<noteq> j then s
          else case kind of
                 Get \<Rightarrow>
                   (case recv_pubsub_message X (Some rx) (pt_store s) of
                      (Pending, st) \<Rightarrow> s\<lparr>pt_store := st\<rparr>
                    | (Ready r, st) \<Rightarrow> pt_return i (bind_res r (\<lambda>m. Inr (Some m))) st s)
               | TryGet \<Rightarrow>
                   (case try_recv_pubsub_message X (Some rx) (pt_store s) of (r, st) \<Rightarrow> pt_return i r st s))"

fun pt_apply :: "redis_ext \<Rightarrow> push_rx \<Rightarrow> pt_event \<Rightarrow> pt_state \<Rightarrow> pt_state" where
  "pt_apply X rx (Send p) s =
     (if ch_closed (pt_store s ! rx) then s
      else s\<lparr>pt_store := (pt_store s)[rx := (pt_store s ! rx)\<lparr>ch_queue := ch_queue (pt_store s ! rx) @ [p]\<rparr>],
             pt_sent := pt_sent s @ [p]\<rparr>)"
| "pt_apply X rx Close s = s\<lparr>pt_store := (pt_store s)[rx := (pt_store s ! rx)\<lparr>ch_closed := True\<rparr>]\<rparr>"
| "pt_apply X rx (Call i kind) s = s\<lparr>pt_created := pt_created s @ [(i, kind)]\<rparr>"
| "pt_apply X rx (Resume i) s = pt_poll X rx i (pt_enter i s)"
| "pt_apply X rx (Cancel i) s =
     s\<lparr>pt_created := filter (\<lambda>c. fst c \<noteq> i) (pt_created s), pt_queue := filter (\<lambda>c. fst c \<noteq> i) (pt_queue s)\<rparr>"

definition pt_run :: "redis_ext \<Rightarrow> push_rx \<Rightarrow> pt_event list \<Rightarrow> pt_state \<Rightarrow> pt_state" where
  "pt_run X rx events = fold (pt_apply X rx) events"

definition pt_init :: "push_channel list \<Rightarrow> pt_state" where
  "pt_init store =
     \<lparr>pt_store = snd (make_push_channel True store), pt_created = [], pt_queue = [], pt_returned = [], pt_sent = []\<rparr>"

lemma pt_run_simps [simp]:
  "pt_run X rx [] s = s" "pt_run X rx (e # es) s = pt_run X rx es (pt_apply X rx e s)"
  by (simp_all add: pt_run_def)

lemma pt_run_append: "pt_run X rx (es @ fs) s = pt_run X rx fs (pt_run X rx es s)"
  by (simp add: pt_run_def)

section \<open>Refinement of the delivery protocol\<close>

definition deliveries :: "(nat \<times> pubsub_message option result) list \<Rightarrow> (nat \<times> pubsub_message) list" where
  "deliveries rs = List.map_filter (\<lambda>(i, r). case r of Inr (Some m) \<Rightarrow> Some (i, m) | _ \<Rightarrow> None) rs"

lemma deliveries_append: "deliveries (rs @ [(i, r)]) =
    deliveries rs @ (case r of Inr (Some m) \<Rightarrow> [(i, m)] | _ \<Rightarrow> [])"
  by (induction rs) (auto simp: deliveries_def List.map_filter_simps split: sum.splits option.splits)

text \<open>
  A state of the machine and a state of the protocol that correspond: the protocol's holder, if any, is
  the \<open>get_pubsub_message\<close> at the head of the lock's queue.
\<close>

definition pt_rel :: "pt_state \<Rightarrow> ps_state \<Rightarrow> bool" where
  "pt_rel s a \<longleftrightarrow>
     ps_store a = pt_store s \<and> ps_sent a = pt_sent s \<and> ps_delivered a = deliveries (pt_returned s)
     \<and> (case ps_holder a of None \<Rightarrow> True | Some i \<Rightarrow> \<exists>rest. pt_queue s = (i, Get) # rest)"

lemma deliver_ps: "deliver i r s = s\<lparr>ps_delivered := ps_delivered s @ (case r of Inr (Some m) \<Rightarrow> [(i, m)] | _ \<Rightarrow> [])\<rparr>"
  by (simp add: deliver_def split: sum.split option.split)

lemma pt_rel_return:
  assumes "pt_rel s a"
  shows "pt_rel (pt_return i r st s) (deliver i r (a\<lparr>ps_store := st, ps_holder := None\<rparr>))"
  using assms by (simp add: pt_rel_def pt_return_def deliver_ps deliveries_append)

lemma pt_enter_simps [simp]:
  "pt_store (pt_enter i s) = pt_store s" "pt_returned (pt_enter i s) = pt_returned s" "pt_sent (pt_enter i s) = pt_sent s"
  by (simp_all add: pt_enter_def split: option.split)

lemma pt_queue_enter: "\<exists>new. pt_queue (pt_enter i s) = pt_queue s @ new"
  by (simp add: pt_enter_def split: option.split)

lemma pt_rel_enter: "pt_rel s a \<Longrightarrow> pt_rel (pt_enter i s) a"
  using pt_queue_enter [of i s] by (auto simp: pt_rel_def split: option.splits)

lemma pt_poll_refines:
  assumes "pt_rel s a"
  shows "\<exists>a'. (ps_step X rx)\<^sup>*\<^sup>* a a' \<and> pt_rel (pt_poll X rx i s) a'"
proof (cases "\<exists>kind rest. pt_queue s = (i, kind) # rest")
  case False
  then have "pt_poll X rx i s = s" by (auto simp: pt_poll_def split: list.split)
  then show ?thesis using assms by auto
next
  case True
  then obtain kind rest where q: "pt_queue s = (i, kind) # rest" by blast
  have st: "ps_store a = pt_store s" using assms by (simp add: pt_rel_def)
  show ?thesis
  proof (cases kind)
    case Get
    have h: "ps_holder a = None \<or> ps_holder a = Some i"
      using assms q by (auto simp: pt_rel_def split: option.splits)
    obtain r st' where recv: "recv_pubsub_message X (Some rx) (pt_store s) = (r, st')" by fastforce
    show ?thesis
    proof (cases r)
      case Pending
      have "ps_step X rx a (a\<lparr>ps_store := st', ps_holder := Some i\<rparr>)"
        using ps_step.get_pending [OF h] recv Pending st by simp
      moreover have "pt_rel (pt_poll X rx i s) (a\<lparr>ps_store := st', ps_holder := Some i\<rparr>)"
        using assms q recv Pending Get by (simp add: pt_rel_def pt_poll_def)
      ultimately show ?thesis by blast
    next
      case (Ready res)
      let ?a = "deliver i (bind_res res (\<lambda>m. Inr (Some m))) (a\<lparr>ps_store := st', ps_holder := None\<rparr>)"
      have "ps_step X rx a ?a" using ps_step.get_ready [OF h] recv Ready st by simp
      moreover have "pt_rel (pt_poll X rx i s) ?a"
        using pt_rel_return [OF assms] q recv Ready Get by (simp add: pt_poll_def)
      ultimately show ?thesis by blast
    qed
  next
    case TryGet
    have h: "ps_holder a = None" using assms q TryGet by (auto simp: pt_rel_def split: option.splits)
    obtain r st' where recv: "try_recv_pubsub_message X (Some rx) (pt_store s) = (r, st')" by fastforce
    have "ps_step X rx a (deliver i r (a\<lparr>ps_store := st'\<rparr>))" using ps_step.try_get [OF h] recv st by simp
    moreover have "a\<lparr>ps_store := st', ps_holder := None\<rparr> = a\<lparr>ps_store := st'\<rparr>" using h by (cases a) simp
    then have "pt_rel (pt_poll X rx i s) (deliver i r (a\<lparr>ps_store := st'\<rparr>))"
      using pt_rel_return [OF assms, of i r st'] q recv TryGet by (simp add: pt_poll_def)
    ultimately show ?thesis by blast
  qed
qed

lemma pt_event_refines:
  assumes "pt_rel s a"
  shows "\<exists>a'. (ps_step X rx)\<^sup>*\<^sup>* a a' \<and> pt_rel (pt_apply X rx ev s) a'"
proof (cases ev)
  case (Send p)
  show ?thesis
  proof (cases "ch_closed (ps_store a ! rx)")
    case True
    then show ?thesis using assms Send by (auto simp: pt_rel_def intro!: exI [of _ a])
  next
    case False
    note step = ps_step.send [of a rx X p, OF False]
    show ?thesis
      by (rule exI, rule conjI, rule r_into_rtranclp, rule step)
        (use assms Send False in \<open>auto simp: pt_rel_def split: option.splits\<close>)
  qed
next
  case Close
  show ?thesis
    by (rule exI, rule conjI, rule r_into_rtranclp, rule ps_step.close [of X rx a])
      (use assms Close in \<open>auto simp: pt_rel_def split: option.splits\<close>)
next
  case (Call i kind)
  then show ?thesis using assms by (auto simp: pt_rel_def split: option.splits intro!: exI [of _ a])
next
  case (Resume i)
  then show ?thesis using pt_poll_refines [OF pt_rel_enter [OF assms]] by simp
next
  case (Cancel i)
  show ?thesis
  proof (cases "ps_holder a = Some i")
    case True
    have "ps_step X rx a (a\<lparr>ps_holder := None\<rparr>)" by (rule ps_step.cancel [OF True])
    moreover have "pt_rel (pt_apply X rx ev s) (a\<lparr>ps_holder := None\<rparr>)"
      using assms Cancel by (simp add: pt_rel_def)
    ultimately show ?thesis by blast
  next
    case False
    then show ?thesis using assms Cancel by (auto simp: pt_rel_def split: option.splits intro!: exI [of _ a])
  qed
qed

lemma ps_reachable_steps:
  "(ps_step X rx)\<^sup>*\<^sup>* a a' \<Longrightarrow> ps_reachable X store rx a \<Longrightarrow> ps_reachable X store rx a'"
  by (induction rule: rtranclp_induct) (auto intro: ps_reachable.step)

lemma pt_run_refines:
  assumes "pt_rel s a" "ps_reachable X store rx a"
  shows "\<exists>a'. ps_reachable X store rx a' \<and> pt_rel (pt_run X rx events s) a'"
  using assms
proof (induction events arbitrary: s a)
  case (Cons ev events)
  then obtain a' where "(ps_step X rx)\<^sup>*\<^sup>* a a'" "pt_rel (pt_apply X rx ev s) a'"
    using pt_event_refines by blast
  then show ?case using Cons ps_reachable_steps by (metis pt_run_simps(2))
qed auto

lemma lock_refines:
  "\<exists>a. ps_reachable X store (length store) a \<and> pt_rel (pt_run X (length store) events (pt_init store)) a"
proof -
  let ?a = "\<lparr>ps_store = pt_store (pt_init store), ps_holder = None, ps_sent = [], ps_delivered = []\<rparr>"
  have "ps_reachable X store (length store) ?a"
    by (rule ps_reachable.init) (simp add: make_push_channel_def pt_init_def)
  moreover have "pt_rel (pt_init store) ?a"
    by (simp add: pt_rel_def pt_init_def deliveries_def List.map_filter_simps)
  ultimately show ?thesis using pt_run_refines by blast
qed

lemma lock_delivers:
  assumes "s = pt_run X (length store) events (pt_init store)"
  shows "map snd (deliveries (pt_returned s)) @ messages X (ch_queue (pt_store s ! length store)) = messages X (pt_sent s)"
  using lock_refines [of X store events] ps_reachable_inv unfolding assms by (fastforce simp: ps_inv_def pt_rel_def)

text \<open>
  C2: the lock implements the delivery protocol.  Every state that calls, polls, drops, sends and closes
  can lead to, in any order, corresponds to a reachable state of the protocol with the same channels, the
  same pushes sent and the same deliveries, so that concurrent callers neither lose nor duplicate nor
  reorder a message: those delivered so far followed by those in the queue are those sent.
\<close>

theorem lock_refines_protocol:
  "\<exists>a. ps_reachable X store (length store) a \<and> pt_rel (pt_run X (length store) events (pt_init store)) a
     \<and> map snd (deliveries (pt_returned (pt_run X (length store) events (pt_init store))))
         @ messages X (ch_queue (pt_store (pt_run X (length store) events (pt_init store)) ! length store))
       = messages X (pt_sent (pt_run X (length store) events (pt_init store)))"
  using lock_refines [of X store events] lock_delivers [OF refl, of X store events] by blast

section \<open>Calls are answered in order\<close>

text \<open>The calls whose futures are polled, in the order of their first polls; \<open>new\<close> are the futures not polled yet.\<close>

fun entering :: "(nat \<times> call_kind) list \<Rightarrow> pt_event list \<Rightarrow> (nat \<times> call_kind) list" where
  "entering new [] = []"
| "entering new (Call i kind # events) = entering (new @ [(i, kind)]) events"
| "entering new (Resume i # events) =
     (case find (\<lambda>c. fst c = i) new of
        None \<Rightarrow> entering new events
      | Some c \<Rightarrow> c # entering (remove1 c new) events)"
| "entering new (Cancel i # events) = entering (filter (\<lambda>c. fst c \<noteq> i) new) events"
| "entering new (Send p # events) = entering new events"
| "entering new (Close # events) = entering new events"

definition pt_ids :: "pt_state \<Rightarrow> nat list" where
  "pt_ids s = map fst (pt_returned s) @ map fst (pt_queue s)"

lemma pt_poll_frame [simp]: "pt_ids (pt_poll X rx i s) = pt_ids s" "pt_created (pt_poll X rx i s) = pt_created s"
  by (auto simp: pt_poll_def pt_ids_def pt_return_def split: list.split call_kind.split prod.split poll.split)

text \<open>One event: what it adds to the queue, and that only a drop takes something away.\<close>

lemma pt_ids_event:
  "map fst (entering (pt_created s) (ev # events))
     = map fst (entering (pt_created s) [ev]) @ map fst (entering (pt_created (pt_apply X rx ev s)) events)"
  "subseq (pt_ids (pt_apply X rx ev s)) (pt_ids s @ map fst (entering (pt_created s) [ev]))"
  "(\<And>i. ev = Cancel i \<Longrightarrow> \<not> kept i) \<Longrightarrow>
     filter kept (pt_ids (pt_apply X rx ev s)) = filter kept (pt_ids s @ map fst (entering (pt_created s) [ev]))"
proof -
  show "map fst (entering (pt_created s) (ev # events))
     = map fst (entering (pt_created s) [ev]) @ map fst (entering (pt_created (pt_apply X rx ev s)) events)"
    by (cases ev) (simp_all add: pt_enter_def split: option.split)
  show "subseq (pt_ids (pt_apply X rx ev s)) (pt_ids s @ map fst (entering (pt_created s) [ev]))"
  proof (cases ev)
    case (Cancel i)
    have "subseq (map fst (filter (\<lambda>c. fst c \<noteq> i) (pt_queue s))) (map fst (pt_queue s))" by (intro subseq_map) simp
    from list_emb_append_mono [OF subseq_order.refl this] show ?thesis using Cancel by (simp add: pt_ids_def)
  qed (auto simp: pt_ids_def pt_enter_def pt_poll_frame(1) [unfolded pt_ids_def] split: option.split)
  show "filter kept (pt_ids (pt_apply X rx ev s)) = filter kept (pt_ids s @ map fst (entering (pt_created s) [ev]))"
    if "\<And>i. ev = Cancel i \<Longrightarrow> \<not> kept i"
  proof (cases ev)
    case (Cancel i)
    then have "filter kept (map fst (filter (\<lambda>c. fst c \<noteq> i) q)) = filter kept (map fst q)" for q :: "(nat \<times> call_kind) list"
      using that by (induction q) auto
    then show ?thesis using Cancel by (simp add: pt_ids_def)
  qed (auto simp: pt_ids_def pt_enter_def pt_poll_frame(1) [unfolded pt_ids_def] split: option.split)
qed

lemma pt_ids_run:
  "subseq (pt_ids (pt_run X rx events s)) (pt_ids s @ map fst (entering (pt_created s) events))"
  "(\<And>i. Cancel i \<in> set events \<Longrightarrow> \<not> kept i) \<Longrightarrow>
     filter kept (pt_ids (pt_run X rx events s)) = filter kept (pt_ids s @ map fst (entering (pt_created s) events))"
proof (induction events arbitrary: s)
  case (Cons ev events)
  note split = pt_ids_event(1) [of _ ev events X rx]
  case (1 s)
  let ?s = "pt_apply X rx ev s" and ?new = "map fst (entering (pt_created s) [ev])"
  have "subseq (pt_ids ?s @ map fst (entering (pt_created ?s) events))
      ((pt_ids s @ ?new) @ map fst (entering (pt_created ?s) events))"
    by (rule list_emb_append_mono [OF pt_ids_event(2) subseq_order.refl])
  then show ?case using Cons(1) [of ?s] subseq_order.trans unfolding split pt_run_simps append_assoc by blast
  case (2 s)
  let ?s = "pt_apply X rx ev s" and ?new = "map fst (entering (pt_created s) [ev])"
  from 2 have "filter kept (pt_ids ?s) = filter kept (pt_ids s @ ?new)" by (intro pt_ids_event(3)) auto
  then show ?case using Cons(2) [of ?s] 2 unfolding split pt_run_simps by simp
qed simp_all

text \<open>On an open channel where every call is \<open>get_pubsub_message\<close>, every answer is a message.\<close>

definition all_get :: "pt_state \<Rightarrow> push_rx \<Rightarrow> bool" where
  "all_get s rx \<longleftrightarrow> rx < length (pt_store s) \<and> \<not> ch_closed (pt_store s ! rx) \<and> list_all (\<lambda>c. snd c = Get) (pt_created s @ pt_queue s)
     \<and> pt_returned s = map (\<lambda>(i, m). (i, Inr (Some m))) (deliveries (pt_returned s))"

lemma all_get_poll:
  assumes "all_get s rx"
  shows "all_get (pt_poll X rx i s) rx"
proof -
  have "recv_pubsub_message X (Some rx) (pt_store s) = (Ready r, st) \<Longrightarrow> \<exists>m. r = Inr m" for r st
    using assms by (auto simp: all_get_def recv_pubsub_message_Some recv_loop_result split: list.splits)
  then show ?thesis
    using assms
    by (cases "pt_queue s")
      (auto simp: all_get_def pt_poll_def pt_return_def recv_pubsub_message_Some deliveries_append
        split: prod.splits poll.splits call_kind.splits)
qed

lemma all_get_enter:
  assumes "all_get s rx"
  shows "all_get (pt_enter i s) rx"
proof (cases "find (\<lambda>c. fst c = i) (pt_created s)")
  case (Some c)
  then have "c \<in> set (pt_created s)" by (auto simp: find_Some_iff)
  moreover have "set (remove1 c (pt_created s)) \<subseteq> set (pt_created s)" by (rule set_remove1_subset)
  ultimately show ?thesis
    using assms Some by (simp add: all_get_def pt_enter_def list_all_iff) blast
qed (use assms in \<open>simp add: pt_enter_def\<close>)

lemma all_get_event:
  assumes "all_get s rx" "ev \<noteq> Close" "\<forall>i. ev \<noteq> Call i TryGet"
  shows "all_get (pt_apply X rx ev s) rx"
proof (cases ev)
  case (Resume i)
  then show ?thesis using all_get_poll [OF all_get_enter [OF assms(1)]] by simp
next
  case (Call i kind)
  then show ?thesis using assms by (cases kind) (auto simp: all_get_def)
qed (use assms in \<open>auto simp: all_get_def list_all_iff\<close>)

lemma all_get_run:
  "all_get s rx \<Longrightarrow> Close \<notin> set events \<Longrightarrow> (\<forall>i. Call i TryGet \<notin> set events) \<Longrightarrow> all_get (pt_run X rx events s) rx"
proof (induction events arbitrary: s)
  case (Cons ev events)
  then have "all_get (pt_apply X rx ev s) rx" by (intro all_get_event) auto
  with Cons show ?case by simp
qed simp

lemma pt_init_simps:
  "pt_ids (pt_init store) = []" "pt_created (pt_init store) = []" "all_get (pt_init store) (length store)"
  by (simp_all add: pt_ids_def all_get_def pt_init_def make_push_channel_def deliveries_def nth_append List.map_filter_simps)

text \<open>
  C5: calls are answered in the order of their first polls.  In every run the calls that have returned, in the
  order of their answers, followed by those still waiting are calls in the order in which they were first polled, and every
  polled call that was not dropped is among them.  The \<open>n\<close>-th call that is answered with a message gets the \<open>n\<close>-th message sent.
  While the channel is open and no call is \<open>try_get_pubsub_message\<close>, every answer is a message, so that the \<open>n\<close>-th answer
  is the \<open>n\<close>-th message, dropped calls or not.
\<close>

theorem calls_in_order:
  assumes "s = pt_run X (length store) events (pt_init store)"
  shows "subseq (map fst (pt_returned s) @ map fst (pt_queue s)) (map fst (entering [] events))
    \<and> filter (\<lambda>i. Cancel i \<notin> set events) (map fst (pt_returned s) @ map fst (pt_queue s))
        = filter (\<lambda>i. Cancel i \<notin> set events) (map fst (entering [] events))
    \<and> map snd (deliveries (pt_returned s)) = take (length (deliveries (pt_returned s))) (messages X (pt_sent s))
    \<and> (Close \<notin> set events \<longrightarrow> (\<forall>i. Call i TryGet \<notin> set events) \<longrightarrow>
        map snd (pt_returned s) = map (\<lambda>m. Inr (Some m)) (take (length (pt_returned s)) (messages X (pt_sent s))))"
proof (intro conjI impI)
  show "subseq (map fst (pt_returned s) @ map fst (pt_queue s)) (map fst (entering [] events))"
    using pt_ids_run(1) [of X "length store" events "pt_init store"]
    unfolding assms pt_ids_def [symmetric] by (simp add: pt_init_simps)
  show "filter (\<lambda>i. Cancel i \<notin> set events) (map fst (pt_returned s) @ map fst (pt_queue s))
      = filter (\<lambda>i. Cancel i \<notin> set events) (map fst (entering [] events))"
    using pt_ids_run(2) [of events "\<lambda>i. Cancel i \<notin> set events" X "length store" "pt_init store"]
    unfolding assms pt_ids_def [symmetric] by (simp add: pt_init_simps)
  let ?d = "deliveries (pt_returned s)"
  show snds: "map snd ?d = take (length ?d) (messages X (pt_sent s))"
    using lock_delivers [OF assms] by (metis append_eq_conv_conj length_map)
  assume "Close \<notin> set events" "\<forall>i. Call i TryGet \<notin> set events"
  then have "all_get s (length store)" unfolding assms by (intro all_get_run pt_init_simps(3))
  then have ret: "pt_returned s = map (\<lambda>(i, m). (i, Inr (Some m))) ?d" by (simp add: all_get_def)
  then have len: "length ?d = length (pt_returned s)" by (metis length_map)
  have "map snd (pt_returned s) = map (\<lambda>m. Inr (Some m)) (map snd ?d)" by (subst ret) (simp add: case_prod_beta)
  then show "map snd (pt_returned s) = map (\<lambda>m. Inr (Some m)) (take (length (pt_returned s)) (messages X (pt_sent s)))"
    unfolding snds len .
qed

text \<open>An example: three calls of which the second is dropped, a push that is no message and two messages.\<close>

definition sample_push :: "string \<Rightarrow> push_info" where
  "sample_push payload = \<lparr>pu_kind = KMessage, pu_data = [VBulkString ''c'', VBulkString payload]\<rparr>"

definition sample_message :: "string \<Rightarrow> pubsub_message" where
  "sample_message payload = \<lparr>pm_kind = Message, pm_channel = ''c'', pm_payload = payload, pm_pattern = None\<rparr>"

lemma sample_push_message [simp]: "push_to_message sample_ext (sample_push payload) = Some (sample_message payload)"
  by (simp add: sample_push_def sample_message_def push_to_message_def value_to_bytes_def)

definition sample_calls :: "pt_event list" where
  "sample_calls =
     [Call 7 Get, Call 5 Get, Call 3 Get, Resume 3, Resume 5, Resume 7, Send \<lparr>pu_kind = KOtherPush 0, pu_data = []\<rparr>, Resume 3,
      Send (sample_push ''a''), Send (sample_push ''b''), Resume 7, Resume 3, Cancel 5, Resume 7]"

theorem calls_in_order_witness:
  "\<exists>s. s = pt_run sample_ext 0 sample_calls (pt_init [])
     \<and> map snd (pt_returned s) = map (\<lambda>m. Inr (Some m)) (take (length (pt_returned s)) (messages sample_ext (pt_sent s)))
     \<and> map fst (pt_returned s) = [3, 7]"
proof -
  define s where "s = pt_run sample_ext 0 sample_calls (pt_init [])"
  have ret: "map fst (pt_returned s) = [3, 7]"
    by (simp add: s_def sample_calls_def pt_init_def make_push_channel_def pt_poll_def pt_return_def pt_enter_def
        recv_pubsub_message_def pubsub_rx_def push_to_message_def value_to_bytes_def sample_push_def)
  have "Close \<notin> set sample_calls" "\<forall>i. Call i TryGet \<notin> set sample_calls" by (simp_all add: sample_calls_def)
  then have "map snd (pt_returned s) = map (\<lambda>m. Inr (Some m)) (take (length (pt_returned s)) (messages sample_ext (pt_sent s)))"
    using calls_in_order [of s sample_ext "[]" sample_calls] s_def by simp
  then show ?thesis by (intro exI [of _ s] conjI s_def ret)
qed

section \<open>Waiting calls are served\<close>

lemma poll_head:
  assumes "pt_queue s = (i, Get) # rest" "rx < length (pt_store s)"
    and "messages X (ch_queue (pt_store s ! rx)) = m # ms"
  shows "pt_queue (pt_poll X rx i s) = rest" "pt_returned (pt_poll X rx i s) = pt_returned s @ [(i, Inr (Some m))]"
    "messages X (ch_queue (pt_store (pt_poll X rx i s) ! rx)) = ms" "rx < length (pt_store (pt_poll X rx i s))"
  using assms
  by (simp_all add: pt_poll_def recv_pubsub_message_Some recv_loop_result recv_loop_rest pt_return_def)

text \<open>
  Waiting calls are served.  When calls of \<open>get_pubsub_message\<close> wait and as many messages have
  arrived, polling the calls in the order of the queue answers each of them, with the messages in their
  order.
\<close>

lemma waiters_served:
  assumes "pt_created s = []" "pt_queue s = map (\<lambda>i. (i, Get)) waiting" "rx < length (pt_store s)"
    and "messages X (ch_queue (pt_store s ! rx)) = ms" "length waiting \<le> length ms"
  shows "pt_queue (pt_run X rx (map Resume waiting) s) = []
    \<and> pt_returned (pt_run X rx (map Resume waiting) s) =
        pt_returned s @ zip waiting (map (\<lambda>m. Inr (Some m)) ms)"
  using assms
proof (induction waiting arbitrary: s ms)
  case (Cons i waiting)
  then obtain m ms' where ms: "ms = m # ms'" by (cases ms) auto
  have q: "pt_queue s = (i, Get) # map (\<lambda>i. (i, Get)) waiting" using Cons.prems(2) by simp
  note head = poll_head [OF q Cons.prems(3) Cons.prems(4) [unfolded ms]]
  have "pt_enter i s = s" "pt_created (pt_poll X rx i s) = []" using Cons.prems(1) by (simp_all add: pt_enter_def)
  then show ?case using Cons.IH [OF _ head(1) head(4) head(3)] head(2) Cons.prems(5) ms by simp
qed simp

lemma waiters_served_example:
  "pt_queue (pt_run sample_ext 0 [Resume 3, Resume 7]
     \<lparr>pt_store = [\<lparr>ch_queue = [sample_push ''a'', sample_push ''b''], ch_closed = False\<rparr>],
      pt_created = [], pt_queue = [(3, Get), (7, Get)], pt_returned = [], pt_sent = []\<rparr>) = []"
  using waiters_served [of "\<lparr>pt_store = [\<lparr>ch_queue = [sample_push ''a'', sample_push ''b''], ch_closed = False\<rparr>],
      pt_created = [], pt_queue = [(3, Get), (7, Get)], pt_returned = [], pt_sent = []\<rparr>" "[3, 7]" 0 sample_ext
      "[sample_message ''a'', sample_message ''b'']"]
  by simp

section \<open>A waiting call blocks the others\<close>

definition quiet :: "nat \<Rightarrow> pt_event \<Rightarrow> bool" where
  "quiet i ev \<longleftrightarrow> (case ev of Send p \<Rightarrow> False | Close \<Rightarrow> False | Cancel j \<Rightarrow> j \<noteq> i | _ \<Rightarrow> True)"

definition blocked_by :: "redis_ext \<Rightarrow> push_rx \<Rightarrow> nat \<Rightarrow> pt_state \<Rightarrow> bool" where
  "blocked_by X rx i s \<longleftrightarrow>
     rx < length (pt_store s) \<and> \<not> ch_closed (pt_store s ! rx) \<and> messages X (ch_queue (pt_store s ! rx)) = []
     \<and> (\<exists>rest. pt_queue s = (i, Get) # rest)"

lemma blocked_poll:
  assumes "blocked_by X rx i s"
  shows "blocked_by X rx i (pt_poll X rx j s) \<and> pt_returned (pt_poll X rx j s) = pt_returned s"
proof (cases "j = i")
  case True
  obtain rest where q: "pt_queue s = (i, Get) # rest" using assms by (auto simp: blocked_by_def)
  have "recv_pubsub_message X (Some rx) (pt_store s) = (Pending, (pt_store s)[rx := (pt_store s ! rx)
      \<lparr>ch_queue := snd (recv_loop X (ch_closed (pt_store s ! rx)) (ch_queue (pt_store s ! rx)))\<rparr>])"
    using assms by (simp add: blocked_by_def recv_pubsub_message_Some recv_loop_result)
  then show ?thesis
    using assms q by (simp add: True pt_poll_def blocked_by_def recv_loop_rest)
next
  case False
  then have "pt_poll X rx j s = s" using assms by (auto simp: blocked_by_def pt_poll_def)
  then show ?thesis using assms by simp
qed

lemma blocked_enter: "blocked_by X rx i s \<Longrightarrow> blocked_by X rx i (pt_enter j s)"
  using pt_queue_enter [of j s] by (auto simp: blocked_by_def)

lemma blocked_event:
  assumes "blocked_by X rx i s" "quiet i ev"
  shows "blocked_by X rx i (pt_apply X rx ev s) \<and> pt_returned (pt_apply X rx ev s) = pt_returned s"
proof (cases ev)
  case (Resume j)
  then show ?thesis using blocked_poll [OF blocked_enter [OF assms(1)]] by simp
qed (use assms in \<open>auto simp: blocked_by_def quiet_def\<close>)

text \<open>
  C27: a waiting \<open>get_pubsub_message\<close> blocks every other call.  While it waits on an open channel
  without messages, no call returns, \<open>try_get_pubsub_message\<close> included, however often the calls are polled,
  until the core sends or closes or the waiting call is dropped.  Alone, \<open>try_get_pubsub_message\<close>
  returns \<open>None\<close> at its first poll on such a channel.
\<close>

theorem try_get_blocks:
  assumes "blocked_by X rx i s" "list_all (quiet i) events"
  shows "pt_returned (pt_run X rx events s) = pt_returned s
    \<and> pt_returned (pt_run X rx [Call j TryGet, Resume j] (s\<lparr>pt_created := [], pt_queue := []\<rparr>)) = pt_returned s @ [(j, Inr None)]"
proof
  show "pt_returned (pt_run X rx events s) = pt_returned s"
    using assms
  proof (induction events arbitrary: s)
    case (Cons ev events)
    then show ?case using blocked_event [of X rx i s ev] by simp
  qed simp
  show "pt_returned (pt_run X rx [Call j TryGet, Resume j] (s\<lparr>pt_created := [], pt_queue := []\<rparr>)) = pt_returned s @ [(j, Inr None)]"
    using assms(1)
    by (simp add: blocked_by_def pt_poll_def pt_return_def pt_enter_def try_recv_pubsub_message_Some try_recv_loop_result)
qed

theorem try_get_blocks_witness:
  "pt_returned (pt_run sample_ext 0 [Call 7 TryGet, Resume 7, Resume 3, Resume 7]
     (pt_run sample_ext 0 [Call 3 Get, Resume 3] (pt_init []))) = []"
proof -
  let ?s = "pt_run sample_ext 0 [Call 3 Get, Resume 3] (pt_init [])"
  have "blocked_by sample_ext 0 3 ?s" and "pt_returned ?s = []"
    by (simp_all add: blocked_by_def pt_init_def make_push_channel_def pt_poll_def pt_enter_def recv_pubsub_message_def pubsub_rx_def)
  with try_get_blocks [of sample_ext 0 3 ?s "[Call 7 TryGet, Resume 7, Resume 3, Resume 7]"]
  show ?thesis by (simp add: quiet_def del: pt_run_simps)
qed

end
