(* ===== verification/Stream_Grammar.thy ===== *)
theory Stream_Grammar
  imports Streams Scripting
begin

text \<open>
  The stream commands that carry options, read back by the documented argument syntax.

  The readers below take the arguments of a command from left to right, the way the command reference of
  the server describes them; they are a specification and stand for no code of the repository.  The
  theorems say that reading what a command of \<open>src/commands/stream.rs\<close> puts on the wire gives back what
  the caller asked for.  An entry id starts with a digit or is \<open>*\<close>, which keeps it apart from the
  keywords.
\<close>

section \<open>Readers\<close>

definition entry_id_ok :: "string \<Rightarrow> bool" where
  "entry_id_ok i \<longleftrightarrow> (case i of [] \<Rightarrow> False | c # _ \<Rightarrow> c = CHR ''*'' \<or> digit_val c \<noteq> None)"

definition read_flag :: "string \<Rightarrow> bytes list \<Rightarrow> bool \<times> bytes list" where
  "read_flag kw args = (case args of a # rest \<Rightarrow> if a = kw then (True, rest) else (False, args) | [] \<Rightarrow> (False, []))"

definition read_int :: "string \<Rightarrow> bytes list \<Rightarrow> (i64 option \<times> bytes list) option" where
  "read_int kw args =
     (case args of
        a # b # rest \<Rightarrow>
          if a = kw then map_option (\<lambda>i. (Some i, rest)) (parse_i64 b) else Some (None, args)
      | _ \<Rightarrow> Some (None, args))"

definition read_trim :: "bytes list \<Rightarrow> (stream_trim_options option \<times> bytes list) option" where
  "read_trim args =
     (case args of
        s # rest \<Rightarrow>
          if s \<noteq> ''MAXLEN'' \<and> s \<noteq> ''MINID'' then Some (None, args)
          else (case rest of
                  e # rest' \<Rightarrow>
                    let exact = (e \<noteq> ''~''); rest'' = (if e = ''='' \<or> e = ''~'' then rest' else rest)
                    in (case rest'' of
                          threshold # tail \<Rightarrow>
                            map_option (\<lambda>(limit, tail).
                                (Some \<lparr>trim_strategy = (if s = ''MAXLEN'' then MaxLen else MinId), trim_exact = exact,
                                       trim_threshold = threshold, trim_limit = limit\<rparr>, tail))
                              (read_int ''LIMIT'' tail)
                        | [] \<Rightarrow> None)
                | [] \<Rightarrow> None)
      | [] \<Rightarrow> Some (None, []))"

fun read_pairs :: "bytes list \<Rightarrow> (bytes \<times> bytes) list option" where
  "read_pairs [] = Some []"
| "read_pairs [a] = None"
| "read_pairs (a # b # rest) = map_option (Cons (a, b)) (read_pairs rest)"

text \<open>\<open>XADD key [NOMKSTREAM] [MAXLEN|MINID [=|~] threshold [LIMIT count]] id field value ...\<close>\<close>

definition read_xadd ::
  "bytes list \<Rightarrow> (bytes \<times> string \<times> (bytes \<times> bytes) list \<times> stream_add_options) option" where
  "read_xadd args =
     (case args of
        kw # key # rest \<Rightarrow>
          if kw \<noteq> ''XADD'' then None
          else (case read_flag ''NOMKSTREAM'' rest of (nomkstream, rest) \<Rightarrow>
                case read_trim rest of
                  None \<Rightarrow> None
                | Some (trim, rest) \<Rightarrow>
                    (case rest of
                       entry_id # f # fs \<Rightarrow>
                         map_option (\<lambda>flds. (key, entry_id, flds, \<lparr>add_make_stream = \<not> nomkstream, add_trim = trim\<rparr>))
                           (read_pairs (f # fs))
                     | _ \<Rightarrow> None))
      | _ \<Rightarrow> None)"

text \<open>\<open>[BLOCK ms] [COUNT n] [NOACK]\<close> in any order up to \<open>STREAMS\<close>, then the keys and as many ids.\<close>

fun read_options :: "stream_read_group_options \<Rightarrow> bytes list \<Rightarrow> (stream_read_group_options \<times> bytes list) option" where
  "read_options opts [] = None"
| "read_options opts (a # rest) =
     (if a = ''STREAMS'' then Some (opts, rest)
      else if a = ''NOACK'' then read_options (opts\<lparr>rg_no_ack := True\<rparr>) rest
      else (case rest of
              [] \<Rightarrow> None
            | b # rest' \<Rightarrow>
                (case parse_i64 b of
                   None \<Rightarrow> None
                 | Some i \<Rightarrow>
                     if a = ''BLOCK'' then read_options (opts\<lparr>rg_block_ms := Some i\<rparr>) rest'
                     else if a = ''COUNT'' then read_options (opts\<lparr>rg_count := Some i\<rparr>) rest'
                     else None)))"

definition read_streams :: "bytes list \<Rightarrow> (bytes \<times> string) list option" where
  "read_streams args =
     (if args = [] \<or> odd (length args) then None
      else Some (zip (take (length args div 2) args) (drop (length args div 2) args)))"

definition no_read_options :: stream_read_group_options where
  "no_read_options = \<lparr>rg_block_ms = None, rg_count = None, rg_no_ack = False\<rparr>"

definition read_xread :: "bytes list \<Rightarrow> ((bytes \<times> string) list \<times> stream_read_group_options) option" where
  "read_xread args =
     (case args of
        kw # rest \<Rightarrow>
          if kw \<noteq> ''XREAD'' then None
          else Option.bind (read_options no_read_options rest) (\<lambda>(opts, rest).
                 map_option (\<lambda>keys_ids. (keys_ids, opts)) (read_streams rest))
      | [] \<Rightarrow> None)"

definition read_xreadgroup ::
  "bytes list \<Rightarrow> (string \<times> string \<times> (bytes \<times> string) list \<times> stream_read_group_options) option" where
  "read_xreadgroup args =
     (case args of
        kw # g # grp # consumer # rest \<Rightarrow>
          if kw \<noteq> ''XREADGROUP'' \<or> g \<noteq> ''GROUP'' then None
          else Option.bind (read_options no_read_options rest) (\<lambda>(opts, rest).
                 map_option (\<lambda>keys_ids. (grp, consumer, keys_ids, opts)) (read_streams rest))
      | _ \<Rightarrow> None)"

text \<open>\<open>XCLAIM key group consumer min-idle-time id ... [IDLE ms] [TIME ms] [RETRYCOUNT n] [FORCE] [JUSTID]\<close>\<close>

fun read_claim_options ::
  "stream_claim_options \<times> bool \<Rightarrow> bytes list \<Rightarrow> (stream_claim_options \<times> bool) option" where
  "read_claim_options acc [] = Some acc"
| "read_claim_options (opts, justid) (a # rest) =
     (if a = ''FORCE'' then read_claim_options (opts\<lparr>clm_is_force := True\<rparr>, justid) rest
      else if a = ''JUSTID'' then read_claim_options (opts, True) rest
      else (case rest of
              [] \<Rightarrow> None
            | b # rest' \<Rightarrow>
                (case parse_i64 b of
                   None \<Rightarrow> None
                 | Some i \<Rightarrow>
                     if a = ''IDLE'' then read_claim_options (opts\<lparr>clm_idle := Some i\<rparr>, justid) rest'
                     else if a = ''TIME'' then read_claim_options (opts\<lparr>clm_idle_unix_time := Some i\<rparr>, justid) rest'
                     else if a = ''RETRYCOUNT'' then read_claim_options (opts\<lparr>clm_retry_count := Some i\<rparr>, justid) rest'
                     else None)))"

definition no_claim_options :: stream_claim_options where
  "no_claim_options = \<lparr>clm_idle = None, clm_idle_unix_time = None, clm_retry_count = None, clm_is_force = False\<rparr>"

definition read_xclaim ::
  "bytes list \<Rightarrow> (bytes \<times> string \<times> string \<times> i64 \<times> string list \<times> stream_claim_options \<times> bool) option" where
  "read_xclaim args =
     (case args of
        kw # key # grp # consumer # idle # rest \<Rightarrow>
          if kw \<noteq> ''XCLAIM'' then None
          else (case parse_i64 idle of
                  None \<Rightarrow> None
                | Some min_idle \<Rightarrow>
                    if takeWhile entry_id_ok rest = [] then None
                    else map_option (\<lambda>(opts, justid). (key, grp, consumer, min_idle, takeWhile entry_id_ok rest, opts, justid))
                           (read_claim_options (no_claim_options, False) (dropWhile entry_id_ok rest)))
      | _ \<Rightarrow> None)"

section \<open>What is written is read back\<close>

lemma call_recorder: "snd (call (recorder enc) c dec w) = wire enc c"
  by (simp add: call_def recorder_def bind_io_def)

lemma keyword_no_id: "\<not> entry_id_ok kw" if "kw \<in> {''IDLE'', ''TIME'', ''RETRYCOUNT'', ''FORCE'', ''JUSTID'', ''NOMKSTREAM'', ''MAXLEN'', ''MINID'', ''LIMIT''}"
  using that by (auto simp: entry_id_ok_def digit_val_def)

lemma read_pairs_flatten [simp]: "read_pairs (flatten ps) = Some ps"
  by (induction ps) auto

lemma wire_field_args:
  "enc_documented enc \<Longrightarrow> wire enc (field_args (map (\<lambda>(f, v). ([f], [v])) flds)) = flatten flds"
  by (induction flds) (auto simp: field_args_def enc_documented_def)

lemma wire_read_args:
  "enc_documented enc \<Longrightarrow> wire enc (read_args (map (\<lambda>(k, i). ([k], i)) keys_ids)) = map fst keys_ids @ map snd keys_ids"
proof -
  assume enc: "enc_documented enc"
  have "wire enc (map (\<lambda>(k, _). AGen k) (map (\<lambda>(k, i). ([k], i)) keys_ids)) = map fst keys_ids"
    and "wire enc (map (\<lambda>(_, i). AStr i) (map (\<lambda>(k, i). ([k], i)) keys_ids)) = map snd keys_ids"
    using enc by (induction keys_ids) (auto simp: enc_documented_def)
  then show ?thesis by (simp add: read_args_def)
qed

lemma read_streams_pairs: "keys_ids \<noteq> [] \<Longrightarrow> read_streams (map fst keys_ids @ map snd keys_ids) = Some keys_ids"
  by (simp add: read_streams_def zip_map_fst_snd mult_2 [symmetric])

lemma read_int_clause:
  assumes "enc_documented enc" "rest = [] \<or> hd rest \<noteq> kw"
  shows "read_int kw (wire enc (opt_clause kw AI64 x) @ rest) = Some (x, rest)"
  using assms
  by (cases x; cases rest) (auto simp: read_int_def enc_documented_def parse_i64_to_string split: list.splits)

lemma read_trim_written:
  assumes "enc_documented enc" "entry_id_ok i"
  shows "read_trim (wire enc (trim_add_to t []) @ i # rest) = Some (Some t, i # rest)"
proof -
  have "hd (i # rest) \<noteq> ''LIMIT''" using keyword_no_id assms(2) by auto
  then show ?thesis
    using assms(1) read_int_clause [OF assms(1), of "i # rest" "''LIMIT''" "trim_limit t"]
    by (cases t; cases "trim_strategy t") (auto simp: read_trim_def trim_add_to_def enc_documented_def Let_def)
qed

lemma wire_add_options:
  assumes "enc_documented enc"
  shows "wire enc (add_options_add_to opts []) =
     (if add_make_stream opts then [] else [''NOMKSTREAM''])
     @ (case add_trim opts of None \<Rightarrow> [] | Some t \<Rightarrow> wire enc (trim_add_to t []))"
  using assms
  by (auto simp: add_options_add_to_def flag_def Let_def trim.wire_add_to [of enc _ "[AStr ''NOMKSTREAM'']"]
      enc_documented_def split: option.split)

lemma read_flag_written:
  assumes "enc_documented enc" "entry_id_ok i"
  shows "read_flag ''NOMKSTREAM'' (wire enc (add_options_add_to opts []) @ i # rest) =
     (\<not> add_make_stream opts, (case add_trim opts of None \<Rightarrow> [] | Some t \<Rightarrow> wire enc (trim_add_to t [])) @ i # rest)"
proof -
  have "i \<noteq> ''NOMKSTREAM''" using keyword_no_id assms(2) by auto
  moreover have "read_flag ''NOMKSTREAM'' (wire enc (trim_add_to t []) @ xs) = (False, wire enc (trim_add_to t []) @ xs)" for t xs
    using assms(1) by (simp add: trim_add_to_def enc_documented_def read_flag_def split: stream_trim_strategy.split)
  moreover have "read_flag ''NOMKSTREAM'' (''NOMKSTREAM'' # xs) = (True, xs)" for xs by (simp add: read_flag_def)
  ultimately show ?thesis
    unfolding wire_add_options [OF assms(1)]
    by (cases "add_make_stream opts"; cases "add_trim opts") (simp_all add: read_flag_def [of _ "i # rest"])
qed

lemma read_opt_trim_written:
  assumes "enc_documented enc" "entry_id_ok i"
  shows "read_trim ((case x of None \<Rightarrow> [] | Some t \<Rightarrow> wire enc (trim_add_to t [])) @ i # rest) = Some (x, i # rest)"
proof (cases x)
  case None
  have "i \<noteq> ''MAXLEN''" "i \<noteq> ''MINID''" using keyword_no_id assms(2) by auto
  with None show ?thesis by (simp add: read_trim_def)
qed (simp add: read_trim_written [OF assms])

text \<open>
  C15: an \<open>XADD\<close> is read back.  Whatever the entry, the options and the id, the arguments that \<open>xadd_options\<close> puts
  on the wire are read by the documented syntax as that key, that id, those fields in their order and those options,
  the trimming strategy, its exactness, threshold and limit included.  The id has to be one, and the
  entry must not be empty.
\<close>

theorem xadd_read_back:
  assumes "enc_documented enc" "entry_id_ok entry_id" "flds \<noteq> []"
  shows "read_xadd (snd (xadd_options X (recorder enc) [key] entry_id (map (\<lambda>(f, v). ([f], [v])) flds) opts w))
     = Some (key, entry_id, flds, opts)"
proof -
  obtain p ps where flds: "flds = p # ps" using assms(3) by (cases flds) auto
  have "snd (xadd_options X (recorder enc) [key] entry_id (map (\<lambda>(f, v). ([f], [v])) flds) opts w)
      = ''XADD'' # key # wire enc (add_options_add_to opts []) @ entry_id # flatten flds"
    using assms(1)
    by (simp add: xadd_options_def call_recorder add_options.wire_add_to [of enc _ "[_, _]"]
        wire_field_args enc_documented_def [of enc])
  then show ?thesis
    using read_pairs_flatten [of flds] unfolding read_xadd_def flds
    by (cases p) (simp add: read_flag_written [OF assms(1,2)] read_opt_trim_written [OF assms(1,2)] del: read_pairs_flatten)
qed

theorem xadd_read_back_witness:
  "read_xadd (snd (xadd_options sample_ext (recorder sample_enc) [''k''] ''*'' [([''f''], [''v''])]
      \<lparr>add_make_stream = False, add_trim = Some (trim_max_len False 100 (Some 7))\<rparr> []))
   = Some (''k'', ''*'', [(''f'', ''v'')], \<lparr>add_make_stream = False, add_trim = Some (trim_max_len False 100 (Some 7))\<rparr>)"
  using xadd_read_back [OF sample_enc_documented, of "''*''" "[(''f'', ''v'')]" sample_ext "''k''"
      "\<lparr>add_make_stream = False, add_trim = Some (trim_max_len False 100 (Some 7))\<rparr>" "[]"]
  by (simp add: entry_id_ok_def)

lemma read_options_clauses:
  assumes "enc_documented enc"
  shows "read_options no_read_options
      (wire enc (opt_clause ''BLOCK'' AI64 b) @ wire enc (opt_clause ''COUNT'' AI64 c) @ wire enc (flag n ''NOACK'') @ ''STREAMS'' # rest)
    = Some (\<lparr>rg_block_ms = b, rg_count = c, rg_no_ack = n\<rparr>, rest)"
  using assms
  by (cases b; cases c; cases n) (simp_all add: no_read_options_def enc_documented_def parse_i64_to_string)

lemma claim_options_written:
  assumes "enc_documented enc"
  shows "read_claim_options (no_claim_options, False) (wire enc (claim_options_add_to opts []) @ (if justid then [''JUSTID''] else []))
    = Some (opts, justid)"
  using assms
  by (cases opts; cases "clm_idle opts"; cases "clm_idle_unix_time opts"; cases "clm_retry_count opts"; cases "clm_is_force opts"; cases justid)
    (simp_all add: claim_options_add_to_def no_claim_options_def enc_documented_def parse_i64_to_string)

lemma claim_options_no_id:
  assumes "enc_documented enc"
  shows "(case wire enc (opt_add_to claim_options_add_to opts []) @ (if justid then [''JUSTID''] else []) of [] \<Rightarrow> True | a # _ \<Rightarrow> \<not> entry_id_ok a)"
proof (cases opts)
  case (Some opts')
  with assms show ?thesis
    by (cases "clm_idle opts'"; cases "clm_idle_unix_time opts'"; cases "clm_retry_count opts'"; cases "clm_is_force opts'"; cases justid)
      (simp_all add: opt_add_to_def claim_options_add_to_def enc_documented_def keyword_no_id)
qed (simp add: opt_add_to_def keyword_no_id)

lemma ids_then_options:
  assumes "list_all entry_id_ok ids" "case tail of [] \<Rightarrow> True | a # _ \<Rightarrow> \<not> entry_id_ok a"
  shows "takeWhile entry_id_ok (ids @ tail) = ids \<and> dropWhile entry_id_ok (ids @ tail) = tail"
  using assms by (induction ids) (auto split: list.splits)

lemma claim_read_back:
  assumes "enc_documented enc" "ids \<noteq> []" "list_all entry_id_ok ids"
  shows "read_xclaim ([''XCLAIM'', key, grp, consumer, i64_to_string min_idle] @ ids
        @ wire enc (opt_add_to claim_options_add_to opts []) @ (if justid then [''JUSTID''] else []))
    = Some (key, grp, consumer, min_idle, ids, case opts of None \<Rightarrow> no_claim_options | Some opts \<Rightarrow> opts, justid)"
proof -
  note split = ids_then_options [OF assms(3) claim_options_no_id [OF assms(1), of opts justid]]
  have "read_claim_options (no_claim_options, False)
      (wire enc (opt_add_to claim_options_add_to opts []) @ (if justid then [''JUSTID''] else []))
    = Some (case opts of None \<Rightarrow> no_claim_options | Some opts \<Rightarrow> opts, justid)"
    using claim_options_written [OF assms(1)] by (cases opts) (simp_all add: opt_add_to_def)
  then show ?thesis using split assms(2) by (simp add: read_xclaim_def parse_i64_to_string)
qed

text \<open>
  C16: reads and claims are read back.  What \<open>xread\<close>, \<open>xreadgroup\<close>, \<open>xclaim\<close> and \<open>xclaim_justid\<close> put on the
  wire is read by the documented syntax as the keys paired with their ids, the group, the consumer, the idle
  time, the ids and the options the caller gave, absent options as absent.
\<close>

theorem stream_reads_read_back:
  assumes "enc_documented enc" "keys_ids \<noteq> []" "ids \<noteq> []" "list_all entry_id_ok ids"
  shows "read_xread (snd (xread X (recorder enc) (map (\<lambda>(k, i). ([k], i)) keys_ids) ropts w))
      = Some (keys_ids, case ropts of None \<Rightarrow> no_read_options
          | Some r \<Rightarrow> \<lparr>rg_block_ms = rd_block_ms r, rg_count = rd_count r, rg_no_ack = False\<rparr>)
    \<and> read_xreadgroup (snd (xreadgroup X (recorder enc) grp consumer (map (\<lambda>(k, i). ([k], i)) keys_ids) gopts w))
      = Some (grp, consumer, keys_ids, case gopts of None \<Rightarrow> no_read_options | Some g \<Rightarrow> g)
    \<and> read_xclaim (snd (xclaim X (recorder enc) [key] grp consumer min_idle ids copts w))
      = Some (key, grp, consumer, min_idle, ids, case copts of None \<Rightarrow> no_claim_options | Some c \<Rightarrow> c, False)
    \<and> read_xclaim (snd (xclaim_justid X (recorder enc) [key] grp consumer min_idle ids copts w))
      = Some (key, grp, consumer, min_idle, ids, case copts of None \<Rightarrow> no_claim_options | Some c \<Rightarrow> c, True)"
proof (intro conjI)
  have e: "enc (AStr s) = [s]" "enc (AI64 i) = [i64_to_string i]" "enc (AGen xs) = xs" for s i xs
    using assms(1) by (simp_all add: enc_documented_def)
  note simps = call_recorder wire_read_args [OF assms(1)] wire_strs [OF assms(1)] e
  note opts = read_options_clauses [OF assms(1)] and pairs = read_streams_pairs [OF assms(2)]
  show "read_xread (snd (xread X (recorder enc) (map (\<lambda>(k, i). ([k], i)) keys_ids) ropts w))
      = Some (keys_ids, case ropts of None \<Rightarrow> no_read_options
          | Some r \<Rightarrow> \<lparr>rg_block_ms = rd_block_ms r, rg_count = rd_count r, rg_no_ack = False\<rparr>)"
    using opts [of "Option.bind ropts rd_block_ms" "Option.bind ropts rd_count" False] pairs
    by (cases ropts) (simp_all add: xread_def simps read_xread_def opt_add_to_def read_options_add_to_def no_read_options_def [symmetric])
  show "read_xreadgroup (snd (xreadgroup X (recorder enc) grp consumer (map (\<lambda>(k, i). ([k], i)) keys_ids) gopts w))
      = Some (grp, consumer, keys_ids, case gopts of None \<Rightarrow> no_read_options | Some g \<Rightarrow> g)"
    using opts [of "Option.bind gopts rg_block_ms" "Option.bind gopts rg_count" "case gopts of None \<Rightarrow> False | Some g \<Rightarrow> rg_no_ack g"] pairs
    by (cases gopts) (simp_all add: xreadgroup_def simps read_xreadgroup_def opt_add_to_def read_group_options_add_to_def no_read_options_def [symmetric])
  have claim: "wire enc (opt_add_to claim_options_add_to copts
        (AStr ''XCLAIM'' # AGen [key] # AStr grp # AStr consumer # AI64 min_idle # map AStr ids))
      = [''XCLAIM'', key, grp, consumer, i64_to_string min_idle] @ ids @ wire enc (opt_add_to claim_options_add_to copts [])"
    by (cases copts) (simp_all add: opt_add_to_def claim_options.wire_add_to [of enc _ "_ # _"] simps)
  show "read_xclaim (snd (xclaim X (recorder enc) [key] grp consumer min_idle ids copts w))
      = Some (key, grp, consumer, min_idle, ids, case copts of None \<Rightarrow> no_claim_options | Some c \<Rightarrow> c, False)"
    using claim_read_back [OF assms(1,3,4), of key grp consumer min_idle copts False] by (simp add: xclaim_def call_recorder claim)
  show "read_xclaim (snd (xclaim_justid X (recorder enc) [key] grp consumer min_idle ids copts w))
      = Some (key, grp, consumer, min_idle, ids, case copts of None \<Rightarrow> no_claim_options | Some c \<Rightarrow> c, True)"
    using claim_read_back [OF assms(1,3,4), of key grp consumer min_idle copts True] by (simp add: xclaim_justid_def call_recorder claim e)
qed

theorem stream_reads_read_back_witness:
  "read_xreadgroup (snd (xreadgroup sample_ext (recorder sample_enc) ''g'' ''c'' [([''a''], ''>''), ([''b''], ''0'')]
      (Some \<lparr>rg_block_ms = Some 5, rg_count = None, rg_no_ack = True\<rparr>) []))
     = Some (''g'', ''c'', [(''a'', ''>''), (''b'', ''0'')], \<lparr>rg_block_ms = Some 5, rg_count = None, rg_no_ack = True\<rparr>)
   \<and> read_xclaim (snd (xclaim_justid sample_ext (recorder sample_enc) [''k''] ''g'' ''c'' 100 [''1-1'', ''2-1'']
      (Some \<lparr>clm_idle = Some 7, clm_idle_unix_time = None, clm_retry_count = None, clm_is_force = True\<rparr>) []))
     = Some (''k'', ''g'', ''c'', 100, [''1-1'', ''2-1''],
         \<lparr>clm_idle = Some 7, clm_idle_unix_time = None, clm_retry_count = None, clm_is_force = True\<rparr>, True)"
  using stream_reads_read_back [OF sample_enc_documented, of "[(''a'', ''>''), (''b'', ''0'')]" "[''1-1'', ''2-1'']" sample_ext None "[]"
      "''g''" "''c''" "Some \<lparr>rg_block_ms = Some 5, rg_count = None, rg_no_ack = True\<rparr>" "''k''" 100
      "Some \<lparr>clm_idle = Some 7, clm_idle_unix_time = None, clm_retry_count = None, clm_is_force = True\<rparr>"]
  by (simp add: entry_id_ok_def digit_val_def)

end
