(* ===== verification/Query_Grammar.thy ===== *)
theory Query_Grammar
  imports Stream_Grammar Geo SortedSets
begin

text \<open>
  The geospatial searches and the sorted-set commands, read back by the documented argument syntax.

  As in \<open>Stream_Grammar\<close> the readers take the arguments of a command from left to right, as the command
  reference of the server describes them.  They are a specification and stand for no code of the repository.  How a
  number is written is code of the fork and of the standard library: a reader of floats is a parameter,
  and \<open>float_ok\<close> says that it reads what is written for a given float.
\<close>

section \<open>Reading arguments\<close>

text \<open>An optional keyword out of a table, a keyword out of a table, and a counted list.\<close>

definition read_choice :: "(string \<times> 'a) list \<Rightarrow> bytes list \<Rightarrow> 'a option \<times> bytes list" where
  "read_choice table args =
     (case args of
        a # rest \<Rightarrow> (case map_of table a of Some x \<Rightarrow> (Some x, rest) | None \<Rightarrow> (None, args))
      | [] \<Rightarrow> (None, []))"

definition read_counted :: "bytes list \<Rightarrow> (bytes list \<times> bytes list) option" where
  "read_counted args =
     (case args of
        n # rest \<Rightarrow>
          (case parse_digits 0 n of
             Some k \<Rightarrow> if 0 < k \<and> k \<le> length rest then Some (take k rest, drop k rest) else None
           | None \<Rightarrow> None)
      | [] \<Rightarrow> None)"

definition read_limit :: "bytes list \<Rightarrow> (limit option \<times> bytes list) option" where
  "read_limit args =
     (case args of
        a # b # c # rest \<Rightarrow>
          if a = ''LIMIT''
          then (case (parse_i64 b, parse_i64 c) of
                  (Some i, Some j) \<Rightarrow> Some (Some \<lparr>lim_offset = i, lim_count = j\<rparr>, rest)
                | _ \<Rightarrow> None)
          else Some (None, args)
      | _ \<Rightarrow> Some (None, args))"

definition orders :: "(string \<times> order_by) list" where
  "orders = [(''ASC'', Asc), (''DESC'', Desc)]"

definition float_ok :: "(rarg \<Rightarrow> bytes list) \<Rightarrow> (bytes \<Rightarrow> f64 option) \<Rightarrow> f64 \<Rightarrow> bool" where
  "float_ok enc rf f \<longleftrightarrow> (case enc (AF64 f) of [s] \<Rightarrow> rf s = Some f | _ \<Rightarrow> False)"

section \<open>Geospatial searches\<close>

datatype geo_origin = FromMember bytes | FromLonLat geospatial_data

definition read_origin :: "(bytes \<Rightarrow> f64 option) \<Rightarrow> bytes list \<Rightarrow> (geo_origin \<times> bytes list) option" where
  "read_origin rf args =
     (case args of
        a # b # rest \<Rightarrow>
          if a = ''FROMMEMBER'' then Some (FromMember b, rest)
          else if a = ''FROMLONLAT''
          then (case rest of
                  c # rest' \<Rightarrow>
                    (case (rf b, rf c) of
                       (Some lon, Some lat) \<Rightarrow> Some (FromLonLat \<lparr>longitude = lon, latitude = lat\<rparr>, rest')
                     | _ \<Rightarrow> None)
                | [] \<Rightarrow> None)
          else None
      | _ \<Rightarrow> None)"

definition units :: "(string \<times> geo_unit) list" where
  "units = [(''m'', Meters), (''km'', Kilometers), (''mi'', Miles), (''ft'', Feet)]"

definition read_shape :: "(bytes \<Rightarrow> f64 option) \<Rightarrow> bytes list \<Rightarrow> (geo_search_shape \<times> bytes list) option" where
  "read_shape rf args =
     (case args of
        a # b # c # rest \<Rightarrow>
          if a = ''BYRADIUS''
          then (case (rf b, map_of units c) of
                  (Some r, Some u) \<Rightarrow> Some (ByRadius r u, rest)
                | _ \<Rightarrow> None)
          else if a = ''BYBOX''
          then (case rest of
                  d # rest' \<Rightarrow>
                    (case (rf b, rf c, map_of units d) of
                       (Some w, Some h, Some u) \<Rightarrow> Some (ByBox w h u, rest')
                     | _ \<Rightarrow> None)
                | [] \<Rightarrow> None)
          else None
      | _ \<Rightarrow> None)"

text \<open>\<open>[ASC | DESC] [COUNT count [ANY]]\<close>\<close>

definition read_search_tail :: "bytes list \<Rightarrow> (order_by option \<times> i64 option \<times> bool \<times> bytes list) option" where
  "read_search_tail args =
     (case read_choice orders args of (order, rest) \<Rightarrow>
      case read_int ''COUNT'' rest of
        None \<Rightarrow> None
      | Some (None, rest) \<Rightarrow> Some (order, None, False, rest)
      | Some (Some n, rest) \<Rightarrow> (case read_flag ''ANY'' rest of (any, rest) \<Rightarrow> Some (order, Some n, any, rest)))"

record geo_query =
  gq_origin :: geo_origin
  gq_shape :: geo_search_shape
  gq_order :: "order_by option"
  gq_count :: "i64 option"
  gq_any :: bool

definition read_query :: "(bytes \<Rightarrow> f64 option) \<Rightarrow> bytes list \<Rightarrow> (geo_query \<times> bytes list) option" where
  "read_query rf args =
     Option.bind (read_origin rf args) (\<lambda>(origin, rest).
     Option.bind (read_shape rf rest) (\<lambda>(shape, rest).
     Option.bind (read_search_tail rest) (\<lambda>(order, count, any, rest).
       Some (\<lparr>gq_origin = origin, gq_shape = shape, gq_order = order, gq_count = count, gq_any = any\<rparr>, rest))))"

text \<open>
  \<open>GEOSEARCH key origin shape tail\<close> and \<open>GEOSEARCHSTORE destination source origin shape tail [STOREDIST]\<close>.
\<close>

definition read_geosearch :: "(bytes \<Rightarrow> f64 option) \<Rightarrow> bytes list \<Rightarrow> (bytes \<times> geo_query) option" where
  "read_geosearch rf args =
     (case args of
        kw # key # rest \<Rightarrow>
          if kw = ''GEOSEARCH''
          then (case read_query rf rest of Some (q, []) \<Rightarrow> Some (key, q) | _ \<Rightarrow> None)
          else None
      | _ \<Rightarrow> None)"

definition read_geosearchstore ::
  "(bytes \<Rightarrow> f64 option) \<Rightarrow> bytes list \<Rightarrow> (bytes \<times> bytes \<times> geo_query \<times> bool) option" where
  "read_geosearchstore rf args =
     (case args of
        kw # destination # source # rest \<Rightarrow>
          if kw = ''GEOSEARCHSTORE''
          then (case read_query rf rest of
                  Some (q, rest) \<Rightarrow>
                    (case read_flag ''STOREDIST'' rest of (dist, []) \<Rightarrow> Some (destination, source, q, dist) | _ \<Rightarrow> None)
                | None \<Rightarrow> None)
          else None
      | _ \<Rightarrow> None)"

text \<open>The floats of a search, and the query a search asks for; \<open>ANY\<close> qualifies \<open>COUNT\<close> and means nothing without it.\<close>

fun shape_floats :: "geo_search_shape \<Rightarrow> f64 list" where
  "shape_floats (ByRadius r u) = [r]"
| "shape_floats (ByBox w h u) = [w, h]"

definition query ::
  "geo_origin \<Rightarrow> geo_search_shape \<Rightarrow> order_by option \<Rightarrow> i64 option \<Rightarrow> bool \<Rightarrow> geo_query" where
  "query origin shape order count any =
     \<lparr>gq_origin = origin, gq_shape = shape, gq_order = order, gq_count = count, gq_any = (any \<and> count \<noteq> None)\<rparr>"

section \<open>What searches write\<close>

lemma float_okE:
  assumes "float_ok enc rf f"
  obtains s where "enc (AF64 f) = [s]" "rf s = Some f"
  using assms by (auto simp: float_ok_def split: list.splits)

lemma enc_facts:
  assumes "enc_documented enc"
  shows "enc (AStr s) = [s]" "enc (AGen xs) = xs" "enc (AI64 i) = [i64_to_string i]" "enc (AUsize n) = [nat_to_string n]"
    "enc (AU64 m) = [nat_to_string (unat m)]"
  using assms by (simp_all add: enc_documented_def)

lemma unit_read [simp]: "map_of units (geo_unit_as_arg u) = Some u"
  by (cases u) (simp_all add: units_def)

lemma shape_read:
  assumes "enc_documented enc" "list_all (float_ok enc rf) (shape_floats shape)"
  shows "read_shape rf (wire enc (geo_search_shape_add_to shape []) @ rest) = Some (shape, rest)"
proof (cases shape)
  case (ByRadius r u)
  with assms(2) obtain s where "enc (AF64 r) = [s]" "rf s = Some r" by (auto elim: float_okE)
  with ByRadius show ?thesis by (simp add: read_shape_def enc_facts [OF assms(1)])
next
  case (ByBox w h u)
  with assms(2) obtain s t where "enc (AF64 w) = [s]" "rf s = Some w" "enc (AF64 h) = [t]" "rf t = Some h"
    by (auto elim!: float_okE)
  with ByBox show ?thesis by (simp add: read_shape_def enc_facts [OF assms(1)])
qed

lemma order_read:
  assumes "enc_documented enc" "rest = [] \<or> hd rest \<notin> {''ASC'', ''DESC''}"
  shows "read_choice orders (wire enc (opt_arg (\<lambda>d. AStr (order_by_as_arg d)) order) @ rest) = (order, rest)"
proof (cases order)
  case None
  with assms(2) show ?thesis by (cases rest) (auto simp: read_choice_def orders_def)
next
  case (Some d)
  then show ?thesis by (cases d) (simp_all add: read_choice_def orders_def enc_facts [OF assms(1)])
qed

lemma search_tail_read:
  assumes "enc_documented enc" "rest = [] \<or> rest = [''STOREDIST'']"
  shows "read_search_tail (wire enc (add_search_tail order count any []) @ rest)
    = Some (order, count, any \<and> count \<noteq> None, rest)"
proof -
  define after where "after = wire enc (opt_clause ''COUNT'' AI64 count)
      @ (if count \<noteq> None \<and> any then [''ANY''] else []) @ rest"
  have wire: "wire enc (add_search_tail order count any []) @ rest
      = wire enc (opt_arg (\<lambda>d. AStr (order_by_as_arg d)) order) @ after"
    by (cases count) (simp_all add: add_search_tail_def after_def enc_facts [OF assms(1)] flag_def)
  have "after = [] \<or> hd after \<notin> {''ASC'', ''DESC''}"
    using assms(2) by (cases count) (auto simp: after_def enc_facts [OF assms(1)])
  with order_read [OF assms(1)] wire
  have choice: "read_choice orders (wire enc (add_search_tail order count any []) @ rest) = (order, after)" by simp
  have "(if count \<noteq> None \<and> any then [''ANY''] else []) @ rest = []
      \<or> hd ((if count \<noteq> None \<and> any then [''ANY''] else []) @ rest) \<noteq> ''COUNT''"
    using assms(2) by auto
  from read_int_clause [OF assms(1) this]
  have "read_int ''COUNT'' after = Some (count, (if count \<noteq> None \<and> any then [''ANY''] else []) @ rest)"
    by (simp add: after_def)
  with choice assms(2) show ?thesis
    by (cases count; cases any) (auto simp: read_search_tail_def read_flag_def)
qed

lemma query_read:
  assumes "enc_documented enc" "list_all (float_ok enc rf) (shape_floats shape)" "rest = [] \<or> rest = [''STOREDIST'']"
    and "\<And>more. read_origin rf (before @ more) = Some (origin, more)"
  shows "read_query rf (before @ wire enc (geo_search_shape_add_to shape []) @ wire enc (add_search_tail order count any []) @ rest)
    = Some (query origin shape order count any, rest)"
  by (simp add: read_query_def assms(4) shape_read [OF assms(1,2)] search_tail_read [OF assms(1,3)] query_def)

lemma member_origin: "read_origin rf ([''FROMMEMBER'', m] @ rest) = Some (FromMember m, rest)"
  by (simp add: read_origin_def)

lemma coord_origin:
  assumes "rf s = Some (longitude c)" "rf t = Some (latitude c)"
  shows "read_origin rf ([''FROMLONLAT'', s, t] @ rest) = Some (FromLonLat c, rest)"
  using assms by (simp add: read_origin_def)

lemma search_cmd_wire:
  assumes "enc_documented enc"
  shows "wire enc (add_search_tail order count any (geo_search_shape_add_to shape c))
    = wire enc c @ wire enc (geo_search_shape_add_to shape []) @ wire enc (add_search_tail order count any [])"
  using search_tail.wire_add_to [of enc "(order, count, any)" "geo_search_shape_add_to shape c"]
    geo_shape.wire_add_to [of enc shape c]
  by simp

text \<open>
  C19: a search is read back.  Whatever the key, the origin, the shape, the order and the count, the documented syntax reads the
  arguments of the four searches as that key, that member or that position with the longitude first,
  that shape with its unit, that order and that count, and of those that store also the destination, the source and the flag for
  storing distances.  \<open>ANY\<close> is sent exactly when a count is, since it only qualifies it.
\<close>

theorem geosearch_read_back:
  assumes "enc_documented enc" "list_all (float_ok enc rf) (shape_floats shape)"
    and "float_ok enc rf (longitude pos)" "float_ok enc rf (latitude pos)"
  shows "read_geosearch rf (snd (geosearch_from_member X (recorder enc) [key] [m] shape order count any w))
      = Some (key, query (FromMember m) shape order count any)
    \<and> read_geosearch rf (snd (geosearch_from_coord X (recorder enc) [key] pos shape order count any w))
      = Some (key, query (FromLonLat pos) shape order count any)
    \<and> read_geosearchstore rf (snd (geosearchstore_from_member X (recorder enc) [dst] [src] [m] shape order count any dist w))
      = Some (dst, src, query (FromMember m) shape order count any, dist)
    \<and> read_geosearchstore rf (snd (geosearchstore_from_coord X (recorder enc) [dst] [src] pos shape order count any dist w))
      = Some (dst, src, query (FromLonLat pos) shape order count any, dist)"
proof -
  obtain s t where st: "enc (AF64 (longitude pos)) = [s]" "rf s = Some (longitude pos)"
      "enc (AF64 (latitude pos)) = [t]" "rf t = Some (latitude pos)"
    using assms(3,4) by (auto elim!: float_okE)
  note simps = call_recorder search_cmd_wire [OF assms(1)] enc_facts [OF assms(1)] st
  note read = query_read [OF assms(1,2) _ member_origin] query_read [OF assms(1,2) _ coord_origin [OF st(2,4)]]
  note plain = read [where rest = "[]", simplified] and stored = read [where rest = "[''STOREDIST'']", simplified]
  show ?thesis
  proof (intro conjI)
    show "read_geosearch rf (snd (geosearch_from_member X (recorder enc) [key] [m] shape order count any w))
        = Some (key, query (FromMember m) shape order count any)"
      by (simp add: geosearch_from_member_def simps read_geosearch_def plain)
    show "read_geosearch rf (snd (geosearch_from_coord X (recorder enc) [key] pos shape order count any w))
        = Some (key, query (FromLonLat pos) shape order count any)"
      by (simp add: geosearch_from_coord_def simps read_geosearch_def plain)
    show "read_geosearchstore rf (snd (geosearchstore_from_member X (recorder enc) [dst] [src] [m] shape order count any dist w))
        = Some (dst, src, query (FromMember m) shape order count any, dist)"
      by (cases dist) (simp_all add: geosearchstore_from_member_def simps read_geosearchstore_def plain stored read_flag_def)
    show "read_geosearchstore rf (snd (geosearchstore_from_coord X (recorder enc) [dst] [src] pos shape order count any dist w))
        = Some (dst, src, query (FromLonLat pos) shape order count any, dist)"
      by (cases dist) (simp_all add: geosearchstore_from_coord_def simps read_geosearchstore_def plain stored read_flag_def)
  qed
qed

text \<open>An instance: floats written and read as the number of their bit pattern.\<close>

definition pattern_enc :: "rarg \<Rightarrow> bytes list" where
  "pattern_enc a = (case a of AF64 f \<Rightarrow> [nat_to_string (unat f)] | _ \<Rightarrow> sample_enc a)"

definition read_pattern :: "bytes \<Rightarrow> f64 option" where
  "read_pattern s = map_option of_nat (parse_digits 0 s)"

lemma pattern_enc_documented: "enc_documented pattern_enc"
  by (simp add: enc_documented_def pattern_enc_def)

lemma pattern_float_ok: "float_ok pattern_enc read_pattern f"
  by (simp add: float_ok_def pattern_enc_def read_pattern_def parse_digits_nat_to_string)

theorem geosearch_read_back_witness:
  "read_geosearch read_pattern
      (snd (geosearch_from_coord sample_ext (recorder pattern_enc) [''k''] \<lparr>longitude = 7, latitude = 9\<rparr>
        (ByBox 1 2 Miles) (Some Desc) (Some 5) True []))
    = Some (''k'', query (FromLonLat \<lparr>longitude = 7, latitude = 9\<rparr>) (ByBox 1 2 Miles) (Some Desc) (Some 5) True)"
  using geosearch_read_back [OF pattern_enc_documented, of read_pattern "ByBox 1 2 Miles" "\<lparr>longitude = 7, latitude = 9\<rparr>"
      sample_ext "''k''" "''m''" "Some Desc" "Some 5" True "[]"]
  by (simp add: pattern_float_ok)

section \<open>Sorted-set commands\<close>

datatype zrange = ByIndex i64 i64 | ByScore score_bound score_bound | ByLex lex_bound lex_bound

definition read_score_bound :: "(bytes \<Rightarrow> f64 option) \<Rightarrow> bytes \<Rightarrow> score_bound option" where
  "read_score_bound rf s =
     (if s = ''-inf'' then Some ScoreNegativeInfinity
      else if s = ''+inf'' then Some ScorePositiveInfinity
      else (case s of
              c # cs \<Rightarrow> if c = CHR ''('' then map_option ScoreExclusive (rf cs) else map_option ScoreInclusive (rf s)
            | [] \<Rightarrow> None))"

definition read_lex_bound :: "bytes \<Rightarrow> lex_bound option" where
  "read_lex_bound s =
     (if s = ''-'' then Some LexNegativeInfinity
      else if s = ''+'' then Some LexPositiveInfinity
      else (case s of
              c # cs \<Rightarrow> if c = CHR ''('' then Some (LexExclusive cs)
                          else if c = CHR ''['' then Some (LexInclusive cs) else None
            | [] \<Rightarrow> None))"

text \<open>
  \<open>ZRANGESTORE dst src min max [BYSCORE | BYLEX] [REV] [LIMIT offset count]\<close>, where \<open>REV\<close> means that a score or
  lexicographical range is given with its maximum first.
\<close>

definition read_zrangestore ::
  "(bytes \<Rightarrow> f64 option) \<Rightarrow> bytes list \<Rightarrow> (bytes \<times> bytes \<times> zrange \<times> bool \<times> limit option) option" where
  "read_zrangestore rf args =
     (case args of
        kw # dst # src # a # b # rest \<Rightarrow>
          if kw \<noteq> ''ZRANGESTORE'' then None
          else (case read_choice [(''BYSCORE'', True), (''BYLEX'', False)] rest of (by_score, rest) \<Rightarrow>
                case read_flag ''REV'' rest of (reverse, rest) \<Rightarrow>
                case read_limit rest of
                  Some (lim, []) \<Rightarrow>
                    (let (lo, hi) = (if reverse \<and> by_score \<noteq> None then (b, a) else (a, b)) in
                     map_option (\<lambda>r. (dst, src, r, reverse, lim))
                       (case by_score of
                          None \<Rightarrow> (case (parse_i64 lo, parse_i64 hi) of (Some i, Some j) \<Rightarrow> Some (ByIndex i j) | _ \<Rightarrow> None)
                        | Some True \<Rightarrow>
                            (case (read_score_bound rf lo, read_score_bound rf hi) of
                               (Some i, Some j) \<Rightarrow> Some (ByScore i j) | _ \<Rightarrow> None)
                        | Some False \<Rightarrow>
                            (case (read_lex_bound lo, read_lex_bound hi) of
                               (Some i, Some j) \<Rightarrow> Some (ByLex i j) | _ \<Rightarrow> None)))
                | _ \<Rightarrow> None)
      | _ \<Rightarrow> None)"

text \<open>
  \<open>ZUNION numkeys key ... [AGGREGATE SUM | MIN | MAX] [WITHSCORES]\<close>, and the variants that store, which take a
  destination first and no scores.
\<close>

definition aggregates :: "(string \<times> aggregation_type) list" where
  "aggregates = [(''SUM'', AggSum), (''MIN'', AggMin), (''MAX'', AggMax)]"

definition read_aggregate :: "bytes list \<Rightarrow> (aggregation_type option \<times> bytes list) option" where
  "read_aggregate args =
     (case args of
        a # b # rest \<Rightarrow>
          if a = ''AGGREGATE'' then map_option (\<lambda>g. (Some g, rest)) (map_of aggregates b) else Some (None, args)
      | _ \<Rightarrow> Some (None, args))"

definition read_zsetop :: "string \<Rightarrow> bytes list \<Rightarrow> (bytes list \<times> aggregation_type option \<times> bool) option" where
  "read_zsetop op args =
     (case args of
        kw # rest \<Rightarrow>
          if kw \<noteq> op then None
          else Option.bind (read_counted rest) (\<lambda>(keys, rest).
               Option.bind (read_aggregate rest) (\<lambda>(agg, rest).
                 case read_flag ''WITHSCORES'' rest of (scores, []) \<Rightarrow> Some (keys, agg, scores) | _ \<Rightarrow> None))
      | [] \<Rightarrow> None)"

definition read_zsetop_store :: "string \<Rightarrow> bytes list \<Rightarrow> (bytes \<times> bytes list \<times> aggregation_type option) option" where
  "read_zsetop_store op args =
     (case args of
        kw # dst # rest \<Rightarrow>
          if kw \<noteq> op then None
          else Option.bind (read_counted rest) (\<lambda>(keys, rest).
               case read_aggregate rest of Some (agg, []) \<Rightarrow> Some (dst, keys, agg) | _ \<Rightarrow> None)
      | _ \<Rightarrow> None)"

text \<open>
  The text of a finite score: it is read as the score, and it starts neither with a parenthesis nor is it that of
  an infinity.
\<close>

fun score_bound_ok :: "redis_ext \<Rightarrow> (bytes \<Rightarrow> f64 option) \<Rightarrow> score_bound \<Rightarrow> bool" where
  "score_bound_ok X rf (ScoreInclusive v) \<longleftrightarrow>
     (let s = x_f64_display X v in rf s = Some v \<and> s \<notin> {[], ''-inf'', ''+inf''} \<and> hd s \<noteq> CHR ''('')"
| "score_bound_ok X rf (ScoreExclusive v) \<longleftrightarrow> rf (x_f64_display X v) = Some v"
| "score_bound_ok X rf _ \<longleftrightarrow> True"

section \<open>What sorted-set commands write\<close>

lemma score_bound_read: "score_bound_ok X rf b \<Longrightarrow> read_score_bound rf (score_bound_to_arg X b) = Some b"
  by (cases b) (auto simp: read_score_bound_def score_bound_to_arg_def Let_def split: list.splits)

lemma lex_bound_read [simp]: "read_lex_bound (lex_bound_to_arg b) = Some b"
  by (cases b) (auto simp: read_lex_bound_def lex_bound_to_arg_def)

lemma limit_read:
  "enc_documented enc \<Longrightarrow> read_limit (wire enc (limit_args lim)) = Some (lim, [])"
  by (cases lim) (simp_all add: read_limit_def limit_args_def enc_facts parse_i64_to_string)

lemma limit_no_rev:
  "enc_documented enc \<Longrightarrow> read_flag ''REV'' (wire enc (flag reverse ''REV'') @ wire enc (limit_args lim))
    = (reverse, wire enc (limit_args lim))"
  by (cases reverse; cases lim) (simp_all add: read_flag_def limit_args_def enc_facts)

lemma wire_singletons: "enc_documented enc \<Longrightarrow> wire enc (map AGen (map (\<lambda>k. [k]) keys)) = keys"
  by (induction keys) (simp_all add: enc_facts)

lemma counted_read:
  assumes "enc_documented enc" "keys \<noteq> []"
  shows "read_counted (wire enc (counted_keys (map (\<lambda>k. [k]) keys)) @ rest) = Some (keys, rest)"
  using assms(2) wire_singletons [OF assms(1), of keys]
  by (simp add: read_counted_def counted_keys_def enc_facts [OF assms(1)] parse_digits_nat_to_string)

lemma aggregate_read:
  assumes "enc_documented enc" "rest = [] \<or> rest = [''WITHSCORES'']"
  shows "read_aggregate (wire enc (aggregate_args agg) @ rest) = Some (agg, rest)"
proof (cases agg)
  case None
  with assms(2) show ?thesis by (auto simp: read_aggregate_def aggregate_args_def)
next
  case (Some a)
  then show ?thesis
    by (cases a) (simp_all add: read_aggregate_def aggregate_args_def aggregates_def enc_facts [OF assms(1)])
qed

lemma zsetop_read:
  assumes "enc_documented enc" "keys \<noteq> []"
  shows "read_zsetop op (op # wire enc (counted_keys (map (\<lambda>k. [k]) keys)) @ wire enc (aggregate_args agg)
      @ (if scores then [''WITHSCORES''] else [])) = Some (keys, agg, scores)"
    and "read_zsetop_store op (op # dst # wire enc (counted_keys (map (\<lambda>k. [k]) keys)) @ wire enc (aggregate_args agg))
      = Some (dst, keys, agg)"
  using aggregate_read [OF assms(1), of "if scores then [''WITHSCORES''] else []" agg] aggregate_read [OF assms(1), of "[]" agg]
  by (auto simp: read_zsetop_def read_zsetop_store_def counted_read [OF assms] read_flag_def)

text \<open>
  C20: the sorted-set commands with options are read back.  The documented syntax reads what the range, union, intersection and
  difference commands write as the destination, the source, the bounds, the direction, the limit, the keys in their order, the aggregation and the
  request for scores that the caller gave.  In particular a reverse range by score or by value is sent with the bounds exchanged,
  as the server expects it, and one by index is not.
\<close>

theorem zset_read_back:
  assumes "enc_documented enc" "score_bound_ok X rf mn" "score_bound_ok X rf mx" "keys \<noteq> []"
  shows "read_zrangestore rf (snd (zrangestore_by_index X (recorder enc) [dst] [src] i j reverse w))
      = Some (dst, src, ByIndex i j, reverse, None)
    \<and> read_zrangestore rf (snd (zrangestore_by_score X (recorder enc) [dst] [src] mn mx reverse lim w))
      = Some (dst, src, ByScore mn mx, reverse, lim)
    \<and> read_zrangestore rf (snd (zrangestore_by_lex X (recorder enc) [dst] [src] ln lx reverse lim w))
      = Some (dst, src, ByLex ln lx, reverse, lim)
    \<and> read_zsetop ''ZUNION'' (snd (zunion X (recorder enc) (map (\<lambda>k. [k]) keys) agg w)) = Some (keys, agg, False)
    \<and> read_zsetop ''ZUNION'' (snd (zunion_withscores X (recorder enc) (map (\<lambda>k. [k]) keys) agg w)) = Some (keys, agg, True)
    \<and> read_zsetop ''ZINTER'' (snd (zinter X (recorder enc) (map (\<lambda>k. [k]) keys) agg w)) = Some (keys, agg, False)
    \<and> read_zsetop ''ZINTER'' (snd (zinter_withscores X (recorder enc) (map (\<lambda>k. [k]) keys) agg w)) = Some (keys, agg, True)
    \<and> read_zsetop ''ZDIFF'' (snd (zdiff X (recorder enc) (map (\<lambda>k. [k]) keys) w)) = Some (keys, None, False)
    \<and> read_zsetop ''ZDIFF'' (snd (zdiff_withscores X (recorder enc) (map (\<lambda>k. [k]) keys) w)) = Some (keys, None, True)
    \<and> read_zsetop_store ''ZDIFFSTORE'' (snd (zdiffstore X (recorder enc) [dst] (map (\<lambda>k. [k]) keys) w)) = Some (dst, keys, None)
    \<and> read_zsetop_store op (snd (zsetop_store X (recorder enc) op [dst] (map (\<lambda>k. [k]) keys) agg w)) = Some (dst, keys, agg)"
proof -
  note simps = call_recorder enc_facts [OF assms(1)] read_zrangestore_def read_choice_def parse_i64_to_string Let_def
    limit_read [OF assms(1)] limit_no_rev [OF assms(1)] score_bound_read [OF assms(2)] score_bound_read [OF assms(3)]
  note ops = zsetop_read [OF assms(1,4)]
  have no_agg: "wire enc (aggregate_args None) = []" by (simp add: aggregate_args_def)
  show ?thesis
    apply (intro conjI)
    subgoal by (cases reverse) (simp_all add: zrangestore_by_index_def simps read_flag_def read_limit_def)
    subgoal using limit_no_rev [OF assms(1), of reverse lim] by (cases reverse) (simp_all add: zrangestore_by_score_def simps)
    subgoal using limit_no_rev [OF assms(1), of reverse lim] by (cases reverse) (simp_all add: zrangestore_by_lex_def simps)
    subgoal using ops(1) [of "''ZUNION''" agg False] by (simp add: zunion_def simps)
    subgoal using ops(1) [of "''ZUNION''" agg True] by (simp add: zunion_withscores_def simps)
    subgoal using ops(1) [of "''ZINTER''" agg False] by (simp add: zinter_def simps)
    subgoal using ops(1) [of "''ZINTER''" agg True] by (simp add: zinter_withscores_def simps)
    subgoal using ops(1) [of "''ZDIFF''" None False] by (simp add: zdiff_def simps no_agg)
    subgoal using ops(1) [of "''ZDIFF''" None True] by (simp add: zdiff_withscores_def simps no_agg)
    subgoal using ops(2) [of "''ZDIFFSTORE''" dst None] by (simp add: zdiffstore_def simps no_agg)
    subgoal using ops(2) [of op dst agg] by (simp add: zsetop_store_def simps)
    done
qed

theorem zset_read_back_witness:
  "read_zrangestore read_pattern
      (snd (zrangestore_by_score (sample_ext\<lparr>x_f64_display := (\<lambda>f. nat_to_string (unat f))\<rparr>) (recorder pattern_enc)
         [''d''] [''s''] (ScoreExclusive 3) ScorePositiveInfinity True (Some \<lparr>lim_offset = 0, lim_count = 10\<rparr>) []))
    = Some (''d'', ''s'', ByScore (ScoreExclusive 3) ScorePositiveInfinity, True, Some \<lparr>lim_offset = 0, lim_count = 10\<rparr>)"
  using zset_read_back [OF pattern_enc_documented, of "sample_ext\<lparr>x_f64_display := (\<lambda>f. nat_to_string (unat f))\<rparr>" read_pattern
      "ScoreExclusive 3" ScorePositiveInfinity "[''k'']" "''d''" "''s''" 0 0 True "[]" "Some \<lparr>lim_offset = 0, lim_count = 10\<rparr>"]
  by (simp add: read_pattern_def parse_digits_nat_to_string)

end
