(* ===== verification/Key_Grammar.thy ===== *)
theory Key_Grammar
  imports Query_Grammar Hashes Generic Bitmap
begin

text \<open>
  The key, hash and bit-field commands with options, read back by the documented argument syntax, with the
  readers of \<open>Query_Grammar\<close>.
\<close>

section \<open>Field expiry\<close>

text \<open>
  \<open>[EX s | PX ms | EXAT t | PXAT t | keyword]\<close>, where the keyword is \<open>PERSIST\<close> for \<open>HGETEX\<close> and \<open>KEEPTTL\<close> for
  \<open>HSETEX\<close>: each of them is defined for one of the commands only.
\<close>

definition timed :: "(string \<times> (u64 \<Rightarrow> expiry_set)) list" where
  "timed = [(''EX'', Seconds), (''PX'', Milliseconds), (''EXAT'', UnixSeconds), (''PXAT'', UnixMilliseconds)]"

definition read_expiry :: "string \<times> expiry_set \<Rightarrow> bytes list \<Rightarrow> (expiry_set option \<times> bytes list) option" where
  "read_expiry extra args =
     (case args of
        a # rest \<Rightarrow>
          if a = fst extra then Some (Some (snd extra), rest)
          else (case map_of timed a of
                  Some mk \<Rightarrow>
                    (case rest of
                       b # rest' \<Rightarrow>
                         (case parse_digits 0 b of
                            Some n \<Rightarrow> if n < 2 ^ 64 then Some (Some (mk (of_nat n)), rest') else None
                          | None \<Rightarrow> None)
                     | [] \<Rightarrow> None)
                | None \<Rightarrow> Some (None, args))
      | [] \<Rightarrow> Some (None, []))"

definition read_fields :: "bytes list \<Rightarrow> bytes list option" where
  "read_fields args =
     (case args of
        a # rest \<Rightarrow> if a = ''FIELDS'' then (case read_counted rest of Some (flds, []) \<Rightarrow> Some flds | _ \<Rightarrow> None) else None
      | [] \<Rightarrow> None)"

text \<open>The counted list of \<open>HSETEX\<close> counts fields, each followed by its value.\<close>

definition read_field_values :: "bytes list \<Rightarrow> (bytes \<times> bytes) list option" where
  "read_field_values args =
     (case args of
        a # n # rest \<Rightarrow>
          if a \<noteq> ''FIELDS'' then None
          else Option.bind (parse_digits 0 n) (\<lambda>k.
               Option.bind (read_pairs rest) (\<lambda>ps. if 0 < k \<and> length ps = k then Some ps else None))
      | _ \<Rightarrow> None)"

definition read_hgetex :: "bytes list \<Rightarrow> (bytes \<times> expiry_set option \<times> bytes list) option" where
  "read_hgetex args =
     (case args of
        kw # key # rest \<Rightarrow>
          if kw \<noteq> ''HGETEX'' then None
          else Option.bind (read_expiry (''PERSIST'', Persist) rest) (\<lambda>(expiry, rest).
                 map_option (\<lambda>flds. (key, expiry, flds)) (read_fields rest))
      | _ \<Rightarrow> None)"

definition read_hsetex ::
  "bytes list \<Rightarrow> (bytes \<times> hash_field_conditional_change option \<times> expiry_set option \<times> (bytes \<times> bytes) list) option" where
  "read_hsetex args =
     (case args of
        kw # key # rest \<Rightarrow>
          if kw \<noteq> ''HSETEX'' then None
          else (case read_choice [(''FXX'', OnlyIfAllExist), (''FNX'', OnlyIfNoneExist)] rest of (cond, rest) \<Rightarrow>
                Option.bind (read_expiry (''KEEPTTL'', KeepExisting) rest) (\<lambda>(expiry, rest).
                  map_option (\<lambda>fvs. (key, cond, expiry, fvs)) (read_field_values rest)))
      | _ \<Rightarrow> None)"

text \<open>
  \<open>HEXPIRE key seconds [NX | XX | GT | LT] FIELDS n field ...\<close> and its variants, and the commands that ask
  for the expiry, which take neither a time nor a condition.
\<close>

definition conditions :: "(string \<times> expire_options) list" where
  "conditions = [(''NX'', HasNoExpiry), (''XX'', HasExistingExpiry), (''GT'', NewExpiryGreaterThanCurrent),
     (''LT'', NewExpiryLessThanCurrent)]"

definition read_hexpire :: "string \<Rightarrow> bytes list \<Rightarrow> (bytes \<times> i64 \<times> expire_options option \<times> bytes list) option" where
  "read_hexpire op args =
     (case args of
        kw # key # v # rest \<Rightarrow>
          if kw \<noteq> op then None
          else (case read_choice conditions rest of (cond, rest) \<Rightarrow>
                Option.bind (parse_i64 v) (\<lambda>i. map_option (\<lambda>flds. (key, i, cond, flds)) (read_fields rest)))
      | _ \<Rightarrow> None)"

definition read_field_query :: "string \<Rightarrow> bytes list \<Rightarrow> (bytes \<times> bytes list) option" where
  "read_field_query op args =
     (case args of
        kw # key # rest \<Rightarrow> if kw = op then map_option (Pair key) (read_fields rest) else None
      | _ \<Rightarrow> None)"

section \<open>What the hash commands write\<close>

lemma expiry_read:
  assumes "enc_documented enc" "fst extra = ''PERSIST'' \<or> fst extra = ''KEEPTTL''"
  shows "read_expiry extra (wire enc (case expiry of None \<Rightarrow> [] | Some e \<Rightarrow> expiry_set_add_to e []) @ ''FIELDS'' # rest)
    = (if expiry = Some KeepExisting \<and> fst extra \<noteq> ''KEEPTTL'' then Some (None, ''KEEPTTL'' # ''FIELDS'' # rest)
       else if expiry = Some Persist \<and> fst extra \<noteq> ''PERSIST'' then Some (None, ''PERSIST'' # ''FIELDS'' # rest)
       else Some (if expiry = Some KeepExisting \<or> expiry = Some Persist then Some (snd extra) else expiry, ''FIELDS'' # rest))"
proof (cases expiry)
  case None
  with assms(2) show ?thesis by (auto simp: read_expiry_def timed_def)
next
  case (Some e)
  have "unat v < 2 ^ 64" for v :: u64 using unsigned_less [of v] by simp
  then show ?thesis
    using assms(2) unfolding Some
    by (cases e) (auto simp: read_expiry_def timed_def enc_facts [OF assms(1)] parse_digits_nat_to_string)
qed

lemma fields_read:
  assumes "enc_documented enc" "flds \<noteq> []"
  shows "read_fields (''FIELDS'' # wire enc (counted_keys (map (\<lambda>f. [f]) flds))) = Some flds"
  using counted_read [OF assms, of "[]"] by (simp add: read_fields_def)

lemma wire_expiry:
  "wire enc (case expiry of None \<Rightarrow> a # c | Some e \<Rightarrow> expiry_set_add_to e (a # c))
     = wire enc (a # c) @ wire enc (case expiry of None \<Rightarrow> [] | Some e \<Rightarrow> expiry_set_add_to e [])"
  using expiry_set.wire_add_to [of enc _ "a # c"] by (simp split: option.split)

lemma wire_condition:
  "wire enc (case cond of None \<Rightarrow> a # c | Some e \<Rightarrow> expire_options_add_to e (a # c))
     = wire enc (a # c) @ wire enc (case cond of None \<Rightarrow> [] | Some e \<Rightarrow> expire_options_add_to e [])"
  using expire_options.wire_add_to [of enc _ "a # c"] by (simp split: option.split)

lemma condition_read:
  assumes "enc_documented enc"
  shows "read_choice conditions (wire enc (case cond of None \<Rightarrow> [] | Some e \<Rightarrow> expire_options_add_to e []) @ ''FIELDS'' # rest)
    = (cond, ''FIELDS'' # rest)"
proof (cases cond)
  case (Some e)
  then show ?thesis by (cases e) (simp_all add: read_choice_def conditions_def enc_facts [OF assms])
qed (simp add: read_choice_def conditions_def)

lemma hfield_expire_read:
  assumes "enc_documented enc" "flds \<noteq> []"
  shows "read_hexpire op (snd (hfield_expire X (recorder enc) op [key] (Some v) (map (\<lambda>f. [f]) flds) cond w))
      = Some (key, v, cond, flds)"
    and "read_field_query op (snd (hfield_expire X (recorder enc) op [key] None (map (\<lambda>f. [f]) flds) None w))
      = Some (key, flds)"
  by (simp_all add: hfield_expire_def Let_def call_recorder wire_condition enc_facts [OF assms(1)] read_hexpire_def
      read_field_query_def condition_read [OF assms(1)] fields_read [OF assms] parse_i64_to_string)

lemma field_values_read:
  assumes "enc_documented enc" "fvs \<noteq> []"
  shows "read_field_values (''FIELDS'' # nat_to_string (length fvs) #
      wire enc (concat (map ((\<lambda>(f, v). [AGen f, AGen v]) \<circ> (\<lambda>(f, v). ([f], [v]))) fvs))) = Some fvs"
proof -
  have "wire enc (concat (map ((\<lambda>(f, v). [AGen f, AGen v]) \<circ> (\<lambda>(f, v). ([f], [v]))) fvs)) = flatten fvs"
    by (induction fvs) (auto simp: enc_facts [OF assms(1)])
  with assms(2) show ?thesis by (simp add: read_field_values_def parse_digits_nat_to_string)
qed

lemma hgetex_wire:
  assumes "enc_documented enc"
  shows "snd (hgetex X (recorder enc) [key] flds expiry w)
    = ''HGETEX'' # key # wire enc (case expiry of None \<Rightarrow> [] | Some e \<Rightarrow> expiry_set_add_to e []) @ ''FIELDS'' # wire enc (counted_keys flds)"
  by (simp add: hgetex_def Let_def call_recorder wire_expiry enc_facts [OF assms])

lemma hsetex_condition_read:
  assumes "enc_documented enc" "rest \<noteq> []" "hd rest \<notin> {''FXX'', ''FNX''}"
  shows "read_choice [(''FXX'', OnlyIfAllExist), (''FNX'', OnlyIfNoneExist)]
      (wire enc (opt_arg (\<lambda>h. AStr (hash_field_conditional_change_as_arg h)) cond) @ rest) = (cond, rest)"
proof (cases cond)
  case None
  with assms(2,3) show ?thesis by (cases rest) (auto simp: read_choice_def)
next
  case (Some h)
  then show ?thesis by (cases h) (simp_all add: read_choice_def enc_facts [OF assms(1)])
qed

lemma expiry_no_condition:
  assumes "enc_documented enc"
  shows "hd (wire enc (case expiry of None \<Rightarrow> [] | Some e \<Rightarrow> expiry_set_add_to e []) @ ''FIELDS'' # rest) \<notin> {''FXX'', ''FNX''}"
proof (cases expiry)
  case (Some e)
  then show ?thesis by (cases e) (simp_all add: enc_facts [OF assms])
qed simp

text \<open>
  C21: the field expiry commands are read back, and what they cannot express is rejected.  The documented syntax reads
  what \<open>hexpire\<close>, its three variants and the commands that ask for an expiry write as the key, the time, the condition and the
  fields, and \<open>hgetex\<close> and \<open>hsetex\<close> as the key, the condition, the expiry and the fields with their values, with one
  exception each: \<open>hgetex\<close> with \<open>KeepExisting\<close> and \<open>hsetex\<close> with \<open>Persist\<close> are sent with a keyword that the command does not have.
\<close>

theorem hash_expiry_read_back:
  assumes "enc_documented enc" "flds \<noteq> []" "fvs \<noteq> []"
  shows "read_hexpire ''HEXPIRE'' (snd (hexpire X (recorder enc) [key] v (map (\<lambda>f. [f]) flds) cond w)) = Some (key, v, cond, flds)
    \<and> read_hexpire ''HEXPIREAT'' (snd (hexpireat X (recorder enc) [key] v (map (\<lambda>f. [f]) flds) cond w)) = Some (key, v, cond, flds)
    \<and> read_hexpire ''HPEXPIRE'' (snd (hpexpire X (recorder enc) [key] v (map (\<lambda>f. [f]) flds) cond w)) = Some (key, v, cond, flds)
    \<and> read_hexpire ''HPEXPIREAT'' (snd (hpexpireat X (recorder enc) [key] v (map (\<lambda>f. [f]) flds) cond w)) = Some (key, v, cond, flds)
    \<and> read_field_query ''HTTL'' (snd (httl X (recorder enc) [key] (map (\<lambda>f. [f]) flds) w)) = Some (key, flds)
    \<and> read_field_query ''HPERSIST'' (snd (hpersist X (recorder enc) [key] (map (\<lambda>f. [f]) flds) w)) = Some (key, flds)
    \<and> read_hgetex (snd (hgetex X (recorder enc) [key] (map (\<lambda>f. [f]) flds) expiry w))
        = (if expiry = Some KeepExisting then None else Some (key, expiry, flds))
    \<and> read_hsetex (snd (hsetex X (recorder enc) [key] (map (\<lambda>(f, v). ([f], [v])) fvs) fcond expiry w))
        = (if expiry = Some Persist then None else Some (key, fcond, expiry, fvs))"
proof -
  note hfield = hfield_expire_read [OF assms(1,2)]
  have "read_hgetex (snd (hgetex X (recorder enc) [key] (map (\<lambda>f. [f]) flds) expiry w))
      = (if expiry = Some KeepExisting then None else Some (key, expiry, flds))"
    by (simp add: hgetex_wire [OF assms(1)] read_hgetex_def expiry_read [OF assms(1)] fields_read [OF assms(1,2)])
      (simp add: read_fields_def)
  moreover have "read_hsetex (snd (hsetex X (recorder enc) [key] (map (\<lambda>(f, v). ([f], [v])) fvs) fcond expiry w))
      = (if expiry = Some Persist then None else Some (key, fcond, expiry, fvs))"
    by (simp add: hsetex_def Let_def call_recorder wire_expiry enc_facts [OF assms(1)] read_hsetex_def
        hsetex_condition_read [OF assms(1) _ expiry_no_condition [OF assms(1)]] expiry_read [OF assms(1)]
        field_values_read [OF assms(1,3)])
      (simp add: read_field_values_def)
  ultimately show ?thesis
    by (simp add: hexpire_def hexpireat_def hpexpire_def hpexpireat_def httl_def hpersist_def hfield)
qed

theorem hash_expiry_read_back_witness:
  "read_hsetex (snd (hsetex sample_ext (recorder sample_enc) [''k''] [([''f''], [''v''])] (Some OnlyIfNoneExist) (Some (Seconds 60)) []))
      = Some (''k'', Some OnlyIfNoneExist, Some (Seconds 60), [(''f'', ''v'')])
   \<and> read_hgetex (snd (hgetex sample_ext (recorder sample_enc) [''k''] [[''f'']] (Some KeepExisting) [])) = None"
  using hash_expiry_read_back [OF sample_enc_documented, of "[''f'']" "[(''f'', ''v'')]" sample_ext "''k''" 0 None "[]"
      "Some (Seconds 60)" "Some OnlyIfNoneExist"]
    hash_expiry_read_back [OF sample_enc_documented, of "[''f'']" "[(''f'', ''v'')]" sample_ext "''k''" 0 None "[]"
      "Some KeepExisting" None]
  by simp

section \<open>Key commands\<close>

definition read_text :: "string \<Rightarrow> bytes list \<Rightarrow> bytes option \<times> bytes list" where
  "read_text kw args =
     (case args of a # b # rest \<Rightarrow> if a = kw then (Some b, rest) else (None, args) | _ \<Rightarrow> (None, args))"

text \<open>\<open>SORT key [LIMIT offset count] [ASC | DESC] [ALPHA] [STORE destination]\<close>, \<open>SORT_RO\<close> without \<open>STORE\<close>.\<close>

definition read_sort ::
  "string \<Rightarrow> bytes list \<Rightarrow> (bytes \<times> order_by option \<times> limit option \<times> bool \<times> bytes option) option" where
  "read_sort op args =
     (case args of
        kw # key # rest \<Rightarrow>
          if kw \<noteq> op then None
          else Option.bind (read_limit rest) (\<lambda>(lim, rest).
                 case read_choice orders rest of (order, rest) \<Rightarrow>
                 case read_flag ''ALPHA'' rest of (alpha, rest) \<Rightarrow>
                 case read_text ''STORE'' rest of
                   (dst, []) \<Rightarrow> if op = ''SORT_RO'' \<and> dst \<noteq> None then None else Some (key, order, lim, alpha, dst)
                 | _ \<Rightarrow> None)
      | _ \<Rightarrow> None)"

text \<open>\<open>COPY source destination [DB db] [REPLACE]\<close>\<close>

definition read_copy :: "bytes list \<Rightarrow> (bytes \<times> bytes \<times> i64 option \<times> bool) option" where
  "read_copy args =
     (case args of
        kw # src # dst # rest \<Rightarrow>
          if kw \<noteq> ''COPY'' then None
          else Option.bind (read_int ''DB'' rest) (\<lambda>(db, rest).
                 case read_flag ''REPLACE'' rest of (replace, []) \<Rightarrow> Some (src, dst, db, replace) | _ \<Rightarrow> None)
      | _ \<Rightarrow> None)"

text \<open>\<open>RESTORE key ttl payload [REPLACE] [ABSTTL] [IDLETIME seconds] [FREQ frequency]\<close>\<close>

definition read_restore :: "bytes list \<Rightarrow> (bytes \<times> i64 \<times> bytes \<times> restore_options) option" where
  "read_restore args =
     (case args of
        kw # key # ttl # payload # rest \<Rightarrow>
          if kw \<noteq> ''RESTORE'' then None
          else (case read_flag ''REPLACE'' rest of (replace, rest) \<Rightarrow>
                case read_flag ''ABSTTL'' rest of (absttl, rest) \<Rightarrow>
                Option.bind (parse_i64 ttl) (\<lambda>t.
                Option.bind (read_int ''IDLETIME'' rest) (\<lambda>(idle, rest).
                  case read_int ''FREQ'' rest of
                    Some (freq, []) \<Rightarrow>
                      Some (key, t, payload, \<lparr>res_replace = replace, res_absttl = absttl, res_idletime = idle, res_frequency = freq\<rparr>)
                  | _ \<Rightarrow> None)))
      | _ \<Rightarrow> None)"

text \<open>\<open>MIGRATE host port key db timeout [COPY] [REPLACE] [AUTH password | AUTH2 user password]\<close>\<close>

definition read_migrate :: "bytes list \<Rightarrow> (bytes \<times> i64 \<times> bytes \<times> i64 \<times> i64 \<times> migrate_options) option" where
  "read_migrate args =
     (case args of
        kw # host # port # key # db # timeout # rest \<Rightarrow>
          if kw \<noteq> ''MIGRATE'' then None
          else (case read_flag ''COPY'' rest of (copy_it, rest) \<Rightarrow>
                case read_flag ''REPLACE'' rest of (replace, rest) \<Rightarrow>
                case (parse_i64 port, parse_i64 db, parse_i64 timeout) of
                  (Some p, Some d, Some t) \<Rightarrow>
                    map_option (\<lambda>(u, pw). (host, p, key, d, t,
                        \<lparr>mig_copy = copy_it, mig_replace = replace, mig_password = pw, mig_username = u\<rparr>))
                      (case rest of
                         [] \<Rightarrow> Some (None, None)
                       | [a, pw] \<Rightarrow> if a = ''AUTH'' then Some (None, Some pw) else None
                       | [a, u, pw] \<Rightarrow> if a = ''AUTH2'' then Some (Some u, Some pw) else None
                       | _ \<Rightarrow> None)
                | _ \<Rightarrow> None)
      | _ \<Rightarrow> None)"

text \<open>\<open>SCAN cursor [MATCH pattern] [COUNT count] [TYPE type]\<close>\<close>

definition read_scan :: "bytes list \<Rightarrow> (bytes \<times> bytes option \<times> i64 option \<times> bytes option) option" where
  "read_scan args =
     (case args of
        kw # cursor # rest \<Rightarrow>
          if kw \<noteq> ''SCAN'' then None
          else (case read_text ''MATCH'' rest of (pattern, rest) \<Rightarrow>
                Option.bind (read_int ''COUNT'' rest) (\<lambda>(count, rest).
                  case read_text ''TYPE'' rest of (type, []) \<Rightarrow> Some (cursor, pattern, count, type) | _ \<Rightarrow> None))
      | _ \<Rightarrow> None)"

section \<open>What the key commands write\<close>

lemmas key_readers = read_text_def read_flag_def read_int_def read_limit_def read_choice_def orders_def

lemma sort_read:
  assumes "enc_documented enc"
  shows "read_sort op (op # key # wire enc (sort_args order lim alpha) @ (case dst of None \<Rightarrow> [] | Some d \<Rightarrow> [''STORE'', d]))
    = (if op = ''SORT_RO'' \<and> dst \<noteq> None then None else Some (key, order, lim, alpha, dst))"
proof -
  have order: "order = None \<or> order = Some Asc \<or> order = Some Desc" by (metis option.exhaust order_by.exhaust)
  show ?thesis
    using order
    by (cases lim; cases alpha; cases dst)
      (auto simp: read_sort_def sort_args_def limit_args_def key_readers enc_facts [OF assms] parse_i64_to_string)
qed

lemma copy_read:
  assumes "enc_documented enc"
  shows "read_copy ([''COPY'', src, dst] @ wire enc (opt_clause ''DB'' AI64 db) @ wire enc (flag replace ''REPLACE''))
    = Some (src, dst, db, replace)"
  by (cases db; cases replace) (simp_all add: read_copy_def key_readers enc_facts [OF assms] parse_i64_to_string)

lemma restore_read:
  assumes "enc_documented enc"
  shows "read_restore (snd (restore (recorder enc) [key] ttl [payload] opts w)) = Some (key, ttl, payload, opts)"
proof (cases opts)
  case (fields replace absttl idle freq)
  show ?thesis unfolding fields
    by (cases replace; cases absttl; cases idle; cases freq)
      (simp_all add: restore_def restore_options_add_to_def call_recorder read_restore_def key_readers
        enc_facts [OF assms] parse_i64_to_string)
qed

lemma migrate_read:
  assumes "enc_documented enc"
  shows "read_migrate (snd (migrate (recorder enc) [host] port [key] db timeout opts w))
    = Some (host, port, key, db, timeout, if mig_password opts = None then opts\<lparr>mig_username := None\<rparr> else opts)"
proof (cases opts)
  case (fields copy_it replace pw u)
  show ?thesis unfolding fields
    by (cases copy_it; cases replace; cases pw; cases u)
      (simp_all add: migrate_def migrate_options_add_to_def call_recorder read_migrate_def key_readers
        enc_facts [OF assms] parse_i64_to_string)
qed

lemma scan_read:
  assumes "enc_documented enc"
  shows "read_scan (snd (scan_cursor X shown (recorder enc) cursor pattern count type w))
    = Some (cursor, pattern, count, map_option (\<lambda>t. to_lowercase (shown (object_type_to_redis t))) type)"
  by (cases pattern; cases count; cases type)
    (simp_all add: scan_cursor_def call_recorder read_scan_def key_readers enc_facts [OF assms] parse_i64_to_string)

text \<open>
  C22: the key commands with options are read back.  The documented syntax reads what the sorting, copying, restoring, migrating and
  scanning commands write as the keys, numbers and options the caller gave, in every combination of the options, with one
  exception: \<open>migrate\<close> drops a user name that comes without a password.
\<close>

theorem key_commands_read_back:
  assumes "enc_documented enc"
  shows "read_sort ''SORT'' (snd (sort_cmd X (recorder enc) [key] order lim alpha w)) = Some (key, order, lim, alpha, None)
    \<and> read_sort ''SORT_RO'' (snd (sort_ro X (recorder enc) [key] order lim alpha w)) = Some (key, order, lim, alpha, None)
    \<and> read_sort ''SORT'' (snd (sort_store X (recorder enc) [key] [dst] order lim alpha w)) = Some (key, order, lim, alpha, Some dst)
    \<and> read_copy (snd (copy X (recorder enc) [key] [dst] replace w)) = Some (key, dst, None, replace)
    \<and> read_copy (snd (copy_with_options X (recorder enc) [key] [dst] db replace w)) = Some (key, dst, db, replace)
    \<and> read_restore (snd (restore (recorder enc) [key] ttl [payload] ropts w)) = Some (key, ttl, payload, ropts)
    \<and> read_migrate (snd (migrate (recorder enc) [host] port [key] mdb timeout mopts w))
        = Some (host, port, key, mdb, timeout, if mig_password mopts = None then mopts\<lparr>mig_username := None\<rparr> else mopts)
    \<and> read_scan (snd (scan_cursor X shown (recorder enc) cursor pattern count type w))
        = Some (cursor, pattern, count, map_option (\<lambda>t. to_lowercase (shown (object_type_to_redis t))) type)"
proof -
  note simps = call_recorder enc_facts [OF assms]
  note sort = sort_read [OF assms, of _ key order lim alpha] and copies = copy_read [OF assms, of key dst]
  show ?thesis
    apply (intro conjI restore_read [OF assms] migrate_read [OF assms] scan_read [OF assms])
    subgoal using sort [of _ None] by (simp add: sort_cmd_def simps)
    subgoal using sort [of _ None] by (simp add: sort_ro_def simps)
    subgoal using sort [of _ "Some dst"] by (simp add: sort_store_def simps)
    subgoal using copies [of None] by (simp add: copy_def simps)
    subgoal using copies by (simp add: copy_with_options_def simps)
    done
qed

theorem key_commands_read_back_witness:
  "read_restore (snd (restore (recorder sample_enc) [''k''] 0 [''p'']
      \<lparr>res_replace = True, res_absttl = False, res_idletime = Some 5, res_frequency = None\<rparr> []))
    = Some (''k'', 0, ''p'', \<lparr>res_replace = True, res_absttl = False, res_idletime = Some 5, res_frequency = None\<rparr>)
   \<and> read_sort ''SORT'' (snd (sort_store sample_ext (recorder sample_enc) [''k''] [''d''] (Some Desc) None True []))
    = Some (''k'', Some Desc, None, True, Some ''d'')"
  using key_commands_read_back [OF sample_enc_documented, of sample_ext "''k''" "Some Desc" None True "[]" "''d''" False None 0 "''p''"
      "\<lparr>res_replace = True, res_absttl = False, res_idletime = Some 5, res_frequency = None\<rparr>" "''h''" 0 0 0
      "\<lparr>mig_copy = False, mig_replace = False, mig_password = None, mig_username = None\<rparr>" "\<lambda>t. ''list''" "''0''" None None None]
  by (intro conjI) (elim conjE, assumption)+

section \<open>Bit fields\<close>

definition read_number :: "nat \<Rightarrow> string \<Rightarrow> nat option" where
  "read_number bits s = Option.bind (parse_digits 0 s) (\<lambda>n. if s \<noteq> [] \<and> n < 2 ^ bits then Some n else None)"

text \<open>A signed encoding has 1 to 64 bits (\<open>i<width>\<close>), an unsigned one 1 to 63 (\<open>u<width>\<close>).\<close>

definition width_ok :: "bit_encoding \<Rightarrow> bool" where
  "width_ok e = (case e of Signed n \<Rightarrow> 0 < n \<and> n < 65 | Unsigned n \<Rightarrow> 0 < n \<and> n < 64)"

definition read_encoding :: "string \<Rightarrow> bit_encoding option" where
  "read_encoding s =
     Option.bind
       (case s of
          c # ds \<Rightarrow>
            if c = CHR ''i'' then map_option (\<lambda>n. Signed (of_nat n)) (read_number 32 ds)
            else if c = CHR ''u'' then map_option (\<lambda>n. Unsigned (of_nat n)) (read_number 32 ds) else None
        | [] \<Rightarrow> None)
       (\<lambda>e. if width_ok e then Some e else None)"

definition read_offset :: "string \<Rightarrow> bit_field_offset option" where
  "read_offset s =
     (case s of
        c # ds \<Rightarrow>
          if c = CHR ''#'' then map_option (\<lambda>n. OffsetMultiplier (of_nat n)) (read_number 64 ds)
          else map_option (\<lambda>n. OffsetBit (of_nat n)) (read_number 64 s)
      | [] \<Rightarrow> None)"

definition overflows :: "(string \<times> bit_overflow) list" where
  "overflows = [(''WRAP'', Wrap), (''SAT'', Sat), (''FAIL'', Fail)]"

text \<open>
  One subcommand: \<open>GET encoding offset\<close>, \<open>SET encoding offset value\<close>, \<open>INCRBY encoding offset increment\<close> or
  \<open>OVERFLOW mode\<close>; \<open>BITFIELD_RO\<close> has the first only.
\<close>

definition read_subcommand :: "bytes list \<Rightarrow> (bit_field_subcommand \<times> bytes list) option" where
  "read_subcommand args =
     (case args of
        a # b # rest \<Rightarrow>
          if a = ''OVERFLOW'' then map_option (\<lambda>m. (BitOverflow m, rest)) (map_of overflows b)
          else (case rest of
                  c # rest' \<Rightarrow>
                    (case (read_encoding b, read_offset c) of
                       (Some e, Some f) \<Rightarrow>
                         if a = ''GET'' then Some (BitGet e f, rest')
                         else (case rest' of
                                 d # rest'' \<Rightarrow>
                                   Option.bind (parse_i64 d) (\<lambda>i.
                                     if a = ''SET'' then Some (BitSet e f i, rest'')
                                     else if a = ''INCRBY'' then Some (BitIncrBy e f i, rest'') else None)
                               | [] \<Rightarrow> None)
                     | _ \<Rightarrow> None)
                | [] \<Rightarrow> None)
      | _ \<Rightarrow> None)"

lemma read_subcommand_shorter: "read_subcommand args = Some (s, rest) \<Longrightarrow> length rest < length args"
  by (auto simp: read_subcommand_def bind_eq_Some_conv split: list.splits if_splits option.splits)

function read_subcommands :: "bytes list \<Rightarrow> bit_field_subcommand list option" where
  "read_subcommands args =
     (if args = [] then Some []
      else case read_subcommand args of
             None \<Rightarrow> None
           | Some (s, rest) \<Rightarrow> map_option (Cons s) (read_subcommands rest))"
  by pat_completeness auto

termination read_subcommands
  by (relation "measure length") (auto dest: read_subcommand_shorter)

declare read_subcommands.simps [simp del]

definition read_bitfield :: "string \<Rightarrow> bytes list \<Rightarrow> (bytes \<times> bit_field_subcommand list) option" where
  "read_bitfield op args =
     (case args of
        kw # key # rest \<Rightarrow>
          if kw \<noteq> op then None
          else Option.bind (read_subcommands rest) (\<lambda>subs.
                 if op = ''BITFIELD_RO'' \<and> \<not> list_all (\<lambda>s. case s of BitGet e f \<Rightarrow> True | _ \<Rightarrow> False) subs then None
                 else Some (key, subs))
      | _ \<Rightarrow> None)"

lemma nat_to_string_not_Nil [simp]: "nat_to_string n \<noteq> []"
  by (subst nat_to_string.simps) simp

lemma read_number_written [simp]: "n < 2 ^ bits \<Longrightarrow> read_number bits (nat_to_string n) = Some n"
  by (simp add: read_number_def parse_digits_nat_to_string)

lemma encoding_read [simp]: "read_encoding (bit_encoding_to_arg e) = (if width_ok e then Some e else None)"
proof -
  have "unat n < 2 ^ 32" for n :: u32 using unsigned_less [of n] by simp
  then show ?thesis by (cases e) (simp_all add: read_encoding_def)
qed

lemma offset_read [simp]: "read_offset (bit_field_offset_to_arg f) = Some f"
proof -
  have bound: "unat n < 2 ^ 64" for n :: u64 using unsigned_less [of n] by simp
  show ?thesis
  proof (cases f)
    case (OffsetBit n)
    obtain c ds where cs: "nat_to_string (unat n) = c # ds" by (cases "nat_to_string (unat n)") auto
    then have "c \<noteq> CHR ''#''"
      using parse_digits_nat_to_string [of "unat n"] by (auto simp: digit_val_def)
    with OffsetBit show ?thesis
      using read_number_written [OF bound, of n] by (simp add: read_offset_def cs)
  next
    case (OffsetMultiplier n)
    with bound [of n] show ?thesis by (simp add: read_offset_def)
  qed
qed

text \<open>The subcommands that have a documented syntax: those whose encoding has an allowed width.\<close>

definition subcommand_ok :: "bit_field_subcommand \<Rightarrow> bool" where
  "subcommand_ok s =
     (case s of BitGet e f \<Rightarrow> width_ok e | BitSet e f v \<Rightarrow> width_ok e | BitIncrBy e f i \<Rightarrow> width_ok e | BitOverflow m \<Rightarrow> True)"

lemma subcommand_read:
  assumes "enc_documented enc"
  shows "read_subcommand (wire enc (bit_field_subcommand_add_to s []) @ rest) = (if subcommand_ok s then Some (s, rest) else None)"
proof (cases s)
  case (BitOverflow m)
  then show ?thesis by (cases m) (simp_all add: read_subcommand_def subcommand_ok_def overflows_def enc_facts [OF assms])
qed (simp_all add: read_subcommand_def subcommand_ok_def enc_facts [OF assms] parse_i64_to_string)

lemma wire_subcommands:
  "wire enc (subcommands_add_to subs c) = wire enc c @ concat (map (\<lambda>s. wire enc (bit_field_subcommand_add_to s [])) subs)"
proof (induction subs arbitrary: c)
  case (Cons s subs)
  have "subcommands_add_to (s # subs) c = subcommands_add_to subs (bit_field_subcommand_add_to s c)"
    by (simp add: subcommands_add_to_def)
  with Cons show ?case by (simp add: subcommand.wire_add_to [of enc s c])
qed (simp add: subcommands_add_to_def)

lemma subcommands_read:
  assumes "enc_documented enc"
  shows "read_subcommands (concat (map (\<lambda>s. wire enc (bit_field_subcommand_add_to s [])) subs))
    = (if list_all subcommand_ok subs then Some subs else None)"
proof (induction subs)
  case (Cons s subs)
  have "wire enc (bit_field_subcommand_add_to s []) \<noteq> []" by (cases s) (simp_all add: enc_facts [OF assms])
  with Cons show ?case by (subst read_subcommands.simps) (simp add: subcommand_read [OF assms])
qed (subst read_subcommands.simps, simp)

text \<open>
  C23: bit-field programs are read back exactly when they have a documented syntax.  When every encoding has an allowed width,
  1 to 64 bits signed and 1 to 63 unsigned, the documented syntax reads what \<open>bitfield\<close> writes as the list of subcommands of the caller,
  every encoding, offset, value and overflow mode included, in order; \<open>bitfield_readonly\<close> moreover needs all its
  subcommands to be reads.  Every other program is sent although the server has no such encoding or subcommand: neither the types nor the
  commands reject it.
\<close>

theorem bitfield_read_back:
  assumes "enc_documented enc"
  shows "read_bitfield ''BITFIELD'' (snd (bitfield X (recorder enc) [key] subs w))
        = (if list_all subcommand_ok subs then Some (key, subs) else None)
    \<and> read_bitfield ''BITFIELD_RO'' (snd (bitfield_readonly X (recorder enc) [key] subs w))
        = (if list_all (\<lambda>s. case s of BitGet e f \<Rightarrow> width_ok e | _ \<Rightarrow> False) subs then Some (key, subs) else None)"
proof -
  have "list_all (\<lambda>s. case s of BitGet e f \<Rightarrow> width_ok e | _ \<Rightarrow> False) subs
      \<longleftrightarrow> list_all subcommand_ok subs \<and> list_all (\<lambda>s. case s of BitGet e f \<Rightarrow> True | _ \<Rightarrow> False) subs"
    by (induction subs) (auto simp: subcommand_ok_def split: bit_field_subcommand.splits)
  then show ?thesis
    by (simp add: bitfield_def bitfield_readonly_def call_recorder wire_subcommands enc_facts [OF assms] read_bitfield_def
        subcommands_read [OF assms])
qed

theorem bitfield_read_back_witness:
  "read_bitfield ''BITFIELD'' (snd (bitfield sample_ext (recorder sample_enc) [''k'']
      [BitOverflow Sat, BitIncrBy (Unsigned 8) (OffsetMultiplier 3) 5, BitGet (Signed 16) (OffsetBit 7)] []))
    = Some (''k'', [BitOverflow Sat, BitIncrBy (Unsigned 8) (OffsetMultiplier 3) 5, BitGet (Signed 16) (OffsetBit 7)])
   \<and> read_bitfield ''BITFIELD'' (snd (bitfield sample_ext (recorder sample_enc) [''k''] [BitGet (Unsigned 64) (OffsetBit 0)] [])) = None"
  using bitfield_read_back [OF sample_enc_documented, of sample_ext "''k''"
      "[BitOverflow Sat, BitIncrBy (Unsigned 8) (OffsetMultiplier 3) 5, BitGet (Signed 16) (OffsetBit 7)]" "[]"]
    bitfield_read_back [OF sample_enc_documented, of sample_ext "''k''" "[BitGet (Unsigned 64) (OffsetBit 0)]" "[]"]
  by (simp add: subcommand_ok_def width_ok_def)

end
