(* ===== verification/Floats.thy ===== *)
theory Floats
  imports Prelude Complex_Main "HOL-Library.Log_Nat"
begin

text \<open>
  Double-precision arithmetic, for the code that computes with floats and does not only move them
  around (\<open>examples/ec_bench.rs\<close>).

  A non-negative finite double is the rational it stands for, and \<open>fl\<close> rounds a rational to the nearest
  one with 53 significant bits, ties to even; every operation of the code is the exact operation
  followed by \<open>fl\<close>.  The values that occur lie far inside the exponent range of the format, so that
  underflow and overflow do not arise; a division by zero is the infinity or the NaN it is in Rust.
\<close>

section \<open>Rounding to nearest, ties to even\<close>

definition round_even :: "rat \<Rightarrow> int" where
  "round_even x =
     (let f = \<lfloor>x\<rfloor>; d = x - of_int f
      in if d < 1 / 2 then f else if 1 / 2 < d then f + 1 else if even f then f else f + 1)"

lemma round_even_bounds: "\<lfloor>x\<rfloor> \<le> round_even x" "round_even x \<le> \<lfloor>x\<rfloor> + 1"
  by (simp_all add: round_even_def Let_def)

lemma round_even_of_int [simp]: "round_even (of_int i) = i"
  by (simp add: round_even_def)

lemma round_even_mono: "x \<le> y \<Longrightarrow> round_even x \<le> round_even y"
proof (cases "\<lfloor>x\<rfloor> = \<lfloor>y\<rfloor>")
  case True
  assume "x \<le> y"
  with True show ?thesis by (auto simp: round_even_def Let_def)
next
  case False
  assume "x \<le> y"
  then have "\<lfloor>x\<rfloor> + 1 \<le> \<lfloor>y\<rfloor>" using False floor_mono [of x y] by simp
  then show ?thesis using round_even_bounds(2) [of x] round_even_bounds(1) [of y] by linarith
qed

section \<open>The exponent of a positive rational\<close>

definition exponent :: "rat \<Rightarrow> int" where
  "exponent x =
     (case quotient_of x of (p, q) \<Rightarrow>
        let e = int (floorlog 2 (nat p)) - int (floorlog 2 (nat q))
        in if x < 2 powi e then e - 1 else e)"

lemma floorlog_bounds_rat:
  assumes "0 < p"
  shows "2 powi (int (floorlog 2 (nat p)) - 1) \<le> (of_int p :: rat)"
    and "(of_int p :: rat) < 2 powi int (floorlog 2 (nat p))"
proof -
  let ?l = "floorlog 2 (nat p)"
  have pos: "0 < nat p" using assms by simp
  then have b: "2 ^ (?l - 1) \<le> nat p" "nat p < 2 ^ ?l" using floorlog_bounds [of "nat p" 2] by simp_all
  have l: "0 < ?l" using pos by (simp add: floorlog_eq_zero_iff neq0_conv [symmetric])
  have p: "(of_int p :: rat) = of_nat (nat p)" using assms by simp
  have "(of_nat (2 ^ (?l - 1)) :: rat) \<le> of_nat (nat p)" using b(1) of_nat_le_iff by blast
  then show "2 powi (int ?l - 1) \<le> (of_int p :: rat)"
    unfolding p using l by (simp add: power_int_def nat_diff_distrib)
  have "(of_nat (nat p) :: rat) < of_nat (2 ^ ?l)" using b(2) of_nat_less_iff by blast
  then show "(of_int p :: rat) < 2 powi int ?l" unfolding p by (simp add: power_int_def)
qed

lemma exponent_bounds:
  assumes "0 < x"
  shows "2 powi exponent x \<le> x" "x < 2 powi (exponent x + 1)"
proof -
  obtain p q where pq: "quotient_of x = (p, q)" by (cases "quotient_of x")
  have q: "0 < q" using quotient_of_denom_pos [OF pq] .
  have x: "x = of_int p / of_int q" using quotient_of_div [OF pq] .
  have p: "0 < p" using assms q x by (simp add: zero_less_divide_iff)
  define lp lq where "lp = int (floorlog 2 (nat p))" and "lq = int (floorlog 2 (nat q))"
  note P = floorlog_bounds_rat [OF p, folded lp_def] and Q = floorlog_bounds_rat [OF q, folded lq_def]
  have "2 powi (lp - lq - 1) * of_int q \<le> (2 powi (lp - lq - 1) * 2 powi lq :: rat)"
    using Q(2) by (intro mult_left_mono) simp_all
  also have "\<dots> = 2 powi (lp - 1)" by (simp add: power_int_add [symmetric])
  also have "\<dots> \<le> of_int p" by (rule P(1))
  finally have lo: "2 powi (lp - lq - 1) \<le> x" using q by (simp add: x le_divide_eq)
  have "of_int p < (2 powi lp :: rat)" by (rule P(2))
  also have "\<dots> = 2 powi (lp - lq + 1) * 2 powi (lq - 1)" by (simp add: power_int_add [symmetric])
  also have "\<dots> \<le> 2 powi (lp - lq + 1) * of_int q" using Q(1) by (intro mult_left_mono) simp_all
  finally have hi: "x < 2 powi (lp - lq + 1)" using q by (simp add: x divide_less_eq)
  show "2 powi exponent x \<le> x" "x < 2 powi (exponent x + 1)"
    using lo hi by (auto simp: exponent_def pq Let_def lp_def lq_def)
qed

lemma exponent_mono:
  assumes "0 < x" "x \<le> y"
  shows "exponent x \<le> exponent y"
proof (rule ccontr)
  assume "\<not> ?thesis"
  then have "(2::rat) powi (exponent y + 1) \<le> 2 powi exponent x" by (intro power_int_increasing) simp_all
  also have "\<dots> \<le> y" using exponent_bounds(1) [OF assms(1)] assms(2) by simp
  finally show False using exponent_bounds(2) [of y] assms by simp
qed

section \<open>Rounding to 53 significant bits\<close>

definition ulp :: "rat \<Rightarrow> rat" where
  "ulp x = 2 powi (exponent x - 52)"

definition fl :: "rat \<Rightarrow> rat" where
  "fl x = (if x = 0 then 0 else of_int (round_even (x / ulp x)) * ulp x)"

lemma ulp_pos [simp]: "0 < ulp x"
  by (simp add: ulp_def)

lemma power_scaled: "(2::rat) powi (exponent x + int k) = of_int (2 ^ (52 + k)) * ulp x"
proof -
  have "(2::rat) powi (exponent x + int k) = 2 powi (int (52 + k) + (exponent x - 52))" by (simp add: add.commute)
  also have "\<dots> = 2 powi int (52 + k) * ulp x" by (subst power_int_add) (simp_all add: ulp_def)
  finally show ?thesis by (simp only: power_int_of_nat of_int_power of_int_numeral)
qed

lemma fl_binade:
  assumes "0 < x"
  shows "2 powi exponent x \<le> fl x" "fl x \<le> 2 powi (exponent x + 1)"
proof -
  have "of_int (2 ^ 52) \<le> x / ulp x" "x / ulp x \<le> of_int (2 ^ 53)"
    using exponent_bounds [OF assms] power_scaled [of x 0] power_scaled [of x 1]
    by (simp_all add: le_divide_eq divide_le_eq)
  then have "2 ^ 52 \<le> round_even (x / ulp x)" "round_even (x / ulp x) \<le> 2 ^ 53"
    using round_even_mono [of "of_int (2 ^ 52)"] round_even_mono [of _ "of_int (2 ^ 53)"]
    by (metis round_even_of_int)+
  then have "of_int (2 ^ 52) * ulp x \<le> of_int (round_even (x / ulp x)) * ulp x"
    "of_int (round_even (x / ulp x)) * ulp x \<le> of_int (2 ^ 53) * ulp x"
    by (simp_all only: of_int_le_iff mult_le_cancel_right_pos ulp_pos)
  then show "2 powi exponent x \<le> fl x" "fl x \<le> 2 powi (exponent x + 1)"
    using assms power_scaled [of x 0] power_scaled [of x 1] by (simp_all add: fl_def)
qed

lemma fl_zero [simp]: "fl 0 = 0"
  by (simp add: fl_def)

lemma fl_nonneg [simp]:
  assumes "0 \<le> x"
  shows "0 \<le> fl x"
proof (cases "x = 0")
  case False
  then have "0 < x" using assms by simp
  have "0 \<le> (2::rat) powi exponent x" by simp
  also have "\<dots> \<le> fl x" using \<open>0 < x\<close> by (rule fl_binade(1))
  finally show ?thesis .
qed simp

text \<open>Rounding keeps the order.\<close>

lemma fl_mono:
  assumes "0 \<le> x" "x \<le> y"
  shows "fl x \<le> fl y"
proof (cases "x = 0")
  case True
  then show ?thesis using assms by (simp add: fl_def [of 0])
next
  case False
  then have x: "0 < x" and y: "0 < y" using assms by simp_all
  show ?thesis
  proof (cases "exponent x = exponent y")
    case True
    then have u: "ulp x = ulp y" by (simp add: ulp_def)
    have "round_even (x / ulp y) \<le> round_even (y / ulp y)"
      using assms(2) by (intro round_even_mono divide_right_mono) (simp_all add: less_imp_le)
    then show ?thesis using x y by (simp add: fl_def u)
  next
    case False
    then have "exponent x + 1 \<le> exponent y" using exponent_mono [OF x assms(2)] by simp
    then have "(2::rat) powi (exponent x + 1) \<le> 2 powi exponent y" by (intro power_int_increasing) simp_all
    then show ?thesis using fl_binade(2) [OF x] fl_binade(1) [OF y] by linarith
  qed
qed

text \<open>Integers and half-integers of at most 53 bits are doubles.\<close>

lemma fl_exact:
  assumes "0 < x" "x = of_int m * ulp x"
  shows "fl x = x"
proof -
  have "x / ulp x = of_int m" using assms(2) ulp_pos [of x] by (metis less_irrefl nonzero_mult_div_cancel_right)
  then show ?thesis using assms by (simp add: fl_def)
qed

lemma fl_scaled_nat:
  assumes "n < 2 ^ 53"
  shows "fl (of_nat n * 2 powi - int k) = of_nat n * 2 powi - int k"
proof (cases "n = 0")
  case True
  then show ?thesis by (simp add: fl_def)
next
  case False
  let ?x = "of_nat n * 2 powi - int k :: rat"
  have pos: "0 < ?x" using False by simp
  have "(2::rat) powi exponent ?x \<le> ?x" by (rule exponent_bounds(1) [OF pos])
  also have "\<dots> < of_nat (2 ^ 53) * 2 powi - int k"
    using assms by (simp only: mult_less_cancel_right_pos of_nat_less_iff zero_less_power_int zero_less_numeral)
  also have "\<dots> = 2 powi 53 * 2 powi - int k" by simp
  also have "\<dots> = 2 powi (53 - int k)" by (subst power_int_add [symmetric]) (simp_all only: diff_conv_add_uminus, simp)
  finally have "exponent ?x < 53 - int k" 
    using power_int_increasing [of "53 - int k" "exponent ?x" "2::rat"] by (meson leD le_less_linear one_le_numeral)
  then have e: "(2::rat) powi (52 - int k - exponent ?x) = 2 ^ nat (52 - int k - exponent ?x)"
    by (simp add: power_int_def)
  have "?x = of_int (int n * 2 ^ nat (52 - int k - exponent ?x)) * ulp ?x"
  proof -
    have "(2::rat) powi - int k = 2 powi (52 - int k - exponent ?x) * ulp ?x"
      by (simp add: ulp_def power_int_add [symmetric])
    also have "\<dots> = of_int (2 ^ nat (52 - int k - exponent ?x)) * ulp ?x"
      by (simp add: e)
    finally show ?thesis by simp
  qed
  then show ?thesis by (rule fl_exact [OF pos])
qed

lemma fl_of_nat [simp]: "n < 2 ^ 53 \<Longrightarrow> fl (of_nat n) = of_nat n"
  using fl_scaled_nat [of n 0] by simp

lemma fl_half: "n < 2 ^ 53 \<Longrightarrow> fl (of_nat n / 2) = of_nat n / 2"
  using fl_scaled_nat [of n 1] by (simp add: power_int_minus field_simps)

section \<open>Results of a division\<close>

datatype f64_result = FFinite rat | FInfinite | FNaN

definition f64_div :: "rat \<Rightarrow> rat \<Rightarrow> f64_result" where
  "f64_div x y = (if y = 0 then if x = 0 then FNaN else FInfinite else FFinite (fl (x / y)))"

text \<open>\<open>f64::round\<close> (half away from zero) and the saturating cast \<open>as usize\<close>, on non-negative doubles.\<close>

definition round_away :: "rat \<Rightarrow> int" where
  "round_away x = \<lfloor>x + 1 / 2\<rfloor>"

definition as_usize :: "int \<Rightarrow> nat" where
  "as_usize i = min (nat i) (2 ^ 64 - 1)"

lemma as_usize_mono: "i \<le> j \<Longrightarrow> as_usize i \<le> as_usize j"
  unfolding as_usize_def by (intro min.mono nat_mono) simp_all

text \<open>\<open>{:.k}\<close>: the nearest decimal with \<open>k\<close> fractional digits, ties to even.\<close>

definition fixed_digits :: "nat \<Rightarrow> nat \<Rightarrow> string" where
  "fixed_digits k n =
     (let s = nat_to_string n in replicate (k + 1 - length s) (CHR ''0'') @ s)"

fun format_fixed :: "nat \<Rightarrow> f64_result \<Rightarrow> string" where
  "format_fixed k FInfinite = ''inf''"
| "format_fixed k FNaN = ''NaN''"
| "format_fixed k (FFinite x) =
     (let s = fixed_digits k (nat (round_even (x * 10 ^ k)))
      in if k = 0 then s else take (length s - k) s @ ''.'' @ drop (length s - k) s)"

end
