(* ===== verification/Bench.thy ===== *)
theory Bench
  imports Floats Sync "HOL-Library.Multiset"
begin

text \<open>
  The benchmark (\<open>examples/ec_bench.rs\<close>): a program on top of the cluster client that runs concurrent
  tasks and reports latency percentiles.

  The spawned tasks are state machines that advance one at a time.  A schedule, which the runtime and
  the clock choose, is a list of events: time passes (\<open>Tick\<close>), or a task is polled (\<open>Poll\<close>) and takes
  its next step, between two of its interactions with the rest of the program (reading the clock,
  sending the request, receiving the reply), or the reply to the request of a task arrives (\<open>Arrive\<close>).  Polling a task
  whose reply has not arrived does nothing; a reply may never arrive.  \<open>join\<close> is the loop that awaits the handles in
  order.  The theorems quantify over the schedules.

  Instants are nanoseconds, \<open>usize\<close> is a \<open>nat\<close> with the wrap-around of the release profile written out,
  and a vector whose capacity exceeds \<open>isize::MAX\<close> bytes panics as in Rust; the memory itself is not
  bounded.  The command constructors and the conversions of the replies are parameters.
\<close>

section \<open>Percentiles\<close>

definition percentile :: "u64 list \<Rightarrow> rat \<Rightarrow> rat" where
  "percentile sorted_us p =
     (if sorted_us = [] then 0
      else let rank = as_usize (round_away (fl (fl (p / 100) * fl (fl (of_nat (length sorted_us)) - 1))))
           in fl (of_nat (unat (sorted_us ! min rank (length sorted_us - 1)))))"

section \<open>One task\<close>

record bench_ext =
  be_cmd :: "string \<Rightarrow> string list \<Rightarrow> cmd"
  be_unit :: "value \<Rightarrow> redis_error + unit"
  be_opt_string :: "value \<Rightarrow> redis_error + string option"

definition capacity_ok :: "nat \<Rightarrow> bool" where
  "capacity_ok n \<longleftrightarrow> 8 * n < 2 ^ 63"

definition bench_key :: "nat \<Rightarrow> nat \<Rightarrow> string" where
  "bench_key t i =
     ''bench:{'' @ nat_to_string ((t * 131 + i) mod 2 ^ 64 mod 4096) @ ''}:'' @ nat_to_string t"

definition table_entry_of :: "string \<Rightarrow> table_entry" where
  "table_entry_of name = hd (filter (\<lambda>e. te_name e = name) command_table)"

definition bench_op ::
  "bench_ext \<Rightarrow> (cmd \<Rightarrow> ('w, redis_error, value) io) \<Rightarrow> string \<Rightarrow> string
     \<Rightarrow> ('w, redis_error, unit) io option" where
  "bench_op E send op key =
     (if op = ''SET''
      then Some (table_method (be_cmd E) send (be_unit E) (table_entry_of ''set'') [key, ''value-payload-0123456789''])
      else if op = ''GET''
      then Some (bind_io (table_method (be_cmd E) send (be_opt_string E) (table_entry_of ''get'') [key])
                  (\<lambda>_. pure_io (Inr ())))
      else None)"

datatype task =
    Spawned
  | Looping nat "u64 list"
  | Sending nat nat "u64 list"
  | Awaiting nat nat "redis_error + unit" "u64 list"
  | Answered nat nat "redis_error + unit" "u64 list"
  | Finished "u64 list"
  | Unwound

fun task_step ::
  "bench_ext \<Rightarrow> (cmd \<Rightarrow> ('w, redis_error, value) io) \<Rightarrow> string \<Rightarrow> nat \<Rightarrow> nat \<Rightarrow> nat \<Rightarrow> 'w \<Rightarrow> task
     \<Rightarrow> task \<times> 'w \<times> string list" where
  "task_step E send op per_task t clock w Spawned =
     (if capacity_ok per_task then Looping 0 [] else Unwound, w, [])"
| "task_step E send op per_task t clock w (Looping i lats) =
     (if i < per_task then Sending i clock lats else Finished lats, w, [])"
| "task_step E send op per_task t clock w (Sending i t0 lats) =
     (case bench_op E send op (bench_key t i) of
        None \<Rightarrow> (Unwound, w, [])
      | Some request \<Rightarrow> (case request w of (r, w') \<Rightarrow> (Awaiting i t0 r lats, w', [bench_key t i])))"
| "task_step E send op per_task t clock w (Awaiting i t0 r lats) = (Awaiting i t0 r lats, w, [])"
| "task_step E send op per_task t clock w (Answered i t0 r lats) =
     (case r of
        Inl e \<Rightarrow> (Unwound, w, [])
      | Inr _ \<Rightarrow> (Looping (i + 1) (lats @ [of_nat ((clock - t0) div 1000)]), w, []))"
| "task_step E send op per_task t clock w (Finished lats) = (Finished lats, w, [])"
| "task_step E send op per_task t clock w Unwound = (Unwound, w, [])"

fun task_arrive :: "task \<Rightarrow> task" where
  "task_arrive (Awaiting i t0 r lats) = Answered i t0 r lats"
| "task_arrive task = task"

section \<open>The tasks of a measurement\<close>

text \<open>\<open>bs_sent\<close> is a ghost: the requests sent so far, with the task that sent each of them.\<close>

record 'w bench_state =
  bs_tasks :: "task list"
  bs_clock :: nat
  bs_world :: 'w
  bs_sent :: "(nat \<times> string) list"

datatype event = Tick nat | Poll nat | Arrive nat

fun bench_event ::
  "bench_ext \<Rightarrow> (cmd \<Rightarrow> ('w, redis_error, value) io) \<Rightarrow> string \<Rightarrow> nat \<Rightarrow> event \<Rightarrow> 'w bench_state
     \<Rightarrow> 'w bench_state" where
  "bench_event E send op per_task (Tick d) s = s\<lparr>bs_clock := bs_clock s + d\<rparr>"
| "bench_event E send op per_task (Poll t) s =
     (if t < length (bs_tasks s)
      then case task_step E send op per_task t (bs_clock s) (bs_world s) (bs_tasks s ! t) of
             (task, w, sent) \<Rightarrow>
               s\<lparr>bs_tasks := (bs_tasks s)[t := task], bs_world := w, bs_sent := bs_sent s @ map (Pair t) sent\<rparr>
      else s)"
| "bench_event E send op per_task (Arrive t) s =
     (if t < length (bs_tasks s) then s\<lparr>bs_tasks := (bs_tasks s)[t := task_arrive (bs_tasks s ! t)]\<rparr> else s)"

definition run_schedule ::
  "bench_ext \<Rightarrow> (cmd \<Rightarrow> ('w, redis_error, value) io) \<Rightarrow> string \<Rightarrow> nat \<Rightarrow> event list \<Rightarrow> 'w bench_state
     \<Rightarrow> 'w bench_state" where
  "run_schedule E send op per_task events = fold (bench_event E send op per_task) events"

definition spawn_all :: "nat \<Rightarrow> nat \<Rightarrow> 'w \<Rightarrow> 'w bench_state" where
  "spawn_all concurrency clock w =
     \<lparr>bs_tasks = replicate concurrency Spawned, bs_clock = clock, bs_world = w, bs_sent = []\<rparr>"

text \<open>The loop over the handles: it waits for each task in turn and panics when the task panicked.\<close>

fun join :: "task list \<Rightarrow> u64 list outcome option" where
  "join [] = Some (Returns [])"
| "join (Finished lats # tasks) =
     (case join tasks of
        Some (Returns rest) \<Rightarrow> Some (Returns (lats @ rest))
      | r \<Rightarrow> r)"
| "join (Unwound # tasks) = Some Panics"
| "join (_ # tasks) = None"

record summary =
  sm_throughput :: f64_result
  sm_p50 :: rat
  sm_p99 :: rat
  sm_avg :: rat

definition as_secs_f64 :: "nat \<Rightarrow> rat" where
  "as_secs_f64 ns = fl (fl (of_nat (ns div 10 ^ 9)) + fl (fl (of_nat (ns mod 10 ^ 9)) / 10 ^ 9))"

definition average :: "u64 list \<Rightarrow> rat" where
  "average lats =
     fl (fold (\<lambda>x sum. fl (sum + fl (of_nat (unat x)))) lats 0 / fl (of_nat (max (length lats) 1)))"

definition summarise :: "nat \<Rightarrow> u64 list \<Rightarrow> summary" where
  "summarise elapsed_ns lats =
     (let all = sort lats
      in \<lparr>sm_throughput = f64_div (fl (of_nat (length all))) (as_secs_f64 elapsed_ns),
          sm_p50 = percentile all 50, sm_p99 = percentile all 99, sm_avg = average all\<rparr>)"

definition per_task_of :: "nat \<Rightarrow> nat \<Rightarrow> nat" where
  "per_task_of total_ops concurrency = max (total_ops div concurrency) 1"

text \<open>The result is \<open>None\<close> when the schedule ends while the measurement still waits for a task.\<close>

definition bench_measure ::
  "bench_ext \<Rightarrow> (cmd \<Rightarrow> ('w, redis_error, value) io) \<Rightarrow> string \<Rightarrow> nat \<Rightarrow> nat \<Rightarrow> event list \<Rightarrow> nat \<times> 'w
     \<Rightarrow> summary outcome option \<times> nat \<times> 'w" where
  "bench_measure E send op total_ops concurrency events = (\<lambda>(start, w).
     if concurrency = 0 \<or> \<not> capacity_ok concurrency then (Some Panics, start, w)
     else
       let per_task = per_task_of total_ops concurrency;
           s = run_schedule E send op per_task events (spawn_all concurrency start w);
           joined = (if capacity_ok (per_task * concurrency) then join (bs_tasks s) else Some Panics)
       in (case joined of
             None \<Rightarrow> None
           | Some Panics \<Rightarrow> Some Panics
           | Some (Returns lats) \<Rightarrow> Some (Returns (summarise (bs_clock s - start) lats)),
           bs_clock s, bs_world s))"

section \<open>The program\<close>

definition parse_unsigned :: "nat \<Rightarrow> string \<Rightarrow> nat option" where
  "parse_unsigned bits s =
     (let ds = (case s of c # cs \<Rightarrow> if c = CHR ''+'' then cs else s | [] \<Rightarrow> [])
      in if ds = [] then None
         else case parse_digits 0 ds of
                None \<Rightarrow> None
              | Some n \<Rightarrow> if n < 2 ^ bits then Some n else None)"

text \<open>\<open>str::trim\<close>: the code points with the property \<open>White_Space\<close>, in UTF-8.\<close>

definition white_space :: "string list" where
  "white_space =
     map (\<lambda>n. [char_of n]) [9 :: nat, 10, 11, 12, 13, 32]
     @ map (map char_of) [[0xC2 :: nat, 0x85], [0xC2, 0xA0], [0xE1, 0x9A, 0x80]]
     @ map (\<lambda>n. map char_of [0xE2 :: nat, 0x80, n]) ([0x80..<0x8B] @ [0xA8, 0xA9, 0xAF])
     @ map (map char_of) [[0xE2 :: nat, 0x81, 0x9F], [0xE3, 0x80, 0x80]]"

function strip :: "string list \<Rightarrow> string \<Rightarrow> string" where
  "strip ws s =
     (case find (\<lambda>w. w \<noteq> [] \<and> take (length w) s = w) ws of
        None \<Rightarrow> s
      | Some w \<Rightarrow> strip ws (drop (length w) s))"
  by pat_completeness auto
termination
proof (relation "Wellfounded.measure (\<lambda>(ws, s). length s)")
  fix ws s and w :: string
  assume "find (\<lambda>w. w \<noteq> [] \<and> take (length w) s = w) ws = Some w"
  then have "w \<noteq> []" "take (length w) s = w" by (auto simp: find_Some_iff)
  then show "((ws, drop (length w) s), ws, s) \<in> Wellfounded.measure (\<lambda>(ws, s). length s)"
    by (cases s) auto
qed simp

declare strip.simps [simp del]

definition trim :: "string \<Rightarrow> string" where
  "trim s = rev (strip (map rev white_space) (rev (strip white_space s)))"

fun split_on :: "char \<Rightarrow> string \<Rightarrow> string list" where
  "split_on c [] = [[]]"
| "split_on c (x # xs) =
     (if x = c then [] # split_on c xs
      else case split_on c xs of [] \<Rightarrow> [[x]] | y # ys \<Rightarrow> (x # y) # ys)"

record bench_settings =
  bset_host :: string
  bset_port :: u16
  bset_tls_s :: string
  bset_total :: nat
  bset_concs :: "nat list"
  bset_tls :: tls_config

definition bench_concs :: "string \<Rightarrow> nat list" where
  "bench_concs s = List.map_filter (\<lambda>part. parse_unsigned 64 (trim part)) (split_on (CHR '','') s)"

text \<open>The environment is \<open>env::var(name).ok()\<close>; \<open>None\<close> is the panic for a missing host or a bad TLS mode.\<close>

definition bench_settings_of :: "(string \<Rightarrow> string option) \<Rightarrow> bench_settings option" where
  "bench_settings_of env =
     (case env ''GLIDE_HOST'' of
        None \<Rightarrow> None
      | Some host \<Rightarrow>
          let port = (case Option.bind (env ''GLIDE_PORT'') (parse_unsigned 16) of None \<Rightarrow> 6379 | Some n \<Rightarrow> of_nat n);
              tls_s = (case env ''GLIDE_TLS'' of None \<Rightarrow> ''off'' | Some s \<Rightarrow> s);
              total_ops = (case Option.bind (env ''GLIDE_OPS'') (parse_unsigned 64) of None \<Rightarrow> 40000 | Some n \<Rightarrow> n);
              concs = bench_concs (case env ''GLIDE_CONC'' of None \<Rightarrow> ''1,8,32,128,512'' | Some s \<Rightarrow> s);
              tls = (if tls_s = ''off'' \<or> tls_s = ''none'' then Some NoTls
                     else if tls_s = ''secure'' then Some SecureTls
                     else if tls_s = ''insecure'' then Some InsecureTls
                     else None)
          in case tls of
               None \<Rightarrow> None
             | Some tls \<Rightarrow>
                 Some \<lparr>bset_host = host, bset_port = port, bset_tls_s = tls_s, bset_total = total_ops,
                       bset_concs = concs, bset_tls = tls\<rparr>)"

datatype console = Stdout string | Stderr string

definition result_line :: "string \<Rightarrow> string \<Rightarrow> nat \<Rightarrow> nat \<Rightarrow> summary \<Rightarrow> string" where
  "result_line op tls_s conc total_ops m =
     ''RESULT '' @ op @ '' tls='' @ tls_s @ '' conc='' @ nat_to_string conc @ '' ops='' @ nat_to_string total_ops
     @ '' throughput_ops='' @ format_fixed 0 (sm_throughput m) @ '' p50_us='' @ format_fixed 1 (FFinite (sm_p50 m))
     @ '' p99_us='' @ format_fixed 1 (FFinite (sm_p99 m)) @ '' avg_us='' @ format_fixed 1 (FFinite (sm_avg m))"

definition bench_plan :: "nat list \<Rightarrow> (string \<times> nat) list" where
  "bench_plan concs = concat (map (\<lambda>op. map (Pair op) concs) [''SET'', ''GET''])"

definition warmup_ops :: "nat \<Rightarrow> nat" where
  "warmup_ops conc = max (conc * 200 mod 2 ^ 64) 2000"

text \<open>
  The loop over the operations and levels; the third argument holds the schedule of the warm-up and of
  the measured run of each level.
\<close>

fun run_plan ::
  "(string \<Rightarrow> nat \<Rightarrow> nat \<Rightarrow> event list \<Rightarrow> 's \<Rightarrow> summary outcome option \<times> 's) \<Rightarrow> (string \<Rightarrow> nat \<Rightarrow> summary \<Rightarrow> string)
     \<Rightarrow> nat \<Rightarrow> (event list \<times> event list) list \<Rightarrow> (string \<times> nat) list \<Rightarrow> 's
     \<Rightarrow> unit outcome option \<times> console list \<times> 's" where
  "run_plan run line total_ops schedules [] s = (Some (Returns ()), [], s)"
| "run_plan run line total_ops [] (_ # _) s = (None, [], s)"
| "run_plan run line total_ops ((warm, timed) # schedules) ((op, conc) # plan) s =
     (case run op (warmup_ops conc) conc warm s of
        (None, s) \<Rightarrow> (None, [], s)
      | (Some Panics, s) \<Rightarrow> (Some Panics, [], s)
      | (Some (Returns _), s) \<Rightarrow>
          (case run op total_ops conc timed s of
             (None, s) \<Rightarrow> (None, [], s)
           | (Some Panics, s) \<Rightarrow> (Some Panics, [], s)
           | (Some (Returns m), s) \<Rightarrow>
               (case run_plan run line total_ops schedules plan s of
                  (r, out, s) \<Rightarrow> (r, Stdout (line op conc m) # out, s))))"

definition bench_config :: "bench_settings \<Rightarrow> cluster_config" where
  "bench_config b = with_tls (bset_tls b) (cluster_with_address (bset_host b) (bset_port b))"

definition bench_main ::
  "connection_request \<Rightarrow> ('c, 's, 'w, 'p) core_ops \<Rightarrow> bench_ext \<Rightarrow> (string \<Rightarrow> string option)
     \<Rightarrow> (event list \<times> event list) list \<Rightarrow> nat \<times> push_channel list \<times> 'w
     \<Rightarrow> unit outcome option \<times> console list \<times> nat \<times> push_channel list \<times> 'w" where
  "bench_main D K E env schedules = (\<lambda>(clock, store, w).
     case bench_settings_of env of
       None \<Rightarrow> (Some Panics, [], clock, store, w)
     | Some b \<Rightarrow>
         let connecting = Stderr (''connecting: host='' @ bset_host b @ '' port='' @ nat_to_string (unat (bset_port b))
                            @ '' tls='' @ bset_tls_s b)
         in case cluster_connect D K (bench_config b) (store, w) of
              (Inl e, store, w) \<Rightarrow> (Some Panics, [connecting], clock, store, w)
            | (Inr client, store, w) \<Rightarrow>
                (case run_plan (\<lambda>op. bench_measure E (cluster_glide_send_owned K client) op)
                        (\<lambda>op conc. result_line op (bset_tls_s b) conc (bset_total b)) (bset_total b)
                        schedules (bench_plan (bset_concs b)) (clock, w) of
                   (r, out, clock, w) \<Rightarrow>
                     (r, [connecting, Stderr ''connected.''] @ out @ (if r = Some (Returns ()) then [Stderr ''done.''] else []),
                      clock, store, w)))"

section \<open>Percentiles are ordered and the median is exact\<close>

definition rank :: "nat \<Rightarrow> rat \<Rightarrow> nat" where
  "rank n p = min (as_usize (round_away (fl (fl (p / 100) * fl (fl (of_nat n) - 1))))) (n - 1)"

lemma percentile_rank:
  "xs \<noteq> [] \<Longrightarrow> percentile xs p = fl (of_nat (unat (xs ! rank (length xs) p)))"
  by (simp add: percentile_def rank_def Let_def)

lemma rank_less: "0 < n \<Longrightarrow> rank n p < n"
  by (auto simp: rank_def)

lemma rank_mono:
  assumes "0 \<le> p" "p \<le> q" "0 < n" "n < 2 ^ 53"
  shows "rank n p \<le> rank n q"
proof -
  have "fl (of_nat n) - 1 = of_nat (n - 1)" using assms by (simp add: of_nat_diff)
  then have n: "0 \<le> fl (fl (of_nat n) - 1)" by simp
  have "fl (p / 100) \<le> fl (q / 100)" using assms by (intro fl_mono) simp_all
  then have "fl (fl (p / 100) * fl (fl (of_nat n) - 1)) \<le> fl (fl (q / 100) * fl (fl (of_nat n) - 1))"
    using assms n by (intro fl_mono mult_right_mono mult_nonneg_nonneg) simp_all
  then have "round_away (fl (fl (p / 100) * fl (fl (of_nat n) - 1)))
      \<le> round_away (fl (fl (q / 100) * fl (fl (of_nat n) - 1)))"
    unfolding round_away_def by (intro floor_mono) simp
  then show ?thesis unfolding rank_def by (intro min.mono as_usize_mono) simp_all
qed

lemma rank_50:
  assumes "0 < n" "n < 2 ^ 53"
  shows "rank n 50 = n div 2"
proof -
  have n: "fl (of_nat n) - 1 = of_nat (n - 1)" using assms by (simp add: of_nat_diff)
  have half: "fl (50 / 100) = 1 / 2" using fl_half [of 1] by simp
  have "fl (fl (50 / 100) * fl (fl (of_nat n) - 1)) = of_nat (n - 1) / 2"
    using fl_half [of "n - 1"] fl_of_nat [of "n - 1"] assms unfolding n half
    by (simp only: times_divide_eq_left mult_1 less_imp_diff_less)
  also have "\<dots> + 1 / 2 = of_nat n / of_nat 2" using assms by (simp add: of_nat_diff field_simps)
  finally have "round_away (fl (fl (50 / 100) * fl (fl (of_nat n) - 1))) = int (n div 2)"
    unfolding round_away_def using floor_divide_of_nat_eq [of n 2] by (simp only: int_ops)
  then show ?thesis using assms by (simp add: rank_def as_usize_def min_def)
qed

lemma percentile_mono:
  assumes "sorted xs" "length xs < 2 ^ 53" "0 \<le> p" "p \<le> q"
  shows "percentile xs p \<le> percentile xs q"
proof (cases "xs = []")
  case False
  then have "xs ! rank (length xs) p \<le> xs ! rank (length xs) q"
    using assms by (intro sorted_nth_mono rank_mono rank_less) simp_all
  then have "of_nat (unat (xs ! rank (length xs) p)) \<le> (of_nat (unat (xs ! rank (length xs) q)) :: rat)"
    unfolding of_nat_le_iff by (simp only: word_le_nat_alt)
  then show ?thesis using False by (simp only: percentile_rank fl_mono of_nat_0_le_iff not_False_eq_True)
qed (simp add: percentile_def)

section \<open>Every interleaving\<close>

inductive bench_reach ::
  "bench_ext \<Rightarrow> (cmd \<Rightarrow> ('w, redis_error, value) io) \<Rightarrow> string \<Rightarrow> nat \<Rightarrow> 'w bench_state \<Rightarrow> 'w bench_state \<Rightarrow> bool"
  for E send op per_task s0 where
  spawned: "bench_reach E send op per_task s0 s0"
| event: "bench_reach E send op per_task s0 s
     \<Longrightarrow> bench_reach E send op per_task s0 (bench_event E send op per_task ev s)"

lemma bench_reach_schedule:
  "bench_reach E send op per_task s0 s
     \<Longrightarrow> bench_reach E send op per_task s0 (run_schedule E send op per_task events s)"
  unfolding run_schedule_def
  by (induction events arbitrary: s) (auto intro: bench_reach.event)

text \<open>
  What a task has done: it has sent the requests of its first iterations in order, and has a latency for
  each of those that are complete.
\<close>

definition progress :: "nat \<Rightarrow> nat \<Rightarrow> task \<Rightarrow> string list \<Rightarrow> bool" where
  "progress per_task t task keys \<longleftrightarrow>
     keys = map (bench_key t) [0..<length keys] \<and> length keys \<le> per_task
     \<and> (case task of
           Spawned \<Rightarrow> length keys = 0
         | Looping i lats \<Rightarrow> length keys = i \<and> length lats = i
         | Sending i t0 lats \<Rightarrow> length keys = i \<and> i < per_task \<and> length lats = i
         | Awaiting i t0 r lats \<Rightarrow> length keys = i + 1 \<and> length lats = i
         | Answered i t0 r lats \<Rightarrow> length keys = i + 1 \<and> length lats = i
         | Finished lats \<Rightarrow> length keys = per_task \<and> length lats = per_task
         | Unwound \<Rightarrow> True)"

lemma progress_step:
  assumes "progress per_task t task keys"
    and "task_step E send op per_task t clock w task = (task', w', sent)"
  shows "progress per_task t task' (keys @ sent)"
  using assms unfolding progress_def
  by (cases task) (auto split: if_splits option.splits prod.splits sum.splits)

lemma progress_arrive [simp]: "progress per_task t (task_arrive task) keys \<longleftrightarrow> progress per_task t task keys"
  by (cases task) (simp_all only: progress_def task_arrive.simps task.case)

definition keys_of :: "nat \<Rightarrow> (nat \<times> string) list \<Rightarrow> string list" where
  "keys_of t sent = map snd (filter (\<lambda>e. fst e = t) sent)"

lemma keys_of_append: "keys_of t (sent @ map (Pair u) keys) = keys_of t sent @ (if t = u then keys else [])"
  by (induction keys) (auto simp: keys_of_def)

definition bench_inv :: "nat \<Rightarrow> nat \<Rightarrow> 'w bench_state \<Rightarrow> bool" where
  "bench_inv concurrency per_task s \<longleftrightarrow>
     length (bs_tasks s) = concurrency
     \<and> (\<forall>t < concurrency. progress per_task t (bs_tasks s ! t) (keys_of t (bs_sent s)))"

lemma bench_inv_spawn: "bench_inv concurrency per_task (spawn_all concurrency clock w)"
  by (auto simp: bench_inv_def spawn_all_def progress_def keys_of_def)

lemma bench_inv_event:
  assumes "bench_inv concurrency per_task s"
  shows "bench_inv concurrency per_task (bench_event E send op per_task ev s)"
proof (cases ev)
  case (Tick d)
  then show ?thesis using assms by (simp add: bench_inv_def)
next
  case (Poll u)
  show ?thesis
  proof (cases "u < length (bs_tasks s)")
    case True
    obtain task w sent where step:
      "task_step E send op per_task u (bs_clock s) (bs_world s) (bs_tasks s ! u) = (task, w, sent)"
      by (cases "task_step E send op per_task u (bs_clock s) (bs_world s) (bs_tasks s ! u)")
    then show ?thesis
      using assms True Poll
      by (auto simp: bench_inv_def keys_of_append nth_list_update intro: progress_step)
  qed (use Poll assms in simp)
next
  case (Arrive u)
  then show ?thesis using assms by (auto simp: bench_inv_def nth_list_update)
qed

lemma bench_reach_inv:
  assumes "bench_reach E send op per_task (spawn_all concurrency clock w) s"
  shows "bench_inv concurrency per_task s"
  using assms by induction (auto intro: bench_inv_spawn bench_inv_event)

text \<open>
  The steps a task has left, whatever the replies are.  A poll takes one unless the task waits for a reply, and then the
  arrival of the reply does.
\<close>

fun steps_left :: "nat \<Rightarrow> task \<Rightarrow> nat" where
  "steps_left per_task Spawned = 3 * per_task + 2"
| "steps_left per_task (Looping i lats) = 3 * (per_task - i) + 1"
| "steps_left per_task (Sending i t0 lats) = 3 * (per_task - i - 1) + 3"
| "steps_left per_task (Awaiting i t0 r lats) = 3 * (per_task - i - 1) + 3"
| "steps_left per_task (Answered i t0 r lats) = 3 * (per_task - i - 1) + 2"
| "steps_left per_task (Finished lats) = 0"
| "steps_left per_task Unwound = 0"

fun awaiting :: "task \<Rightarrow> bool" where
  "awaiting (Awaiting i t0 r lats) = True"
| "awaiting _ = False"

lemma steps_left_step:
  assumes "task_step E send op per_task t clock w task = (task', w', sent)"
  shows "steps_left per_task task' \<le> steps_left per_task task - 1
    \<or> awaiting task' \<and> steps_left per_task task' = steps_left per_task task"
  using assms by (cases task) (auto split: if_splits option.splits prod.splits sum.splits)

lemma steps_left_arrive:
  "steps_left per_task (task_arrive task) \<le> (if awaiting task then steps_left per_task task - 1 else steps_left per_task task)"
  "\<not> awaiting (task_arrive task)"
  by (cases task; simp)+

lemma length_tasks_event [simp]:
  "length (bs_tasks (bench_event E send op per_task ev s)) = length (bs_tasks s)"
  by (cases ev) (auto split: prod.splits)

lemma event_other_task:
  assumes "ev \<noteq> Poll t" "ev \<noteq> Arrive t"
  shows "bs_tasks (bench_event E send op per_task ev s) ! t = bs_tasks s ! t"
  using assms by (cases ev) (auto split: prod.splits)

lemma event_poll_task:
  assumes "t < length (bs_tasks s)"
  obtains clock w task' w' sent where "task_step E send op per_task t clock w (bs_tasks s ! t) = (task', w', sent)"
    "bs_tasks (bench_event E send op per_task (Poll t) s) ! t = task'"
  using assms that
  by (cases "task_step E send op per_task t (bs_clock s) (bs_world s) (bs_tasks s ! t)") simp

text \<open>
  A round of a task is a poll and, some time later, an arrival; a schedule has so many rounds of a task, one after the
  other, with anything in between.
\<close>

fun rounds :: "nat \<Rightarrow> bool \<Rightarrow> event list \<Rightarrow> nat" where
  "rounds t polled [] = 0"
| "rounds t polled (ev # events) =
     (if polled then (if ev = Arrive t then Suc (rounds t False events) else rounds t True events)
      else rounds t (ev = Poll t) events)"

definition owes :: "nat \<Rightarrow> bool \<Rightarrow> nat \<Rightarrow> task \<Rightarrow> bool" where
  "owes per_task polled n task \<longleftrightarrow>
     (if polled then steps_left per_task task < n \<or> awaiting task \<and> steps_left per_task task \<le> n \<or> steps_left per_task task = 0
      else steps_left per_task task \<le> n)"

lemma owes_event:
  assumes "t < length (bs_tasks s)" "owes per_task polled (rounds t polled (ev # events)) (bs_tasks s ! t)"
  shows "\<exists>polled'. owes per_task polled' (rounds t polled' events) (bs_tasks (bench_event E send op per_task ev s) ! t)"
proof -
  let ?task = "bs_tasks s ! t" and ?next = "bs_tasks (bench_event E send op per_task ev s) ! t"
  consider "ev = Poll t" | "ev = Arrive t" | "ev \<noteq> Poll t" "ev \<noteq> Arrive t" by blast
  then show ?thesis
  proof cases
    case 1
    obtain clock w task' w' sent where step: "task_step E send op per_task t clock w ?task = (task', w', sent)" "?next = task'"
      using event_poll_task [OF assms(1)] 1 by metis
    have "owes per_task True (rounds t True events) ?next"
      using steps_left_step [OF step(1)] assms(2) 1 step(2) by (cases polled; cases ?task) (auto simp: owes_def)
    then show ?thesis by blast
  next
    case 2
    then have "?next = task_arrive ?task" using assms(1) by simp
    then have "owes per_task False (rounds t False events) ?next"
      using steps_left_arrive(1) [of per_task ?task] assms(2) 2
      by (cases polled) (auto simp: owes_def split: if_splits)
    then show ?thesis by blast
  next
    case 3
    then have "?next = ?task" by (rule event_other_task)
    then have "owes per_task polled (rounds t polled events) ?next" using assms(2) 3 by (cases polled) auto
    then show ?thesis by blast
  qed
qed

lemma steps_left_schedule:
  assumes "t < length (bs_tasks s)" "owes per_task polled (rounds t polled events) (bs_tasks s ! t)"
  shows "steps_left per_task (bs_tasks (run_schedule E send op per_task events s) ! t) = 0"
  using assms unfolding run_schedule_def
proof (induction events arbitrary: s polled)
  case Nil
  then show ?case by (cases polled; cases "bs_tasks s ! t") (auto simp: owes_def)
next
  case (Cons ev events)
  obtain polled' where "owes per_task polled' (rounds t polled' events) (bs_tasks (bench_event E send op per_task ev s) ! t)"
    using owes_event [OF Cons.prems] by blast
  then show ?case using Cons.IH Cons.prems(1) by simp
qed

lemma steps_left_0: "steps_left per_task task = 0 \<longleftrightarrow> (\<exists>lats. task = Finished lats) \<or> task = Unwound"
  by (cases task) auto

lemma join_complete:
  assumes "list_all (\<lambda>task. steps_left per_task task = 0) tasks"
  shows "join tasks =
     Some (if Unwound \<in> set tasks then Panics
           else Returns (concat (map (\<lambda>task. case task of Finished lats \<Rightarrow> lats | _ \<Rightarrow> []) tasks)))"
  using assms by (induction tasks rule: join.induct) auto

lemma join_Returns:
  "join tasks = Some (Returns lats) \<Longrightarrow> \<exists>ls. tasks = map Finished ls \<and> lats = concat ls"
proof (induction tasks arbitrary: lats rule: join.induct)
  case (2 l tasks)
  then obtain rest where "join tasks = Some (Returns rest)" and lats: "lats = l @ rest"
    by (auto split: option.splits outcome.splits)
  with 2 obtain ls where "tasks = map Finished ls" "rest = concat ls" by blast
  with lats show ?case by (intro exI [of _ "l # ls"]) simp
qed auto

text \<open>
  A deployment serves an operation when every request of it is answered with a reply the conversion
  accepts.
\<close>

definition serves :: "bench_ext \<Rightarrow> (cmd \<Rightarrow> ('w, redis_error, value) io) \<Rightarrow> string \<Rightarrow> bool" where
  "serves E send op \<longleftrightarrow>
     (\<forall>key w. \<exists>request w'. bench_op E send op key = Some request \<and> request w = (Inr (), w'))"

fun healthy :: "task \<Rightarrow> bool" where
  "healthy Unwound = False"
| "healthy (Awaiting i t0 r lats) = (r = Inr ())"
| "healthy (Answered i t0 r lats) = (r = Inr ())"
| "healthy _ = True"

lemma healthy_step:
  assumes "serves E send op" "capacity_ok per_task" "healthy task"
    and "task_step E send op per_task t clock w task = (task', w', sent)"
  shows "healthy task'"
proof (cases task)
  case (Sending i t0 lats)
  obtain request w'' where "bench_op E send op (bench_key t i) = Some request" "request w = (Inr (), w'')"
    using assms(1) unfolding serves_def by blast
  then show ?thesis using assms(4) Sending by auto
qed (use assms(2-4) in \<open>auto split: if_splits sum.splits\<close>)

lemma healthy_arrive: "healthy task \<Longrightarrow> healthy (task_arrive task)"
  by (cases task) simp_all

lemma healthy_reach:
  assumes "bench_reach E send op per_task (spawn_all concurrency clock w) s"
    and "serves E send op" "capacity_ok per_task"
  shows "list_all healthy (bs_tasks s)"
  using assms(1)
proof induction
  case (event s ev)
  show ?case
  proof (cases ev)
    case (Poll u)
    obtain task w sent where step:
      "task_step E send op per_task u (bs_clock s) (bs_world s) (bs_tasks s ! u) = (task, w, sent)"
      by (cases "task_step E send op per_task u (bs_clock s) (bs_world s) (bs_tasks s ! u)")
    then show ?thesis
      using Poll event.IH healthy_step [OF assms(2,3) _ step]
      by (auto simp: list_all_length nth_list_update)
  qed (use event.IH healthy_arrive in \<open>auto simp: list_all_length nth_list_update\<close>)
qed (simp add: spawn_all_def list_all_iff)

lemma finished_lengths:
  assumes "bench_inv concurrency per_task s" "bs_tasks s = map Finished ls"
  shows "length (concat ls) = per_task * concurrency"
    and "t < concurrency \<Longrightarrow> keys_of t (bs_sent s) = map (bench_key t) [0..<per_task]"
proof -
  have len: "length ls = concurrency" using assms by (auto simp: bench_inv_def)
  have each: "length (ls ! t) = per_task \<and> keys_of t (bs_sent s) = map (bench_key t) [0..<per_task]"
    if "t < concurrency" for t
  proof -
    have "progress per_task t (Finished (ls ! t)) (keys_of t (bs_sent s))"
      using that assms len by (auto simp: bench_inv_def)
    then show ?thesis by (auto simp: progress_def)
  qed
  then have "map length ls = replicate concurrency per_task"
    using len by (intro nth_equalityI) auto
  then show "length (concat ls) = per_task * concurrency"
    by (simp add: length_concat sum_list_replicate)
  show "t < concurrency \<Longrightarrow> keys_of t (bs_sent s) = map (bench_key t) [0..<per_task]"
    using each by blast
qed

section \<open>A measurement\<close>

text \<open>
  A schedule that polls every task often enough and brings the reply to every request; what happens in between is
  arbitrary.
\<close>

definition fair :: "nat \<Rightarrow> nat \<Rightarrow> event list \<Rightarrow> bool" where
  "fair per_task concurrency events \<longleftrightarrow>
     list_all (\<lambda>t. 3 * per_task + 2 \<le> rounds t False events) [0..<concurrency]"

lemma length_tasks_schedule [simp]:
  "length (bs_tasks (run_schedule E send op per_task events s)) = length (bs_tasks s)"
  unfolding run_schedule_def by (induction events arbitrary: s) simp_all

lemma fair_steps_left:
  assumes "fair per_task concurrency events"
  shows "list_all (\<lambda>task. steps_left per_task task = 0)
           (bs_tasks (run_schedule E send op per_task events (spawn_all concurrency clock w)))"
  using assms
  by (auto simp: list_all_length fair_def spawn_all_def owes_def intro!: steps_left_schedule [where polled = False])

lemma capacity_parts:
  assumes "capacity_ok (per_task_of total_ops concurrency * concurrency)" "0 < concurrency"
  shows "capacity_ok concurrency" "capacity_ok (per_task_of total_ops concurrency)"
proof -
  let ?p = "per_task_of total_ops concurrency"
  have "1 \<le> ?p" by (simp add: per_task_of_def)
  then have "concurrency \<le> ?p * concurrency" "?p \<le> ?p * concurrency" using assms(2) by simp_all
  then show "capacity_ok concurrency" "capacity_ok ?p"
    using assms(1) unfolding capacity_ok_def by linarith+
qed

lemma bench_measure_join:
  assumes "0 < concurrency" "capacity_ok (per_task_of total_ops concurrency * concurrency)"
    and "s = run_schedule E send op (per_task_of total_ops concurrency) events (spawn_all concurrency start w)"
  shows "bench_measure E send op total_ops concurrency events (start, w) =
     (map_option (\<lambda>r. case r of Panics \<Rightarrow> Panics | Returns lats \<Rightarrow> Returns (summarise (bs_clock s - start) lats))
        (join (bs_tasks s)), bs_clock s, bs_world s)"
  using assms capacity_parts [OF assms(2,1)]
  by (auto simp: bench_measure_def Let_def split: option.split outcome.split)

lemma schedule_reach:
  "bench_reach E send op p (spawn_all concurrency start w)
     (run_schedule E send op p events (spawn_all concurrency start w))"
  by (intro bench_reach_schedule bench_reach.spawned)

lemma serves_join:
  assumes "serves E send op" "capacity_ok p" "fair p concurrency events"
  shows "\<exists>lats. join (bs_tasks (run_schedule E send op p events (spawn_all concurrency start w))) = Some (Returns lats)"
proof -
  let ?s = "run_schedule E send op p events (spawn_all concurrency start w)"
  have "list_all healthy (bs_tasks ?s)" by (rule healthy_reach [OF schedule_reach assms(1,2)])
  then have "Unwound \<notin> set (bs_tasks ?s)" by (auto simp: list_all_iff)
  then show ?thesis using join_complete [OF fair_steps_left [OF assms(3), of E send op start w]] by simp
qed

lemma serves_returns:
  assumes "serves E send op" "0 < conc" "capacity_ok (per_task_of n conc * conc)" "fair (per_task_of n conc) conc events"
  shows "\<exists>m s'. bench_measure E send op n conc events s = (Some (Returns m), s')"
proof (cases s)
  case (Pair start w)
  obtain lats where "join (bs_tasks (run_schedule E send op (per_task_of n conc) events (spawn_all conc start w)))
      = Some (Returns lats)"
    using serves_join [OF assms(1) capacity_parts(2) [OF assms(3,2)] assms(4), of start w] by blast
  then show ?thesis unfolding Pair by (simp add: bench_measure_join [OF assms(2,3) refl])
qed

text \<open>
  C31: a measurement ends and does its work.  Under every schedule that polls each task often enough and brings the reply to
  each request at some time, in any order and with any delays, a measurement at a positive concurrency level whose latencies fit into
  memory ends, by returning or by panicking.  When the deployment serves the operation it returns, the summary is that of exactly
  \<open>per_task * concurrency\<close> latencies, and every task has sent the requests of its iterations once each and
  in order.
\<close>

theorem measurement_completes:
  fixes start :: nat and w :: 'w
  assumes "0 < concurrency" "p = per_task_of total_ops concurrency" "capacity_ok (p * concurrency)"
    and "fair p concurrency events"
    and "s = run_schedule E send op p events (spawn_all concurrency start w)"
  shows "(\<exists>r. fst (bench_measure E send op total_ops concurrency events (start, w)) = Some r)
    \<and> (serves E send op \<longrightarrow>
        (\<exists>lats. fst (bench_measure E send op total_ops concurrency events (start, w))
                  = Some (Returns (summarise (bs_clock s - start) lats))
           \<and> length lats = p * concurrency
           \<and> (\<forall>t < concurrency. keys_of t (bs_sent s) = map (bench_key t) [0..<p])))"
proof (intro conjI impI)
  note joined = bench_measure_join [OF assms(1) assms(3) [unfolded assms(2)] assms(5) [unfolded assms(2)]]
  have left: "list_all (\<lambda>task. steps_left p task = 0) (bs_tasks s)"
    unfolding assms(5) by (rule fair_steps_left [OF assms(4)])
  then show "\<exists>r. fst (bench_measure E send op total_ops concurrency events (start, w)) = Some r"
    by (simp add: joined join_complete)
  assume "serves E send op"
  then obtain lats where lats: "join (bs_tasks s) = Some (Returns lats)"
    using serves_join [OF _ _ assms(4), of E send op start w] capacity_parts(2) [of total_ops concurrency] assms(1-3,5)
    by auto
  have reach: "bench_reach E send op p (spawn_all concurrency start w) s"
    unfolding assms(5) by (rule schedule_reach)
  from lats obtain ls where "bs_tasks s = map Finished ls" "lats = concat ls" using join_Returns by blast
  with finished_lengths [OF bench_reach_inv [OF reach]] lats
  show "\<exists>lats. fst (bench_measure E send op total_ops concurrency events (start, w))
                  = Some (Returns (summarise (bs_clock s - start) lats))
           \<and> length lats = p * concurrency
           \<and> (\<forall>t < concurrency. keys_of t (bs_sent s) = map (bench_key t) [0..<p])"
    by (auto simp: joined)
qed

text \<open>Example parameters: a deployment that answers every command with nil and keeps the commands.\<close>

definition sample_bench :: bench_ext where
  "sample_bench =
     \<lparr>be_cmd = (\<lambda>name args. AStr name # map AStr args), be_unit = (\<lambda>_. Inr ()), be_opt_string = (\<lambda>_. Inr None)\<rparr>"

definition steady_core :: "(unit, string, sample_world, unit) core_ops" where
  "steady_core = sample_core\<lparr>core_send_command := (\<lambda>c cmd routing (replies, received). (Inr VNil, replies, received @ [cmd]))\<rparr>"

definition steady_client :: "unit glide_cluster_client" where
  "steady_client = \<lparr>gcc_inner = (), gcc_pubsub_rx = None\<rparr>"

lemma steady_serves:
  "serves sample_bench (cluster_glide_send_owned steady_core c) ''SET''"
  "serves sample_bench (cluster_glide_send_owned steady_core c) ''GET''"
  by (auto simp: serves_def bench_op_def table_method_def cluster_glide_send_owned_def steady_core_def
      sample_bench_def bind_io_def Let_def split: prod.splits)

definition sample_schedule :: "event list" where
  "sample_schedule = concat (replicate 5 [Poll 0, Tick 1500, Poll 1, Arrive 1, Arrive 0])"

lemma sample_schedule_fair: "fair 1 2 sample_schedule"
  by code_simp

theorem measurement_completes_witness:
  "\<exists>lats. fst (bench_measure sample_bench (cluster_glide_send_owned steady_core steady_client) ''SET'' 3 2
             sample_schedule (7, [], []))
         = Some (Returns (summarise (bs_clock (run_schedule sample_bench (cluster_glide_send_owned steady_core steady_client)
             ''SET'' 1 sample_schedule (spawn_all 2 7 ([], []))) - 7) lats))
       \<and> length lats = 2"
  using measurement_completes [OF _ _ _ sample_schedule_fair refl, of 3 sample_bench
      "cluster_glide_send_owned steady_core steady_client" "''SET''" 7 "([], [])"] steady_serves
  by (auto simp: per_task_of_def capacity_ok_def)

text \<open>A task whose first reply has not arrived.\<close>

fun unanswered :: "task \<Rightarrow> bool" where
  "unanswered Spawned = True"
| "unanswered (Looping i lats) = (i = 0)"
| "unanswered (Sending i t0 lats) = (i = 0)"
| "unanswered (Awaiting i t0 r lats) = (i = 0)"
| "unanswered _ = False"

lemma unanswered_step:
  assumes "serves E send op" "capacity_ok per_task" "0 < per_task" "unanswered task"
    and "task_step E send op per_task t clock w task = (task', w', sent)"
  shows "unanswered task'"
proof (cases task)
  case (Sending i t0 lats)
  obtain request where "bench_op E send op (bench_key t i) = Some request"
    using assms(1) unfolding serves_def by blast
  then show ?thesis using assms(4,5) Sending by (auto split: prod.splits)
qed (use assms(2-5) in \<open>auto split: if_splits\<close>)

lemma unanswered_schedule:
  assumes "serves E send op" "capacity_ok per_task" "0 < per_task" "Arrive t \<notin> set events"
    and "t < length (bs_tasks s)" "unanswered (bs_tasks s ! t)"
  shows "unanswered (bs_tasks (run_schedule E send op per_task events s) ! t)"
  using assms(4-6) unfolding run_schedule_def
proof (induction events arbitrary: s)
  case (Cons ev events)
  have "unanswered (bs_tasks (bench_event E send op per_task ev s) ! t)"
  proof (cases "ev = Poll t")
    case True
    obtain clock w task' w' sent where "task_step E send op per_task t clock w (bs_tasks s ! t) = (task', w', sent)"
      "bs_tasks (bench_event E send op per_task (Poll t) s) ! t = task'"
      using event_poll_task [OF Cons.prems(2)] .
    then show ?thesis using unanswered_step [OF assms(1-3) Cons.prems(3)] True by metis
  next
    case False
    then show ?thesis using event_other_task [of ev t E send op per_task s] Cons.prems by auto
  qed
  then show ?case using Cons.IH Cons.prems by simp
qed simp

lemma join_waits: "list_all healthy tasks \<Longrightarrow> \<exists>task \<in> set tasks. unanswered task \<Longrightarrow> join tasks = None"
  by (induction tasks rule: join.induct) (auto split: option.splits outcome.splits)

text \<open>
  C32: one lost reply hangs the benchmark.  A measurement has no timeout of its own: on a deployment that serves the
  operation, when the replies to one task never arrive, the measurement does not return under any schedule, however often
  and in whatever order the tasks are polled and whatever the other tasks do.
\<close>

theorem lost_reply_hangs:
  fixes start :: nat and w :: 'w
  assumes "serves E send op" "capacity_ok (per_task_of total_ops concurrency * concurrency)"
    and "t < concurrency" "Arrive t \<notin> set events"
  shows "fst (bench_measure E send op total_ops concurrency events (start, w)) = None"
proof -
  let ?p = "per_task_of total_ops concurrency"
  let ?s = "run_schedule E send op ?p events (spawn_all concurrency start w)"
  have pos: "0 < concurrency" using assms(3) by simp
  note cap = capacity_parts(2) [OF assms(2) pos]
  have t: "t < length (bs_tasks ?s)" using assms(3) by (simp add: spawn_all_def)
  have "unanswered (bs_tasks ?s ! t)"
    by (rule unanswered_schedule [OF assms(1) cap _ assms(4)]) (use assms(3) in \<open>simp_all add: per_task_of_def spawn_all_def\<close>)
  moreover have "list_all healthy (bs_tasks ?s)" by (rule healthy_reach [OF schedule_reach assms(1) cap])
  ultimately have "join (bs_tasks ?s) = None" using t nth_mem by (intro join_waits) blast+
  then show ?thesis by (simp add: bench_measure_join [OF pos assms(2) refl])
qed

theorem lost_reply_hangs_witness:
  "fst (bench_measure sample_bench (cluster_glide_send_owned steady_core steady_client) ''SET'' 3 2
     (concat (replicate 100 [Poll 0, Poll 1, Arrive 0])) (7, [], [])) = None"
  by (rule lost_reply_hangs [OF steady_serves(1), where t = 1]) (auto simp: per_task_of_def capacity_ok_def)

section \<open>The keys\<close>

lemma nat_to_string_no_brace: "CHR ''}'' \<notin> set (nat_to_string n)"
  using digit_val_nat_to_string [of "CHR ''}''" n] by (auto simp: digit_val_def)

lemma split_at_brace:
  assumes "CHR ''}'' \<notin> set xs" "CHR ''}'' \<notin> set us"
  shows "xs @ ''}:'' @ ys = us @ ''}:'' @ vs \<longleftrightarrow> xs = us \<and> ys = vs"
proof
  assume eq: "xs @ ''}:'' @ ys = us @ ''}:'' @ vs"
  have "takeWhile (\<lambda>c. c \<noteq> CHR ''}'') (zs @ ''}:'' @ rest) = zs" if "CHR ''}'' \<notin> set zs" for zs rest :: string
    using that by (induction zs) auto
  then have "xs = us" using assms eq by metis
  then show "xs = us \<and> ys = vs" using eq by simp
qed simp

lemma bench_key_eq_iff:
  "bench_key t i = bench_key u j \<longleftrightarrow> t = u \<and> i mod 4096 = j mod 4096"
proof -
  have wrap: "n mod 2 ^ 64 mod 4096 = n mod (4096 :: nat)" for n
  proof (rule mod_mod_cancel)
    have "(2 :: nat) ^ 64 = 4096 * 2 ^ 52" by simp
    then show "4096 dvd (2 :: nat) ^ 64" by (rule dvdI)
  qed
  have shift: "(a + i) mod 4096 = (a + j) mod 4096 \<longleftrightarrow> i mod 4096 = j mod (4096 :: nat)" for a
  proof -
    have "int ((a + i) mod 4096) = int ((a + j) mod 4096) \<longleftrightarrow> int (i mod 4096) = int (j mod 4096)"
      by (simp add: zmod_int mod_eq_dvd_iff)
    then show ?thesis by (simp only: of_nat_eq_iff)
  qed
  have "bench_key t i = bench_key u j \<longleftrightarrow>
     nat_to_string ((t * 131 + i) mod 4096) = nat_to_string ((u * 131 + j) mod 4096) \<and> nat_to_string t = nat_to_string u"
    unfolding bench_key_def wrap
    by (simp only: same_append_eq split_at_brace [OF nat_to_string_no_brace nat_to_string_no_brace])
  also have "\<dots> \<longleftrightarrow> t = u \<and> (u * 131 + i) mod 4096 = (u * 131 + j) mod 4096"
    unfolding nat_to_string_inj by blast
  finally show ?thesis by (simp only: shift)
qed

text \<open>
  C33: a measurement never reports work it did not do.  Whatever the schedule, the replies and the delays, a
  measurement that returns has sent, from each task, the requests of that task's iterations once each and
  in order, and summarises one latency per request.  Their number is the requested total rounded down to a
  multiple of the concurrency, or one per task when the total is smaller.  No two tasks share a key, and a task repeats a key
  exactly every 4096 iterations.
\<close>

theorem measurement_sound:
  fixes start :: nat and w :: 'w
  assumes "fst (bench_measure E send op total_ops concurrency events (start, w)) = Some (Returns m)"
    and "p = per_task_of total_ops concurrency"
    and "s = run_schedule E send op p events (spawn_all concurrency start w)"
  shows "(\<exists>lats. m = summarise (bs_clock s - start) lats \<and> length lats = p * concurrency)
    \<and> p * concurrency = max (total_ops - total_ops mod concurrency) concurrency
    \<and> (\<forall>t < concurrency. keys_of t (bs_sent s) = map (bench_key t) [0..<p])
    \<and> (\<forall>t u i j. bench_key t i = bench_key u j \<longleftrightarrow> t = u \<and> i mod 4096 = j mod 4096)"
proof -
  have pos: "0 < concurrency" and cap: "capacity_ok (p * concurrency)"
    using assms(1) by (auto simp: bench_measure_def Let_def assms(2) split: if_splits)
  note joined = bench_measure_join [OF pos cap [unfolded assms(2)] assms(3) [unfolded assms(2)]]
  obtain lats where lats: "join (bs_tasks s) = Some (Returns lats)" "m = summarise (bs_clock s - start) lats"
    using assms(1) by (cases "join (bs_tasks s)"; cases "the (join (bs_tasks s))") (auto simp: joined)
  then obtain ls where ls: "bs_tasks s = map Finished ls" "lats = concat ls" using join_Returns by blast
  have "bench_reach E send op p (spawn_all concurrency start w) s"
    unfolding assms(3) by (rule schedule_reach)
  note finished = finished_lengths [OF bench_reach_inv [OF this] ls(1)]
  have "p * concurrency = max (total_ops div concurrency * concurrency) concurrency"
    using pos by (simp add: assms(2) per_task_of_def max_def)
  then have "p * concurrency = max (total_ops - total_ops mod concurrency) concurrency"
    by (simp add: minus_mod_eq_div_mult)
  with lats ls finished bench_key_eq_iff show ?thesis by blast
qed

theorem measurement_sound_witness:
  "\<exists>m. fst (bench_measure sample_bench (cluster_glide_send_owned steady_core steady_client) ''GET'' 3 2
             sample_schedule (7, [], [])) = Some (Returns m)
     \<and> (\<exists>lats e. m = summarise e lats \<and> length lats = 2)"
proof -
  let ?run = "bench_measure sample_bench (cluster_glide_send_owned steady_core steady_client) ''GET'' 3 2
             sample_schedule (7, [], [])"
  have "\<exists>m s'. ?run = (Some (Returns m), s')"
    by (rule serves_returns [OF steady_serves(2)])
      (use sample_schedule_fair in \<open>simp_all add: per_task_of_def capacity_ok_def\<close>)
  then obtain m where "fst ?run = Some (Returns m)" by auto
  moreover from this have "\<exists>lats e. m = summarise e lats \<and> length lats = 2"
    using measurement_sound [OF _ refl refl] by (fastforce simp: per_task_of_def)
  ultimately show ?thesis by blast
qed

section \<open>The summary\<close>

lemma sum_exact:
  assumes "a + sum_list (map unat lats) < 2 ^ 53"
  shows "fold (\<lambda>x sum. fl (sum + fl (of_nat (unat x)))) lats (of_nat a) = (of_nat (a + sum_list (map unat lats)) :: rat)"
  using assms
proof (induction lats arbitrary: a)
  case (Cons x lats)
  have "fl (of_nat a + fl (of_nat (unat x))) = fl (of_nat (a + unat x))"
    using Cons.prems by (subst fl_of_nat) (simp_all only: of_nat_add list.map sum_list.Cons)
  also have "\<dots> = of_nat (a + unat x)" using Cons.prems by (intro fl_of_nat) simp
  finally show ?case using Cons.IH [of "a + unat x"] Cons.prems by (simp add: add.assoc del: of_nat_unat)
qed simp

lemma average_exact:
  assumes "lats \<noteq> []" "length lats < 2 ^ 53" "sum_list (map unat lats) < 2 ^ 53"
  shows "average lats = fl (of_nat (sum_list (map unat lats)) / of_nat (length lats))"
proof -
  have "max (length lats) 1 = length lats" using assms(1) by (cases lats) simp_all
  moreover have "fold (\<lambda>x sum. fl (sum + fl (of_nat (unat x)))) lats 0 = (of_nat (sum_list (map unat lats)) :: rat)"
    using sum_exact [of 0 lats] assms(3) by (simp only: semiring_1_class.of_nat_0 add_0)
  ultimately show ?thesis using assms(2) unfolding average_def by (simp only: fl_of_nat)
qed

lemma latency_exact:
  assumes "sum_list (map unat lats) < 2 ^ 53" "x \<in> set lats"
  shows "fl (of_nat (unat x)) = of_nat (unat x)"
proof (rule fl_of_nat)
  have "unat x \<le> sum_list (map unat lats)" using assms(2) by (auto intro: member_le_sum_list)
  then show "unat x < 2 ^ 53" using assms(1) by linarith
qed

text \<open>
  C34: the summary is what it is called.  For a non-empty list of latencies whose number and sum are below
  \<open>2 ^ 53\<close>, the reported median is exactly the upper median of the latencies, the 99th percentile is one
  of the latencies and not below the median, and the average is the mean, rounded once.  None of them
  depends on the order in which the tasks produced the latencies.
\<close>

theorem summary_exact:
  assumes "lats \<noteq> []" "length lats < 2 ^ 53" "sum_list (map unat lats) < 2 ^ 53" "mset lats' = mset lats"
  shows "sm_p50 (summarise e lats) = of_nat (unat (sort lats ! (length lats div 2)))
    \<and> sm_p99 (summarise e lats) \<in> (\<lambda>x. of_nat (unat x)) ` set lats
    \<and> sm_p50 (summarise e lats) \<le> sm_p99 (summarise e lats)
    \<and> sm_avg (summarise e lats) = fl (of_nat (sum_list (map unat lats)) / of_nat (length lats))
    \<and> summarise e lats' = summarise e lats"
proof -
  let ?all = "sort lats"
  have all: "?all \<noteq> []" "length ?all < 2 ^ 53" using assms(1,2) by (auto dest: arg_cong [of _ _ length])
  have sum: "sum_list (map unat ?all) = sum_list (map unat lats)"
    by (metis mset_map mset_sort sum_mset_sum_list)
  have nth: "fl (of_nat (unat (?all ! i))) = of_nat (unat (?all ! i))" if "i < length ?all" for i
    using latency_exact [of ?all "?all ! i"] that sum assms(3) nth_mem [OF that] by simp
  have rank: "rank (length ?all) p < length ?all" for p using assms(1) by (intro rank_less) simp
  have p: "percentile ?all q = of_nat (unat (?all ! rank (length ?all) q))" for q
    using percentile_rank [OF all(1), of q] nth [OF rank [of q]] by simp
  have "percentile ?all 99 \<in> (\<lambda>x. of_nat (unat x)) ` set lats"
    unfolding p using nth_mem [OF rank [of 99]] by (intro imageI) simp
  moreover have "percentile ?all 50 = of_nat (unat (?all ! (length lats div 2)))"
    unfolding p using rank_50 [of "length ?all"] assms(1,2) by simp
  moreover have "percentile ?all 50 \<le> percentile ?all 99" by (rule percentile_mono) (use all(2) in simp_all)
  moreover have "average ?all = fl (of_nat (sum_list (map unat lats)) / of_nat (length lats))"
    using average_exact [OF all] sum assms(3) by simp
  moreover have "sort lats' = sort lats" using assms(4) by (metis properties_for_sort mset_sort sorted_sort)
  ultimately show ?thesis by (simp add: summarise_def Let_def)
qed

theorem summary_exact_witness:
  "sm_p50 (summarise 5000 [30, 10, 20]) = 20 \<and> sm_avg (summarise 5000 [30, 10, 20]) = fl 20
   \<and> summarise 5000 [10, 20, 30] = summarise 5000 [30, 10, 20]"
  using summary_exact [of "[30, 10, 20]" "[10, 20, 30]" 5000] by simp

section \<open>The levels\<close>

lemma strip_same:
  assumes "\<And>w. w \<in> set ws \<Longrightarrow> w \<noteq> [] \<Longrightarrow> s = [] \<or> hd w \<noteq> hd s"
  shows "strip ws s = s"
proof -
  have "\<not> (w \<noteq> [] \<and> take (length w) s = w)" if "w \<in> set ws" for w
  proof
    assume w: "w \<noteq> [] \<and> take (length w) s = w"
    then have "s \<noteq> []" "hd w = hd s" by (auto dest: arg_cong [of _ _ hd] simp: hd_take)
    then show False using assms [OF that] w by simp
  qed
  then have "find (\<lambda>w. w \<noteq> [] \<and> take (length w) s = w) ws = None"
    by (simp only: find_None_iff, blast)
  then show ?thesis by (subst strip.simps) simp
qed

lemma white_space_no_digit:
  "w \<in> set white_space \<Longrightarrow> w \<noteq> [] \<and> digit_val (hd w) = None \<and> digit_val (last w) = None"
  by (auto simp: white_space_def digit_val_def upt_rec)

lemma trim_number [simp]: "trim (nat_to_string n) = nat_to_string n"
proof -
  have "strip white_space (nat_to_string n) = nat_to_string n"
    by (intro strip_same) (metis white_space_no_digit digit_val_nat_to_string hd_in_set)
  moreover have "strip (map rev white_space) (rev (nat_to_string n)) = rev (nat_to_string n)"
  proof (rule strip_same)
    fix w
    assume "w \<in> set (map rev white_space)"
    then have "digit_val (hd w) = None" using white_space_no_digit by (auto simp: hd_rev)
    then show "rev (nat_to_string n) = [] \<or> hd w \<noteq> hd (rev (nat_to_string n))"
      using digit_val_nat_to_string [of "last (nat_to_string n)" n] by (auto simp: hd_rev)
  qed
  ultimately show ?thesis by (simp add: trim_def)
qed

lemma parse_number [simp]: "n < 2 ^ bits \<Longrightarrow> parse_unsigned bits (nat_to_string n) = Some n"
  using parse_digits_nat_to_string [of n] hd_nat_to_string [of n]
  by (cases "nat_to_string n") (auto simp: parse_unsigned_def simp del: parse_digits.simps)

lemma split_on_single: "c \<notin> set s \<Longrightarrow> split_on c s = [s]"
  by (induction s) auto

lemma split_on_append: "c \<notin> set s \<Longrightarrow> split_on c (s @ c # rest) = s # split_on c rest"
  by (induction s) auto

lemma number_no_comma: "CHR '','' \<notin> set (nat_to_string n)"
  using digit_val_nat_to_string [of "CHR '',''" n] by (auto simp: digit_val_def)

fun comma_list :: "nat list \<Rightarrow> string" where
  "comma_list [] = []"
| "comma_list [n] = nat_to_string n"
| "comma_list (n # ns) = nat_to_string n @ CHR '','' # comma_list ns"

text \<open>A comma-separated list of levels is read back.\<close>

lemma bench_concs_roundtrip:
  "ns \<noteq> [] \<Longrightarrow> list_all (\<lambda>n. n < 2 ^ 64) ns \<Longrightarrow> bench_concs (comma_list ns) = ns"
  unfolding bench_concs_def
  by (induction ns rule: comma_list.induct)
    (auto simp: split_on_single split_on_append number_no_comma List.map_filter_simps)

section \<open>The whole program\<close>

definition level_returns ::
  "(string \<Rightarrow> nat \<Rightarrow> nat \<Rightarrow> event list \<Rightarrow> 's \<Rightarrow> summary outcome option \<times> 's) \<Rightarrow> nat
     \<Rightarrow> event list \<times> event list \<Rightarrow> string \<times> nat \<Rightarrow> bool" where
  "level_returns run total_ops sch lv \<longleftrightarrow>
     (\<forall>s. \<exists>m s'. run (fst lv) (warmup_ops (snd lv)) (snd lv) (fst sch) s = (Some (Returns m), s'))
     \<and> (\<forall>s. \<exists>m s'. run (fst lv) total_ops (snd lv) (snd sch) s = (Some (Returns m), s'))"

lemma run_plan_level:
  assumes "level_returns run total_ops sch lv"
  shows "\<exists>m s'. run_plan run line total_ops (sch # schedules) (lv # plan) s =
     (case run_plan run line total_ops schedules plan s' of
        (r, out, s) \<Rightarrow> (r, Stdout (line (fst lv) (snd lv) m) # out, s))"
proof -
  obtain m1 s1 where "run (fst lv) (warmup_ops (snd lv)) (snd lv) (fst sch) s = (Some (Returns m1), s1)"
    using assms unfolding level_returns_def by blast
  moreover obtain m2 s2 where "run (fst lv) total_ops (snd lv) (snd sch) s1 = (Some (Returns m2), s2)"
    using assms unfolding level_returns_def by blast
  ultimately show ?thesis by (cases sch; cases lv) auto
qed

lemma run_plan_returns:
  assumes "list_all2 (level_returns run total_ops) schedules plan"
  shows "\<exists>ms s'. run_plan run line total_ops schedules plan s =
      (Some (Returns ()), map (\<lambda>(lv, m). Stdout (line (fst lv) (snd lv) m)) (zip plan ms), s')
      \<and> length ms = length plan"
  using assms
proof (induction schedules plan arbitrary: s rule: list_all2_induct)
  case (Cons sch schedules lv plan)
  obtain m s1 where level: "run_plan run line total_ops (sch # schedules) (lv # plan) s =
     (case run_plan run line total_ops schedules plan s1 of
        (r, out, s) \<Rightarrow> (r, Stdout (line (fst lv) (snd lv) m) # out, s))"
    using run_plan_level [OF Cons.hyps(1)] by blast
  obtain ms s' where "run_plan run line total_ops schedules plan s1 =
      (Some (Returns ()), map (\<lambda>(lv, m). Stdout (line (fst lv) (snd lv) m)) (zip plan ms), s')"
    and "length ms = length plan"
    using Cons.IH by blast
  then show ?case using level by (intro exI [of _ "m # ms"] exI [of _ s']) simp
qed simp

lemma run_plan_panics:
  assumes "list_all2 (\<lambda>sch lv. if snd lv = 0
      then \<forall>s. fst (run (fst lv) (warmup_ops (snd lv)) (snd lv) (fst sch) s) = Some Panics
      else level_returns run total_ops sch lv) schedules plan"
    and "0 \<in> snd ` set plan"
  shows "fst (run_plan run line total_ops schedules plan s) = Some Panics"
  using assms
proof (induction schedules plan arbitrary: s rule: list_all2_induct)
  case (Cons sch schedules lv plan)
  show ?case
  proof (cases "snd lv = 0")
    case True
    then have "fst (run (fst lv) (warmup_ops 0) 0 (fst sch) s) = Some Panics" using Cons.hyps(1) by simp
    then show ?thesis
      using True by (cases sch; cases lv; cases "run (fst lv) (warmup_ops 0) 0 (fst sch) s") simp
  next
    case False
    obtain m s1 where "run_plan run line total_ops (sch # schedules) (lv # plan) s =
       (case run_plan run line total_ops schedules plan s1 of
          (r, out, s) \<Rightarrow> (r, Stdout (line (fst lv) (snd lv) m) # out, s))"
      using run_plan_level Cons.hyps(1) False by metis
    moreover have "fst (run_plan run line total_ops schedules plan s1) = Some Panics"
      using Cons.IH Cons.prems False by auto
    ultimately show ?thesis by (auto split: prod.split)
  qed
qed simp

definition fair_level :: "nat \<Rightarrow> event list \<times> event list \<Rightarrow> string \<times> nat \<Rightarrow> bool" where
  "fair_level total_ops sch lv \<longleftrightarrow>
     fair (per_task_of (warmup_ops (snd lv)) (snd lv)) (snd lv) (fst sch)
     \<and> fair (per_task_of total_ops (snd lv)) (snd lv) (snd sch)"

definition level_fits :: "nat \<Rightarrow> nat \<Rightarrow> bool" where
  "level_fits total_ops conc \<longleftrightarrow>
     capacity_ok (per_task_of (warmup_ops conc) conc * conc) \<and> capacity_ok (per_task_of total_ops conc * conc)"

lemma bench_measure_zero [simp]: "fst (bench_measure E send op n 0 events s) = Some Panics"
  by (cases s) (simp add: bench_measure_def)

lemma plan_concs: "lv \<in> set (bench_plan concs) \<longleftrightarrow> fst lv \<in> {''SET'', ''GET''} \<and> snd lv \<in> set concs"
  by (cases lv) (auto simp: bench_plan_def)

lemma length_plan: "length (bench_plan concs) = 2 * length concs"
  by (simp add: bench_plan_def)

lemma levels_return:
  assumes "list_all2 (fair_level total_ops) schedules (bench_plan concs)" "list_all (level_fits total_ops) concs"
    and "serves E send ''SET''" "serves E send ''GET''"
  shows "list_all2 (\<lambda>sch lv. if snd lv = 0
      then \<forall>s. fst (bench_measure E send (fst lv) (warmup_ops (snd lv)) (snd lv) (fst sch) s) = Some Panics
      else level_returns (bench_measure E send) total_ops sch lv) schedules (bench_plan concs)"
proof -
  have "if snd lv = 0 then \<forall>s. fst (bench_measure E send (fst lv) (warmup_ops (snd lv)) (snd lv) (fst sch) s) = Some Panics
      else level_returns (bench_measure E send) total_ops sch lv"
    if lv: "lv \<in> set (bench_plan concs)" and fair: "fair_level total_ops sch lv" for sch lv
  proof (cases "snd lv = 0")
    case False
    have "serves E send (fst lv)" using lv assms(3,4) by (auto simp: plan_concs)
    moreover have "level_fits total_ops (snd lv)" using lv assms(2) by (simp add: plan_concs list_all_iff)
    ultimately have "level_returns (bench_measure E send) total_ops sch lv"
      using fair False unfolding level_returns_def fair_level_def level_fits_def
      by (intro conjI allI serves_returns) simp_all
    then show ?thesis using False by simp
  qed simp
  then show ?thesis using assms(1) by (auto simp: list_all2_conv_all_nth)
qed

text \<open>
  C35: the program runs its plan to the end exactly when no requested level is zero.  With a host and a
  known TLS mode in the environment, a deployment that accepts the connection and serves both operations,
  and fair schedules, the program either panics, which it does exactly when the list of levels contains a
  zero, or ends after printing one \<open>RESULT\<close> line per operation and level, all levels of \<open>SET\<close> before those
  of \<open>GET\<close>, in the order of the list, between the lines that say that it connected and that it is done.
\<close>

theorem bench_main_outcome:
  assumes "bench_settings_of env = Some b"
    and "cluster_connect D K (bench_config b) (store, w) = (Inr client, store', w')"
    and "serves E (cluster_glide_send_owned K client) ''SET''" "serves E (cluster_glide_send_owned K client) ''GET''"
    and "list_all2 (fair_level (bset_total b)) schedules (bench_plan (bset_concs b))"
    and "list_all (level_fits (bset_total b)) (bset_concs b)"
  shows "(fst (bench_main D K E env schedules (clock, store, w)) = Some Panics \<longleftrightarrow> 0 \<in> set (bset_concs b))
    \<and> (0 \<notin> set (bset_concs b) \<longrightarrow>
        fst (bench_main D K E env schedules (clock, store, w)) = Some (Returns ())
        \<and> (\<exists>ms. length ms = 2 * length (bset_concs b)
             \<and> fst (snd (bench_main D K E env schedules (clock, store, w))) =
                 [Stderr (''connecting: host='' @ bset_host b @ '' port='' @ nat_to_string (unat (bset_port b))
                    @ '' tls='' @ bset_tls_s b), Stderr ''connected.'']
                 @ map (\<lambda>(lv, m). Stdout (result_line (fst lv) (bset_tls_s b) (snd lv) (bset_total b) m))
                     (zip (map (Pair ''SET'') (bset_concs b) @ map (Pair ''GET'') (bset_concs b)) ms)
                 @ [Stderr ''done.'']))"
proof -
  let ?run = "bench_measure E (cluster_glide_send_owned K client)"
  let ?line = "\<lambda>op conc. result_line op (bset_tls_s b) conc (bset_total b)"
  let ?plan = "bench_plan (bset_concs b)"
  note levels = levels_return [OF assms(5,6,3,4)]
  have panics: "fst (bench_main D K E env schedules (clock, store, w)) = Some Panics" if "0 \<in> set (bset_concs b)"
  proof -
    have "0 \<in> snd ` set ?plan" using that by (force simp: bench_plan_def)
    then have "fst (run_plan ?run ?line (bset_total b) schedules ?plan (clock, w')) = Some Panics"
      by (rule run_plan_panics [OF levels])
    then show ?thesis using assms(1,2) by (auto simp: bench_main_def split: prod.split)
  qed
  moreover have "\<exists>ms s'. run_plan ?run ?line (bset_total b) schedules ?plan (clock, w') =
      (Some (Returns ()), map (\<lambda>(lv, m). Stdout (?line (fst lv) (snd lv) m)) (zip ?plan ms), s')
      \<and> length ms = length ?plan"
    if no: "0 \<notin> set (bset_concs b)"
  proof (rule run_plan_returns)
    have "snd lv \<noteq> 0" if "lv \<in> set ?plan" for lv using no that plan_concs by metis
    then show "list_all2 (level_returns ?run (bset_total b)) schedules ?plan"
      using levels by (auto simp: list_all2_conv_all_nth)
  qed
  ultimately show ?thesis
    using assms(1,2) by (cases "0 \<in> set (bset_concs b)") (force simp: bench_main_def length_plan bench_plan_def)+
qed

lemma rounds_replicate: "rounds t False (concat (replicate n [Poll t, Arrive t])) = n"
  by (induction n) simp_all

text \<open>The settings of an environment that has a host and a list of levels only.\<close>

definition plain_settings :: "nat list \<Rightarrow> bench_settings" where
  "plain_settings concs =
     \<lparr>bset_host = ''h'', bset_port = 6379, bset_tls_s = ''off'', bset_total = 40000, bset_concs = concs, bset_tls = NoTls\<rparr>"

lemma plain_settings_of:
  assumes "concs \<noteq> []" "list_all (\<lambda>n. n < 2 ^ 64) concs"
  shows "bench_settings_of [''GLIDE_HOST'' \<mapsto> ''h'', ''GLIDE_CONC'' \<mapsto> comma_list concs] = Some (plain_settings concs)"
  using bench_concs_roundtrip [OF assms] by (simp add: bench_settings_of_def plain_settings_def Let_def)

lemma plain_connects:
  "\<exists>client. cluster_connect sample_request steady_core (bench_config (plain_settings concs)) ([], [], []) = (Inr client, [], [], [])"
  by (simp add: cluster_connect_def steady_core_def sample_core_def bench_config_def cluster_with_address_def
      cluster_config_new_def with_tls_def has_subs_def make_push_channel_def Let_def)

definition one_task :: "nat \<Rightarrow> event list" where
  "one_task n = concat (replicate (3 * n + 2) [Poll 0, Arrive 0])"

theorem bench_main_outcome_witness:
  "fst (bench_main sample_request steady_core sample_bench [''GLIDE_HOST'' \<mapsto> ''h'', ''GLIDE_CONC'' \<mapsto> comma_list [0]]
          [([], []), ([], [])] (0, [], [], [])) = Some Panics
   \<and> fst (bench_main sample_request steady_core sample_bench [''GLIDE_HOST'' \<mapsto> ''h'', ''GLIDE_CONC'' \<mapsto> comma_list [1]]
          (replicate 2 (one_task 2000, one_task 40000)) (0, [], [], [])) = Some (Returns ())"
proof
  obtain c0 where c0: "cluster_connect sample_request steady_core (bench_config (plain_settings [0])) ([], [], [])
      = (Inr c0, [], [], [])" using plain_connects by blast
  have "bench_settings_of [''GLIDE_HOST'' \<mapsto> ''h'', ''GLIDE_CONC'' \<mapsto> comma_list [0]] = Some (plain_settings [0])"
    by (rule plain_settings_of) simp_all
  from bench_main_outcome [OF this c0 steady_serves, of "[([], []), ([], [])]" 0]
  show "fst (bench_main sample_request steady_core sample_bench [''GLIDE_HOST'' \<mapsto> ''h'', ''GLIDE_CONC'' \<mapsto> comma_list [0]]
          [([], []), ([], [])] (0, [], [], [])) = Some Panics"
    by (simp add: plain_settings_def fair_level_def fair_def bench_plan_def level_fits_def capacity_ok_def)
  obtain c1 where c1: "cluster_connect sample_request steady_core (bench_config (plain_settings [1])) ([], [], [])
      = (Inr c1, [], [], [])" using plain_connects by blast
  have s1: "bench_settings_of [''GLIDE_HOST'' \<mapsto> ''h'', ''GLIDE_CONC'' \<mapsto> comma_list [1]] = Some (plain_settings [1])"
    by (rule plain_settings_of) simp_all
  have "fair 2000 1 (one_task 2000)" "fair 40000 1 (one_task 40000)"
    by (simp_all only: fair_def one_task_def rounds_replicate list_all_iff, simp_all add: rounds_replicate)
  moreover have "per_task_of (warmup_ops 1) 1 = 2000" "per_task_of 40000 1 = 40000"
    by (simp_all add: per_task_of_def warmup_ops_def)
  ultimately have "list_all2 (fair_level 40000) (replicate 2 (one_task 2000, one_task 40000)) (bench_plan [1])"
    by (simp add: fair_level_def bench_plan_def numeral_2_eq_2)
  moreover have "list_all (level_fits 40000) [1]"
    by (simp add: level_fits_def capacity_ok_def per_task_of_def warmup_ops_def)
  ultimately show "fst (bench_main sample_request steady_core sample_bench [''GLIDE_HOST'' \<mapsto> ''h'', ''GLIDE_CONC'' \<mapsto> comma_list [1]]
          (replicate 2 (one_task 2000, one_task 40000)) (0, [], [], [])) = Some (Returns ())"
    using bench_main_outcome [OF s1 c1 steady_serves, of "replicate 2 (one_task 2000, one_task 40000)" 0]
    by (simp add: plain_settings_def del: replicate.simps)
qed

end
