(* ===== verification/Spec2Isabelle.thy ===== *)
theory Spec2Isabelle
  imports Script_Sessions ClusterScan Crate_Root Streams SortedSets Hashes Generic Geo Bitmap Json Ft Scripting
    PubSubCommands SetsStrings Sync Telemetry Conformance Config_Debug Push_Tasks Key_Grammar Bench
begin

text \<open>
  A verification library for the Rust client of Valkey GLIDE (\<open>src/src\<close>).

  \<^bold>\<open>The program.\<close>  The crate is a thin, typed client in front of \<open>glide-core\<close> and a fork of redis-rs.  A
  configuration (\<open>config/\<close>) is lowered to a connection request; a client (\<open>client/\<close>) owns a core client and,
  with subscriptions, the receiving end of a push channel; command methods build a \<open>redis::Cmd\<close>, hand it to
  the dispatch seam (\<open>executor.rs\<close>) and decode the reply (\<open>value.rs\<close>, \<open>commands/\<close>).  Beside the extension
  traits there are the command table (\<open>commands/core.rs\<close>), cursor-driven scan iterators
  (\<open>commands/scan.rs\<close>), scripts with a fallback (\<open>script.rs\<close>), pipelines (\<open>pipeline_options.rs\<close>,
  \<open>client/connection.rs\<close>), blocking clients (\<open>sync/\<close>) and a telemetry front end (\<open>telemetry.rs\<close>).

  \<^bold>\<open>How it is modelled.\<close>  A Rust function is a function with the same name where possible; \<open>Result\<close> is a sum
  with the error on the left, a machine integer a word of its width, a \<open>Cmd\<close> the list of the arguments given
  to \<open>arg\<close>, each at its type.  An async operation is a function from the state of the deployment to its result
  and the new state.  Code outside the repository is never defined here but is an argument: the core client
  (\<open>core_ops\<close>), the conversions of the fork (\<open>redis_ext\<close>), slot hashing and response policies (\<open>routing_ext\<close>),
  the encoding of arguments (\<open>enc\<close>, with \<open>enc_documented\<close> for what is documented of it), the default connection
  request (\<open>D\<close>, with \<open>default_documented\<close>), the URL parser, SHA1 and the telemetry core (\<open>otel_core\<close>).  The
  theories give a concrete instance of each where a theorem assumes something of it.

  \<^bold>\<open>The theories.\<close>
  \<^item> \<open>Prelude\<close>: results, effects, decimal integers, the loops shared by the reply parsers.
  \<^item> \<open>Errors\<close> (\<open>error.rs\<close>): the error enum; classification of driver errors.
  \<^item> \<open>Values\<close> (\<open>value.rs\<close>): replies and their conversions.
  \<^item> \<open>Command\<close>: commands under construction, and the contracts of code that extends them (locales \<open>appender\<close>,
    \<open>lossless_appender\<close>, \<open>keyword\<close>); \<open>Options\<close> (\<open>commands/options.rs\<close>) interprets them.
  \<^item> \<open>Routes\<close> (\<open>routes.rs\<close>, \<open>executor.rs\<close>): routes, their lowering, and the contract \<open>executor\<close> of the dispatch
    seam, which \<open>Client\<close> shows for both clients.  A \<open>topology\<close> of a cluster gives routes and routings the nodes they
    denote (\<open>route_nodes\<close>, \<open>routing_nodes\<close>), which is what the lowering has to keep.
  \<^item> \<open>Config_Types\<close>, \<open>Config\<close> (\<open>config/\<close>): settings, builders, URL constructors and the lowering to a connection
    request; which settings the request determines.  \<open>Config_Debug\<close> is the \<open>Debug\<close> output of whole
    configurations, which depends on no secret.
  \<^item> \<open>Push\<close> (\<open>client/mod.rs\<close>): the push channel, both receives, and every interleaving of the core and of
    consumers as an inductive step relation, with the delivery invariant.  \<open>Push_Tasks\<close> writes the fair lock of
    the receiver out: a call creates a future that does nothing, its first poll joins the queue of the lock (\<open>pt_enter\<close>), and it
    may be dropped at any time; the machine refines the step relation of \<open>Push\<close>.
  \<^item> \<open>Client\<close> (\<open>client/\<close>, \<open>pipeline_options.rs\<close>): connecting, dispatch, pipelines, cluster scans.  How often the commands of
    a pipeline are applied is stated for cores that apply transactions as a whole or not at all (\<open>core_applies\<close>).  \<open>ClusterScan\<close> is
    the loop over \<open>cluster_scan\<close> its documentation describes, again a partial function, with the runs of the core
    on which it ends (\<open>core_pages\<close>).
  \<^item> \<open>Scan\<close> (\<open>commands/scan.rs\<close>): the scan iterators.  The page loop may run for ever against a server that
    keeps sending empty pages, so it is a partial function; when exactly it returns is proved, and that a
    whole scan returns for servers whose chain of cursors ends (\<open>scan_pages\<close>).
  \<^item> \<open>Scripts\<close> (\<open>script.rs\<close>): script invocation against a server with a script cache; \<open>Script_Sessions\<close>:
    sequences of invocations and cache flushes refine the direct execution of the scripts.
  \<^item> \<open>Decoders\<close>: the shapes of reply decoding as locales; \<open>Streams\<close>, \<open>SortedSets\<close>, \<open>Hashes\<close>, \<open>Generic\<close>, \<open>Geo\<close>,
    \<open>Bitmap\<close>, \<open>Json\<close>, \<open>Ft\<close>, \<open>Scripting\<close>, \<open>PubSubCommands\<close>, \<open>SetsStrings\<close> and \<open>Server\<close> are the command families of
    \<open>commands/\<close>, one function per command, and interpret those locales on their parsers.
  \<^item> \<open>Stream_Grammar\<close>: readers for the documented argument syntax of the stream commands with options; what the
    commands of \<open>Streams\<close> write is read back.
    \<open>Query_Grammar\<close> does the same for the geospatial and sorted-set commands, \<open>Key_Grammar\<close> for the expiry of hash fields, the
    commands on keys with options and bit fields.  Where a command accepts an option its syntax does not have, the property says
    so.
  \<^item> \<open>CommandTable\<close> (\<open>commands/core.rs\<close>): the table of 151 methods as data, and the generated methods.
  \<^item> \<open>Crate_Root\<close> (\<open>lib.rs\<close>, \<open>commands/mod.rs\<close>, \<open>config/mod.rs\<close>): the module tree and its re-exports as data, with the resolution of
    names; three steps of fuel reach every item, since no chain of re-exports is longer.
  \<^item> \<open>Sync\<close> (\<open>sync/mod.rs\<close>): the shared runtime, \<open>block_on\<close> and the blocking clients (locale \<open>blocking\<close>), whose
    programs refine those of the asynchronous clients.
  \<^item> \<open>Telemetry\<close> (\<open>telemetry.rs\<close>): exporters, builder, initialisation.
  \<^item> \<open>Floats\<close>: double-precision rounding on rationals; \<open>Bench\<close> (\<open>examples/ec_bench.rs\<close>): the benchmark program, its
    concurrent tasks as state machines under an arbitrary schedule of polls, arriving replies and passing time, the percentiles
    and the whole run.  A request that is sent waits for its reply, which may never arrive.  A schedule with
    \<open>3 * per_task + 2\<close> rounds for a task, each a poll and later the arrival of the reply it may wait for, suffices for it: two
    to start and to end and three per request.
  \<^item> \<open>Conformance\<close> (the test modules of the files outside of \<open>config/\<close>): unit tests of the repository as predicates on the
    model, one per test function, each proved as a lemma.  They compute on fixed inputs and only validate the definitions.
    \<open>Digests\<close> writes SHA-1 and the slots of keys out from their standards, as the documented behaviour of the code outside of
    the repository on which two of the tests rest.

  \<^bold>\<open>What is shown.\<close>  No message is lost, duplicated or reordered between the core and the consumers; a scan
  returns every element and resumes after a failed page, and its loop hangs only on a server that sends empty
  pages for ever; a script runs exactly once, and the script cache cannot be seen; no secret is printed; configurations and
  options reach the core without loss or confusion, and a request the nodes its route names; pipelines are sent as the caller asked; errors are classified as documented; replies of both
  protocol versions decode to what the server sent; raw and typed, waiting and non-waiting, async and blocking
  variants agree.  Concurrent receives are answered in the order of their first polls, and a waiting one blocks the others; the
  arguments of the commands with options say what the caller meant; the names the crate root exports are distinct and resolve; the benchmark ends when
  all replies arrive and hangs when those to one task do not, sends every request once and computes the statistics it names.  The properties of this theory join configuration, connection and delivery.

  \<^bold>\<open>What is not modelled.\<close>  The network, the core client and the fork (parameters); cost claims about copies; the
  scheduling of the async runtime beyond the interleavings of \<open>Push\<close>, \<open>Push_Tasks\<close> and \<open>Bench\<close>; the
  integration tests and the Criterion benchmarks, which drive a live server; the mock tests of the command families and
  \<open>config/tests.rs\<close>, which compute on fixed inputs; and the check that compares the source texts of the
  command tables of this crate and of the fork.  A generic
  argument is represented by the wire arguments its \<open>ToRedisArgs\<close> implementation writes.  Outside of \<open>Bench\<close> floats
  are their bit patterns, since the code only passes them on.  A future that is dropped before it completes is modelled for
  the receive of messages only.
\<close>

section \<open>From the configuration to a delivered message\<close>

lemma client_request_subscriptions:
  "default_documented D \<Longrightarrow>
     cr_pubsub_subscriptions (client_to_request D c) = map_option subscriptions_to_core (cfg_pubsub_subscriptions c)"
  by (simp add: client_to_request_def default_documented_fields)

lemma connect_with_subscriptions:
  assumes "cfg_pubsub_subscriptions config = Some (subscribe_all subscriptions_new reqs)" and "reqs \<noteq> []"
    and "client_connect D K config (store, w) = (Inr client, store', w')"
  shows "core_new K (client_to_request D config) (Some (length store)) w = (Inr (gc_inner client), w')"
    and "gc_pubsub_rx client = Some (length store)"
    and "store' = store @ [\<lparr>ch_queue = [], ch_closed = False\<rparr>]"
proof -
  have "has_subs config" using assms(1,2) by (simp add: has_subs_iff subscribe_all_is_empty)
  with assms(3) show "core_new K (client_to_request D config) (Some (length store)) w = (Inr (gc_inner client), w')"
    and "gc_pubsub_rx client = Some (length store)"
    and "store' = store @ [\<lparr>ch_queue = [], ch_closed = False\<rparr>]"
    by (auto simp: connect_channel Let_def split: prod.splits sum.splits)
qed

text \<open>
  C9: subscriptions work end to end.  When a configuration with the subscriptions of some \<open>subscribe\<close>
  calls connects, the core is asked for exactly those channels and modes and is handed the sending end
  of the channel the client reads: once the core has put pushes into it, a receive returns the first
  one that is a message, and waits when none is.
\<close>

theorem subscriptions_reach_core:
  assumes "default_documented D" and "reqs \<noteq> []"
    and "client_connect D K (with_subscriptions (subscribe_all subscriptions_new reqs) config) (store, w)
           = (Inr client, store', w')"
  shows "\<exists>request tx. core_new K request (Some tx) w = (Inr (gc_inner client), w')
    \<and> (\<forall>m c. (\<exists>subs cs. cr_pubsub_subscriptions request = Some subs \<and> subs (mode_to_core m) = Some cs \<and> c \<in> cs)
              \<longleftrightarrow> (m, c) \<in> set reqs)
    \<and> (\<forall>pushes. fst (get_pubsub_message X client (store'[tx := (store' ! tx)\<lparr>ch_queue := pushes\<rparr>]))
          = (case messages X pushes of [] \<Rightarrow> Pending | m # _ \<Rightarrow> Ready (Inr m)))"
proof -
  let ?config = "with_subscriptions (subscribe_all subscriptions_new reqs) config"
  have cfg: "cfg_pubsub_subscriptions ?config = Some (subscribe_all subscriptions_new reqs)"
    by (simp add: with_subscriptions_def)
  note connected = connect_with_subscriptions [OF cfg assms(2,3)]
  have "(\<exists>subs cs. cr_pubsub_subscriptions (client_to_request D ?config) = Some subs
           \<and> subs (mode_to_core m) = Some cs \<and> c \<in> cs) \<longleftrightarrow> (m, c) \<in> set reqs" for m c
  proof -
    have "subscriptions_to_core subscriptions_new (mode_to_core m) = None"
      by (simp add: subscriptions_to_core_at subscriptions_new_def)
    with subscribe_all_core [of c subscriptions_new reqs m] show ?thesis
      by (simp add: client_request_subscriptions [OF assms(1)] cfg split: option.splits)
  qed
  moreover have "fst (get_pubsub_message X client (store'[length store := (store' ! length store)\<lparr>ch_queue := pushes\<rparr>]))
      = (case messages X pushes of [] \<Rightarrow> Pending | m # _ \<Rightarrow> Ready (Inr m))" for pushes
    by (simp add: get_pubsub_message_def connected(2,3) recv_pubsub_message_Some recv_loop_result list_update_append
        split: list.split)
  ultimately show ?thesis using connected(1) by blast
qed

theorem subscriptions_reach_core_witness:
  "\<exists>client store'. client_connect sample_request sample_core
       (with_subscriptions (subscribe_all subscriptions_new [(Exact, ''news'')]) (client_with_address ''h'' 1))
       ([], [], []) = (Inr client, store', [], [])
     \<and> (\<exists>request tx. core_new sample_core request (Some tx) ([], []) = (Inr (gc_inner client), [], [])
          \<and> (\<exists>subs cs. cr_pubsub_subscriptions request = Some subs \<and> subs (mode_to_core Exact) = Some cs \<and> ''news'' \<in> cs))"
proof -
  let ?config = "with_subscriptions (subscribe_all subscriptions_new [(Exact, ''news'')]) (client_with_address ''h'' 1)"
  obtain client store' where c: "client_connect sample_request sample_core ?config ([], [], [])
      = (Inr client, store', [], [])"
    by (auto simp: connect_channel sample_core_def Let_def)
  have "[(Exact, ''news'')] \<noteq> []" by simp
  from subscriptions_reach_core [OF sample_request_documented this c, of sample_ext]
  obtain request tx where r: "core_new sample_core request (Some tx) ([], []) = (Inr (gc_inner client), [], [])"
    and subs: "\<And>m c. (\<exists>subs cs. cr_pubsub_subscriptions request = Some subs \<and> subs (mode_to_core m) = Some cs \<and> c \<in> cs)
      \<longleftrightarrow> (m, c) \<in> set [(Exact, ''news'')]" by blast
  from subs [of Exact "''news''"] have "\<exists>subs cs. cr_pubsub_subscriptions request = Some subs
      \<and> subs (mode_to_core Exact) = Some cs \<and> ''news'' \<in> cs" by simp
  with c r show ?thesis by blast
qed

section \<open>From seed URLs to a cluster connection\<close>

lemma from_urls_seeds:
  assumes "from_urls into urls = Inr config"
  obtains seeds where "traverse (seed into) urls = Inr seeds" "seeds \<noteq> []"
    "\<And>s. s \<in> set seeds \<Longrightarrow> same_settings (snd (hd seeds)) (snd s)"
    "config = urls_config (map fst seeds) (snd (hd seeds))"
proof -
  obtain seeds where seeds: "traverse (seed into) urls = Inr seeds" "seeds \<noteq> []"
      "list_all (\<lambda>s. same_settings (snd (hd seeds)) (snd s)) (tl seeds)"
      "config = urls_config (map fst seeds) (snd (hd seeds))"
    using assms unfolding from_urls_iff by blast
  have "same_settings (snd (hd seeds)) (snd s)" if "s \<in> set seeds" for s
    using seeds(2,3) that by (cases seeds) (auto simp: list_all_iff same_settings_def)
  with seeds that show ?thesis by blast
qed

lemma urls_config_request:
  assumes "default_documented D" and "same_settings settings (tls, redis)"
  shows "cr_addresses (cluster_to_request D (urls_config addresses settings)) = map node_address_to_core addresses"
    and "cr_tls_mode (cluster_to_request D (urls_config addresses settings)) = Some (tls_to_core tls)"
    and "cr_client_name (cluster_to_request D (urls_config addresses settings)) = rci_client_name redis"
    and "cr_authentication_info (cluster_to_request D (urls_config addresses settings))
      = map_option credentials_to_core (credentials_from_info (rci_username redis) (rci_password redis))"
    and "cr_cluster_mode_enabled (cluster_to_request D (urls_config addresses settings))"
    and "cr_database_id (cluster_to_request D (urls_config addresses settings)) = 0"
  using assms
  by (simp_all add: cluster_to_request_def default_documented_fields urls_config_def same_settings_def
      default_documented_def cluster_config_new_def)

text \<open>
  C10: seed URLs reach the core.  When a cluster client is created from a list of URLs, the core is asked
  once to connect in cluster mode, to all the addresses of the URLs in their order and to database 0, and
  the TLS mode, the client name and the credentials it is given are those of every one of the URLs, not only of the first.
  No push channel is created, the client holds the core client it gets, and a failure of the core is
  returned, classified.
\<close>

theorem cluster_urls_reach_core:
  assumes "default_documented D" and "from_urls into urls = Inr config"
    and "cluster_connect D K config (store, w) = (result, store', w')"
  shows "\<exists>seeds request q. traverse (seed into) urls = Inr seeds
    \<and> core_new K request None w = (q, w') \<and> store' = store
    \<and> result = (case q of Inl e \<Rightarrow> Inl (from_connection_error e)
                  | Inr c \<Rightarrow> Inr \<lparr>gcc_inner = c, gcc_pubsub_rx = None\<rparr>)
    \<and> cr_cluster_mode_enabled request \<and> cr_database_id request = 0
    \<and> cr_addresses request = map (\<lambda>s. node_address_to_core (fst s)) seeds
    \<and> (\<forall>(address, tls, redis) \<in> set seeds.
         cr_tls_mode request = Some (tls_to_core tls) \<and> cr_client_name request = rci_client_name redis
         \<and> cr_authentication_info request
             = map_option credentials_to_core (credentials_from_info (rci_username redis) (rci_password redis)))"
proof -
  obtain seeds where seeds: "traverse (seed into) urls = Inr seeds" "seeds \<noteq> []"
      "\<And>s. s \<in> set seeds \<Longrightarrow> same_settings (snd (hd seeds)) (snd s)"
      "config = urls_config (map fst seeds) (snd (hd seeds))"
    using from_urls_seeds [OF assms(2)] by blast
  let ?request = "cluster_to_request D config"
  obtain q where q: "core_new K ?request None w = (q, w')" "store' = store"
      "result = (case q of Inl e \<Rightarrow> Inl (from_connection_error e)
                  | Inr c \<Rightarrow> Inr \<lparr>gcc_inner = c, gcc_pubsub_rx = None\<rparr>)"
    using assms(3) unfolding seeds(4)
    by (auto simp: cluster_connect_channel has_subs_iff urls_config_def cluster_config_new_def Let_def
        split: prod.splits sum.splits)
  have "cr_tls_mode ?request = Some (tls_to_core tls)" "cr_client_name ?request = rci_client_name redis"
      "cr_authentication_info ?request
         = map_option credentials_to_core (credentials_from_info (rci_username redis) (rci_password redis))"
    if "(address, tls, redis) \<in> set seeds" for address tls redis
    using urls_config_request(2-4) [OF assms(1), of "snd (hd seeds)" tls redis "map fst seeds"] seeds(3) [OF that]
    by (simp_all add: seeds(4))
  moreover have "same_settings (snd (hd seeds)) (fst (snd (hd seeds)), snd (snd (hd seeds)))"
    by (simp add: same_settings_def)
  note urls_config_request(1,5,6) [OF assms(1) this, of "map fst seeds"]
  then have "cr_addresses ?request = map (\<lambda>s. node_address_to_core (fst s)) seeds"
      "cr_cluster_mode_enabled ?request" "cr_database_id ?request = 0"
    by (simp_all add: seeds(4) comp_def)
  ultimately show ?thesis
    using q seeds(1)
    by (intro exI [of _ seeds] exI [of _ ?request] exI [of _ q] conjI ballI) auto
qed

text \<open>Two seed nodes.\<close>

definition sample_seed :: "string \<Rightarrow> redis_error + connection_info" where
  "sample_seed host =
     Inr \<lparr>ci_addr = Tcp host 7000,
          ci_redis = \<lparr>rci_db = 0, rci_username = None, rci_password = Some ''pw'', rci_protocol = RedisRESP3,
                       rci_client_name = None\<rparr>\<rparr>"

theorem cluster_urls_reach_core_witness:
  "\<exists>config client. from_urls sample_seed [''n1'', ''n2''] = Inr config
     \<and> cluster_connect sample_request sample_core config ([], [], []) = (Inr client, [], [], [])
     \<and> gcc_pubsub_rx client = None"
proof -
  obtain config where config: "from_urls sample_seed [''n1'', ''n2''] = Inr config"
    by (simp add: from_urls_def sample_seed_def check_same_settings_def Let_def)
  obtain result store' w' where connect: "cluster_connect sample_request sample_core config ([], [], []) = (result, store', w')"
    using prod_cases3 by blast
  have core: "core_new sample_core request sender w = (Inr (), w)" for request sender w
    by (simp add: sample_core_def)
  from cluster_urls_reach_core [OF sample_request_documented config connect]
  have "result = Inr \<lparr>gcc_inner = (), gcc_pubsub_rx = None\<rparr> \<and> store' = [] \<and> w' = ([], [])"
    by (auto simp: core)
  with config connect show ?thesis by (cases w') auto
qed

end
